(* ===== verification/Prelude.thy ===== *)
theory Prelude
  imports Main "HOL-Library.Char_ord" "HOL-Library.List_Lexorder"
begin

text \<open>
  The shared layer of the development.  It holds the sum type used for every fallible
  operation (\<open>Inl\<close> is the exception that is raised, \<open>Inr\<close> the value returned), its
  sequencing combinators, the ordered-set helpers that stand for Python's
  \<open>sorted(set(..))\<close> idioms, and the theorem collections the component theories fill:
  \<^item> \<open>res_simps\<close>: how the combinators compute and when their result is a value;
  \<^item> \<open>inv_intros\<close>: preservation facts of invariants, used as introduction rules.
  Importing \<open>Char_ord\<close> and \<open>List_Lexorder\<close> makes \<open>char list\<close> an instance of
  \<open>linorder\<close> with the lexicographic order on character codes, which is the order Python
  uses for strings.
\<close>

named_theorems res_simps "computation and inversion of the result combinators"
named_theorems inv_intros "preservation facts of invariants"

section \<open>Results\<close>

type_synonym ('e, 'a) res = "'e + 'a"

definition bindE :: "('e, 'a) res \<Rightarrow> ('a \<Rightarrow> ('e, 'b) res) \<Rightarrow> ('e, 'b) res" where
  "bindE m f = (case m of Inl e \<Rightarrow> Inl e | Inr a \<Rightarrow> f a)"

text \<open>\<open>if bad: raise e\<close> followed by the rest of the body.\<close>

definition guardE :: "bool \<Rightarrow> 'e \<Rightarrow> ('e, 'a) res \<Rightarrow> ('e, 'a) res" where
  "guardE bad e m = (if bad then Inl e else m)"

text \<open>A comprehension whose element expression may raise, and a loop over a sequence.\<close>

primrec mapE :: "('a \<Rightarrow> ('e, 'b) res) \<Rightarrow> 'a list \<Rightarrow> ('e, 'b list) res" where
  "mapE f [] = Inr []"
| "mapE f (x # xs) = bindE (f x) (\<lambda>y. bindE (mapE f xs) (\<lambda>ys. Inr (y # ys)))"

primrec foldE :: "('a \<Rightarrow> 's \<Rightarrow> ('e, 's) res) \<Rightarrow> 'a list \<Rightarrow> 's \<Rightarrow> ('e, 's) res" where
  "foldE f [] s = Inr s"
| "foldE f (x # xs) s = bindE (f x s) (foldE f xs)"

lemma bindE_simps [simp]:
  "bindE (Inl e) f = Inl e" "bindE (Inr a) f = f a"
  by (simp_all add: bindE_def)

lemma bindE_Inr_iff [res_simps]:
  "bindE m f = Inr b \<longleftrightarrow> (\<exists>a. m = Inr a \<and> f a = Inr b)"
  by (cases m) simp_all

lemma bindE_Inl_iff [res_simps]:
  "bindE m f = Inl e \<longleftrightarrow> m = Inl e \<or> (\<exists>a. m = Inr a \<and> f a = Inl e)"
  by (cases m) simp_all

lemma bindE_cong [fundef_cong]:
  "m = m' \<Longrightarrow> (\<And>a. m' = Inr a \<Longrightarrow> f a = f' a) \<Longrightarrow> bindE m f = bindE m' f'"
  by (cases m') simp_all

lemma guardE_simps [simp]:
  "guardE True e m = Inl e" "guardE False e m = m"
  by (simp_all add: guardE_def)

lemma guardE_Inr_iff [res_simps]: "guardE b e m = Inr a \<longleftrightarrow> \<not> b \<and> m = Inr a"
  by (cases b) simp_all

lemma guardE_Inl_iff [res_simps]: "guardE b e m = Inl x \<longleftrightarrow> b \<and> x = e \<or> \<not> b \<and> m = Inl x"
  by (cases b) auto

lemma mapE_Inr_iff [res_simps]:
  "mapE f xs = Inr ys \<longleftrightarrow> list_all2 (\<lambda>x y. f x = Inr y) xs ys"
  by (induction xs arbitrary: ys) (auto simp: res_simps list_all2_Cons1)

lemma mapE_pure: "(\<And>x. x \<in> set xs \<Longrightarrow> f x = Inr (g x)) \<Longrightarrow> mapE f xs = Inr (map g xs)"
  by (induction xs) simp_all

lemma mapE_length: "mapE f xs = Inr ys \<Longrightarrow> length ys = length xs"
  by (auto simp: mapE_Inr_iff dest: list_all2_lengthD)

lemma foldE_append [res_simps]: "foldE f (xs @ ys) s = bindE (foldE f xs s) (foldE f ys)"
proof (induction xs arbitrary: s)
  case (Cons x xs)
  then show ?case by (cases "f x s") simp_all
qed simp

text \<open>The invariant rule of loops: what every step keeps holds at the end.\<close>

lemma foldE_invariant:
  assumes "foldE f xs s = Inr t" and "I s"
    and "\<And>x u v. x \<in> set xs \<Longrightarrow> I u \<Longrightarrow> f x u = Inr v \<Longrightarrow> I v"
  shows "I t"
  using assms
proof (induction xs arbitrary: s)
  case (Cons x xs)
  from Cons.prems(1) obtain u where u: "f x s = Inr u" "foldE f xs u = Inr t"
    by (auto simp: res_simps)
  then show ?case
    using Cons.IH [OF u(2)] Cons.prems(2,3) by (meson list.set_intros)
qed simp

section \<open>Ordered sets of strings\<close>

text \<open>
  A Python set is a list here; its order never matters, because every use of it sorts it or
  asks for membership.  \<open>sorted_set xs\<close> is \<open>sorted(set(xs))\<close> and \<open>sorted_diff xs ys\<close> is
  \<open>sorted(set(xs) - set(ys))\<close>.
\<close>

definition sorted_set :: "'a::linorder list \<Rightarrow> 'a list" where
  "sorted_set xs = sort (remdups xs)"

definition sorted_diff :: "'a::linorder list \<Rightarrow> 'a list \<Rightarrow> 'a list" where
  "sorted_diff xs ys = sorted_set (filter (\<lambda>x. x \<notin> set ys) xs)"

lemma set_sorted_set [simp]: "set (sorted_set xs) = set xs"
  by (simp add: sorted_set_def)

lemma sorted_sorted_set [simp]: "sorted (sorted_set xs)"
  by (simp add: sorted_set_def)

lemma distinct_sorted_set [simp]: "distinct (sorted_set xs)"
  by (simp add: sorted_set_def)

lemma sorted_set_Nil_iff [simp]: "sorted_set xs = [] \<longleftrightarrow> xs = []"
  by (metis set_sorted_set set_empty)

lemma set_sorted_diff [simp]: "set (sorted_diff xs ys) = set xs - set ys"
  by (auto simp: sorted_diff_def)

lemma sorted_diff_Nil_iff [simp]: "sorted_diff xs ys = [] \<longleftrightarrow> set xs \<subseteq> set ys"
  by (auto simp: sorted_diff_def filter_empty_conv)

text \<open>
  \<open>first_seen xs\<close> keeps the first occurrence of each element in order: the
  \<open>if x not in unique: unique.append(x)\<close> loop.
\<close>

primrec first_seen_from :: "'a list \<Rightarrow> 'a list \<Rightarrow> 'a list" where
  "first_seen_from acc [] = acc"
| "first_seen_from acc (x # xs) =
     first_seen_from (if x \<in> set acc then acc else acc @ [x]) xs"

definition first_seen :: "'a list \<Rightarrow> 'a list" where
  "first_seen = first_seen_from []"

lemma set_first_seen_from: "set (first_seen_from acc xs) = set acc \<union> set xs"
  by (induction xs arbitrary: acc) auto

lemma distinct_first_seen_from: "distinct acc \<Longrightarrow> distinct (first_seen_from acc xs)"
  by (induction xs arbitrary: acc) auto

lemma set_first_seen [simp]: "set (first_seen xs) = set xs"
  by (simp add: first_seen_def set_first_seen_from)

lemma distinct_first_seen [simp]: "distinct (first_seen xs)"
  by (simp add: first_seen_def distinct_first_seen_from)

section \<open>Association lists as dictionaries\<close>

text \<open>
  A Python dict keeps insertion order: assigning to a key that is there keeps its place,
  assigning to a new key appends it.  \<open>dict_set\<close> is that assignment and \<open>dict_find\<close> the
  lookup.
\<close>

primrec dict_set :: "'k \<Rightarrow> 'v \<Rightarrow> ('k \<times> 'v) list \<Rightarrow> ('k \<times> 'v) list" where
  "dict_set k v [] = [(k, v)]"
| "dict_set k v (p # ps) = (if fst p = k then (k, v) # ps else p # dict_set k v ps)"

abbreviation dict_keys :: "('k \<times> 'v) list \<Rightarrow> 'k list" where
  "dict_keys \<equiv> map fst"

lemma map_of_dict_set [simp]: "map_of (dict_set k v ps) = (map_of ps)(k \<mapsto> v)"
  by (induction ps) (auto simp: fun_eq_iff)

lemma set_keys_dict_set [simp]: "set (dict_keys (dict_set k v ps)) = insert k (set (dict_keys ps))"
  by (induction ps) auto

lemma distinct_keys_dict_set [simp]:
  "distinct (dict_keys ps) \<Longrightarrow> distinct (dict_keys (dict_set k v ps))"
  by (induction ps) (auto simp del: set_map simp: image_iff)

text \<open>The order in which keys were first assigned survives: the old keys are a prefix.\<close>

lemma keys_dict_set:
  "dict_keys (dict_set k v ps) = dict_keys ps @ (if k \<in> set (dict_keys ps) then [] else [k])"
  by (induction ps) auto

end
