(* ===== verification/Py_Value.thy ===== *)
theory Py_Value
  imports Prelude
begin

text \<open>
  Python values as the program handles them: what \<open>json.loads\<close> and the YAML loader can
  produce.  Dictionaries are association lists in insertion order whose keys are strings (the
  keys of JSON objects), with distinct keys in every well-formed value (\<open>wf_pv\<close>).

  Strings are their UTF-8 encodings, one \<open>char\<close> per byte.  The order of code points is the
  order of the encodings, so \<open>sorted\<close> agrees; \<open>utf8_len\<close> is \<open>len\<close> of the string and
  \<open>length\<close> is \<open>len(s.encode())\<close>.  White space is ASCII white space, and \<open>lower\<close> maps
  ASCII letters only.

  A finite float is the decimal \<open>Dec c e\<close>, meaning \<open>c * 10 ^ e\<close>, that its \<open>repr\<close> denotes.
\<close>

datatype pyfloat = FNan | FInf bool | Dec int int

datatype pv =
    PNone
  | PBool bool
  | PInt int
  | PFloat pyfloat
  | PStr string
  | PList "pv list"
  | PDict "(string \<times> pv) list"

section \<open>Well-formed values\<close>

fun wf_pv :: "pv \<Rightarrow> bool" and wf_pvs :: "pv list \<Rightarrow> bool"
  and wf_items :: "(string \<times> pv) list \<Rightarrow> bool" where
  "wf_pv (PList xs) = wf_pvs xs"
| "wf_pv (PDict kvs) = (distinct (dict_keys kvs) \<and> wf_items kvs)"
| "wf_pv _ = True"
| "wf_pvs [] = True"
| "wf_pvs (x # xs) = (wf_pv x \<and> wf_pvs xs)"
| "wf_items [] = True"
| "wf_items ((k, v) # kvs) = (wf_pv v \<and> wf_items kvs)"

section \<open>Text\<close>

fun nat_text :: "nat \<Rightarrow> string" where
  "nat_text n = (if n < 10 then [char_of (48 + n)]
     else nat_text (n div 10) @ [char_of (48 + n mod 10)])"

declare nat_text.simps [simp del]

definition int_text :: "int \<Rightarrow> string" where
  "int_text i = (if i < 0 then CHR ''-'' # nat_text (nat (- i)) else nat_text (nat i))"

text \<open>The white space characters that \<open>str.strip\<close> removes.\<close>

definition is_space :: "char \<Rightarrow> bool" where
  "is_space c = (of_char c \<in> {9, 10, 11, 12, 13, 28, 29, 30, 31, 32 :: nat})"

definition strip :: "string \<Rightarrow> string" where
  "strip s = rev (dropWhile is_space (rev (dropWhile is_space s)))"

definition lower_char :: "char \<Rightarrow> char" where
  "lower_char c = (let n = of_char c :: nat in if 65 \<le> n \<and> n \<le> 90 then char_of (n + 32) else c)"

definition lower :: "string \<Rightarrow> string" where
  "lower = map lower_char"

definition is_digit :: "char \<Rightarrow> bool" where
  "is_digit c = (let n = of_char c :: nat in 48 \<le> n \<and> n \<le> 57)"

definition is_letter :: "char \<Rightarrow> bool" where
  "is_letter c = (let n = of_char c :: nat in 65 \<le> n \<and> n \<le> 90 \<or> 97 \<le> n \<and> n \<le> 122)"

definition utf8_len :: "string \<Rightarrow> nat" where
  "utf8_len s = length (filter (\<lambda>c. \<not> (128 \<le> (of_char c :: nat) \<and> (of_char c :: nat) < 192)) s)"

fun starts_with :: "string \<Rightarrow> string \<Rightarrow> bool" where
  "starts_with s [] = True"
| "starts_with [] (p # ps) = False"
| "starts_with (c # s) (p # ps) = (c = p \<and> starts_with s ps)"

definition ends_with :: "string \<Rightarrow> string \<Rightarrow> bool" where
  "ends_with s t = starts_with (rev s) (rev t)"

text \<open>\<open>t in s\<close> for strings.\<close>

fun contains :: "string \<Rightarrow> string \<Rightarrow> bool" where
  "contains [] t = (t = [])"
| "contains (c # s) t = (starts_with (c # s) t \<or> contains s t)"

definition replace_char :: "char \<Rightarrow> char \<Rightarrow> string \<Rightarrow> string" where
  "replace_char a b = map (\<lambda>c. if c = a then b else c)"

fun join :: "string \<Rightarrow> string list \<Rightarrow> string" where
  "join sep [] = []"
| "join sep [x] = x"
| "join sep (x # y # ys) = x @ sep @ join sep (y # ys)"

lemma starts_with_iff: "starts_with s p \<longleftrightarrow> (\<exists>t. s = p @ t)"
  by (induction s p rule: starts_with.induct) auto

lemma ends_with_iff: "ends_with s t \<longleftrightarrow> (\<exists>u. s = u @ t)"
  by (auto simp: ends_with_def starts_with_iff) (metis rev_append rev_rev_ident)

lemma contains_iff: "contains s t \<longleftrightarrow> (\<exists>u v. s = u @ t @ v)"
proof (induction s)
  case (Cons c s)
  then show ?case
    by (auto simp: starts_with_iff Cons_eq_append_conv)
qed simp

lemma dropWhile_all: "(\<forall>x \<in> set (dropWhile P s). P x) \<longleftrightarrow> (\<forall>c \<in> set s. P c)"
  by (induction s) auto

lemma strip_Nil_iff: "strip s = [] \<longleftrightarrow> (\<forall>c \<in> set s. is_space c)"
  by (simp add: strip_def dropWhile_all)

section \<open>Dynamic operations\<close>

text \<open>Python truthiness, \<open>dict.get\<close> with and without a default, and \<open>x or y\<close>.\<close>

fun truthy :: "pv \<Rightarrow> bool" where
  "truthy PNone = False"
| "truthy (PBool b) = b"
| "truthy (PInt i) = (i \<noteq> 0)"
| "truthy (PFloat (Dec c e)) = (c \<noteq> 0)"
| "truthy (PFloat _) = True"
| "truthy (PStr s) = (s \<noteq> [])"
| "truthy (PList xs) = (xs \<noteq> [])"
| "truthy (PDict kvs) = (kvs \<noteq> [])"

definition dget :: "string \<Rightarrow> (string \<times> pv) list \<Rightarrow> pv" where
  "dget k kvs = (case map_of kvs k of None \<Rightarrow> PNone | Some v \<Rightarrow> v)"

definition dget_or :: "string \<Rightarrow> pv \<Rightarrow> (string \<times> pv) list \<Rightarrow> pv" where
  "dget_or k d kvs = (case map_of kvs k of None \<Rightarrow> d | Some v \<Rightarrow> v)"

definition py_or :: "pv \<Rightarrow> pv \<Rightarrow> pv" where
  "py_or x y = (if truthy x then x else y)"

text \<open>\<open>isinstance\<close> tests; a bool is an int in Python.\<close>

fun is_str :: "pv \<Rightarrow> bool" where "is_str (PStr _) = True" | "is_str _ = False"
fun is_bool :: "pv \<Rightarrow> bool" where "is_bool (PBool _) = True" | "is_bool _ = False"
fun is_int :: "pv \<Rightarrow> bool" where
  "is_int (PInt _) = True" | "is_int (PBool _) = True" | "is_int _ = False"
fun is_list :: "pv \<Rightarrow> bool" where "is_list (PList _) = True" | "is_list _ = False"
fun is_mapping :: "pv \<Rightarrow> bool" where "is_mapping (PDict _) = True" | "is_mapping _ = False"

text \<open>The value of an int or a bool used as a number.\<close>

fun int_of :: "pv \<Rightarrow> int" where
  "int_of (PInt i) = i"
| "int_of (PBool b) = (if b then 1 else 0)"
| "int_of _ = 0"

fun list_of :: "pv \<Rightarrow> pv list" where "list_of (PList xs) = xs" | "list_of _ = []"
fun dict_of :: "pv \<Rightarrow> (string \<times> pv) list" where "dict_of (PDict kvs) = kvs" | "dict_of _ = []"
fun str_of :: "pv \<Rightarrow> string" where "str_of (PStr s) = s" | "str_of _ = []"

text \<open>
  Equality.  Numbers compare by value across \<open>bool\<close>, \<open>int\<close> and \<open>float\<close>, so
  \<open>True == 1 == 1.0\<close>; dictionaries compare as maps.
\<close>

fun num_of :: "pv \<Rightarrow> (int \<times> int) option" where
  "num_of (PBool b) = Some (if b then 1 else 0, 0)"
| "num_of (PInt i) = Some (i, 0)"
| "num_of (PFloat (Dec c e)) = Some (c, e)"
| "num_of _ = None"

definition dec_eq :: "int \<times> int \<Rightarrow> int \<times> int \<Rightarrow> bool" where
  "dec_eq p q = (let m = min (snd p) (snd q) in
     fst p * 10 ^ nat (snd p - m) = fst q * 10 ^ nat (snd q - m))"

fun py_eq :: "pv \<Rightarrow> pv \<Rightarrow> bool" and py_eqs :: "pv list \<Rightarrow> pv list \<Rightarrow> bool"
  and py_eq_items :: "(string \<times> pv) list \<Rightarrow> (string \<times> pv) list \<Rightarrow> bool" where
  "py_eq PNone w = (w = PNone)"
| "py_eq (PStr s) w = (w = PStr s)"
| "py_eq (PBool b) w = (case num_of w of None \<Rightarrow> False | Some q \<Rightarrow> dec_eq (if b then 1 else 0, 0) q)"
| "py_eq (PInt i) w = (case num_of w of None \<Rightarrow> False | Some q \<Rightarrow> dec_eq (i, 0) q)"
| "py_eq (PFloat (Dec c e)) w = (case num_of w of None \<Rightarrow> False | Some q \<Rightarrow> dec_eq (c, e) q)"
| "py_eq (PFloat (FInf b)) w = (w = PFloat (FInf b))"
| "py_eq (PFloat FNan) w = False"
| "py_eq (PList xs) w = (case w of PList ys \<Rightarrow> py_eqs xs ys | _ \<Rightarrow> False)"
| "py_eq (PDict xs) w =
     (case w of PDict ys \<Rightarrow> length xs = length ys \<and> py_eq_items xs ys | _ \<Rightarrow> False)"
| "py_eqs [] ys = (ys = [])"
| "py_eqs (x # xs) ys = (case ys of [] \<Rightarrow> False | y # ys' \<Rightarrow> py_eq x y \<and> py_eqs xs ys')"
| "py_eq_items [] ys = True"
| "py_eq_items ((k, v) # xs) ys =
     ((case map_of ys k of None \<Rightarrow> False | Some w \<Rightarrow> py_eq v w) \<and> py_eq_items xs ys)"

text \<open>\<open>repr\<close> and \<open>str\<close>.  Characters outside ASCII are printed as they are.\<close>

definition hex_digit :: "nat \<Rightarrow> char" where
  "hex_digit n = (if n < 10 then char_of (48 + n) else char_of (87 + n))"

definition repr_char :: "char \<Rightarrow> char \<Rightarrow> string" where
  "repr_char q c = (let n = of_char c :: nat in
     if c = q \<or> n = 92 then [char_of (92::nat), c]
     else if n = 9 then [char_of (92::nat), CHR ''t'']
     else if n = 10 then [char_of (92::nat), CHR ''n'']
     else if n = 13 then [char_of (92::nat), CHR ''r'']
     else if n < 32 \<or> n = 127
       then [char_of (92::nat), CHR ''x'', hex_digit (n div 16), hex_digit (n mod 16)]
     else [c])"

definition repr_str :: "string \<Rightarrow> string" where
  "repr_str s = (let q = (if CHR 0x27 \<in> set s \<and> CHR 0x22 \<notin> set s then CHR 0x22 else CHR 0x27)
     in q # concat (map (repr_char q) s) @ [q])"

text \<open>\<open>repr\<close> of a float: fixed notation for exponents \<open>-4 \<le> p < 16\<close>, scientific otherwise.\<close>

definition dec_text :: "int \<Rightarrow> int \<Rightarrow> string" where
  "dec_text c e =
     (let ds = nat_text (nat \<bar>c\<bar>); n = int (length ds); p = n + e - 1;
          sgn = (if c < 0 then ''-'' else '''');
          zeros = (\<lambda>k. replicate (nat k) CHR ''0'')
      in sgn @ (if c = 0 then ''0.0''
        else if 0 \<le> e \<and> p < 16 then ds @ zeros e @ ''.0''
        else if 0 \<le> p \<and> p < 16 then take (nat (p + 1)) ds @ ''.'' @ drop (nat (p + 1)) ds
        else if -4 \<le> p \<and> p < 0 then ''0.'' @ zeros (- p - 1) @ ds
        else take 1 ds @ (if n = 1 then '''' else ''.'' @ drop 1 ds) @ ''e'' @
             (if p < 0 then ''-'' else ''+'') @
             (if \<bar>p\<bar> < 10 then ''0'' else '''') @ nat_text (nat \<bar>p\<bar>)))"

fun py_repr :: "pv \<Rightarrow> string" and py_reprs :: "pv list \<Rightarrow> string list"
  and py_repr_items :: "(string \<times> pv) list \<Rightarrow> string list" where
  "py_repr PNone = ''None''"
| "py_repr (PBool b) = (if b then ''True'' else ''False'')"
| "py_repr (PInt i) = int_text i"
| "py_repr (PFloat FNan) = ''nan''"
| "py_repr (PFloat (FInf neg)) = (if neg then ''-inf'' else ''inf'')"
| "py_repr (PFloat (Dec c e)) = dec_text c e"
| "py_repr (PStr s) = repr_str s"
| "py_repr (PList xs) = ''['' @ join '', '' (py_reprs xs) @ '']''"
| "py_repr (PDict kvs) = ''{'' @ join '', '' (py_repr_items kvs) @ ''}''"
| "py_reprs [] = []"
| "py_reprs (x # xs) = py_repr x # py_reprs xs"
| "py_repr_items [] = []"
| "py_repr_items ((k, v) # kvs) = (repr_str k @ '': '' @ py_repr v) # py_repr_items kvs"

fun py_str :: "pv \<Rightarrow> string" where
  "py_str (PStr s) = s"
| "py_str v = py_repr v"

text \<open>\<open>str(value or "").strip()\<close>, the idiom that reads an optional text field.\<close>

definition text_of :: "pv \<Rightarrow> string" where
  "text_of v = strip (py_str (py_or v (PStr [])))"

lemma text_of_PStr [simp]: "text_of (PStr s) = strip s"
  by (cases s) (simp_all add: text_of_def py_or_def)

lemma text_of_PNone [simp]: "text_of PNone = []"
  by (simp add: text_of_def py_or_def strip_def)

text \<open>
  Iteration.  A list yields its items, a dict its keys, a string its characters; anything else
  raises \<open>TypeError\<close>, which is \<open>None\<close> here.  A string's characters are its bytes, so this is
  the source's iteration for ASCII strings.
\<close>

fun py_iter :: "pv \<Rightarrow> pv list option" where
  "py_iter (PList xs) = Some xs"
| "py_iter (PDict kvs) = Some (map (\<lambda>kv. PStr (fst kv)) kvs)"
| "py_iter (PStr s) = Some (map (\<lambda>c. PStr [c]) s)"
| "py_iter _ = None"

section \<open>Facts about equality\<close>

lemma dec_eq_refl [simp]: "dec_eq p p"
  by (simp add: dec_eq_def Let_def)

lemma dec_eq_sym: "dec_eq p q \<longleftrightarrow> dec_eq q p"
  by (auto simp: dec_eq_def Let_def min.commute)

lemma dec_eq_int [simp]: "dec_eq (i, 0) (j, 0) \<longleftrightarrow> i = j"
  by (simp add: dec_eq_def)

text \<open>Equality is reflexive on values without a NaN.\<close>

fun nan_free :: "pv \<Rightarrow> bool" and nan_free_list :: "pv list \<Rightarrow> bool"
  and nan_free_items :: "(string \<times> pv) list \<Rightarrow> bool" where
  "nan_free (PFloat FNan) = False"
| "nan_free (PList xs) = nan_free_list xs"
| "nan_free (PDict kvs) = nan_free_items kvs"
| "nan_free _ = True"
| "nan_free_list [] = True"
| "nan_free_list (x # xs) = (nan_free x \<and> nan_free_list xs)"
| "nan_free_items [] = True"
| "nan_free_items ((k, v) # kvs) = (nan_free v \<and> nan_free_items kvs)"

lemma wf_pvs_iff [simp]: "wf_pvs xs \<longleftrightarrow> (\<forall>x \<in> set xs. wf_pv x)"
  by (induction xs) auto

lemma wf_items_iff [simp]: "wf_items kvs \<longleftrightarrow> (\<forall>kv \<in> set kvs. wf_pv (snd kv))"
  by (induction kvs) auto

lemma nan_free_list_iff [simp]: "nan_free_list xs \<longleftrightarrow> (\<forall>x \<in> set xs. nan_free x)"
  by (induction xs) auto

lemma nan_free_items_iff [simp]: "nan_free_items kvs \<longleftrightarrow> (\<forall>kv \<in> set kvs. nan_free (snd kv))"
  by (induction kvs) auto

lemma py_eqs_iff: "py_eqs xs ys \<longleftrightarrow> list_all2 py_eq xs ys"
  by (induction xs arbitrary: ys) (auto simp: list_all2_Cons1 split: list.splits)

lemma py_eq_items_iff:
  "py_eq_items xs ys \<longleftrightarrow> (\<forall>(k, v) \<in> set xs. \<exists>w. map_of ys k = Some w \<and> py_eq v w)"
  by (induction xs) (auto split: option.splits)

lemma py_eq_refl: "wf_pv v \<Longrightarrow> nan_free v \<Longrightarrow> py_eq v v"
proof (induction v)
  case (PFloat f)
  then show ?case by (cases f) simp_all
next
  case (PList xs)
  then show ?case by (auto simp: py_eqs_iff list_all2_same)
next
  case (PDict kvs)
  have "\<exists>w. map_of kvs k = Some w \<and> py_eq v w" if "(k, v) \<in> set kvs" for k v
    using PDict that by (fastforce simp: snds.simps)
  then show ?case by (auto simp: py_eq_items_iff)
qed simp_all

text \<open>An equal string is the string itself, and a test against a Boolean constant by
  \<open>is\<close> (not by \<open>==\<close>) is equality of values.\<close>

lemma py_eq_str_iff [simp]: "py_eq (PStr s) w \<longleftrightarrow> w = PStr s"
  by simp

lemma dget_simps [simp]:
  "dget k [] = PNone" "dget k ((k', v) # kvs) = (if k' = k then v else dget k kvs)"
  by (simp_all add: dget_def)

lemma dget_in: "map_of kvs k = Some v \<Longrightarrow> dget k kvs = v"
  by (simp add: dget_def)

lemma dget_dict_set [simp]: "dget k (dict_set k' v kvs) = (if k = k' then v else dget k kvs)"
  by (simp add: dget_def)

end
