(* ===== verification/Outcome_Event.thy ===== *)
theory Outcome_Event
  imports Py_Value
begin

text \<open>
  The closed event vocabulary of provider outcome receipts
  (\<open>services/provider_outcome_receipt_contract.py\<close> and its exact-status variant
  \<open>services/soomfon_provider_outcome_receipt_contract.py\<close>): the event kinds, error classes and
  protocol events, the record of one accepted owner event, and the two parsers
  \<open>ClosedOwnerEvent.from_mapping\<close> with their shape checks \<open>_validate_shape\<close>.

  The exact-status event extends the base record by one field, as the source's class does, so
  the base parser's facts transfer by \<open>closed_event.truncate\<close>.
\<close>

section \<open>Vocabulary\<close>

datatype event_kind =
    Wrapper_request_accepted
  | Pre_transport_failed
  | Transport_gate_entered
  | Retry_blocked_before_transport
  | Transport_effect_pending
  | Transport_entered
  | Http_response_observed
  | Parsed_protocol_event_observed
  | Remote_http_error_final
  | Provider_response_completed
  | Provider_response_failed
  | Provider_response_incomplete
  | Outcome_unresolved

definition event_kinds :: "(string \<times> event_kind) list" where
  "event_kinds =
     [(''wrapper_request_accepted'', Wrapper_request_accepted),
      (''pre_transport_failed'', Pre_transport_failed),
      (''transport_gate_entered'', Transport_gate_entered),
      (''retry_blocked_before_transport'', Retry_blocked_before_transport),
      (''transport_effect_pending'', Transport_effect_pending),
      (''transport_entered'', Transport_entered),
      (''http_response_observed'', Http_response_observed),
      (''parsed_protocol_event_observed'', Parsed_protocol_event_observed),
      (''remote_http_error_final'', Remote_http_error_final),
      (''provider_response_completed'', Provider_response_completed),
      (''provider_response_failed'', Provider_response_failed),
      (''provider_response_incomplete'', Provider_response_incomplete),
      (''outcome_unresolved'', Outcome_unresolved)]"

fun kind_name :: "event_kind \<Rightarrow> string" where
  "kind_name Wrapper_request_accepted = ''wrapper_request_accepted''"
| "kind_name Pre_transport_failed = ''pre_transport_failed''"
| "kind_name Transport_gate_entered = ''transport_gate_entered''"
| "kind_name Retry_blocked_before_transport = ''retry_blocked_before_transport''"
| "kind_name Transport_effect_pending = ''transport_effect_pending''"
| "kind_name Transport_entered = ''transport_entered''"
| "kind_name Http_response_observed = ''http_response_observed''"
| "kind_name Parsed_protocol_event_observed = ''parsed_protocol_event_observed''"
| "kind_name Remote_http_error_final = ''remote_http_error_final''"
| "kind_name Provider_response_completed = ''provider_response_completed''"
| "kind_name Provider_response_failed = ''provider_response_failed''"
| "kind_name Provider_response_incomplete = ''provider_response_incomplete''"
| "kind_name Outcome_unresolved = ''outcome_unresolved''"

definition error_classes :: "string list" where
  "error_classes =
     [''callback_posture'', ''concurrent_request'', ''pre_transport_validation'',
      ''provider_failed'', ''provider_incomplete'', ''provider_refusal'', ''receipt_invalid'',
      ''receipt_persistence'', ''remote_http_status'', ''request_identity_mismatch'',
      ''retry_blocked'', ''sanitization_rejected'', ''transport_exception'',
      ''transport_exception_unknown'', ''transport_timeout'']"

definition protocol_events :: "string list" where
  "protocol_events =
     [''error'', ''response.completed'', ''response.error'', ''response.failed'',
      ''response.incomplete'']"

definition event_fields :: "string list" where
  "event_fields =
     [''kind'', ''gate_ordinal'', ''status_class'', ''error_class'', ''protocol_event'',
      ''response_id_sha256'', ''observed_model'']"

definition soomfon_event_fields :: "string list" where
  "soomfon_event_fields =
     [''kind'', ''gate_ordinal'', ''status_class'', ''status_code'', ''error_class'',
      ''protocol_event'', ''response_id_sha256'', ''observed_model'']"

text \<open>
  The exception a consumer raises: its closed reason and whether an external effect may have
  happened.  \<open>Uncaught\<close> is an exception of the interpreter that no handler of these modules
  catches: \<open>TypeError\<close> when an unhashable value (a list or a dict) is looked up in a frozen set,
  \<open>AttributeError\<close> when \<open>.get\<close> is called on a value that is not a mapping, and
  \<open>ValueError\<close> when an integer is too long to read.
\<close>

datatype exn = TypeError | ValueError | AttributeError

datatype outcome_error = Consumer_error string bool | Uncaught exn

type_synonym 'a outcome = "outcome_error + 'a"

abbreviation reject :: "string \<Rightarrow> 'a outcome" where
  "reject reason \<equiv> Inl (Consumer_error reason False)"

section \<open>Scalar checks\<close>

definition is_hex_digit :: "char \<Rightarrow> bool" where
  "is_hex_digit c = (is_digit c \<or> (let n = of_char c :: nat in 97 \<le> n \<and> n \<le> 102))"

definition is_id_char :: "char \<Rightarrow> bool" where
  "is_id_char c = (is_digit c \<or> is_letter c \<or> c \<in> set ''._:-'')"

text \<open>The regular expressions \<open>SHA256_RE\<close> and \<open>ID_RE\<close>, matched in full.\<close>

definition sha256_re :: "string \<Rightarrow> bool" where
  "sha256_re s = (length s = 64 \<and> list_all is_hex_digit s)"

definition id_re :: "string \<Rightarrow> bool" where
  "id_re s = (1 \<le> length s \<and> length s \<le> 128 \<and> list_all is_id_char s)"

definition bounded_id :: "pv \<Rightarrow> string \<Rightarrow> string outcome" where
  "bounded_id v name = guardE (\<not> is_str v \<or> \<not> id_re (str_of v)) (Consumer_error (''invalid_'' @ name) False)
     (Inr (str_of v))"

definition check_sha256 :: "pv \<Rightarrow> string \<Rightarrow> string outcome" where
  "check_sha256 v name = guardE (\<not> is_str v \<or> \<not> sha256_re (str_of v))
     (Consumer_error (''invalid_'' @ name) False) (Inr (str_of v))"

definition is_control :: "char \<Rightarrow> bool" where
  "is_control c = (let n = of_char c :: nat in n < 32 \<or> n = 127)"

definition bounded_model :: "pv \<Rightarrow> string option outcome" where
  "bounded_model v =
     (if v = PNone then Inr None
      else guardE (\<not> is_str v \<or> str_of v = [] \<or> 128 < length (str_of v) \<or>
                   list_ex is_control (str_of v))
        (Consumer_error ''invalid_observed_model'' False) (Inr (Some (str_of v))))"

text \<open>\<open>x in frozenset_of_strings\<close>: an unhashable \<open>x\<close> raises, a non-string is not a member.\<close>

definition in_frozenset :: "pv \<Rightarrow> string list \<Rightarrow> bool outcome" where
  "in_frozenset v ss =
     (case v of PList _ \<Rightarrow> Inl (Uncaught TypeError) | PDict _ \<Rightarrow> Inl (Uncaught TypeError)
      | PStr s \<Rightarrow> Inr (s \<in> set ss) | _ \<Rightarrow> Inr False)"

section \<open>Closed owner events\<close>

record closed_event =
  kind :: event_kind
  gate_ordinal :: "int option"
  status_class :: "int option"
  error_class :: "string option"
  protocol_event :: "string option"
  response_id_sha256 :: "string option"
  observed_model :: "string option"

record soomfon_event = closed_event +
  status_code :: "int option"

definition opt_field :: "string \<Rightarrow> 'a option \<Rightarrow> string list" where
  "opt_field name v = (if v = None then [] else [name])"

definition present_fields :: "'a closed_event_scheme \<Rightarrow> string list" where
  "present_fields e =
     opt_field ''gate_ordinal'' (gate_ordinal e) @ opt_field ''status_class'' (status_class e) @
     opt_field ''error_class'' (error_class e) @ opt_field ''protocol_event'' (protocol_event e) @
     opt_field ''response_id_sha256'' (response_id_sha256 e) @
     opt_field ''observed_model'' (observed_model e)"

text \<open>The tables \<open>allowed\<close> and \<open>required\<close> of \<open>_validate_shape\<close>.\<close>

fun allowed_fields :: "event_kind \<Rightarrow> string list" where
  "allowed_fields Wrapper_request_accepted = []"
| "allowed_fields Pre_transport_failed = [''error_class'']"
| "allowed_fields Transport_gate_entered = [''gate_ordinal'']"
| "allowed_fields Retry_blocked_before_transport = [''gate_ordinal'', ''error_class'']"
| "allowed_fields Transport_effect_pending = [''gate_ordinal'']"
| "allowed_fields Transport_entered = [''gate_ordinal'']"
| "allowed_fields Http_response_observed = [''gate_ordinal'', ''status_class'']"
| "allowed_fields Parsed_protocol_event_observed = [''protocol_event'', ''response_id_sha256'']"
| "allowed_fields Remote_http_error_final = [''status_class'', ''error_class'']"
| "allowed_fields Provider_response_completed =
     [''status_class'', ''response_id_sha256'', ''observed_model'']"
| "allowed_fields Provider_response_failed =
     [''status_class'', ''error_class'', ''response_id_sha256'']"
| "allowed_fields Provider_response_incomplete =
     [''status_class'', ''error_class'', ''response_id_sha256'']"
| "allowed_fields Outcome_unresolved = [''status_class'', ''error_class'', ''response_id_sha256'']"

fun required_fields :: "event_kind \<Rightarrow> string list" where
  "required_fields Wrapper_request_accepted = []"
| "required_fields Pre_transport_failed = [''error_class'']"
| "required_fields Transport_gate_entered = [''gate_ordinal'']"
| "required_fields Retry_blocked_before_transport = [''gate_ordinal'', ''error_class'']"
| "required_fields Transport_effect_pending = [''gate_ordinal'']"
| "required_fields Transport_entered = [''gate_ordinal'']"
| "required_fields Http_response_observed = [''gate_ordinal'', ''status_class'']"
| "required_fields Parsed_protocol_event_observed = [''protocol_event'']"
| "required_fields Remote_http_error_final = [''status_class'', ''error_class'']"
| "required_fields Provider_response_completed = [''status_class'', ''response_id_sha256'']"
| "required_fields Provider_response_failed =
     [''status_class'', ''error_class'', ''response_id_sha256'']"
| "required_fields Provider_response_incomplete =
     [''status_class'', ''error_class'', ''response_id_sha256'']"
| "required_fields Outcome_unresolved = [''error_class'']"

text \<open>The four class rules that follow the table check, shared by both contracts.\<close>

definition validate_classes :: "'a closed_event_scheme \<Rightarrow> unit outcome" where
  "validate_classes e =
     guardE (kind e = Retry_blocked_before_transport \<and> error_class e \<noteq> Some ''retry_blocked'')
       (Consumer_error ''retry_event_class_drift'' False)
    (guardE (kind e = Remote_http_error_final \<and>
         (error_class e \<noteq> Some ''remote_http_status'' \<or> status_class e = Some 2))
       (Consumer_error ''remote_http_terminal_drift'' False)
    (guardE (kind e = Provider_response_incomplete \<and>
         error_class e \<noteq> Some ''provider_incomplete'')
       (Consumer_error ''provider_incomplete_terminal_drift'' False)
    (guardE (kind e = Provider_response_failed \<and>
         error_class e \<notin> {Some ''provider_failed'', Some ''provider_refusal''})
       (Consumer_error ''provider_failed_terminal_drift'' False)
       (Inr ()))))"

definition validate_shape :: "'a closed_event_scheme \<Rightarrow> unit outcome" where
  "validate_shape e =
     guardE (\<not> set (required_fields (kind e)) \<subseteq> set (present_fields e) \<or>
             \<not> set (present_fields e) \<subseteq> set (allowed_fields (kind e)))
       (Consumer_error ''event_field_shape_drift'' False)
     (validate_classes e)"

definition opt_int :: "pv \<Rightarrow> int option" where
  "opt_int v = (case v of PInt i \<Rightarrow> Some i | _ \<Rightarrow> None)"

definition opt_str :: "pv \<Rightarrow> string option" where
  "opt_str v = (case v of PStr s \<Rightarrow> Some s | _ \<Rightarrow> None)"

text \<open>\<open>isinstance(v, bool) or not isinstance(v, int) or not P(v)\<close>.\<close>

definition bad_int :: "pv \<Rightarrow> (int \<Rightarrow> bool) \<Rightarrow> bool" where
  "bad_int v P = (is_bool v \<or> \<not> is_int v \<or> \<not> P (int_of v))"

text \<open>
  The checks of \<open>from_mapping\<close> that both contracts run, in the source's order; the
  exact-status contract inserts \<open>extra\<close> after the status class.
\<close>

definition event_of_mapping :: "(string \<times> pv) list \<Rightarrow> closed_event outcome" where
  "event_of_mapping m =
     guardE (set (dict_keys m) \<noteq> set event_fields)
       (Consumer_error ''owner_event_schema_drift'' False)
    (bindE (in_frozenset (dget ''kind'' m) (map fst event_kinds)) (\<lambda>known.
     guardE (\<not> known) (Consumer_error ''unknown_event_kind'' False)
    (guardE (dget ''gate_ordinal'' m \<noteq> PNone \<and> bad_int (dget ''gate_ordinal'' m) (\<lambda>i. 1 \<le> i))
       (Consumer_error ''invalid_gate_ordinal'' False)
    (guardE (dget ''status_class'' m \<noteq> PNone \<and>
         bad_int (dget ''status_class'' m) (\<lambda>i. 1 \<le> i \<and> i < 6))
       (Consumer_error ''invalid_status_class'' False)
    (bindE (if dget ''error_class'' m = PNone then Inr True
            else in_frozenset (dget ''error_class'' m) error_classes) (\<lambda>known.
     guardE (\<not> known) (Consumer_error ''unknown_error_class'' False)
    (bindE (if dget ''protocol_event'' m = PNone then Inr True
            else in_frozenset (dget ''protocol_event'' m) protocol_events) (\<lambda>known.
     guardE (\<not> known) (Consumer_error ''unknown_protocol_event'' False)
    (bindE (if dget ''response_id_sha256'' m = PNone then Inr None
            else bindE (check_sha256 (dget ''response_id_sha256'' m) ''response_id_sha256'')
              (\<lambda>h. Inr (Some h))) (\<lambda>response_hash.
     bindE (bounded_model (dget ''observed_model'' m)) (\<lambda>model.
     let e = \<lparr>kind = the (map_of event_kinds (str_of (dget ''kind'' m))),
              gate_ordinal = opt_int (dget ''gate_ordinal'' m),
              status_class = opt_int (dget ''status_class'' m),
              error_class = opt_str (dget ''error_class'' m),
              protocol_event = opt_str (dget ''protocol_event'' m),
              response_id_sha256 = response_hash,
              observed_model = model\<rparr>
     in bindE (validate_shape e) (\<lambda>_. Inr e))))))))))))"

section \<open>Exact-status events\<close>

definition soomfon_present_fields :: "'a soomfon_event_scheme \<Rightarrow> string list" where
  "soomfon_present_fields e = present_fields e @ opt_field ''status_code'' (status_code e)"

fun soomfon_allowed_fields :: "event_kind \<Rightarrow> string list" where
  "soomfon_allowed_fields Wrapper_request_accepted = []"
| "soomfon_allowed_fields Pre_transport_failed = [''error_class'']"
| "soomfon_allowed_fields Transport_gate_entered = [''gate_ordinal'']"
| "soomfon_allowed_fields Retry_blocked_before_transport = [''gate_ordinal'', ''error_class'']"
| "soomfon_allowed_fields Transport_effect_pending = [''gate_ordinal'']"
| "soomfon_allowed_fields Transport_entered = [''gate_ordinal'']"
| "soomfon_allowed_fields Http_response_observed =
     [''gate_ordinal'', ''status_class'', ''status_code'']"
| "soomfon_allowed_fields Parsed_protocol_event_observed =
     [''protocol_event'', ''response_id_sha256'']"
| "soomfon_allowed_fields Remote_http_error_final =
     [''status_class'', ''status_code'', ''error_class'']"
| "soomfon_allowed_fields Provider_response_completed =
     [''status_class'', ''status_code'', ''response_id_sha256'', ''observed_model'']"
| "soomfon_allowed_fields Provider_response_failed =
     [''status_class'', ''status_code'', ''error_class'', ''response_id_sha256'']"
| "soomfon_allowed_fields Provider_response_incomplete =
     [''status_class'', ''status_code'', ''error_class'', ''response_id_sha256'']"
| "soomfon_allowed_fields Outcome_unresolved =
     [''status_class'', ''status_code'', ''error_class'', ''response_id_sha256'']"

fun soomfon_required_fields :: "event_kind \<Rightarrow> string list" where
  "soomfon_required_fields Wrapper_request_accepted = []"
| "soomfon_required_fields Pre_transport_failed = [''error_class'']"
| "soomfon_required_fields Transport_gate_entered = [''gate_ordinal'']"
| "soomfon_required_fields Retry_blocked_before_transport = [''gate_ordinal'', ''error_class'']"
| "soomfon_required_fields Transport_effect_pending = [''gate_ordinal'']"
| "soomfon_required_fields Transport_entered = [''gate_ordinal'']"
| "soomfon_required_fields Http_response_observed =
     [''gate_ordinal'', ''status_class'', ''status_code'']"
| "soomfon_required_fields Parsed_protocol_event_observed = [''protocol_event'']"
| "soomfon_required_fields Remote_http_error_final =
     [''status_class'', ''status_code'', ''error_class'']"
| "soomfon_required_fields Provider_response_completed =
     [''status_class'', ''status_code'', ''response_id_sha256'']"
| "soomfon_required_fields Provider_response_failed =
     [''status_class'', ''status_code'', ''error_class'', ''response_id_sha256'']"
| "soomfon_required_fields Provider_response_incomplete =
     [''status_class'', ''status_code'', ''error_class'', ''response_id_sha256'']"
| "soomfon_required_fields Outcome_unresolved = [''error_class'']"

definition soomfon_validate_shape :: "soomfon_event \<Rightarrow> unit outcome" where
  "soomfon_validate_shape e =
     guardE (\<not> set (soomfon_required_fields (kind e)) \<subseteq> set (soomfon_present_fields e) \<or>
             \<not> set (soomfon_present_fields e) \<subseteq> set (soomfon_allowed_fields (kind e)))
       (Consumer_error ''event_field_shape_drift'' False)
     (validate_classes e)"

definition soomfon_event_of_mapping :: "(string \<times> pv) list \<Rightarrow> soomfon_event outcome" where
  "soomfon_event_of_mapping m =
     guardE (set (dict_keys m) \<noteq> set soomfon_event_fields)
       (Consumer_error ''owner_event_schema_drift'' False)
    (bindE (in_frozenset (dget ''kind'' m) (map fst event_kinds)) (\<lambda>known.
     guardE (\<not> known) (Consumer_error ''unknown_event_kind'' False)
    (guardE (dget ''gate_ordinal'' m \<noteq> PNone \<and> bad_int (dget ''gate_ordinal'' m) (\<lambda>i. 1 \<le> i))
       (Consumer_error ''invalid_gate_ordinal'' False)
    (guardE (dget ''status_class'' m \<noteq> PNone \<and>
         bad_int (dget ''status_class'' m) (\<lambda>i. 1 \<le> i \<and> i < 6))
       (Consumer_error ''invalid_status_class'' False)
    (guardE (dget ''status_code'' m \<noteq> PNone \<and>
         bad_int (dget ''status_code'' m) (\<lambda>i. 100 \<le> i \<and> i \<le> 599))
       (Consumer_error ''invalid_status_code'' False)
    (guardE ((dget ''status_class'' m = PNone) \<noteq> (dget ''status_code'' m = PNone))
       (Consumer_error ''status_class_code_pair_drift'' False)
    (guardE (dget ''status_code'' m \<noteq> PNone \<and>
         int_of (dget ''status_class'' m) \<noteq> int_of (dget ''status_code'' m) div 100)
       (Consumer_error ''status_class_code_mismatch'' False)
    (bindE (if dget ''error_class'' m = PNone then Inr True
            else in_frozenset (dget ''error_class'' m) error_classes) (\<lambda>known.
     guardE (\<not> known) (Consumer_error ''unknown_error_class'' False)
    (bindE (if dget ''protocol_event'' m = PNone then Inr True
            else in_frozenset (dget ''protocol_event'' m) protocol_events) (\<lambda>known.
     guardE (\<not> known) (Consumer_error ''unknown_protocol_event'' False)
    (bindE (if dget ''response_id_sha256'' m = PNone then Inr None
            else bindE (check_sha256 (dget ''response_id_sha256'' m) ''response_id_sha256'')
              (\<lambda>h. Inr (Some h))) (\<lambda>response_hash.
     bindE (bounded_model (dget ''observed_model'' m)) (\<lambda>model.
     let e = \<lparr>kind = the (map_of event_kinds (str_of (dget ''kind'' m))),
              gate_ordinal = opt_int (dget ''gate_ordinal'' m),
              status_class = opt_int (dget ''status_class'' m),
              error_class = opt_str (dget ''error_class'' m),
              protocol_event = opt_str (dget ''protocol_event'' m),
              response_id_sha256 = response_hash,
              observed_model = model,
              status_code = opt_int (dget ''status_code'' m)\<rparr>
     in bindE (soomfon_validate_shape e) (\<lambda>_. Inr e)))))))))))))))"

section \<open>Payloads\<close>

definition pv_of_int :: "int option \<Rightarrow> pv" where
  "pv_of_int v = (case v of None \<Rightarrow> PNone | Some i \<Rightarrow> PInt i)"

definition pv_of_str :: "string option \<Rightarrow> pv" where
  "pv_of_str v = (case v of None \<Rightarrow> PNone | Some s \<Rightarrow> PStr s)"

definition event_payload :: "'a closed_event_scheme \<Rightarrow> (string \<times> pv) list" where
  "event_payload e =
     [(''kind'', PStr (kind_name (kind e))),
      (''gate_ordinal'', pv_of_int (gate_ordinal e)),
      (''status_class'', pv_of_int (status_class e)),
      (''error_class'', pv_of_str (error_class e)),
      (''protocol_event'', pv_of_str (protocol_event e)),
      (''response_id_sha256'', pv_of_str (response_id_sha256 e)),
      (''observed_model'', pv_of_str (observed_model e))]"

definition soomfon_event_payload :: "soomfon_event \<Rightarrow> (string \<times> pv) list" where
  "soomfon_event_payload e =
     [(''kind'', PStr (kind_name (kind e))),
      (''gate_ordinal'', pv_of_int (gate_ordinal e)),
      (''status_class'', pv_of_int (status_class e)),
      (''status_code'', pv_of_int (status_code e)),
      (''error_class'', pv_of_str (error_class e)),
      (''protocol_event'', pv_of_str (protocol_event e)),
      (''response_id_sha256'', pv_of_str (response_id_sha256 e)),
      (''observed_model'', pv_of_str (observed_model e))]"

section \<open>Accepted events\<close>

text \<open>What the field checks guarantee of an accepted event, whatever its kind.\<close>

definition opt_all :: "('a \<Rightarrow> bool) \<Rightarrow> 'a option \<Rightarrow> bool" where
  "opt_all P v = (case v of None \<Rightarrow> True | Some x \<Rightarrow> P x)"

definition model_ok :: "string \<Rightarrow> bool" where
  "model_ok s \<longleftrightarrow> s \<noteq> [] \<and> length s \<le> 128 \<and> \<not> list_ex is_control s"

definition fields_ok :: "'a closed_event_scheme \<Rightarrow> bool" where
  "fields_ok e \<longleftrightarrow>
     opt_all (\<lambda>i. 1 \<le> i) (gate_ordinal e) \<and>
     opt_all (\<lambda>i. 1 \<le> i \<and> i < 6) (status_class e) \<and>
     opt_all (\<lambda>s. s \<in> set error_classes) (error_class e) \<and>
     opt_all (\<lambda>s. s \<in> set protocol_events) (protocol_event e) \<and>
     opt_all sha256_re (response_id_sha256 e) \<and>
     opt_all model_ok (observed_model e)"

definition wf_event :: "closed_event \<Rightarrow> bool" where
  "wf_event e \<longleftrightarrow> fields_ok e \<and> validate_shape e = Inr ()"

definition wf_soomfon_event :: "soomfon_event \<Rightarrow> bool" where
  "wf_soomfon_event e \<longleftrightarrow> fields_ok e \<and>
     (status_class e = None) = (status_code e = None) \<and>
     opt_all (\<lambda>i. 100 \<le> i \<and> i \<le> 599 \<and> status_class e = Some (i div 100)) (status_code e) \<and>
     soomfon_validate_shape e = Inr ()"

lemma opt_all_simps [simp]: "opt_all P None" "opt_all P (Some x) = P x"
  by (simp_all add: opt_all_def)

lemma event_kinds_of_name [simp]: "map_of event_kinds (kind_name k) = Some k"
  by (cases k) (simp_all add: event_kinds_def)

lemma kind_name_known: "kind_name k \<in> fst ` set event_kinds"
  by (metis event_kinds_of_name map_of_eq_None_iff option.distinct(1))

lemma kind_of_known:
  "s \<in> fst ` set event_kinds \<Longrightarrow> kind_name (the (map_of event_kinds s)) = s"
  by (auto simp: event_kinds_def)

lemma in_frozenset_Inr_True: "in_frozenset v ss = Inr True \<longleftrightarrow> (\<exists>s \<in> set ss. v = PStr s)"
  by (auto simp: in_frozenset_def split: pv.splits)

lemma check_sha256_Inr: "check_sha256 v name = Inr s \<longleftrightarrow> v = PStr s \<and> sha256_re s"
  by (cases v) (auto simp: check_sha256_def res_simps)

lemma bounded_id_Inr: "bounded_id v name = Inr s \<longleftrightarrow> v = PStr s \<and> id_re s"
  by (cases v) (auto simp: bounded_id_def res_simps)

lemma bounded_model_Inr:
  "bounded_model v = Inr m \<longleftrightarrow> v = pv_of_str m \<and> opt_all model_ok m"
  by (cases v; cases m) (auto simp: bounded_model_def pv_of_str_def model_ok_def res_simps)

lemma bad_int_iff: "\<not> bad_int v P \<longleftrightarrow> (\<exists>i. v = PInt i \<and> P i)"
  by (cases v) (auto simp: bad_int_def)

lemma opt_int_field:
  "v = PNone \<or> \<not> bad_int v P \<longleftrightarrow> v = pv_of_int (opt_int v) \<and> opt_all P (opt_int v)"
  by (cases v) (auto simp: bad_int_def opt_int_def pv_of_int_def)

lemma opt_str_field:
  "(v = PNone \<or> in_frozenset v ss = Inr True) \<longleftrightarrow>
     v = pv_of_str (opt_str v) \<and> opt_all (\<lambda>s. s \<in> set ss) (opt_str v)"
  by (cases v) (auto simp: in_frozenset_def opt_str_def pv_of_str_def)

lemma opt_inverses [simp]: "opt_int (pv_of_int i) = i" "opt_str (pv_of_str s) = s"
  by (auto simp: opt_int_def pv_of_int_def opt_str_def pv_of_str_def split: option.splits)

lemma pv_of_None_iff [simp]: "pv_of_int i = PNone \<longleftrightarrow> i = None" "pv_of_str s = PNone \<longleftrightarrow> s = None"
  by (auto simp: pv_of_int_def pv_of_str_def split: option.splits)

lemma opt_int_simps [simp]: "opt_int PNone = None" "opt_int (PInt i) = Some i"
  by (simp_all add: opt_int_def)

lemma pv_of_inject [simp]:
  "pv_of_int i = pv_of_int j \<longleftrightarrow> i = j" "pv_of_str s = pv_of_str t \<longleftrightarrow> s = t"
  by (metis opt_inverses)+

lemma kind_name_inject [simp]: "kind_name k = kind_name k' \<longleftrightarrow> k = k'"
  by (metis event_kinds_of_name option.inject)

section \<open>The parsers accept exactly the payloads of well-formed events\<close>

text \<open>\<open>carries m fs p\<close>: the mapping \<open>m\<close> has the fields \<open>fs\<close>, in any order, with the values
  they have in \<open>p\<close>.\<close>

definition carries :: "(string \<times> pv) list \<Rightarrow> string list \<Rightarrow> (string \<times> pv) list \<Rightarrow> bool" where
  "carries m fs p \<longleftrightarrow> set (dict_keys m) = set fs \<and> (\<forall>k \<in> set fs. dget k m = dget k p)"

lemma opt_int_guard:
  "\<not> (v \<noteq> PNone \<and> bad_int v P) \<longleftrightarrow> (\<exists>i. v = pv_of_int i \<and> opt_all P i)"
  using opt_int_field [of v P] by auto

lemma opt_hash_Inr:
  "(if v = PNone then Inr None else bindE (check_sha256 v n) (\<lambda>h. Inr (Some h))) = Inr r \<longleftrightarrow>
     v = pv_of_str r \<and> opt_all sha256_re r"
  by (cases r) (auto simp: res_simps check_sha256_Inr pv_of_str_def)

lemma opt_member_Inr:
  "(if v = PNone then Inr True else in_frozenset v ss) = Inr True \<longleftrightarrow>
     v = pv_of_str (opt_str v) \<and> opt_all (\<lambda>s. s \<in> set ss) (opt_str v)"
  using opt_str_field [of v ss] by auto

lemma opt_member_ex:
  "(if v = PNone then Inr True else in_frozenset v ss) = Inr True \<longleftrightarrow>
     (\<exists>s. v = pv_of_str s \<and> opt_all (\<lambda>s. s \<in> set ss) s)"
  unfolding opt_member_Inr by auto

lemma carries_iff: "carries m event_fields (event_payload e) \<longleftrightarrow>
   set (dict_keys m) = set event_fields \<and>
   dget ''kind'' m = PStr (kind_name (kind e)) \<and>
   dget ''gate_ordinal'' m = pv_of_int (gate_ordinal e) \<and>
   dget ''status_class'' m = pv_of_int (status_class e) \<and>
   dget ''error_class'' m = pv_of_str (error_class e) \<and>
   dget ''protocol_event'' m = pv_of_str (protocol_event e) \<and>
   dget ''response_id_sha256'' m = pv_of_str (response_id_sha256 e) \<and>
   dget ''observed_model'' m = pv_of_str (observed_model e)"
  by (simp add: carries_def event_fields_def event_payload_def)

lemma soomfon_carries_iff: "carries m soomfon_event_fields (soomfon_event_payload e) \<longleftrightarrow>
   set (dict_keys m) = set soomfon_event_fields \<and>
   dget ''kind'' m = PStr (kind_name (kind e)) \<and>
   dget ''gate_ordinal'' m = pv_of_int (gate_ordinal e) \<and>
   dget ''status_class'' m = pv_of_int (status_class e) \<and>
   dget ''status_code'' m = pv_of_int (status_code e) \<and>
   dget ''error_class'' m = pv_of_str (error_class e) \<and>
   dget ''protocol_event'' m = pv_of_str (protocol_event e) \<and>
   dget ''response_id_sha256'' m = pv_of_str (response_id_sha256 e) \<and>
   dget ''observed_model'' m = pv_of_str (observed_model e)"
  by (simp add: carries_def soomfon_event_fields_def soomfon_event_payload_def)

lemma known_kind: "in_frozenset v (map fst event_kinds) = Inr True \<longleftrightarrow>
  (\<exists>k. v = PStr (kind_name k))"
  unfolding in_frozenset_Inr_True using kind_name_known kind_of_known by (metis list.set_map)

lemma bindE_True: "bindE m (\<lambda>b. guardE (\<not> b) e f) = Inr a \<longleftrightarrow> m = Inr True \<and> f = Inr a"
  by (cases m) (auto simp: res_simps)

lemmas parse_simps = bindE_True guardE_Inr_iff opt_int_guard known_kind opt_member_ex
 bindE_Inr_iff opt_hash_Inr bounded_model_Inr Let_def


lemmas field_values = sum.inject not_not str_of.simps event_kinds_of_name opt_inverses option.sel
  closed_event.simps soomfon_event.simps
  
lemma event_of_mapping_iff:
  "event_of_mapping m = Inr e \<longleftrightarrow> carries m event_fields (event_payload e) \<and> wf_event e"
proof
  show "carries m event_fields (event_payload e) \<and> wf_event e" if "event_of_mapping m = Inr e"
    using that
    unfolding event_of_mapping_def parse_simps
    by (elim conjE exE) (simp only: field_values, hypsubst,
      simp (no_asm_simp) only: carries_iff wf_event_def fields_ok_def field_values, simp)
  show "event_of_mapping m = Inr e" if "carries m event_fields (event_payload e) \<and> wf_event e"
   using that
    unfolding event_of_mapping_def parse_simps carries_iff wf_event_def fields_ok_def
    by (cases e) simp
qed

lemma soomfon_event_of_mapping_iff:
  "soomfon_event_of_mapping m = Inr e \<longleftrightarrow>
  carries m soomfon_event_fields (soomfon_event_payload e) \<and> wf_soomfon_event e"
proof
  show "carries m soomfon_event_fields (soomfon_event_payload e) \<and> wf_soomfon_event e" if "soomfon_event_of_mapping m = Inr e"
    using that
    unfolding soomfon_event_of_mapping_def parse_simps
    by (elim conjE exE) (simp only: field_values, hypsubst,
      simp (no_asm_simp) only: soomfon_carries_iff wf_soomfon_event_def fields_ok_def field_values,
      simp add: pv_of_int_def split: option.splits)
  show "soomfon_event_of_mapping m = Inr e" if "carries m soomfon_event_fields (soomfon_event_payload e) \<and> wf_soomfon_event e"
   using that
    unfolding soomfon_event_of_mapping_def parse_simps soomfon_carries_iff wf_soomfon_event_def fields_ok_def
    by (cases e) (auto simp: pv_of_int_def split: option.splits)
qed
section \<open>Properties of the parsers\<close>


text \<open>The exact-status parser is exact in the same way; a well-formed event carries a status class
  and a status code together or neither, and the class is the code divided by 100.\<close>

theorem soomfon_event_parser_exact:
  "soomfon_event_of_mapping m = Inr e \<longleftrightarrow>
     carries m soomfon_event_fields (soomfon_event_payload e) \<and> wf_soomfon_event e"
  by (rule soomfon_event_of_mapping_iff)

text \<open>A kind that is a list or an object is not rejected as an unknown kind: the membership test
  raises \<open>TypeError\<close>, which no handler of the consumers turns into a closed rejection.\<close>

theorem unhashable_kind_escapes:
  assumes "set (dict_keys m) = set event_fields" "is_list (dget ''kind'' m) \<or> is_mapping (dget ''kind'' m)"
  shows "event_of_mapping m = Inl (Uncaught TypeError)"
  using assms by (cases "dget ''kind'' m") (auto simp: event_of_mapping_def in_frozenset_def guardE_def)

theorem unhashable_kind_escapes_witness:
  "event_of_mapping [(''kind'', PList []), (''gate_ordinal'', PNone), (''status_class'', PNone),
     (''error_class'', PNone), (''protocol_event'', PNone), (''response_id_sha256'', PNone),
     (''observed_model'', PNone)] = Inl (Uncaught TypeError)"
  by (rule unhashable_kind_escapes) (auto simp: event_fields_def)

end
