(* ===== verification/Canonical_Json.thy ===== *)
theory Canonical_Json
  imports Py_Value
begin

text \<open>
  The JSON the receipts are kept in.  \<open>json_dumps\<close> is \<open>json.dumps\<close> with
  \<open>ensure_ascii=False\<close>, compact separators and sorted keys; \<open>json_loads\<close> is \<open>json.loads\<close> on
  UTF-8 bytes.  The parser takes fuel; one more than the length of the text is enough, which the
  round trip \<open>json_loads_dumps\<close> shows for every value the encoder accepts.

  Not modelled: a negative zero is read as zero, the recursion limit of the interpreter,
  and the UTF-16 and UTF-32 encodings \<open>json.loads\<close> can detect, whose texts are
  never equal to a canonical encoding and are rejected here as malformed.
\<close>

section \<open>Encoding\<close>

fun sort_keys :: "pv \<Rightarrow> pv" and sort_keys_list :: "pv list \<Rightarrow> pv list"
  and sort_keys_items :: "(string \<times> pv) list \<Rightarrow> (string \<times> pv) list" where
  "sort_keys (PList xs) = PList (sort_keys_list xs)"
| "sort_keys (PDict kvs) = PDict (sort_key fst (sort_keys_items kvs))"
| "sort_keys v = v"
| "sort_keys_list [] = []"
| "sort_keys_list (x # xs) = sort_keys x # sort_keys_list xs"
| "sort_keys_items [] = []"
| "sort_keys_items ((k, v) # kvs) = (k, sort_keys v) # sort_keys_items kvs"

definition json_char :: "char \<Rightarrow> string" where
  "json_char c = (let n = of_char c :: nat in
     if n = 34 then [CHR 0x5C, CHR 0x22] else if n = 92 then [CHR 0x5C, CHR 0x5C]
     else if n = 8 then [CHR 0x5C, CHR ''b''] else if n = 9 then [CHR 0x5C, CHR ''t'']
     else if n = 10 then [CHR 0x5C, CHR ''n''] else if n = 12 then [CHR 0x5C, CHR ''f'']
     else if n = 13 then [CHR 0x5C, CHR ''r'']
     else if n < 32 then [CHR 0x5C, CHR ''u'', CHR ''0'', CHR ''0'', hex_digit (n div 16), hex_digit (n mod 16)]
     else [c])"

definition json_string :: "string \<Rightarrow> string" where
  "json_string s = CHR 0x22 # concat (map json_char s) @ [CHR 0x22]"

fun json_text :: "pv \<Rightarrow> string" and json_texts :: "pv list \<Rightarrow> string list"
  and json_items :: "(string \<times> pv) list \<Rightarrow> string list" where
  "json_text PNone = ''null''"
| "json_text (PBool b) = (if b then ''true'' else ''false'')"
| "json_text (PInt i) = int_text i"
| "json_text (PFloat f) = py_repr (PFloat f)"
| "json_text (PStr s) = json_string s"
| "json_text (PList xs) = ''['' @ join '','' (json_texts xs) @ '']''"
| "json_text (PDict kvs) = ''{'' @ join '','' (json_items kvs) @ ''}''"
| "json_texts [] = []"
| "json_texts (x # xs) = json_text x # json_texts xs"
| "json_items [] = []"
| "json_items ((k, v) # kvs) = (json_string k @ '':'' @ json_text v) # json_items kvs"

text \<open>
  What the encoder refuses: a NaN or an infinity (\<open>allow_nan=False\<close>), an integer beyond the
  interpreter's limit of 4300 digits, and a lone surrogate (three bytes from \<open>ED A0 80\<close> to
  \<open>ED BF BF\<close>), which \<open>encode("utf-8")\<close> does not take.
\<close>

fun has_surrogate :: "string \<Rightarrow> bool" where
  "has_surrogate (a # b # s) =
     ((of_char a = (237 :: nat) \<and> 160 \<le> (of_char b :: nat)) \<or> has_surrogate (b # s))"
| "has_surrogate _ = False"

definition int_printable :: "int \<Rightarrow> bool" where
  "int_printable i = (length (nat_text (nat \<bar>i\<bar>)) \<le> 4300)"

fun json_ok :: "pv \<Rightarrow> bool" and json_ok_list :: "pv list \<Rightarrow> bool"
  and json_ok_items :: "(string \<times> pv) list \<Rightarrow> bool" where
  "json_ok (PFloat f) = (case f of Dec _ _ \<Rightarrow> True | _ \<Rightarrow> False)"
| "json_ok (PInt i) = int_printable i"
| "json_ok (PStr s) = (\<not> has_surrogate s)"
| "json_ok (PList xs) = json_ok_list xs"
| "json_ok (PDict kvs) = json_ok_items kvs"
| "json_ok _ = True"
| "json_ok_list [] = True"
| "json_ok_list (x # xs) = (json_ok x \<and> json_ok_list xs)"
| "json_ok_items [] = True"
| "json_ok_items ((k, v) # kvs) = (\<not> has_surrogate k \<and> json_ok v \<and> json_ok_items kvs)"

definition json_dumps :: "pv \<Rightarrow> string option" where
  "json_dumps v = (if json_ok v then Some (json_text (sort_keys v)) else None)"

section \<open>Decoding\<close>

datatype json_error = Bad_json | Int_too_long

type_synonym 'a parsed = "json_error + ('a \<times> string)"

definition is_json_space :: "char \<Rightarrow> bool" where
  "is_json_space c = (of_char c \<in> {9, 10, 13, 32 :: nat})"

definition skip_ws :: "string \<Rightarrow> string" where
  "skip_ws = dropWhile is_json_space"

text \<open>Hexadecimal digits of either case, and the UTF-8 encoding of a code point.\<close>

definition hex_value :: "char \<Rightarrow> nat option" where
  "hex_value c = (let n = of_char c :: nat in
     if 48 \<le> n \<and> n \<le> 57 then Some (n - 48)
     else if 97 \<le> n \<and> n \<le> 102 then Some (n - 87)
     else if 65 \<le> n \<and> n \<le> 70 then Some (n - 55) else None)"

fun hex4 :: "string \<Rightarrow> (nat \<times> string) option" where
  "hex4 (a # b # c # d # s) =
     (case (hex_value a, hex_value b, hex_value c, hex_value d) of
        (Some w, Some x, Some y, Some z) \<Rightarrow> Some (4096 * w + 256 * x + 16 * y + z, s)
      | _ \<Rightarrow> None)"
| "hex4 _ = None"

definition utf8_encode :: "nat \<Rightarrow> string" where
  "utf8_encode n =
     (if n < 128 then [char_of n]
      else if n < 2048 then [char_of (192 + n div 64), char_of (128 + n mod 64)]
      else if n < 65536 then
        [char_of (224 + n div 4096), char_of (128 + n div 64 mod 64), char_of (128 + n mod 64)]
      else [char_of (240 + n div 262144), char_of (128 + n div 4096 mod 64),
            char_of (128 + n div 64 mod 64), char_of (128 + n mod 64)])"

text \<open>\<open>\uXXXX\<close> after the \<open>u\<close>: a high surrogate takes a following low one with it.\<close>

definition unicode_escape :: "string \<Rightarrow> (string \<times> string) option" where
  "unicode_escape s =
     (case hex4 s of None \<Rightarrow> None
      | Some (n, t) \<Rightarrow>
          (if 55296 \<le> n \<and> n \<le> 56319 \<and> take 2 t = [CHR 0x5C, CHR ''u'']
           then case hex4 (drop 2 t) of
                  Some (m, t') \<Rightarrow> (if 56320 \<le> m \<and> m \<le> 57343
                    then Some (utf8_encode (65536 + (n - 55296) * 1024 + (m - 56320)), t')
                    else Some (utf8_encode n, t))
                | None \<Rightarrow> Some (utf8_encode n, t)
           else Some (utf8_encode n, t)))"

definition simple_escape :: "char \<Rightarrow> char option" where
  "simple_escape c = (let n = of_char c :: nat in
     if n = 34 \<or> n = 92 \<or> n = 47 then Some c
     else if c = CHR ''b'' then Some (char_of (8 :: nat))
     else if c = CHR ''f'' then Some (char_of (12 :: nat))
     else if c = CHR ''n'' then Some (char_of (10 :: nat))
     else if c = CHR ''r'' then Some (char_of (13 :: nat))
     else if c = CHR ''t'' then Some (char_of (9 :: nat)) else None)"

text \<open>The body of a string after its opening quote.\<close>

fun parse_string :: "nat \<Rightarrow> string \<Rightarrow> string parsed" where
  "parse_string 0 s = Inl Bad_json"
| "parse_string (Suc n) [] = Inl Bad_json"
| "parse_string (Suc n) (c # s) =
     (if c = CHR 0x22 then Inr ([], s)
      else if (of_char c :: nat) < 32 then Inl Bad_json
      else if c = CHR 0x5C then
        (case s of [] \<Rightarrow> Inl Bad_json
         | e # t \<Rightarrow>
             (if e = CHR ''u'' then
                (case unicode_escape t of None \<Rightarrow> Inl Bad_json
                 | Some (u, t') \<Rightarrow>
                     bindE (parse_string n t') (\<lambda>(r, rest). Inr (u @ r, rest)))
              else
                (case simple_escape e of None \<Rightarrow> Inl Bad_json
                 | Some d \<Rightarrow> bindE (parse_string n t) (\<lambda>(r, rest). Inr (d # r, rest)))))
      else bindE (parse_string n s) (\<lambda>(r, rest). Inr (c # r, rest)))"

subsection \<open>Numbers\<close>

definition digits_value :: "string \<Rightarrow> nat" where
  "digits_value = foldl (\<lambda>n c. 10 * n + (of_char c - 48)) 0"

text \<open>
  The double nearest to \<open>c * 10 ^ e\<close> as \<open>m * 2 ^ k\<close> with ties to even, and its shortest decimal
  representation, as \<open>float(text)\<close> and \<open>repr\<close> compute them.
\<close>

definition round_div :: "int \<Rightarrow> int \<Rightarrow> int" where
  "round_div a b = (let q = a div b; r = a mod b in
     if 2 * r < b \<or> 2 * r = b \<and> even q then q else q + 1)"

fun bit_len :: "nat \<Rightarrow> nat" where
  "bit_len n = (if n = 0 then 0 else Suc (bit_len (n div 2)))"

declare bit_len.simps [simp del]

definition nearest_double :: "int \<Rightarrow> int \<Rightarrow> (int \<times> int) option" where
  "nearest_double c e =
     (let num = c * 10 ^ nat e; den = 10 ^ nat (- e);
          k0 = int (bit_len (nat num)) - int (bit_len (nat den)) - 53;
          k1 = (if num * 2 ^ nat (- k0) < 2 ^ 53 * (den * 2 ^ nat k0) then k0 else k0 + 1);
          k = max (- 1074) k1;
          m = round_div (num * 2 ^ nat (- k)) (den * 2 ^ nat k);
          (m', k') = (if m = 2 ^ 53 then (2 ^ 52, k + 1) else (m, k))
      in if 971 < k' then None else Some (m', k'))"

fun strip_zeros :: "nat \<Rightarrow> int \<Rightarrow> int \<Rightarrow> int \<times> int" where
  "strip_zeros 0 c e = (c, e)"
| "strip_zeros (Suc n) c e = (if c mod 10 = 0 \<and> c \<noteq> 0 then strip_zeros n (c div 10) (e + 1) else (c, e))"

definition shortest_decimal :: "int \<times> int \<Rightarrow> int \<times> int" where
  "shortest_decimal mk =
     (let num = fst mk * 2 ^ nat (snd mk); den = 2 ^ nat (- snd mk);
          p0 = int (length (nat_text (nat num))) - int (length (nat_text (nat den)));
          p = (if num * 10 ^ nat (- p0) < den * 10 ^ nat p0 then p0 - 1 else p0);
          cand = (\<lambda>n. let x = p - int n + 1 in
                    (round_div (num * 10 ^ nat (- x)) (den * 10 ^ nat x), x));
          good = filter (\<lambda>n. nearest_double (fst (cand n)) (snd (cand n)) = Some mk) [1..<18];
          (c, e) = cand (hd (good @ [17]))
      in strip_zeros 18 c e)"

definition py_float :: "bool \<Rightarrow> int \<Rightarrow> int \<Rightarrow> pyfloat" where
  "py_float neg c e =
     (if c = 0 then Dec 0 0
      else case nearest_double c e of
        None \<Rightarrow> FInf neg
      | Some (m, k) \<Rightarrow> (if m = 0 then Dec 0 0
          else let (c', e') = shortest_decimal (m, k) in Dec (if neg then - c' else c') e'))"

text \<open>
  \<open>-?(0|[1-9][0-9]*)(\.[0-9]+)?([eE][-+]?[0-9]+)?\<close>: without fraction and exponent the
  number is an int, which the interpreter reads up to 4300 digits.
\<close>

definition take_digits :: "string \<Rightarrow> string \<times> string" where
  "take_digits s = (takeWhile is_digit s, dropWhile is_digit s)"

definition fraction_part :: "string \<Rightarrow> string \<times> string" where
  "fraction_part s = (case s of
       c # t \<Rightarrow> (let (ds, r) = take_digits t in
                  if c = CHR ''.'' \<and> ds \<noteq> [] then (ds, r) else ([], s))
     | [] \<Rightarrow> ([], []))"

definition exponent_part :: "string \<Rightarrow> int option \<times> string" where
  "exponent_part s = (case s of
       c # t \<Rightarrow>
         (let neg = (take 1 t = ''-'');
              t' = (if take 1 t = ''-'' \<or> take 1 t = ''+'' then drop 1 t else t);
              (ds, r) = take_digits t'
          in if (c = CHR ''e'' \<or> c = CHR ''E'') \<and> ds \<noteq> []
             then (Some (if neg then - int (digits_value ds) else int (digits_value ds)), r)
             else (None, s))
     | [] \<Rightarrow> (None, []))"

definition number_digits :: "string \<Rightarrow> string \<times> string" where
  "number_digits s = (if take 1 s = ''0'' then (''0'', drop 1 s) else take_digits s)"

definition parse_number :: "string \<Rightarrow> pv parsed" where
  "parse_number s =
     (let neg = (take 1 s = ''-''); u = (if neg then drop 1 s else s);
          (ds, r) = number_digits u
      in if ds = [] then Inl Bad_json
         else let (frac, r1) = fraction_part r; (ex, r2) = exponent_part r1
          in if frac = [] \<and> ex = None then
               (if 4300 < length ds then Inl Int_too_long
                else Inr (PInt (if neg then - int (digits_value ds) else int (digits_value ds)), r))
             else Inr (PFloat (py_float neg (int (digits_value (ds @ frac)))
                 ((case ex of None \<Rightarrow> 0 | Some x \<Rightarrow> x) - int (length frac))), r2))"

subsection \<open>Values\<close>

definition json_constants :: "(string \<times> pv) list" where
  "json_constants =
     [(''null'', PNone), (''true'', PBool True), (''false'', PBool False),
      (''NaN'', PFloat FNan), (''Infinity'', PFloat (FInf False)),
      (''-Infinity'', PFloat (FInf True))]"

definition parse_scalar :: "string \<Rightarrow> pv parsed" where
  "parse_scalar s =
     (case find (\<lambda>p. starts_with s (fst p)) json_constants of
        Some p \<Rightarrow> Inr (snd p, drop (length (fst p)) s)
      | None \<Rightarrow> parse_number s)"

text \<open>\<open>parse_elems\<close> and \<open>parse_members\<close> read from the first element or key on.\<close>

fun parse_value :: "nat \<Rightarrow> string \<Rightarrow> pv parsed"
  and parse_elems :: "nat \<Rightarrow> pv list \<Rightarrow> string \<Rightarrow> pv parsed"
  and parse_members :: "nat \<Rightarrow> (string \<times> pv) list \<Rightarrow> string \<Rightarrow> pv parsed" where
  "parse_value 0 s = Inl Bad_json"
| "parse_value (Suc n) [] = Inl Bad_json"
| "parse_value (Suc n) (c # s) =
     (if c = CHR 0x22 then bindE (parse_string n s) (\<lambda>(r, rest). Inr (PStr r, rest))
      else if c = CHR ''['' then
        (if take 1 (skip_ws s) = '']'' then Inr (PList [], drop 1 (skip_ws s))
         else parse_elems n [] (skip_ws s))
      else if c = CHR ''{'' then
        (if take 1 (skip_ws s) = ''}'' then Inr (PDict [], drop 1 (skip_ws s))
         else parse_members n [] (skip_ws s))
      else parse_scalar (c # s))"
| "parse_elems 0 acc s = Inl Bad_json"
| "parse_elems (Suc n) acc s =
     bindE (parse_value n s) (\<lambda>(v, t).
       (case skip_ws t of [] \<Rightarrow> Inl Bad_json
        | c # r \<Rightarrow>
            (if c = CHR '','' then parse_elems n (acc @ [v]) (skip_ws r)
             else if c = CHR '']'' then Inr (PList (acc @ [v]), r)
             else Inl Bad_json)))"
| "parse_members 0 acc s = Inl Bad_json"
| "parse_members (Suc n) acc [] = Inl Bad_json"
| "parse_members (Suc n) acc (q # s) =
     (if q \<noteq> CHR 0x22 then Inl Bad_json
      else bindE (parse_string n s) (\<lambda>(k, t).
        (case skip_ws t of [] \<Rightarrow> Inl Bad_json
         | c # r \<Rightarrow>
             (if c \<noteq> CHR '':'' then Inl Bad_json
              else bindE (parse_value n (skip_ws r)) (\<lambda>(v, u).
                (case skip_ws u of [] \<Rightarrow> Inl Bad_json
                 | d # w \<Rightarrow>
                     (if d = CHR '','' then parse_members n (dict_set k v acc) (skip_ws w)
                      else if d = CHR ''}'' then Inr (PDict (dict_set k v acc), w)
                      else Inl Bad_json)))))))"

text \<open>
  UTF-8 as \<open>bytes.decode("utf-8", "surrogatepass")\<close> reads it: shortest forms only, up to
  U+10FFFF.
\<close>

definition is_cont :: "char \<Rightarrow> bool" where
  "is_cont c = (let n = of_char c :: nat in 128 \<le> n \<and> n < 192)"

text \<open>How many continuation bytes a lead byte asks for, and the range of the first of them.\<close>

definition cont_count :: "char \<Rightarrow> nat option" where
  "cont_count a = (let n = of_char a :: nat in
     if n < 128 then Some 0 else if 194 \<le> n \<and> n < 224 then Some 1
     else if 224 \<le> n \<and> n < 240 then Some 2 else if 240 \<le> n \<and> n < 245 then Some 3 else None)"

definition first_cont_ok :: "char \<Rightarrow> char \<Rightarrow> bool" where
  "first_cont_ok a b = (let n = of_char a :: nat; m = of_char b :: nat in
     (n = 224 \<longrightarrow> 160 \<le> m) \<and> (n = 240 \<longrightarrow> 144 \<le> m) \<and> (n = 244 \<longrightarrow> m < 144))"

fun utf8_ok :: "string \<Rightarrow> bool" where
  "utf8_ok [] = True"
| "utf8_ok (a # s) =
     (case cont_count a of None \<Rightarrow> False
      | Some k \<Rightarrow> k \<le> length s \<and> list_all is_cont (take k s) \<and>
          (k = 0 \<or> first_cont_ok a (hd s)) \<and> utf8_ok (drop k s))"

definition json_loads :: "string \<Rightarrow> json_error + pv" where
  "json_loads raw =
     (if \<not> utf8_ok raw then Inl Bad_json
      else bindE (parse_value (Suc (length raw)) (skip_ws raw)) (\<lambda>(v, rest).
        if skip_ws rest = [] then Inr v else Inl Bad_json))"

section \<open>The parser inverts the encoder\<close>

text \<open>Values the round trip covers: what the encoder accepts, without floats, in strings of valid
  UTF-8.\<close>

fun plain :: "pv \<Rightarrow> bool" and plain_list :: "pv list \<Rightarrow> bool"
  and plain_items :: "(string \<times> pv) list \<Rightarrow> bool" where
  "plain (PFloat f) = False"
| "plain (PInt i) = int_printable i"
| "plain (PStr s) = (utf8_ok s \<and> \<not> has_surrogate s)"
| "plain (PList xs) = plain_list xs"
| "plain (PDict kvs) = (distinct (dict_keys kvs) \<and> plain_items kvs)"
| "plain _ = True"
| "plain_list [] = True"
| "plain_list (x # xs) = (plain x \<and> plain_list xs)"
| "plain_items [] = True"
| "plain_items ((k, v) # kvs) = (utf8_ok k \<and> \<not> has_surrogate k \<and> plain v \<and> plain_items kvs)"

subsection \<open>Characters and strings\<close>

lemma hex_value_digit: "n < 16 \<Longrightarrow> hex_value (hex_digit n) = Some n"
  by (auto simp: hex_value_def hex_digit_def of_char_of Let_def)

lemma control_escape:
  assumes "n < 32"
  shows "unicode_escape (CHR ''0'' # CHR ''0'' # hex_digit (n div 16) # hex_digit (n mod 16) # s) =
    Some ([char_of n], s)"
proof -
  have "hex_value CHR ''0'' = Some 0" by (simp add: hex_value_def)
  moreover have "16 * (n div 16) + n mod 16 = n" by simp
  ultimately show ?thesis
    using assms by (simp add: unicode_escape_def hex_value_digit utf8_encode_def)
qed

lemma char_eq_iff: "c = d \<longleftrightarrow> (of_char c :: nat) = of_char d"
  by (simp add: of_char_eq_iff)

lemma quote_chars: "char_of (34 :: nat) = CHR 0x22" "char_of (92 :: nat) = CHR 0x5C"
  by (simp_all add: char_of_def bit_simps) 

lemma parse_string_char:
  "parse_string (Suc n) (json_char c @ t) = bindE (parse_string n t) (\<lambda>(r, rest). Inr (c # r, rest))"
proof -
  let ?n = "of_char c :: nat"
  have escaped: ?thesis if "?n = k" "k \<in> {34, 92, 8, 9, 10, 12, 13}" for k
  proof -
    from that(1) have "c = char_of k" by (metis char_of_char)
    with that(2) show ?thesis
      by (auto simp: json_char_def simple_escape_def Let_def quote_chars)
  qed
  consider "?n = 34" | "?n = 92" | "?n = 8" | "?n = 9" | "?n = 10" | "?n = 12" | "?n = 13"
    | "?n < 32" "?n \<notin> {8, 9, 10, 12, 13}" | "32 \<le> ?n" "?n \<noteq> 34" "?n \<noteq> 92"
    by fastforce
  then show ?thesis
  proof cases
    case 8
    then have "json_char c = [CHR 0x5C, CHR ''u'', CHR ''0'', CHR ''0'', hex_digit (?n div 16), hex_digit (?n mod 16)]"
      by (simp add: json_char_def Let_def)
    with 8 show ?thesis by (simp add: control_escape)
  next
    case 9
    then have "json_char c = [c]" by (simp add: json_char_def Let_def)
    moreover from 9 have "c \<noteq> CHR 0x22" "c \<noteq> CHR 0x5C" by auto
    ultimately show ?thesis using 9 by simp
  qed (auto intro: escaped)
qed

lemma parse_string_body:
  "length s < n \<Longrightarrow> parse_string n (concat (map json_char s) @ CHR 0x22 # t) = Inr (s, t)"
proof (induction s arbitrary: n)
  case Nil
  then show ?case by (cases n) auto
next
  case (Cons c s)
  then obtain m where "n = Suc m" "length s < m" by (cases n) auto
  with Cons.IH show ?case by (simp add: parse_string_char)
qed

subsection \<open>Integers\<close>

lemma nat_text_nonempty [simp]: "nat_text n \<noteq> []"
  by (subst nat_text.simps) simp

lemma is_digit_char_of [simp]: "k < 10 \<Longrightarrow> is_digit (char_of (48 + k :: nat))"
  by (simp add: is_digit_def Let_def of_char_of)

lemma nat_text_digits: "c \<in> set (nat_text n) \<Longrightarrow> is_digit c"
proof (induction n rule: nat_text.induct)
  case (1 n)
  then show ?case
    by (subst (asm) (2) nat_text.simps) (auto split: if_splits)
qed

lemma digits_value_snoc: "digits_value (ds @ [c]) = 10 * digits_value ds + (of_char c - 48)"
  by (simp add: digits_value_def)

lemma digits_value_nat_text [simp]: "digits_value (nat_text n) = n"
proof (induction n rule: nat_text.induct)
  case (1 n)
  show ?case
  proof (cases "n < 10")
    case True
    then show ?thesis by (subst nat_text.simps) (simp add: digits_value_def of_char_of)
  next
    case False
    then have "digits_value (nat_text n) = 10 * (n div 10) + n mod 10"
      using 1 by (subst nat_text.simps) (simp add: digits_value_snoc of_char_of)
    then show ?thesis by simp
  qed
qed

lemma nat_text_hd: "hd (nat_text n) = CHR ''0'' \<longleftrightarrow> n = 0"
proof (induction n rule: nat_text.induct)
  case (1 n)
  have "char_of (48 + n) = CHR ''0'' \<longleftrightarrow> n = 0" if "n < 10"
    using that by (simp add: char_eq_iff of_char_of)
  with 1 show ?case by (subst nat_text.simps) auto
qed


text \<open>What may follow a value inside a text: the end, or a separator or closing bracket.\<close>

definition stops :: "string \<Rightarrow> bool" where
  "stops t = (case t of [] \<Rightarrow> True | c # _ \<Rightarrow> c \<in> set '',]}'')"

lemma stops_simps [simp]: "stops []" "stops (c # t) \<longleftrightarrow> c = CHR '','' \<or> c = CHR '']'' \<or> c = CHR ''}''"
  by (auto simp: stops_def)

lemma stops_number:
  assumes "stops t"
  shows "fraction_part t = ([], t)" "exponent_part t = (None, t)" "takeWhile is_digit t = []"
    "dropWhile is_digit t = t"
  using assms
  by (auto simp: fraction_part_def exponent_part_def stops_def is_digit_def take_digits_def
      split: list.splits)

lemma take_digits_nat_text: "stops t \<Longrightarrow> take_digits (nat_text n @ t) = (nat_text n, t)"
  using nat_text_digits [of _ n] stops_number(3,4) [of t]
  by (simp add: take_digits_def takeWhile_append2 dropWhile_append2)

lemma nat_text_0 [simp]: "nat_text 0 = ''0''"
  by (subst nat_text.simps) (simp add: char_eq_iff of_char_of)

lemma digits_value_0 [simp]: "digits_value ''0'' = 0"
  by (simp add: digits_value_def)

lemma nat_text_no_minus: "hd (nat_text n) \<noteq> CHR ''-''"
  using nat_text_digits [of "hd (nat_text n)" n] by (auto simp: is_digit_def)

lemma number_digits_nat_text: "stops t \<Longrightarrow> number_digits (nat_text n @ t) = (nat_text n, t)"
proof (cases "n = 0")
  case False
  assume "stops t"
  moreover from False have "take 1 (nat_text n @ t) \<noteq> ''0''"
    using nat_text_hd [of n] by (cases "nat_text n") auto
  ultimately show ?thesis by (simp add: number_digits_def take_digits_nat_text)
qed (simp add: number_digits_def)

lemma parse_number_int:
  assumes "int_printable i" "stops t"
  shows "parse_number (int_text i @ t) = Inr (PInt i, t)"
proof (cases "i < 0")
  case True
  then show ?thesis
    using assms number_digits_nat_text [of t "nat (- i)"] stops_number [of t]
    by (simp add: parse_number_def int_text_def int_printable_def Let_def)
next
  case False
  have "take 1 (nat_text (nat i) @ t) \<noteq> ''-''"
    using nat_text_no_minus [of "nat i"] by (cases "nat_text (nat i)") auto
  with False show ?thesis
    using assms number_digits_nat_text [of t "nat i"] stops_number [of t]
    by (simp add: parse_number_def int_text_def int_printable_def Let_def)
qed

lemma int_text_hd:
  "is_digit (hd (int_text i @ t)) \<or> hd (int_text i @ t) = CHR ''-'' \<and> is_digit (hd (tl (int_text i @ t)))"
  using nat_text_digits [of "hd (nat_text (nat i))" "nat i"]
    nat_text_digits [of "hd (nat_text (nat (- i)))" "nat (- i)"]
  by (auto simp: int_text_def)

lemma int_text_nonempty [simp]: "int_text i \<noteq> []"
  by (simp add: int_text_def)

lemma parse_scalar_int:
  assumes "int_printable i" "stops t"
  shows "parse_scalar (int_text i @ t) = Inr (PInt i, t)"
proof -
  obtain c s where s: "int_text i @ t = c # s" by (cases "int_text i @ t") auto
  have d: "is_digit c \<or> c = CHR ''-'' \<and> is_digit (hd s)"
    using int_text_hd [of i t] unfolding s by simp
  then have "c \<notin> set ''ntfNI''" "\<not> (c = CHR ''-'' \<and> starts_with s ''Infinity'')"
    by (auto simp: is_digit_def starts_with_iff)
  then have "find (\<lambda>p. starts_with (c # s) (fst p)) json_constants = None"
    by (simp add: json_constants_def)
  with parse_number_int [OF assms] show ?thesis
    unfolding parse_scalar_def s by simp
qed


subsection \<open>Values\<close>

lemma is_json_space_digit: "is_digit c \<Longrightarrow> \<not> is_json_space c"
  by (auto simp: is_digit_def is_json_space_def Let_def)

lemma json_text_start:
  assumes "plain v"
  shows "\<exists>c s. json_text v = c # s \<and> \<not> is_json_space c \<and> c \<noteq> CHR '']''"
proof (cases v)
  case (PInt i)
  obtain c s where s: "int_text i = c # s" by (cases "int_text i") auto
  with int_text_hd [of i "[]"] have "is_digit c \<or> c = CHR ''-''" by auto
  with PInt s show ?thesis
    using is_json_space_digit by (auto simp: is_json_space_def is_digit_def)
qed (use assms in \<open>auto simp: json_string_def is_json_space_def\<close>)

lemma skip_ws_start: "\<not> is_json_space c \<Longrightarrow> skip_ws (c # s) = c # s"
  by (simp add: skip_ws_def)

lemma skip_ws_json [simp]: "plain v \<Longrightarrow> skip_ws (json_text v @ t) = json_text v @ t"
  using json_text_start [of v] by (auto simp: skip_ws_def)

lemma skip_ws_punct [simp]:
  "skip_ws (CHR '','' # t) = CHR '','' # t" "skip_ws (CHR '']'' # t) = CHR '']'' # t"
  "skip_ws (CHR ''}'' # t) = CHR ''}'' # t" "skip_ws (CHR '':'' # t) = CHR '':'' # t"
  "skip_ws (CHR 0x22 # t) = CHR 0x22 # t"
  by (simp_all add: skip_ws_def is_json_space_def)

lemma join_Cons: "join sep (x # xs) = x @ (if xs = [] then [] else sep @ join sep xs)"
  by (cases xs) simp_all

lemma json_texts_Nil_iff [simp]: "json_texts xs = [] \<longleftrightarrow> xs = []"
  by (cases xs) simp_all

lemma json_items_Nil_iff [simp]: "json_items kvs = [] \<longleftrightarrow> kvs = []"
  by (cases kvs rule: json_items.cases) simp_all

lemma dict_set_new: "k \<notin> set (dict_keys acc) \<Longrightarrow> dict_set k v acc = acc @ [(k, v)]"
  by (induction acc) auto

lemma dict_keys_zip: "plain_items kvs = (\<forall>kv \<in> set kvs. utf8_ok (fst kv) \<and> \<not> has_surrogate (fst kv) \<and> plain (snd kv))"
  by (induction kvs) auto

lemma length_json_string: "length s + 2 \<le> length (json_string s)"
proof -
  have "length s \<le> length (concat (map json_char s))"
    by (induction s) (auto simp: json_char_def Let_def intro: add_le_mono)
  then show ?thesis by (simp add: json_string_def)
qed

lemma parse_json:
  "plain v \<Longrightarrow> stops t \<Longrightarrow> length (json_text v) < n \<Longrightarrow> parse_value n (json_text v @ t) = Inr (v, t)"
  "plain_list xs \<Longrightarrow> xs \<noteq> [] \<Longrightarrow> length (join '','' (json_texts xs)) + 1 < m \<Longrightarrow>
     parse_elems m acc (join '','' (json_texts xs) @ CHR '']'' # u) = Inr (PList (acc @ xs), u)"
  "plain_items kvs \<Longrightarrow> kvs \<noteq> [] \<Longrightarrow> length (join '','' (json_items kvs)) + 1 < k \<Longrightarrow>
     distinct (dict_keys (dacc @ kvs)) \<Longrightarrow>
     parse_members k dacc (join '','' (json_items kvs) @ CHR ''}'' # w) = Inr (PDict (dacc @ kvs), w)"
proof (induction v and xs and kvs arbitrary: t n and m acc u and k dacc w rule: plain_plain_list_plain_items.induct)
  case (2 i)
  then obtain n' where n: "n = Suc n'" by (cases n) auto
  obtain c s where s: "int_text i @ t = c # s" by (cases "int_text i @ t") auto
  have "is_digit c \<or> c = CHR ''-''" using int_text_hd [of i t] unfolding s by auto
  then have "c \<noteq> CHR 0x22" "c \<noteq> CHR ''[''" "c \<noteq> CHR ''{''" by (auto simp: is_digit_def)
  with parse_scalar_int [of i t] 2 show ?case by (simp add: n s)
next
  case (3 s)
  then obtain n' where n: "n = Suc n'" by (cases n) auto
  with 3 length_json_string [of s] have "length s < n'" by simp
  then show ?case by (simp add: n json_string_def parse_string_body)
next
  case (4 xs)
  then obtain n' where n: "n = Suc n'" by (cases n) auto
  show ?case
  proof (cases xs)
    case Nil
    then show ?thesis by (simp add: n)
  next
    case (Cons x ys)
    then obtain c s where "json_text x = c # s" "\<not> is_json_space c" "c \<noteq> CHR '']''"
      using 4 json_text_start [of x] by auto
    then have start: "skip_ws (join '','' (json_texts xs) @ CHR '']'' # t) = join '','' (json_texts xs) @ CHR '']'' # t"
      "take 1 (join '','' (json_texts xs) @ CHR '']'' # t) \<noteq> '']''"
      using Cons by (auto simp: join_Cons skip_ws_start)
    from 4 Cons n have "length (join '','' (json_texts xs)) + 1 < n'" by simp
    with 4(1) [of n' "[]" t] 4(2) Cons have
      "parse_elems n' [] (join '','' (json_texts xs) @ CHR '']'' # t) = Inr (PList xs, t)" by simp
    with start show ?thesis by (simp add: n)
  qed
next
  case (5 kvs)
  then obtain n' where n: "n = Suc n'" by (cases n) auto
  show ?case
  proof (cases kvs)
    case Nil
    then show ?thesis by (simp add: n)
  next
    case (Cons p ys)
    then obtain c s where "json_items kvs = (CHR 0x22 # c) # s"
      by (cases p) (auto simp: json_string_def)
    then have start: "skip_ws (join '','' (json_items kvs) @ CHR ''}'' # t) = join '','' (json_items kvs) @ CHR ''}'' # t"
      "take 1 (join '','' (json_items kvs) @ CHR ''}'' # t) \<noteq> ''}''"
      by (auto simp: join_Cons)
    from 5 Cons n have "length (join '','' (json_items kvs)) + 1 < n'" by simp
    with 5(1) [of n' "[]" t] 5(2) Cons have
      "parse_members n' [] (join '','' (json_items kvs) @ CHR ''}'' # t) = Inr (PDict kvs, t)" by simp
    with start show ?thesis by (simp add: n)
  qed
next
  case (8 x xs)
  then obtain m' where m: "m = Suc m'" by (cases m) auto
  show ?case
  proof (cases "xs = []")
    case True
    with 8 m have "parse_value m' (json_text x @ CHR '']'' # u) = Inr (x, CHR '']'' # u)"
      by (simp add: join_Cons)
    with True show ?thesis by (simp add: m join_Cons)
  next
    case False
    let ?rest = "join '','' (json_texts xs) @ CHR '']'' # u"
    from 8 m False have len: "length (json_text x) < m'" "length (join '','' (json_texts xs)) + 1 < m'"
      by (simp_all add: join_Cons)
    then have "parse_value m' (json_text x @ CHR '','' # ?rest) = Inr (x, CHR '','' # ?rest)"
      using 8 by simp
    moreover have "parse_elems m' (acc @ [x]) ?rest = Inr (PList (acc @ x # xs), u)"
      using 8 False len by simp
    moreover have "skip_ws ?rest = ?rest"
      using 8(3) False by (cases xs) (auto simp: join_Cons)
    ultimately show ?thesis using False by (simp add: m join_Cons)
  qed
next
  case (10 key v kvs)
  then obtain k' where k: "k = Suc k'" by (cases k) auto
  have keys: "key \<notin> set (dict_keys dacc)" using 10 by auto
  have string: "parse_string k' (concat (map json_char key) @ CHR 0x22 # y) = Inr (key, y)" for y
    by (rule parse_string_body) (use 10 k length_json_string [of key] in \<open>simp add: join_Cons split: if_splits\<close>)
  show ?case
  proof (cases "kvs = []")
    case True
    with 10 k have "parse_value k' (json_text v @ CHR ''}'' # w) = Inr (v, CHR ''}'' # w)"
      by (simp add: join_Cons)
    with True 10 string keys show ?thesis by (simp add: k join_Cons json_string_def dict_set_new)
  next
    case False
    let ?rest = "join '','' (json_items kvs) @ CHR ''}'' # w"
    from 10 k False have len: "length (json_text v) < k'" "length (join '','' (json_items kvs)) + 1 < k'"
      by (simp_all add: join_Cons)
    then have "parse_value k' (json_text v @ CHR '','' # ?rest) = Inr (v, CHR '','' # ?rest)"
      using 10 by simp
    moreover have "parse_members k' (dacc @ [(key, v)]) ?rest = Inr (PDict (dacc @ (key, v) # kvs), w)"
      using 10 False len by simp
    moreover have "skip_ws ?rest = ?rest"
      using False by (cases kvs rule: json_items.cases) (auto simp: join_Cons json_string_def)
    ultimately show ?thesis
      using False 10 string keys by (simp add: k join_Cons json_string_def dict_set_new)
  qed
qed (auto simp: parse_scalar_def json_constants_def  elim!: less_natE)
subsection \<open>What the parser consumes\<close>

definition within :: "string \<Rightarrow> string \<Rightarrow> bool" where
  "within t s \<longleftrightarrow> (\<exists>p. s = p @ t)"

lemma within_refl [simp]: "within s s"
  by (simp add: within_def)

lemma within_trans [trans]: "within u t \<Longrightarrow> within t s \<Longrightarrow> within u s"
  by (auto simp: within_def)

lemma within_Cons [simp]: "within t s \<Longrightarrow> within t (c # s)"
  by (auto simp: within_def)

lemma within_drop [simp]: "within (drop n s) s"
  by (metis append_take_drop_id within_def)

lemma within_dropWhile [simp]: "within (dropWhile P s) s"
  by (metis takeWhile_dropWhile_id within_def)

lemma within_skip_ws [simp]: "within (skip_ws s) s"
  by (simp add: skip_ws_def)

lemma within_set: "within t s \<Longrightarrow> set t \<subseteq> set s"
  by (auto simp: within_def)

lemma within_length: "within t s \<Longrightarrow> length t \<le> length s"
  by (auto simp: within_def)

lemma within_Cons_left: "within (c # t) s \<Longrightarrow> within t s"
  by (auto simp: within_def)

lemma hex4_within: "hex4 s = Some (n, t) \<Longrightarrow> within t s"
  by (induction s rule: hex4.induct) (auto split: option.splits)

lemma unicode_escape_within: "unicode_escape s = Some (u, t) \<Longrightarrow> within t s"
  unfolding unicode_escape_def
  by (auto split: option.splits if_splits dest!: hex4_within) (meson within_trans within_drop)

lemma parse_string_within: "parse_string n s = Inr (r, t) \<Longrightarrow> within t s"
proof (induction n s arbitrary: r t rule: parse_string.induct)
  case (3 n c s)
  then show ?case
    by (fastforce simp: res_simps split: if_splits list.splits option.splits
        dest: unicode_escape_within intro: within_trans within_Cons)
qed auto

lemma take_digits_within: "take_digits s = (d, t) \<Longrightarrow> within t s"
  by (auto simp: take_digits_def)

lemma number_digits_within: "number_digits s = (d, t) \<Longrightarrow> within t s \<and> length d \<le> length s"
  by (auto simp: number_digits_def take_digits_def length_takeWhile_le split: if_splits)

lemma fraction_part_within: "fraction_part s = (d, t) \<Longrightarrow> within t s"
  by (auto simp: fraction_part_def take_digits_def Let_def split: list.splits if_splits)

lemma exponent_part_within: "exponent_part s = (d, t) \<Longrightarrow> within t s"
  unfolding exponent_part_def take_digits_def Let_def
  by (auto split: list.splits if_splits intro: within_trans within_drop within_dropWhile)

lemma parse_number_within: "parse_number s = Inr (v, t) \<Longrightarrow> within t s"
  unfolding parse_number_def Let_def
  by (auto split: if_splits prod.splits dest!: number_digits_within fraction_part_within exponent_part_within)
    (meson within_trans within_drop)+

lemma parse_scalar_within: "parse_scalar s = Inr (v, t) \<Longrightarrow> within t s"
  by (auto simp: parse_scalar_def parse_number_within split: option.splits)

lemma parse_scalar_not_mapping: "parse_scalar s = Inr (v, t) \<Longrightarrow> \<not> is_mapping v"
  by (auto simp: parse_scalar_def parse_number_def json_constants_def Let_def
      split: option.splits if_splits prod.splits dest!: find_Some_iff [THEN iffD1])

lemma parse_within:
  "parse_value n s = Inr (v, t) \<Longrightarrow> within t s \<and> (is_mapping v \<longrightarrow> CHR ''}'' \<in> set s)"
  "parse_elems n xs s = Inr (v, t) \<Longrightarrow> within t s \<and> \<not> is_mapping v"
  "parse_members n kvs s = Inr (v, t) \<Longrightarrow> within t s \<and> CHR ''}'' \<in> set s"
proof (induction n s and n xs s and n kvs s arbitrary: v t and v t and v t
    rule: parse_value_parse_elems_parse_members.induct)
  case (3 n c s)
  show ?case
  proof (cases "c = CHR 0x22 \<or> c \<notin> {CHR ''['', CHR ''{''}")
    case True
    with 3(3) show ?thesis
      by (auto simp: res_simps split: if_splits
          dest: parse_string_within parse_scalar_within parse_scalar_not_mapping)
  next
    case False
    then have s: "within (drop 1 (skip_ws s)) (c # s)" "within (skip_ws s) (c # s)"
      by (meson within_Cons within_drop within_skip_ws within_trans)+
    have hd: "CHR ''}'' \<in> set s" if "take 1 (skip_ws s) = ''}''"
      using that within_set [OF within_skip_ws [of s]] by (cases "skip_ws s") auto
    have more: "within t (d # s)" if "within t (skip_ws s)" for t d
      using that by (meson within_Cons within_skip_ws within_trans)
    from False s hd 3 show ?thesis
      by (auto split: if_splits intro: more
          dest: within_set [OF within_skip_ws, THEN subsetD])
  qed
next
  case (5 n acc s)
  from 5(3) obtain w r where w0: "parse_value n s = Inr (w, r)" by (auto simp: res_simps)
  with 5(3) obtain c r' where w: "parse_value n s = Inr (w, r)" "skip_ws r = c # r'"
    by (cases "skip_ws r") auto
  with 5 have "within (c # r') s" by (metis within_skip_ws within_trans)
  then have r': "within r' s" "within (skip_ws r') s"
    by (meson within_Cons_left within_skip_ws within_trans)+
  from 5 w r' show ?case
    by (auto split: if_splits) (meson within_trans)+
next
  case (8 n acc q s)
  from 8(3) obtain key t1 where q1: "q = CHR 0x22" "parse_string n s = Inr (key, t1)"
    by (auto simp: res_simps split: if_splits)
  with 8(3) obtain t2 where q2: "skip_ws t1 = CHR '':'' # t2"
    by (cases "skip_ws t1") (auto split: if_splits)
  with q1 8(3) obtain val t3 where q3: "parse_value n (skip_ws t2) = Inr (val, t3)"
    by (auto simp: res_simps)
  with q1 q2 8(3) obtain d t4 where q4: "skip_ws t3 = d # t4" by (cases "skip_ws t3") auto
  define c where "c = CHR '':''"
  note q = q1(1) c_def and p = q1(2) q2 [folded c_def] q3 q4
  have "within (c # t2) s" using p(2) parse_string_within [OF p(1)] by (metis within_skip_ws within_trans)
  then have "within (skip_ws t2) s" by (meson within_Cons_left within_skip_ws within_trans)
  with 8(1,2) p q have "within t3 s"
    by (metis within_trans)
  then have t4: "within (d # t4) s" using p(4) by (metis within_skip_ws within_trans)
  then have "within (skip_ws t4) s" "within t4 s" "d \<in> set s"
    by (auto intro: within_Cons_left dest: within_set) (meson within_Cons_left within_skip_ws within_trans)
  then have sub: "within u (q # s) \<and> CHR ''}'' \<in> set (q # s)"
    if "within u (skip_ws t4) \<and> CHR ''}'' \<in> set (skip_ws t4)" for u
    using that by (meson list.set_intros(2) subsetD within_Cons within_set within_trans)
  show ?case
  proof (cases "d = CHR '',''")
    case True
    then have m: "parse_members n (dict_set key val acc) (skip_ws t4) = Inr (v, t)"
      using 8(3) q1 q2 q3 q4 by simp
    have "within t (skip_ws t4) \<and> CHR ''}'' \<in> set (skip_ws t4)"
      using 8(2) [OF _ q1(2) refl q2 _ q3 refl q4 True m] q1(1) by simp
    then show ?thesis by (rule sub)
  next
    case False
    then show ?thesis
      using 8(3) q1 q2 q3 q4 \<open>within t4 s\<close> \<open>d \<in> set s\<close> by (auto split: if_splits)
  qed
qed auto


lemma parse_string_not_long: "parse_string n s \<noteq> Inl Int_too_long"
  by (induction n s rule: parse_string.induct)
    (auto simp: res_simps split: if_splits list.splits option.splits)

lemma parse_scalar_long: "parse_scalar s = Inl Int_too_long \<Longrightarrow> 4300 < length s"
proof -
  assume "parse_scalar s = Inl Int_too_long"
  then have "parse_number s = Inl Int_too_long" by (auto simp: parse_scalar_def split: option.splits)
  then obtain ds r where "number_digits (if take 1 s = ''-'' then drop 1 s else s) = (ds, r)"
    "4300 < length ds"
    by (auto simp: parse_number_def Let_def split: if_splits prod.splits)
  then show "4300 < length s" using number_digits_within by (fastforce split: if_splits)
qed

lemma skip_ws_length: "n < length (skip_ws s) \<Longrightarrow> n < length s"
  using within_length [OF within_skip_ws [of s]] by simp

lemma parse_long:
  "parse_value n s = Inl Int_too_long \<Longrightarrow> 4300 < length s"
  "parse_elems n xs s = Inl Int_too_long \<Longrightarrow> 4300 < length s"
  "parse_members n kvs s = Inl Int_too_long \<Longrightarrow> 4300 < length s"
proof (induction n s and n xs s and n kvs s rule: parse_value_parse_elems_parse_members.induct)
  case (3 n c s)
  show ?case
  proof (cases "c = CHR 0x22 \<or> c \<notin> {CHR ''['', CHR ''{''}")
    case True
    with 3(3) show ?thesis
      by (auto simp: res_simps parse_string_not_long split: if_splits dest: parse_scalar_long)
  next
    case False
    with 3 show ?thesis by (auto split: if_splits dest!: skip_ws_length)
  qed
next
  case (5 n acc s)
  show ?case
  proof (cases "parse_value n s")
    case (Inr wr)
    obtain w r where w: "wr = (w, r)" by (cases wr)
    with 5(3) Inr obtain c r' where r': "skip_ws r = c # r'" "c = CHR '',''"
      "parse_elems n (acc @ [w]) (skip_ws r') = Inl Int_too_long"
      by (cases "skip_ws r") (auto split: if_splits)
    have "within (c # r') s"
      using parse_within(1) [of n s w r] Inr w r'(1) by (metis within_skip_ws within_trans)
    then have "within (skip_ws r') s" by (meson within_Cons_left within_skip_ws within_trans)
    from within_length [OF this] show ?thesis
      using 5(2) [OF Inr w [symmetric] r'] by simp
  qed (use 5(1,3) in simp)
next
  case (8 n acc q s)
  show ?case
  proof (cases "q = CHR 0x22")
    case True
    obtain kt where "parse_string n s = Inr kt"
      using True 8(3) by (cases "parse_string n s") (simp_all add: parse_string_not_long)
    then obtain key t1 where s1: "parse_string n s = Inr (key, t1)" by (cases kt) simp
    have e1: "(case skip_ws t1 of [] \<Rightarrow> Inl Bad_json
         | c # r \<Rightarrow>
             (if c \<noteq> CHR '':'' then Inl Bad_json
              else bindE (parse_value n (skip_ws r)) (\<lambda>(v, u).
                (case skip_ws u of [] \<Rightarrow> Inl Bad_json
                 | d # w \<Rightarrow>
                     (if d = CHR '','' then parse_members n (dict_set key v acc) (skip_ws w)
                      else if d = CHR ''}'' then Inr (PDict (dict_set key v acc), w)
                      else Inl Bad_json))))) = Inl Int_too_long"
      using 8(3) True s1 by simp
    obtain c t2 where "skip_ws t1 = c # t2" using e1 by (cases "skip_ws t1") simp_all
    with e1 have s2: "skip_ws t1 = CHR '':'' # t2" and e2: "bindE (parse_value n (skip_ws t2)) (\<lambda>(v, u).
                (case skip_ws u of [] \<Rightarrow> Inl Bad_json
                 | d # w \<Rightarrow>
                     (if d = CHR '','' then parse_members n (dict_set key v acc) (skip_ws w)
                      else if d = CHR ''}'' then Inr (PDict (dict_set key v acc), w)
                      else Inl Bad_json))) = Inl Int_too_long"
      by (simp_all split: if_splits)
    have "within (CHR '':'' # t2) s"
      unfolding s2 [symmetric] by (rule within_trans [OF within_skip_ws parse_string_within [OF s1]])
    then have w2: "within (skip_ws t2) s"
      by (rule within_trans [OF within_skip_ws within_Cons_left])
    show ?thesis
    proof (cases "parse_value n (skip_ws t2)")
      case (Inl x)
      then have "x = Int_too_long" using e2 by simp
      then have "4300 < length (skip_ws t2)"
        using 8(1) [OF _ s1 refl s2] Inl True by simp
      then show ?thesis using within_length [OF w2] by simp
    next
      case (Inr vt)
      obtain val t3 where v: "vt = (val, t3)" by (cases vt)
      with Inr e2 have e3: "(case skip_ws t3 of [] \<Rightarrow> Inl Bad_json
                 | d # w \<Rightarrow>
                     (if d = CHR '','' then parse_members n (dict_set key val acc) (skip_ws w)
                      else if d = CHR ''}'' then Inr (PDict (dict_set key val acc), w)
                      else Inl Bad_json)) = Inl Int_too_long" by simp
      obtain d t4 where "skip_ws t3 = d # t4" using e3 by (cases "skip_ws t3") simp_all
      with e3 have t4: "skip_ws t3 = CHR '','' # t4"
        "parse_members n (dict_set key val acc) (skip_ws t4) = Inl Int_too_long"
        by (simp_all split: if_splits)
      have "within t3 s"
        using parse_within(1) [of n "skip_ws t2" val t3] Inr v within_trans [OF _ w2] by simp
      then have "within (CHR '','' # t4) s"
        unfolding t4(1) [symmetric] by (rule within_trans [OF within_skip_ws])
      then have "within (skip_ws t4) s"
        by (rule within_trans [OF within_skip_ws within_Cons_left])
      moreover have "4300 < length (skip_ws t4)"
        using 8(2) [OF _ s1 refl s2 _ Inr v [symmetric] t4(1) _ t4(2)] True by simp
      ultimately show ?thesis using within_length [of "skip_ws t4" s] by simp
    qed
  qed (use 8(3) in simp)
qed auto

lemma json_loads_short: "length raw \<le> 4300 \<Longrightarrow> json_loads raw \<noteq> Inl Int_too_long"
proof
  assume "length raw \<le> 4300" "json_loads raw = Inl Int_too_long"
  then have "parse_value (Suc (length raw)) (skip_ws raw) = Inl Int_too_long"
    by (auto simp: json_loads_def res_simps split: if_splits)
  from parse_long(1) [OF this] \<open>length raw \<le> 4300\<close> within_length [OF within_skip_ws [of raw]]
  show False by simp
qed

lemma json_loads_mapping:
  assumes "json_loads raw = Inr v" "is_mapping v"
  shows "CHR ''}'' \<in> set raw"
proof -
  from assms(1) obtain t where "parse_value (Suc (length raw)) (skip_ws raw) = Inr (v, t)"
    by (auto simp: json_loads_def res_simps split: if_splits)
  from parse_within(1) [OF this] assms(2) within_set [OF within_skip_ws [of raw]] show ?thesis by auto
qed

subsection \<open>Texts are valid UTF-8\<close>

lemma utf8_ok_append: "utf8_ok s \<Longrightarrow> utf8_ok t \<Longrightarrow> utf8_ok (s @ t)"
proof (induction s rule: utf8_ok.induct)
  case (2 a s)
  then obtain k where k: "cont_count a = Some k" "k \<le> length s" "list_all is_cont (take k s)"
    "k = 0 \<or> first_cont_ok a (hd s)" "utf8_ok (drop k s)"
    by (auto split: option.splits)
  with 2 have "utf8_ok (drop k s @ t)" by blast
  moreover from k have "k = 0 \<or> hd (s @ t) = hd s" by (cases s) auto
  ultimately show ?case using k by auto
qed simp

lemma utf8_ok_ascii: "list_all (\<lambda>c. (of_char c :: nat) < 128) s \<Longrightarrow> utf8_ok s"
  by (induction s) (auto simp: cont_count_def Let_def)

lemma json_char_ascii: "(of_char c :: nat) < 128 \<Longrightarrow> utf8_ok (json_char c)"
  by (rule utf8_ok_ascii) (auto simp: json_char_def Let_def hex_digit_def of_char_of)

lemma json_char_multi: "128 \<le> (of_char c :: nat) \<Longrightarrow> json_char c = [c]"
  by (simp add: json_char_def Let_def)

lemma json_chars_multi: "list_all is_cont s \<Longrightarrow> concat (map json_char s) = s"
  by (induction s) (auto simp: json_char_multi is_cont_def Let_def)

lemma utf8_ok_json_chars: "utf8_ok s \<Longrightarrow> utf8_ok (concat (map json_char s))"
proof (induction s rule: utf8_ok.induct)
  case (2 a s)
  then obtain k where k: "cont_count a = Some k" "k \<le> length s" "list_all is_cont (take k s)"
    "k = 0 \<or> first_cont_ok a (hd s)" "utf8_ok (drop k s)"
    by (auto split: option.splits)
  with 2 have IH: "utf8_ok (concat (map json_char (drop k s)))" by blast
  have s: "concat (map json_char s) = take k s @ concat (map json_char (drop k s))"
    using json_chars_multi [OF k(3)] by (metis append_take_drop_id concat_append map_append)
  show ?case
  proof (cases "k = 0")
    case True
    with k(1) have "(of_char a :: nat) < 128" by (auto simp: cont_count_def Let_def split: if_splits)
    with IH True show ?thesis by (simp add: utf8_ok_append json_char_ascii)
  next
    case False
    with k(1) have "json_char a = [a]"
      by (intro json_char_multi) (auto simp: cont_count_def Let_def split: if_splits)
    moreover have "hd (take k s @ concat (map json_char (drop k s))) = hd s"
      using False k(2) by (cases s) auto
    ultimately show ?thesis using k IH by (simp add: s)
  qed
qed simp

lemma utf8_ok_json_string: "utf8_ok s \<Longrightarrow> utf8_ok (json_string s)"
  by (auto simp: json_string_def cont_count_def intro!: utf8_ok_append utf8_ok_json_chars)

lemma utf8_ok_int_text: "utf8_ok (int_text i)"
  by (rule utf8_ok_ascii)
    (auto simp: int_text_def list_all_iff is_digit_def Let_def dest: nat_text_digits)

lemma utf8_ok_join: "utf8_ok sep \<Longrightarrow> list_all utf8_ok xs \<Longrightarrow> utf8_ok (join sep xs)"
  by (induction sep xs rule: join.induct) (auto intro: utf8_ok_append)

lemma utf8_ok_json_text:
  "plain v \<Longrightarrow> utf8_ok (json_text v)" "plain_list xs \<Longrightarrow> list_all utf8_ok (json_texts xs)"
  "plain_items kvs \<Longrightarrow> list_all utf8_ok (json_items kvs)"
proof (induction v and xs and kvs rule: plain_plain_list_plain_items.induct)
  case (4 xs)
  then show ?case
    by (auto simp: cont_count_def intro!: utf8_ok_append utf8_ok_join)
next
  case (5 kvs)
  then show ?case
    by (auto simp: cont_count_def intro!: utf8_ok_append utf8_ok_join)
next
  case (10 k v kvs)
  then show ?case
    by (auto simp: cont_count_def intro!: utf8_ok_append utf8_ok_json_string)
qed (auto simp: cont_count_def utf8_ok_int_text utf8_ok_json_string)

lemma json_loads_text:
  assumes "plain v"
  shows "json_loads (json_text v) = Inr v"
  using parse_json(1) [OF assms, of "[]" "Suc (length (json_text v))"] utf8_ok_json_text(1) [OF assms]
    skip_ws_json [OF assms, of "[]"]
  by (simp add: json_loads_def skip_ws_def)

subsection \<open>Sorting keys\<close>

lemma sort_keys_items_map: "sort_keys_items kvs = map (\<lambda>kv. (fst kv, sort_keys (snd kv))) kvs"
  by (induction kvs) auto

lemma sort_keys_list_map: "sort_keys_list xs = map sort_keys xs"
  by (induction xs) auto

lemma insort_key_map: "f \<circ> g = f \<Longrightarrow> map g (insort_key f x xs) = insort_key f (g x) (map g xs)"
  by (induction xs) (auto simp: fun_eq_iff)

lemma sort_key_map: "f \<circ> g = f \<Longrightarrow> map g (sort_key f xs) = sort_key f (map g xs)"
  by (induction xs) (auto simp: insort_key_map)

lemma sort_keys_idem: "sort_keys (sort_keys v) = sort_keys v"
proof (induction v)
  case (PDict kvs)
  let ?g = "\<lambda>kv :: string \<times> pv. (fst kv, sort_keys (snd kv))"
  have "map ?g (map ?g kvs) = map ?g kvs"
    using PDict by (force simp: snds.simps)
  then have "map ?g (sort_key fst (map ?g kvs)) = sort_key fst (map ?g kvs)"
    by (subst sort_key_map) (simp add: comp_def, simp only:)
  then show ?case by (simp add: sort_keys_items_map sort_key_id_if_sorted)
qed (auto simp: sort_keys_list_map)

lemma plain_list_iff: "plain_list xs \<longleftrightarrow> (\<forall>x \<in> set xs. plain x)"
  by (induction xs) auto

lemma plain_items_iff:
  "plain_items kvs \<longleftrightarrow> (\<forall>kv \<in> set kvs. utf8_ok (fst kv) \<and> \<not> has_surrogate (fst kv) \<and> plain (snd kv))"
  by (rule dict_keys_zip)

lemma json_ok_list_iff: "json_ok_list xs \<longleftrightarrow> (\<forall>x \<in> set xs. json_ok x)"
  by (induction xs) auto

lemma json_ok_items_iff:
  "json_ok_items kvs \<longleftrightarrow> (\<forall>kv \<in> set kvs. \<not> has_surrogate (fst kv) \<and> json_ok (snd kv))"
  by (induction kvs) auto

lemma plain_sort_keys: "plain v \<Longrightarrow> plain (sort_keys v)"
proof (induction v)
  case (PDict kvs)
  let ?g = "\<lambda>kv :: string \<times> pv. (fst kv, sort_keys (snd kv))"
  have "inj_on fst (set kvs)" "distinct kvs"
    using PDict.prems by (simp_all add: distinct_map)
  then have "distinct (dict_keys (sort_key fst (map ?g kvs)))"
    by (simp add: distinct_map inj_on_def) fastforce
  with PDict show ?case
    by (force simp: sort_keys_items_map plain_items_iff snds.simps)
qed (auto simp: sort_keys_list_map plain_list_iff)

lemma plain_json_ok: "plain v \<Longrightarrow> json_ok v"
  by (induction v) (auto simp: json_ok_list_iff json_ok_items_iff plain_list_iff plain_items_iff snds.simps)

lemma map_of_sort_keys:
  assumes "distinct (dict_keys kvs)"
  shows "map_of (sort_key fst (sort_keys_items kvs)) k = map_option sort_keys (map_of kvs k)"
proof -
  let ?g = "\<lambda>kv :: string \<times> pv. (fst kv, sort_keys (snd kv))"
  have keys: "distinct (dict_keys (map ?g kvs))" using assms by (simp add: comp_def)
  then have "distinct (dict_keys (sort_key fst (map ?g kvs)))"
    by (auto simp: distinct_map inj_on_def)
  then have "map_of (sort_key fst (map ?g kvs)) = map_of (map ?g kvs)"
    using keys by (subst map_of_inject_set) simp_all
  moreover have "map_of (map ?g kvs) k = map_option sort_keys (map_of kvs k)"
    by (induction kvs) auto
  ultimately show ?thesis by (simp add: sort_keys_items_map)
qed

lemma dget_sort_keys:
  "distinct (dict_keys kvs) \<Longrightarrow> dget k (sort_key fst (sort_keys_items kvs)) = sort_keys (dget k kvs)"
  by (cases "map_of kvs k") (simp_all add: dget_def map_of_sort_keys)

lemma py_eq_sorted:
  "plain v \<Longrightarrow> plain w \<Longrightarrow> sort_keys v = sort_keys w \<Longrightarrow> py_eq v w"
proof (induction v arbitrary: w)
  case (PList xs)
  then obtain ys where w: "w = PList ys" by (cases w) auto
  from PList.prems w have "map sort_keys xs = map sort_keys ys" by (simp add: sort_keys_list_map)
  with PList w show ?case
    by (auto simp: py_eqs_iff list_all2_conv_all_nth plain_list_iff dest: map_eq_imp_length_eq)
      (metis length_map nth_map nth_mem)
next
  case (PDict xs)
  then obtain ys where w: "w = PDict ys" by (cases w) auto
  have keys: "distinct (dict_keys xs)" "distinct (dict_keys ys)" using PDict.prems w by auto
  from PDict.prems w have eq: "sort_key fst (sort_keys_items xs) = sort_key fst (sort_keys_items ys)"
    by simp
  then have "length xs = length ys"
    by (metis length_map length_sort sort_keys_items_map)
  moreover have "\<exists>u. map_of ys k = Some u \<and> py_eq v u" if "(k, v) \<in> set xs" for k v
  proof -
    have "map_option sort_keys (map_of xs k) = map_option sort_keys (map_of ys k)"
      using map_of_sort_keys keys eq by metis
    moreover have "map_of xs k = Some v" using that keys(1) by simp
    ultimately obtain u where u: "map_of ys k = Some u" "sort_keys v = sort_keys u"
      by (cases "map_of ys k") auto
    then have "(k, u) \<in> set ys" by (simp add: map_of_SomeD)
    with that PDict.prems w have "plain v" "plain u" by (auto simp: plain_items_iff)
    with that u PDict.IH [of "(k, v)" v u] show ?thesis by (auto simp: snds.simps)
  qed
  ultimately show ?case using w by (auto simp: py_eq_items_iff)
qed (use pv.exhaust in \<open>(case_tac w; simp)+\<close>)

lemma json_dumps_plain: "plain v \<Longrightarrow> json_dumps v = Some (json_text (sort_keys v))"
  by (simp add: json_dumps_def plain_json_ok)


definition sample_value :: pv where
  "sample_value = PDict [(''b'', PInt (- 12)), (''a'', PList [PBool True, PNone, PStr ''x''])]"


end
