(* ===== verification/Sha_256.thy ===== *)
theory Sha_256
  imports Prelude "HOL-Library.Word"
begin

unbundle bit_operations_syntax

text \<open>
  \<open>hashlib.sha256(raw).hexdigest()\<close>, which \<open>provider_outcome_receipt_contract.sha256\<close> wraps:
  the FIPS 180-4 digest on 32-bit words, printed as 64 lower-case hexadecimal digits.  The
  theorems of the development only use the shape of the digest; the definition is concrete so
  that every digest of the model computes.
\<close>

text \<open>
  The constants of the standard, as it defines them: the first 32 bits of the fractional parts of
  the cube roots of the first 64 primes, and of the square roots of the first eight.
\<close>

definition sha_primes :: "nat list" where
  "sha_primes = filter (\<lambda>n. list_all (\<lambda>d. n mod d \<noteq> 0) [2..<n]) [2..<312]"

definition int_root :: "nat \<Rightarrow> int \<Rightarrow> int" where
  "int_root k n = fold (\<lambda>i r. if (r + 2 ^ i) ^ k \<le> n then r + 2 ^ i else r) (rev [0..<37]) 0"

definition root_bits :: "nat \<Rightarrow> nat \<Rightarrow> 32 word" where
  "root_bits k p = word_of_int (int_root k (int p * 2 ^ (32 * k)))"

definition sha_k :: "32 word list" where
  "sha_k = map (root_bits 3) sha_primes"

text \<open>Rotation of a 32-bit word to the right.\<close>

definition sha_rotr :: "nat \<Rightarrow> 32 word \<Rightarrow> 32 word" where
  "sha_rotr n x = drop_bit n x OR push_bit (32 - n) x"

type_synonym sha_state = "32 word list"

definition sha_init :: sha_state where
  "sha_init = map (root_bits 2) [2, 3, 5, 7, 11, 13, 17, 19]"

lemma length_sha_init [simp]: "length sha_init = 8"
  by (simp add: sha_init_def)

text \<open>The message, a one bit, zero bits up to 56 bytes modulo 64, and the length in bits.\<close>

definition sha_pad :: "string \<Rightarrow> 8 word list" where
  "sha_pad s =
     map (\<lambda>c. word_of_int (of_char c)) s @ [0x80] @
     replicate ((119 - length s mod 64) mod 64) 0 @
     map (\<lambda>i. word_of_int (8 * int (length s) div 256 ^ i)) (rev [0..<8])"

fun sha_words :: "8 word list \<Rightarrow> 32 word list" where
  "sha_words (a # b # c # d # rest) =
     (push_bit 24 (ucast a) OR push_bit 16 (ucast b) OR push_bit 8 (ucast c) OR ucast d)
       # sha_words rest"
| "sha_words _ = []"

text \<open>The message schedule, kept newest first: 48 further words after the block's 16.\<close>

definition sha_extend :: "32 word list \<Rightarrow> 32 word list" where
  "sha_extend w =
     (let s0 = (let x = w ! 14 in sha_rotr 7 x XOR sha_rotr 18 x XOR drop_bit 3 x);
          s1 = (let x = w ! 1 in sha_rotr 17 x XOR sha_rotr 19 x XOR drop_bit 10 x)
      in (w ! 15 + s0 + w ! 6 + s1) # w)"

definition sha_schedule :: "32 word list \<Rightarrow> 32 word list" where
  "sha_schedule block = rev ((sha_extend ^^ 48) (rev block))"

definition sha_round :: "32 word \<times> 32 word \<Rightarrow> sha_state \<Rightarrow> sha_state" where
  "sha_round kw s =
     (case s of [a, b, c, d, e, f, g, h] \<Rightarrow>
        let s1 = sha_rotr 6 e XOR sha_rotr 11 e XOR sha_rotr 25 e;
            ch = (e AND f) XOR (NOT e AND g);
            t1 = h + s1 + ch + fst kw + snd kw;
            s0 = sha_rotr 2 a XOR sha_rotr 13 a XOR sha_rotr 22 a;
            maj = (a AND b) XOR (a AND c) XOR (b AND c)
        in [t1 + s0 + maj, a, b, c, d + t1, e, f, g]
      | _ \<Rightarrow> s)"

definition sha_compress :: "32 word list \<Rightarrow> sha_state \<Rightarrow> sha_state" where
  "sha_compress block s =
     map2 (+) s (fold sha_round (zip sha_k (sha_schedule block)) s)"

fun sha_blocks :: "nat \<Rightarrow> 32 word list \<Rightarrow> sha_state \<Rightarrow> sha_state" where
  "sha_blocks 0 ws s = s"
| "sha_blocks (Suc n) ws s = sha_blocks n (drop 16 ws) (sha_compress (take 16 ws) s)"

definition hex_char :: "nat \<Rightarrow> char" where
  "hex_char n = ''0123456789abcdef'' ! n"

definition word_hex :: "32 word \<Rightarrow> string" where
  "word_hex w = map (\<lambda>i. hex_char (nat (uint w div 16 ^ i mod 16))) (rev [0..<8])"

definition sha256 :: "string \<Rightarrow> string" where
  "sha256 s = (let ws = sha_words (sha_pad s)
     in concat (map word_hex (sha_blocks (length ws div 16) ws sha_init)))"

text \<open>A digest is 64 hexadecimal digits.\<close>

lemma length_sha_round [simp]: "length (sha_round kw s) = length s"
  by (simp add: sha_round_def Let_def split: list.split)

lemma length_sha_fold: "length (fold sha_round kws s) = length s"
  by (induction kws arbitrary: s) simp_all

lemma length_sha_compress [simp]: "length (sha_compress block s) = length s"
  by (simp add: sha_compress_def length_sha_fold)

lemma length_sha_blocks: "length (sha_blocks n ws s) = length s"
  by (induction n arbitrary: ws s) simp_all

lemma length_word_hex [simp]: "length (word_hex w) = 8"
  by (simp add: word_hex_def)

lemma length_concat_word_hex: "length (concat (map word_hex ws)) = 8 * length ws"
  by (induction ws) simp_all

lemma length_sha256 [simp]: "length (sha256 s) = 64"
  by (simp add: sha256_def Let_def length_concat_word_hex length_sha_blocks)

lemma sha256_hex: "c \<in> set (sha256 s) \<Longrightarrow> c \<in> set ''0123456789abcdef''"
proof -
  have "hex_char (nat (i mod 16)) \<in> set ''0123456789abcdef''" for i
    unfolding hex_char_def by (rule nth_mem) (simp add: nat_less_iff)
  moreover assume "c \<in> set (sha256 s)"
  ultimately show ?thesis
    unfolding sha256_def Let_def word_hex_def by auto
qed

lemma sha256_not_Nil [simp]: "sha256 s \<noteq> []"
  using length_sha256 [of s] by (metis list.size(3) zero_neq_numeral)

end
