(* ===== verification/Outcome_Contract.thy ===== *)
theory Outcome_Contract
  imports Outcome_Event Canonical_Json Sha_256
begin

text \<open>
  The closed value contract of receipts apart from the events
  (\<open>services/provider_outcome_receipt_contract.py\<close>): canonical encodings, the closed source
  and dependency identities, the reservation with its payload and identifier, the envelope an
  event is journalled in, and the records of a verified journal and of a projection.

  A reservation's fields are Python values, as the class annotations are not enforced and
  \<open>payload\<close> tests each at run time.
\<close>

section \<open>Canonical encodings\<close>

definition canonical_json :: "pv \<Rightarrow> string outcome" where
  "canonical_json v =
     (case json_dumps v of None \<Rightarrow> reject ''non_canonical_value'' | Some raw \<Rightarrow> Inr raw)"

definition max_event_bytes :: nat where "max_event_bytes = 16 * 1024"
definition max_events :: nat where "max_events = 64"

definition reservation_domain :: string where
  "reservation_domain = ''dspx-provider-outcome-reservation-v1'' @ [CHR 0x00]"

section \<open>Closed identities\<close>

definition module_names :: "string list" where
  "module_names =
     [''codex_stream'', ''codex_stream_support'', ''lm'', ''outcome_receipt'',
      ''outcome_receipt_runtime'', ''outcome_receipt_state'', ''outcome_receipt_transport'',
      ''package_init'']"

definition source_identity_fields :: "string list" where
  "source_identity_fields =
     [''owner'', ''version'', ''commit'', ''tree'', ''lock_sha256'', ''module_sha256'']"

text \<open>\<open>isinstance(v, str) and re.fullmatch(r"[0-9a-f]{40}", v)\<close> and the same for \<open>ID_RE\<close>.\<close>

definition is_git_sha :: "pv \<Rightarrow> bool" where
  "is_git_sha v = (is_str v \<and> length (str_of v) = 40 \<and> list_all is_hex_digit (str_of v))"

definition is_bounded_id :: "pv \<Rightarrow> bool" where
  "is_bounded_id v = (is_str v \<and> id_re (str_of v))"

definition closed_source_identity :: "pv \<Rightarrow> (string \<times> pv) list outcome" where
  "closed_source_identity v =
     (let value = dict_of v in
     guardE (\<not> is_mapping v) (Uncaught AttributeError)
    (guardE (set (dict_keys value) \<noteq> set source_identity_fields \<or>
             dget ''owner'' value \<noteq> PStr ''tryinget-dspy-lm-auth'' \<or>
             \<not> is_bounded_id (dget ''version'' value) \<or>
             \<not> is_git_sha (dget ''commit'' value) \<or>
             \<not> is_git_sha (dget ''tree'' value) \<or>
             \<not> is_mapping (dget ''module_sha256'' value) \<or>
             set (dict_keys (dict_of (dget ''module_sha256'' value))) \<noteq> set module_names)
       (Consumer_error ''invalid_source_identity'' False)
    (bindE (mapE (\<lambda>key.
        bindE (check_sha256 (dget key (dict_of (dget ''module_sha256'' value)))
            (''source_module_'' @ key)) (\<lambda>h. Inr (key, PStr h))) module_names) (\<lambda>closed_modules.
     bindE (check_sha256 (dget ''lock_sha256'' value) ''source_lock_sha256'') (\<lambda>lock.
     Inr [(''owner'', dget ''owner'' value), (''version'', dget ''version'' value),
          (''commit'', dget ''commit'' value), (''tree'', dget ''tree'' value),
          (''lock_sha256'', PStr lock), (''module_sha256'', PDict closed_modules)])))))"

definition dependency_names :: "string list" where
  "dependency_names = [''dspy'', ''httpcore'', ''httpx'', ''litellm'']"

definition dependency_fields :: "string list" where
  "dependency_fields =
     [''version'', ''locked_wheel_sha256'', ''payload_count'', ''payload_sha256'',
      ''record_sha256'']"

definition closed_dependency :: "string \<Rightarrow> pv \<Rightarrow> (string \<times> pv) outcome" where
  "closed_dependency key v =
     (let entry = dict_of v in
     guardE (\<not> is_mapping v \<or> set (dict_keys entry) \<noteq> set dependency_fields \<or>
             \<not> is_bounded_id (dget ''version'' entry) \<or>
             bad_int (dget ''payload_count'' entry) (\<lambda>n. 1 \<le> n \<and> n \<le> 100000))
       (Consumer_error ''invalid_dependency_identity'' False)
    (bindE (check_sha256 (dget ''locked_wheel_sha256'' entry) (key @ ''_wheel_sha256'')) (\<lambda>wheel.
     bindE (check_sha256 (dget ''payload_sha256'' entry) (key @ ''_payload_sha256'')) (\<lambda>payload.
     bindE (check_sha256 (dget ''record_sha256'' entry) (key @ ''_record_sha256'')) (\<lambda>rec.
     Inr (key, PDict [(''version'', dget ''version'' entry),
        (''locked_wheel_sha256'', PStr wheel), (''payload_count'', dget ''payload_count'' entry),
        (''payload_sha256'', PStr payload), (''record_sha256'', PStr rec)]))))))"

text \<open>
  \<open>set(value) != dependency_names\<close>, where \<open>value\<close> may be any value: a mapping gives its keys, a
  list its items (which must be hashable), a string its characters; anything else is not
  iterable.  A list of exactly the four names passes this test and fails at \<open>.get\<close>.
\<close>

definition closed_dependency_identity :: "pv \<Rightarrow> (string \<times> pv) list outcome" where
  "closed_dependency_identity v =
     (case v of
        PDict value \<Rightarrow>
          guardE (set (dict_keys value) \<noteq> set dependency_names)
            (Consumer_error ''invalid_dependency_identity'' False)
            (mapE (\<lambda>key. closed_dependency key (dget key value)) dependency_names)
      | PList xs \<Rightarrow>
          guardE (list_ex (\<lambda>x. is_list x \<or> is_mapping x) xs) (Uncaught TypeError)
          (guardE (set xs \<noteq> PStr ` set dependency_names)
            (Consumer_error ''invalid_dependency_identity'' False) (Inl (Uncaught AttributeError)))
      | PStr _ \<Rightarrow> Inl (Consumer_error ''invalid_dependency_identity'' False)
      | _ \<Rightarrow> Inl (Uncaught TypeError))"

section \<open>Reservations\<close>

record receipt_reservation =
  consumer_task_id :: pv
  ledger_sha256 :: pv
  process_id :: pv
  case_id :: pv
  logical_request_id :: pv
  transport_gate_id :: pv
  semantic_request_sha256 :: pv
  contract_sha256 :: pv
  mode :: pv
  requested_route :: pv
  resolved_route :: pv
  endpoint_origin_sha256 :: pv
  source_identity :: pv
  dependency_identity :: pv

text \<open>\<open>mode not in {"sync", "async"}\<close> raises \<open>TypeError\<close> on an unhashable mode.\<close>

definition reservation_payload :: "receipt_reservation \<Rightarrow> (string \<times> pv) list outcome" where
  "reservation_payload r =
     guardE (bad_int (consumer_task_id r) (\<lambda>i. 1 \<le> i))
       (Consumer_error ''invalid_consumer_task_id'' False)
    (bindE (in_frozenset (mode r) [''sync'', ''async'']) (\<lambda>known.
     guardE (\<not> known) (Consumer_error ''invalid_mode'' False)
    (bindE (check_sha256 (ledger_sha256 r) ''ledger_sha256'') (\<lambda>ledger.
     bindE (bounded_id (process_id r) ''process_id'') (\<lambda>process.
     bindE (bounded_id (case_id r) ''case_id'') (\<lambda>cid.
     bindE (bounded_id (logical_request_id r) ''logical_request_id'') (\<lambda>logical.
     bindE (bounded_id (transport_gate_id r) ''transport_gate_id'') (\<lambda>gate.
     bindE (check_sha256 (semantic_request_sha256 r) ''semantic_request_sha256'') (\<lambda>semantic.
     bindE (check_sha256 (contract_sha256 r) ''contract_sha256'') (\<lambda>contract.
     bindE (bounded_id (requested_route r) ''requested_route'') (\<lambda>requested.
     bindE (bounded_id (resolved_route r) ''resolved_route'') (\<lambda>resolved.
     bindE (check_sha256 (endpoint_origin_sha256 r) ''endpoint_origin_sha256'') (\<lambda>origin.
     bindE (closed_source_identity (source_identity r)) (\<lambda>source.
     bindE (closed_dependency_identity (dependency_identity r)) (\<lambda>dependency.
     let payload =
       [(''schema_version'', PStr ''dspx-provider-outcome-reservation-v1''),
        (''consumer_task_id'', consumer_task_id r), (''ledger_sha256'', PStr ledger),
        (''process_id'', PStr process), (''case_id'', PStr cid),
        (''logical_request_id'', PStr logical), (''transport_gate_id'', PStr gate),
        (''semantic_request_sha256'', PStr semantic), (''contract_sha256'', PStr contract),
        (''mode'', mode r), (''requested_route'', PStr requested),
        (''resolved_route'', PStr resolved), (''endpoint_origin_sha256'', PStr origin),
        (''source_identity'', PDict source), (''dependency_identity'', PDict dependency)]
     in bindE (canonical_json (PDict payload)) (\<lambda>raw.
        guardE (max_event_bytes < length raw) (Consumer_error ''reservation_too_large'' False)
          (Inr payload)))))))))))))))))"

definition reservation_id :: "receipt_reservation \<Rightarrow> string outcome" where
  "reservation_id r =
     bindE (reservation_payload r) (\<lambda>p.
     bindE (canonical_json (PDict p)) (\<lambda>raw. Inr (sha256 (reservation_domain @ raw))))"

section \<open>Envelopes\<close>

definition envelope_payload ::
    "string \<Rightarrow> receipt_reservation \<Rightarrow> int \<Rightarrow> string option \<Rightarrow> (string \<times> pv) list
      \<Rightarrow> (string \<times> pv) list outcome" where
  "envelope_payload schema r sequence previous event =
     (let producer = map (\<lambda>k. (k, dget k (dict_of (source_identity r))))
        [''owner'', ''version'', ''commit'', ''tree'']
      in guardE (\<not> is_mapping (source_identity r)) (Uncaught AttributeError)
         (guardE (list_ex (\<lambda>kv. \<not> (is_str (snd kv) \<and> truthy (snd kv))) producer)
          (Consumer_error ''producer_identity_drift'' False)
       (bindE (reservation_id r) (\<lambda>rid.
        bindE (canonical_json (source_identity r)) (\<lambda>src.
        bindE (canonical_json (dependency_identity r)) (\<lambda>dep.
        Inr [(''schema_version'', PStr schema), (''reservation_id'', PStr rid),
             (''sequence'', PInt sequence), (''previous_event_sha256'', pv_of_str previous),
             (''producer'', PDict producer),
             (''source_identity_sha256'', PStr (sha256 src)),
             (''dependency_identity_sha256'', PStr (sha256 dep)),
             (''event'', PDict event)]))))))"

definition event_envelope_payload ::
    "receipt_reservation \<Rightarrow> int \<Rightarrow> string option \<Rightarrow> closed_event \<Rightarrow> (string \<times> pv) list outcome" where
  "event_envelope_payload r sequence previous event =
     envelope_payload ''dspx-provider-outcome-consumption-event-v1'' r sequence previous
       (event_payload event)"

definition soomfon_event_envelope_payload ::
    "receipt_reservation \<Rightarrow> int \<Rightarrow> string option \<Rightarrow> soomfon_event \<Rightarrow> (string \<times> pv) list outcome" where
  "soomfon_event_envelope_payload r sequence previous event =
     envelope_payload ''dspx-soomfon-provider-outcome-consumption-event-v2'' r sequence previous
       (soomfon_event_payload event)"

section \<open>Journals and projections\<close>

record 'e journal_envelope =
  env_sequence :: int
  previous_event_sha256 :: "string option"
  env_event :: 'e
  env_raw :: string
  env_digest :: string

datatype artifact_status = Accepted_exact | Fixture_only

fun artifact_status_name :: "artifact_status \<Rightarrow> string" where
  "artifact_status_name Accepted_exact = ''accepted_exact''"
| "artifact_status_name Fixture_only = ''fixture_only''"

record 'e verified_journal =
  jr_reservation :: receipt_reservation
  jr_events :: "'e journal_envelope list"
  jr_artifact :: artifact_status

datatype disposition = Not_evaluated | Failed | Passed | Error_disposition | Effect_indeterminate

fun disposition_name :: "disposition \<Rightarrow> string" where
  "disposition_name Not_evaluated = ''not_evaluated''"
| "disposition_name Failed = ''failed''"
| "disposition_name Passed = ''passed''"
| "disposition_name Error_disposition = ''error''"
| "disposition_name Effect_indeterminate = ''effect_indeterminate''"

record receipt_projection =
  pr_accepted :: bool
  pr_acknowledged :: "bool option"
  pr_effect_possible :: bool
  pr_terminal :: "event_kind option"
  pr_disposition :: disposition
  pr_reason :: string

record soomfon_projection = receipt_projection +
  pr_status_class :: "int option"
  pr_status_code :: "int option"

text \<open>\<open>ReceiptProjection.payload\<close>: the last three entries are constants of the source.\<close>

definition pv_of_kind :: "event_kind option \<Rightarrow> pv" where
  "pv_of_kind k = (case k of None \<Rightarrow> PNone | Some x \<Rightarrow> PStr (kind_name x))"

definition pv_of_bool :: "bool option \<Rightarrow> pv" where
  "pv_of_bool b = (case b of None \<Rightarrow> PNone | Some x \<Rightarrow> PBool x)"

definition projection_payload :: "receipt_projection \<Rightarrow> (string \<times> pv) list" where
  "projection_payload p =
     [(''schema_version'', PStr ''dspx-provider-outcome-projection-v1''),
      (''provider_outcome_receipt'', PStr (if pr_accepted p then ''accepted'' else ''rejected'')),
      (''request_acknowledged'', pv_of_bool (pr_acknowledged p)),
      (''external_effect_possible'', PBool (pr_effect_possible p)),
      (''producer_terminal'', pv_of_kind (pr_terminal p)),
      (''empirical_disposition'', PStr (disposition_name (pr_disposition p))),
      (''reason'', PStr (pr_reason p)),
      (''fixture_only'', PBool True),
      (''v11_authorized'', PBool False),
      (''live_execution_authorized'', PBool False)]"

definition soomfon_projection_payload :: "soomfon_projection \<Rightarrow> (string \<times> pv) list" where
  "soomfon_projection_payload p =
     [(''schema_version'', PStr ''dspx-soomfon-provider-outcome-projection-v2''),
      (''provider_outcome_receipt'', PStr (if pr_accepted p then ''accepted'' else ''rejected'')),
      (''request_acknowledged'', pv_of_bool (pr_acknowledged p)),
      (''external_effect_possible'', PBool (pr_effect_possible p)),
      (''producer_terminal'', pv_of_kind (pr_terminal p)),
      (''status_class'', pv_of_int (pr_status_class p)),
      (''status_code'', pv_of_int (pr_status_code p)),
      (''empirical_disposition'', PStr (disposition_name (pr_disposition p))),
      (''reason'', PStr (pr_reason p)),
      (''fixture_only'', PBool True),
      (''v11_authorized'', PBool False),
      (''live_execution_authorized'', PBool False)]"

end
