(* ===== verification/Outcome_Reducer.thy ===== *)
theory Outcome_Reducer
  imports Outcome_Contract
begin

text \<open>
  Fail-closed reduction of receipt journals
  (\<open>services/provider_outcome_receipt_reducer.py\<close>).  The loop of \<open>verify_receipt_chain\<close> is a
  fold of \<open>chain_step\<close> over the numbered events; the local variables of the loop are the record
  \<open>chain\<close>, and there is one handler per event kind, in the order of the source's branches.
  The handlers work on every extension of the event and chain records, because the exact-status
  reducer repeats most of them.
\<close>

section \<open>State\<close>

datatype phase = Absent | Wrapper | Gate_one | Retry_gate | Pending | Transport | Response | Terminal

record chain =
  phase :: phase
  return_phase :: "phase option"
  ch_gate :: int
  effect_possible :: bool
  acknowledged :: bool
  response_status :: "int option"
  response_id :: "string option"
  protocol_terminal :: "string option"
  protocol_seen :: "(string \<times> string option) list"
  terminal :: "event_kind option"

definition chain_init :: chain where
  "chain_init = \<lparr>phase = Absent, return_phase = None, ch_gate = 0, effect_possible = False,
     acknowledged = False, response_status = None, response_id = None,
     protocol_terminal = None, protocol_seen = [], terminal = None\<rparr>"

definition terminals :: "event_kind list" where
  "terminals =
     [Pre_transport_failed, Remote_http_error_final, Provider_response_completed,
      Provider_response_failed, Provider_response_incomplete, Outcome_unresolved]"

abbreviation drift :: "string \<Rightarrow> outcome_error" where
  "drift reason \<equiv> Consumer_error reason True"

section \<open>Handlers\<close>

definition on_wrapper :: "nat \<Rightarrow> 'c chain_scheme \<Rightarrow> 'c chain_scheme outcome" where
  "on_wrapper index s =
     guardE (index \<noteq> 0 \<or> phase s \<noteq> Absent)
       (Consumer_error ''wrapper_event_order_drift'' (effect_possible s))
       (Inr (s\<lparr>phase := Wrapper\<rparr>))"

definition on_gate :: "'a closed_event_scheme \<Rightarrow> 'c chain_scheme \<Rightarrow> 'c chain_scheme outcome" where
  "on_gate e s =
     (let ordinal = (case gate_ordinal e of None \<Rightarrow> 0 | Some i \<Rightarrow> i) in
      guardE (ordinal \<noteq> ch_gate s + 1) (drift ''gate_ordinal_drift'')
      (if ordinal = 1 then
         guardE (phase s \<noteq> Wrapper)
           (Consumer_error ''first_gate_order_drift'' (effect_possible s))
           (Inr (s\<lparr>phase := Gate_one, ch_gate := ordinal\<rparr>))
       else
         guardE (\<not> effect_possible s \<or> phase s \<notin> {Pending, Transport, Response})
           (drift ''retry_gate_order_drift'')
           (Inr (s\<lparr>phase := Retry_gate, return_phase := Some (phase s), ch_gate := ordinal\<rparr>))))"

definition on_retry_blocked ::
    "'a closed_event_scheme \<Rightarrow> 'c chain_scheme \<Rightarrow> 'c chain_scheme outcome" where
  "on_retry_blocked e s =
     (case return_phase s of
        None \<Rightarrow> Inl (drift ''retry_block_order_drift'')
      | Some p \<Rightarrow>
          guardE (phase s \<noteq> Retry_gate \<or> gate_ordinal e \<noteq> Some (ch_gate s))
            (drift ''retry_block_order_drift'')
            (Inr (s\<lparr>phase := p, return_phase := None\<rparr>)))"

text \<open>\<open>terminal = kind; phase = "terminal"\<close>.\<close>

definition close_chain :: "event_kind \<Rightarrow> 'c chain_scheme \<Rightarrow> 'c chain_scheme" where
  "close_chain k s = s\<lparr>phase := Terminal, terminal := Some k\<rparr>"

definition on_pre_transport_failed :: "'c chain_scheme \<Rightarrow> 'c chain_scheme outcome" where
  "on_pre_transport_failed s =
     guardE (effect_possible s \<or> phase s \<notin> {Wrapper, Gate_one})
       (drift ''pre_transport_terminal_order_drift'')
       (Inr (close_chain Pre_transport_failed s))"

definition on_effect_pending ::
    "'a closed_event_scheme \<Rightarrow> 'c chain_scheme \<Rightarrow> 'c chain_scheme outcome" where
  "on_effect_pending e s =
     guardE (phase s \<noteq> Gate_one \<or> gate_ordinal e \<noteq> Some 1) (drift ''effect_pending_order_drift'')
       (Inr (s\<lparr>phase := Pending, effect_possible := True\<rparr>))"

definition on_transport_entered ::
    "'a closed_event_scheme \<Rightarrow> 'c chain_scheme \<Rightarrow> 'c chain_scheme outcome" where
  "on_transport_entered e s =
     guardE (phase s \<noteq> Pending \<or> gate_ordinal e \<noteq> Some 1) (drift ''transport_entry_order_drift'')
       (Inr (s\<lparr>phase := Transport\<rparr>))"

definition on_http_response ::
    "'a closed_event_scheme \<Rightarrow> 'c chain_scheme \<Rightarrow> 'c chain_scheme outcome" where
  "on_http_response e s =
     guardE (phase s \<noteq> Transport \<or> gate_ordinal e \<noteq> Some 1) (drift ''http_response_order_drift'')
       (Inr (s\<lparr>phase := Response, acknowledged := True, response_status := status_class e\<rparr>))"

definition failure_terminals :: "string list" where
  "failure_terminals = [''error'', ''response.error'', ''response.failed'', ''response.incomplete'']"

definition protocol_key :: "'a closed_event_scheme \<Rightarrow> string \<times> string option" where
  "protocol_key e =
     (case protocol_event e of None \<Rightarrow> [] | Some p \<Rightarrow> p, response_id_sha256 e)"

text \<open>\<open>x is not None and y is not None and x != y\<close>.\<close>

definition conflict :: "'a option \<Rightarrow> 'a option \<Rightarrow> bool" where
  "conflict x y = (x \<noteq> None \<and> y \<noteq> None \<and> x \<noteq> y)"

definition on_protocol_event ::
    "'a closed_event_scheme \<Rightarrow> 'c chain_scheme \<Rightarrow> 'c chain_scheme outcome" where
  "on_protocol_event e s =
     guardE (phase s \<noteq> Response \<or> \<not> acknowledged s) (drift ''protocol_event_order_drift'')
    (guardE (protocol_key e \<in> set (protocol_seen s)) (drift ''duplicate_protocol_event'')
    (guardE (conflict (response_id_sha256 e) (response_id s))
       (drift ''protocol_response_identity_drift'')
    (guardE (protocol_terminal s \<in> Some ` set failure_terminals \<or>
             protocol_event e = Some ''response.completed'' \<and> protocol_terminal s \<noteq> None \<and>
             protocol_terminal s \<noteq> Some ''response.completed'')
       (drift ''contradictory_protocol_terminal'')
    (let s' = s\<lparr>protocol_seen := protocol_key e # protocol_seen s\<rparr> in
     Inr (if response_id_sha256 e \<noteq> None
          then s'\<lparr>response_id := response_id_sha256 e, protocol_terminal := protocol_event e\<rparr>
          else s')))))"

definition on_remote_http_error ::
    "'a closed_event_scheme \<Rightarrow> 'c chain_scheme \<Rightarrow> 'c chain_scheme outcome" where
  "on_remote_http_error e s =
     guardE (phase s \<noteq> Response \<or> response_status s = None \<or> response_status s = Some 2 \<or>
             status_class e \<noteq> response_status s)
       (drift ''remote_http_terminal_order_drift'')
       (Inr (close_chain Remote_http_error_final s))"

text \<open>The clause shared by the three protocol terminals: the response identity is the retained
  one.\<close>

definition id_mismatch :: "'a closed_event_scheme \<Rightarrow> 'c chain_scheme \<Rightarrow> bool" where
  "id_mismatch e s = (response_id s = None \<or> response_id_sha256 e \<noteq> response_id s)"

definition on_completed ::
    "'a closed_event_scheme \<Rightarrow> 'c chain_scheme \<Rightarrow> 'c chain_scheme outcome" where
  "on_completed e s =
     guardE (phase s \<noteq> Response \<or> response_status s \<noteq> Some 2 \<or>
             status_class e \<noteq> response_status s \<or> id_mismatch e s \<or>
             protocol_terminal s \<noteq> Some ''response.completed'')
       (drift ''provider_completed_terminal_drift'')
       (Inr (close_chain Provider_response_completed s))"

definition failed_allowed :: "'a closed_event_scheme \<Rightarrow> string list" where
  "failed_allowed e =
     [''error'', ''response.error'', ''response.failed''] @
     (if error_class e = Some ''provider_refusal'' then [''response.completed''] else [])"

definition on_failed ::
    "'a closed_event_scheme \<Rightarrow> 'c chain_scheme \<Rightarrow> 'c chain_scheme outcome" where
  "on_failed e s =
     guardE (phase s \<noteq> Response \<or> response_status s = None \<or>
             status_class e \<noteq> response_status s \<or> id_mismatch e s \<or>
             protocol_terminal s \<notin> Some ` set (failed_allowed e))
       (drift ''provider_failed_terminal_drift'')
       (Inr (close_chain Provider_response_failed s))"

definition on_incomplete ::
    "'a closed_event_scheme \<Rightarrow> 'c chain_scheme \<Rightarrow> 'c chain_scheme outcome" where
  "on_incomplete e s =
     guardE (phase s \<noteq> Response \<or> response_status s = None \<or>
             status_class e \<noteq> response_status s \<or> id_mismatch e s \<or>
             protocol_terminal s \<noteq> Some ''response.incomplete'')
       (drift ''provider_incomplete_terminal_drift'')
       (Inr (close_chain Provider_response_incomplete s))"

definition on_unresolved ::
    "'a closed_event_scheme \<Rightarrow> 'c chain_scheme \<Rightarrow> 'c chain_scheme outcome" where
  "on_unresolved e s =
     guardE (\<not> effect_possible s \<or> phase s \<notin> {Pending, Transport, Response})
       (drift ''unresolved_terminal_order_drift'')
    (guardE (conflict (status_class e) (response_status s) \<or>
             conflict (response_id_sha256 e) (response_id s))
       (drift ''unresolved_terminal_binding_drift'')
       (Inr (close_chain Outcome_unresolved s)))"

text \<open>The body of the loop.  The vocabulary is closed, so the source's final
  \<open>unknown_state_transition\<close> has no event to apply to.\<close>

definition chain_step ::
    "nat \<Rightarrow> 'a closed_event_scheme \<Rightarrow> 'c chain_scheme \<Rightarrow> 'c chain_scheme outcome" where
  "chain_step index e s =
     guardE (terminal s \<noteq> None) (Consumer_error ''event_after_terminal'' (effect_possible s))
     (if kind e = Wrapper_request_accepted then on_wrapper index s
      else guardE (phase s = Absent) (drift ''wrapper_event_missing'')
       (case kind e of
          Wrapper_request_accepted \<Rightarrow> on_wrapper index s
        | Transport_gate_entered \<Rightarrow> on_gate e s
        | Retry_blocked_before_transport \<Rightarrow> on_retry_blocked e s
        | Pre_transport_failed \<Rightarrow> on_pre_transport_failed s
        | Transport_effect_pending \<Rightarrow> on_effect_pending e s
        | Transport_entered \<Rightarrow> on_transport_entered e s
        | Http_response_observed \<Rightarrow> on_http_response e s
        | Parsed_protocol_event_observed \<Rightarrow> on_protocol_event e s
        | Remote_http_error_final \<Rightarrow> on_remote_http_error e s
        | Provider_response_completed \<Rightarrow> on_completed e s
        | Provider_response_failed \<Rightarrow> on_failed e s
        | Provider_response_incomplete \<Rightarrow> on_incomplete e s
        | Outcome_unresolved \<Rightarrow> on_unresolved e s))"

section \<open>Verification and reduction\<close>

definition run_chain ::
    "(nat \<Rightarrow> 'e \<Rightarrow> 's \<Rightarrow> 's outcome) \<Rightarrow> 'e list \<Rightarrow> 's \<Rightarrow> 's outcome" where
  "run_chain step es = foldE (\<lambda>(i, e). step i e) (enumerate 0 es)"

record 'e verified_chain =
  vc_journal :: "'e verified_journal"
  vc_terminal :: event_kind
  vc_acknowledged :: bool
  vc_effect_possible :: bool

definition journal_events :: "'e verified_journal \<Rightarrow> 'e list" where
  "journal_events j = map env_event (jr_events j)"

definition verify_receipt_chain ::
    "closed_event verified_journal \<Rightarrow> closed_event verified_chain outcome" where
  "verify_receipt_chain j =
     bindE (run_chain chain_step (journal_events j) chain_init) (\<lambda>s.
       (case terminal s of
          None \<Rightarrow>
            Inl (Consumer_error
              (if effect_possible s then ''effect_capable_chain_open''
               else ''pre_effect_chain_incomplete'') (effect_possible s))
        | Some k \<Rightarrow>
            guardE (kind (last (journal_events j)) \<notin> set terminals)
              (Consumer_error ''terminal_not_last'' (effect_possible s))
              (Inr \<lparr>vc_journal = j, vc_terminal = k, vc_acknowledged = acknowledged s,
                    vc_effect_possible = effect_possible s\<rparr>)))"

record reduced_outcome =
  ro_terminal :: event_kind
  ro_acknowledged :: bool
  ro_effect_possible :: bool
  ro_disposition :: disposition
  ro_reason :: string

text \<open>
  \<open>semantic_outcome\<close> is the string the caller passes; the two dictionaries of the source agree
  in their keys, so one table holds both.
\<close>

definition semantic_table :: "(string \<times> (disposition \<times> string)) list" where
  "semantic_table =
     [(''not_evaluated'', Not_evaluated, ''attributable_completion_not_evaluated''),
      (''semantic_error'', Error_disposition, ''attributable_completion_semantic_error''),
      (''score_miss'', Failed, ''attributable_completion_score_miss''),
      (''score_pass'', Passed, ''attributable_completion_score_pass'')]"

definition terminal_disposition :: "event_kind \<Rightarrow> string \<Rightarrow> (disposition \<times> string) outcome" where
  "terminal_disposition k semantic =
     (if k = Outcome_unresolved then Inr (Effect_indeterminate, ''producer_outcome_unresolved'')
      else if k \<in> {Pre_transport_failed, Remote_http_error_final, Provider_response_failed,
                   Provider_response_incomplete}
      then Inr (Error_disposition, kind_name k)
      else if k = Provider_response_completed then
        (case map_of semantic_table semantic of
           None \<Rightarrow> reject ''unknown_semantic_outcome''
         | Some d \<Rightarrow> Inr d)
      else reject ''unknown_terminal_projection'')"

definition reduce_verified_chain ::
    "'e verified_chain \<Rightarrow> string \<Rightarrow> reduced_outcome outcome" where
  "reduce_verified_chain c semantic =
     bindE (terminal_disposition (vc_terminal c) semantic) (\<lambda>(d, reason).
       Inr \<lparr>ro_terminal = vc_terminal c, ro_acknowledged = vc_acknowledged c,
            ro_effect_possible = vc_effect_possible c, ro_disposition = d, ro_reason = reason\<rparr>)"

definition rejected :: "string \<Rightarrow> bool \<Rightarrow> receipt_projection" where
  "rejected reason effect =
     \<lparr>pr_accepted = False, pr_acknowledged = None, pr_effect_possible = effect,
      pr_terminal = None,
      pr_disposition = (if effect then Effect_indeterminate else Error_disposition),
      pr_reason = reason\<rparr>"

text \<open>
  \<open>try: m except ProviderOutcomeConsumerError as exc: return handler(exc)\<close>: a rejection is
  handled, an exception of the interpreter goes on.
\<close>

definition catch_consumer ::
    "'a outcome \<Rightarrow> (string \<Rightarrow> bool \<Rightarrow> 'b outcome) \<Rightarrow> ('a \<Rightarrow> 'b outcome) \<Rightarrow> 'b outcome" where
  "catch_consumer m handler rest =
     (case m of Inl (Consumer_error reason effect) \<Rightarrow> handler reason effect
      | Inl (Uncaught x) \<Rightarrow> Inl (Uncaught x)
      | Inr a \<Rightarrow> rest a)"

text \<open>
  \<open>loaded\<close> is the result of \<open>load_verified_journal(root)\<close>.  The owner's artifact is
  verified by running \<open>git\<close> and hashing files, so its outcome is an argument: \<open>None\<close> when the
  caller passed no owner source, otherwise what \<open>verify_owner_artifact\<close> returns, the source
  and dependency identities, or its rejection.
\<close>

record owner_identities =
  oi_source :: "(string \<times> pv) list"
  oi_dependency :: "(string \<times> pv) list"

definition check_owner :: "receipt_reservation \<Rightarrow> owner_identities outcome \<Rightarrow> unit outcome" where
  "check_owner r owner =
     bindE owner (\<lambda>oi.
       guardE (\<not> py_eq (source_identity r) (PDict (oi_source oi)) \<or>
               \<not> py_eq (dependency_identity r) (PDict (oi_dependency oi)))
         (Consumer_error ''retained_owner_identity_drift'' False) (Inr ()))"

definition reduce_journal ::
    "closed_event verified_journal outcome \<Rightarrow> owner_identities outcome option \<Rightarrow> string
      \<Rightarrow> receipt_projection outcome" where
  "reduce_journal loaded owner semantic =
     catch_consumer (bindE loaded verify_receipt_chain) (\<lambda>reason effect. Inr (rejected reason effect))
     (\<lambda>c. let effect = vc_effect_possible c; j = vc_journal c in
       if jr_artifact j \<noteq> Accepted_exact then Inr (rejected ''fixture_journal_not_accepted'' effect)
       else (case owner of
         None \<Rightarrow> Inr (rejected ''accepted_owner_artifact_required'' effect)
       | Some o' \<Rightarrow>
           catch_consumer (check_owner (jr_reservation j) o') (\<lambda>reason _. Inr (rejected reason effect))
           (\<lambda>_. bindE (reduce_verified_chain c semantic) (\<lambda>r.
              Inr \<lparr>pr_accepted = True, pr_acknowledged = Some (ro_acknowledged r),
                   pr_effect_possible = ro_effect_possible r, pr_terminal = Some (ro_terminal r),
                   pr_disposition = ro_disposition r, pr_reason = ro_reason r\<rparr>))))"

end
