(* ===== verification/Outcome_Chain.thy ===== *)
theory Outcome_Chain
  imports Outcome_Reducer
begin

text \<open>
  Proofs about the receipt chain.  \<open>event_machine\<close> is the interface of a loop over numbered
  events with an invariant on the events read and the state; \<open>receipt_chain\<close> extends it by the
  invariant \<open>chain_inv\<close> of receipt states, from which the facts about accepted chains follow
  once for both reducers.  The handlers are inverted by \<open>handler_simps\<close>, and \<open>chain_inv\<close> is
  the conjunction of five invariants, each kept by every step.
\<close>


section \<open>Runs of event machines\<close>

locale event_machine =
  fixes step :: "nat \<Rightarrow> 'e \<Rightarrow> 's \<Rightarrow> 's outcome"
    and init :: 's
    and Inv :: "'e list \<Rightarrow> 's \<Rightarrow> bool"
  assumes init_inv: "Inv [] init"
    and step_inv: "step (length es) e s = Inr t \<Longrightarrow> Inv es s \<Longrightarrow> Inv (es @ [e]) t"
begin

lemma run_snoc:
  "run_chain step (es @ [e]) s = bindE (run_chain step es s) (step (length es) e)"
  by (simp add: run_chain_def enumerate_append_eq foldE_append bindE_def split: sum.split)

lemma run_Nil: "run_chain step [] s = Inr s"
  by (simp add: run_chain_def)

lemma run_inv: "run_chain step es init = Inr t \<Longrightarrow> Inv es t"
proof (induction es arbitrary: t rule: rev_induct)
  case Nil
  then show ?case using init_inv by (auto simp: run_Nil)
next
  case (snoc e es)
  then show ?case by (auto simp: run_snoc res_simps intro: step_inv)
qed

text \<open>A run that fails has a longest accepted prefix, which keeps the invariant.\<close>

lemma run_fails:
  assumes "run_chain step es init = Inl err"
  obtains pre e post s where "es = pre @ e # post" "run_chain step pre init = Inr s" "Inv pre s"
    "step (length pre) e s = Inl err"
  using assms
proof (induction es arbitrary: thesis rule: rev_induct)
  case Nil
  then show ?case by (simp add: run_Nil)
next
  case (snoc e es)
  from snoc.prems(2) consider "run_chain step es init = Inl err"
    | s where "run_chain step es init = Inr s" "step (length es) e s = Inl err"
    by (auto simp: run_snoc res_simps)
  then show ?case
  proof cases
    case 1
    then show ?thesis using snoc.IH snoc.prems(1) by (metis append.assoc append_Cons)
  next
    case 2
    then show ?thesis using snoc.prems(1) run_inv by blast
  qed
qed

end

section \<open>Accepting steps\<close>

named_theorems handler_simps "when a handler accepts, and what it then does"

lemma on_wrapper_Inr [handler_simps]:
  "on_wrapper i s = Inr t \<longleftrightarrow> i = 0 \<and> phase s = Absent \<and> t = s\<lparr>phase := Wrapper\<rparr>"
  by (auto simp: on_wrapper_def res_simps)

lemma on_gate_Inr [handler_simps]:
  "on_gate e s = Inr t \<longleftrightarrow>
     (case gate_ordinal e of None \<Rightarrow> 0 | Some i \<Rightarrow> i) = ch_gate s + 1 \<and>
     (ch_gate s = 0 \<and> phase s = Wrapper \<and> t = s\<lparr>phase := Gate_one, ch_gate := 1\<rparr> \<or>
      ch_gate s \<noteq> 0 \<and> effect_possible s \<and> phase s \<in> {Pending, Transport, Response} \<and>
      t = s\<lparr>phase := Retry_gate, return_phase := Some (phase s), ch_gate := ch_gate s + 1\<rparr>)"
  by (auto simp: on_gate_def res_simps Let_def split: if_splits)

lemma on_retry_blocked_Inr [handler_simps]:
  "on_retry_blocked e s = Inr t \<longleftrightarrow> (\<exists>p. return_phase s = Some p \<and> phase s = Retry_gate \<and>
     gate_ordinal e = Some (ch_gate s) \<and> t = s\<lparr>phase := p, return_phase := None\<rparr>)"
  by (auto simp: on_retry_blocked_def res_simps split: option.splits)

lemma on_pre_transport_failed_Inr [handler_simps]:
  "on_pre_transport_failed s = Inr t \<longleftrightarrow> \<not> effect_possible s \<and> phase s \<in> {Wrapper, Gate_one} \<and>
     t = close_chain Pre_transport_failed s"
  by (auto simp: on_pre_transport_failed_def res_simps)

lemma on_effect_pending_Inr [handler_simps]:
  "on_effect_pending e s = Inr t \<longleftrightarrow> phase s = Gate_one \<and> gate_ordinal e = Some 1 \<and>
     t = s\<lparr>phase := Pending, effect_possible := True\<rparr>"
  by (auto simp: on_effect_pending_def res_simps)

lemma on_transport_entered_Inr [handler_simps]:
  "on_transport_entered e s = Inr t \<longleftrightarrow> phase s = Pending \<and> gate_ordinal e = Some 1 \<and>
     t = s\<lparr>phase := Transport\<rparr>"
  by (auto simp: on_transport_entered_def res_simps)

lemma on_http_response_Inr [handler_simps]:
  "on_http_response e s = Inr t \<longleftrightarrow> phase s = Transport \<and> gate_ordinal e = Some 1 \<and>
     t = s\<lparr>phase := Response, acknowledged := True, response_status := status_class e\<rparr>"
  by (auto simp: on_http_response_def res_simps)

lemma on_protocol_event_Inr [handler_simps]:
  "on_protocol_event e s = Inr t \<longleftrightarrow> phase s = Response \<and> acknowledged s \<and>
     protocol_key e \<notin> set (protocol_seen s) \<and> \<not> conflict (response_id_sha256 e) (response_id s) \<and>
     protocol_terminal s \<notin> Some ` set failure_terminals \<and>
     (protocol_event e = Some ''response.completed'' \<longrightarrow>
        protocol_terminal s = None \<or> protocol_terminal s = Some ''response.completed'') \<and>
     t = (let s' = s\<lparr>protocol_seen := protocol_key e # protocol_seen s\<rparr> in
       if response_id_sha256 e \<noteq> None
       then s'\<lparr>response_id := response_id_sha256 e, protocol_terminal := protocol_event e\<rparr>
       else s')"
  unfolding on_protocol_event_def Let_def res_simps by auto

lemma on_remote_http_error_Inr [handler_simps]:
  "on_remote_http_error e s = Inr t \<longleftrightarrow> phase s = Response \<and>
     (\<exists>c. response_status s = Some c \<and> c \<noteq> 2 \<and> status_class e = Some c) \<and>
     t = close_chain Remote_http_error_final s"
  by (auto simp: on_remote_http_error_def res_simps)

lemma id_mismatch_iff [handler_simps]:
  "id_mismatch e s \<longleftrightarrow> \<not> (\<exists>r. response_id s = Some r \<and> response_id_sha256 e = Some r)"
  by (auto simp: id_mismatch_def)

lemma on_completed_Inr [handler_simps]:
  "on_completed e s = Inr t \<longleftrightarrow> phase s = Response \<and> response_status s = Some 2 \<and>
     status_class e = Some 2 \<and> \<not> id_mismatch e s \<and>
     protocol_terminal s = Some ''response.completed'' \<and>
     t = close_chain Provider_response_completed s"
  by (auto simp: on_completed_def res_simps)

lemma on_failed_Inr [handler_simps]:
  "on_failed e s = Inr t \<longleftrightarrow> phase s = Response \<and>
     (\<exists>c. response_status s = Some c \<and> status_class e = Some c) \<and> \<not> id_mismatch e s \<and>
     protocol_terminal s \<in> Some ` set (failed_allowed e) \<and>
     t = close_chain Provider_response_failed s"
  by (auto simp: on_failed_def res_simps)

lemma on_incomplete_Inr [handler_simps]:
  "on_incomplete e s = Inr t \<longleftrightarrow> phase s = Response \<and>
     (\<exists>c. response_status s = Some c \<and> status_class e = Some c) \<and> \<not> id_mismatch e s \<and>
     protocol_terminal s = Some ''response.incomplete'' \<and>
     t = close_chain Provider_response_incomplete s"
  by (auto simp: on_incomplete_def res_simps)

lemma on_unresolved_Inr [handler_simps]:
  "on_unresolved e s = Inr t \<longleftrightarrow> effect_possible s \<and> phase s \<in> {Pending, Transport, Response} \<and>
     \<not> conflict (status_class e) (response_status s) \<and>
     \<not> conflict (response_id_sha256 e) (response_id s) \<and> t = close_chain Outcome_unresolved s"
  by (auto simp: on_unresolved_def res_simps)

text \<open>One step, case by case.\<close>

lemma chain_step_Inr:
  "chain_step i e s = Inr t \<longleftrightarrow> terminal s = None \<and>
    (kind e = Wrapper_request_accepted \<and> on_wrapper i s = Inr t \<or>
     phase s \<noteq> Absent \<and>
      (kind e = Transport_gate_entered \<and> on_gate e s = Inr t \<or>
       kind e = Retry_blocked_before_transport \<and> on_retry_blocked e s = Inr t \<or>
       kind e = Pre_transport_failed \<and> on_pre_transport_failed s = Inr t \<or>
       kind e = Transport_effect_pending \<and> on_effect_pending e s = Inr t \<or>
       kind e = Transport_entered \<and> on_transport_entered e s = Inr t \<or>
       kind e = Http_response_observed \<and> on_http_response e s = Inr t \<or>
       kind e = Parsed_protocol_event_observed \<and> on_protocol_event e s = Inr t \<or>
       kind e = Remote_http_error_final \<and> on_remote_http_error e s = Inr t \<or>
       kind e = Provider_response_completed \<and> on_completed e s = Inr t \<or>
       kind e = Provider_response_failed \<and> on_failed e s = Inr t \<or>
       kind e = Provider_response_incomplete \<and> on_incomplete e s = Inr t \<or>
       kind e = Outcome_unresolved \<and> on_unresolved e s = Inr t))"
  by (cases "kind e") (simp_all add: chain_step_def res_simps)


section \<open>Invariants of the loop\<close>

abbreviation kinds :: "'a closed_event_scheme list \<Rightarrow> event_kind list" where
  "kinds \<equiv> map kind"

text \<open>\<open>real_phase\<close> is the phase the chain returns to when a retry gate is open.\<close>

definition real_phase :: "'c chain_scheme \<Rightarrow> phase" where
  "real_phase s = (case return_phase s of None \<Rightarrow> phase s | Some p \<Rightarrow> p)"

definition order_inv :: "'a closed_event_scheme list \<Rightarrow> 'c chain_scheme \<Rightarrow> bool" where
  "order_inv es s \<longleftrightarrow>
     (phase s = Absent \<longleftrightarrow> es = []) \<and>
     (es \<noteq> [] \<longrightarrow> kind (hd es) = Wrapper_request_accepted \<and>
        Wrapper_request_accepted \<notin> set (tl (kinds es))) \<and>
     (case terminal s of
        None \<Rightarrow> phase s \<noteq> Terminal \<and> set (kinds es) \<inter> set terminals = {}
      | Some k \<Rightarrow> phase s = Terminal \<and> k \<in> set terminals \<and> es \<noteq> [] \<and> kind (last es) = k \<and>
          set (kinds (butlast es)) \<inter> set terminals = {})"

definition phase_inv :: "'c chain_scheme \<Rightarrow> bool" where
  "phase_inv s \<longleftrightarrow>
     (return_phase s = None) \<noteq> (phase s = Retry_gate) \<and>
     (return_phase s \<noteq> None \<longrightarrow> return_phase s \<in> Some ` {Pending, Transport, Response})"

definition effect_inv :: "'a closed_event_scheme list \<Rightarrow> 'c chain_scheme \<Rightarrow> bool" where
  "effect_inv es s \<longleftrightarrow> phase_inv s \<and>
     effect_possible s = (Transport_effect_pending \<in> set (kinds es)) \<and>
     acknowledged s = (Http_response_observed \<in> set (kinds es)) \<and>
     count_list (kinds es) Transport_effect_pending \<le> 1 \<and>
     count_list (kinds es) Http_response_observed \<le> 1 \<and>
     (terminal s = None \<longrightarrow>
        effect_possible s = (real_phase s \<in> {Pending, Transport, Response}) \<and>
        acknowledged s = (real_phase s = Response)) \<and>
     (terminal s \<noteq> None \<longrightarrow> (terminal s = Some Pre_transport_failed) = (\<not> effect_possible s)) \<and>
     (terminal s \<notin> {None, Some Pre_transport_failed, Some Outcome_unresolved} \<longrightarrow> acknowledged s)"

lemmas step_cases = chain_step_Inr handler_simps

text \<open>What a step does to the part of the state the order of events depends on.\<close>

lemma step_phase:
  assumes "chain_step i e s = Inr t"
  shows "terminal s = None"
    and "kind e = Wrapper_request_accepted \<longleftrightarrow> phase s = Absent"
    and "terminal t = (if kind e \<in> set terminals then Some (kind e) else None)"
  using assms unfolding step_cases
  by - (elim conjE disjE exE; simp add: close_chain_def terminals_def Let_def)+

lemma step_phase_next:
  assumes "chain_step i e s = Inr t" "phase_inv s"
  shows "phase t \<noteq> Absent" and "phase t = Terminal \<longleftrightarrow> kind e \<in> set terminals"
  using assms unfolding step_cases phase_inv_def
  by - (elim conjE disjE exE; auto simp add: close_chain_def terminals_def Let_def split: if_splits)+

lemma phase_inv_step:
  "chain_step i e s = Inr t \<Longrightarrow> phase_inv s \<Longrightarrow> phase_inv t"
  unfolding phase_inv_def step_cases
  by (elim conjE disjE exE) (auto simp: close_chain_def Let_def split: if_splits)

lemma effect_inv_step:
  "chain_step (length es) e s = Inr t \<Longrightarrow> effect_inv es s \<Longrightarrow> effect_inv (es @ [e]) t"
  unfolding effect_inv_def phase_inv_def real_phase_def step_cases
  by (elim conjE disjE exE) (auto simp: close_chain_def count_list_0_iff Let_def split: if_splits)

lemma order_inv_step:
  assumes step: "chain_step (length es) e s = Inr t" and inv: "order_inv es s" "phase_inv s"
  shows "order_inv (es @ [e]) t"
proof (cases "es = []")
  case True
  with inv(1) have "phase s = Absent" by (simp add: order_inv_def)
  then have "kind e = Wrapper_request_accepted" using step_phase(2) [OF step] by simp
  then show ?thesis
    using True step_phase(3) [OF step] step_phase_next [OF step inv(2)]
    by (simp add: order_inv_def terminals_def)
next
  case False
  with inv(1) have "phase s \<noteq> Absent" by (simp add: order_inv_def)
  then have "kind e \<noteq> Wrapper_request_accepted" using step_phase(2) [OF step] by simp
  then show ?thesis
    using False inv(1) step_phase(1,3) [OF step] step_phase_next [OF step inv(2)]
    by (auto simp: order_inv_def)
qed

text \<open>\<open>gates_blocked es\<close>: every gate after the first is followed at once by the block of the
  same ordinal; the last event may be an open gate.\<close>

fun gates_blocked :: "'a closed_event_scheme list \<Rightarrow> bool" where
  "gates_blocked (d # e # es) =
     ((kind d = Transport_gate_entered \<and> gate_ordinal d \<noteq> Some 1 \<longrightarrow>
        kind e = Retry_blocked_before_transport \<and> gate_ordinal e = gate_ordinal d) \<and>
      gates_blocked (e # es))"
| "gates_blocked _ = True"

definition gates :: "'a closed_event_scheme list \<Rightarrow> int option list" where
  "gates es = map gate_ordinal (filter (\<lambda>e. kind e = Transport_gate_entered) es)"

text \<open>The ordinals 1, 2, .. up to \<open>n\<close>.\<close>

definition gate_range :: "int \<Rightarrow> int option list" where
  "gate_range n = map (\<lambda>i. Some (int i)) [1..<Suc (nat n)]"

definition gate_inv :: "'a closed_event_scheme list \<Rightarrow> 'c chain_scheme \<Rightarrow> bool" where
  "gate_inv es s \<longleftrightarrow> 0 \<le> ch_gate s \<and>
     gates es = gate_range (ch_gate s) \<and>
     gates_blocked es \<and>
     (phase s = Retry_gate \<longleftrightarrow> es \<noteq> [] \<and> kind (last es) = Transport_gate_entered \<and> gate_ordinal (last es) \<noteq> Some 1) \<and>
     (phase s = Retry_gate \<longrightarrow> gate_ordinal (last es) = Some (ch_gate s))"

lemma gates_blocked_snoc:
  "gates_blocked (es @ [e]) \<longleftrightarrow> gates_blocked es \<and>
     (es \<noteq> [] \<and> kind (last es) = Transport_gate_entered \<and> gate_ordinal (last es) \<noteq> Some 1 \<longrightarrow>
        kind e = Retry_blocked_before_transport \<and> gate_ordinal e = gate_ordinal (last es))"
  by (induction es rule: gates_blocked.induct) auto

lemma gates_snoc:
  "gates (es @ [e]) = gates es @ (if kind e = Transport_gate_entered then [gate_ordinal e] else [])"
  by (simp add: gates_def)

lemma gate_range_Suc [simp]: "0 \<le> n \<Longrightarrow> gate_range (n + 1) = gate_range n @ [Some (n + 1)]"
  by (simp add: gate_range_def nat_add_distrib)

lemma gate_range_base [simp]: "gate_range 0 = []" "gate_range 1 = [Some 1]"
  by (simp_all add: gate_range_def)

lemma gate_inv_step:
  "chain_step (length es) e s = Inr t \<Longrightarrow> gate_inv es s \<Longrightarrow> phase_inv s \<Longrightarrow> gate_inv (es @ [e]) t"
  unfolding gate_inv_def phase_inv_def gates_blocked_snoc gates_snoc step_cases
  by (elim conjE disjE exE) (auto simp: close_chain_def Let_def split: if_splits option.splits)

text \<open>What the retained response status and identity stand for.\<close>

definition binding_inv :: "'a closed_event_scheme list \<Rightarrow> 'c chain_scheme \<Rightarrow> bool" where
  "binding_inv es s \<longleftrightarrow>
     (\<forall>c. response_status s = Some c \<longrightarrow>
        (\<exists>h \<in> set es. kind h = Http_response_observed \<and> status_class h = Some c)) \<and>
     (response_id s \<noteq> None \<longrightarrow>
        (\<exists>p \<in> set es. kind p = Parsed_protocol_event_observed \<and>
           response_id_sha256 p = response_id s \<and> protocol_event p = protocol_terminal s)) \<and>
     (\<forall>p \<in> set es. kind p = Parsed_protocol_event_observed \<and> response_id_sha256 p \<noteq> None \<longrightarrow>
        response_id_sha256 p = response_id s)"

lemma binding_inv_step:
  "chain_step (length es) e s = Inr t \<Longrightarrow> binding_inv es s \<Longrightarrow> binding_inv (es @ [e]) t"
  unfolding binding_inv_def step_cases
  by (elim conjE disjE exE) (auto simp: close_chain_def Let_def conflict_def split: if_splits)

text \<open>What each terminal says of the response it closes.\<close>

definition closes_ok :: "'a closed_event_scheme \<Rightarrow> 'c chain_scheme \<Rightarrow> bool" where
  "closes_ok e s \<longleftrightarrow>
     (kind e = Remote_http_error_final \<longrightarrow>
        (\<exists>c. response_status s = Some c \<and> c \<noteq> 2 \<and> status_class e = Some c)) \<and>
     (kind e \<in> {Provider_response_completed, Provider_response_failed, Provider_response_incomplete} \<longrightarrow>
        response_status s \<noteq> None \<and> status_class e = response_status s \<and>
        response_id s \<noteq> None \<and> response_id_sha256 e = response_id s) \<and>
     (kind e = Provider_response_completed \<longrightarrow>
        response_status s = Some 2 \<and> protocol_terminal s = Some ''response.completed'') \<and>
     (kind e = Provider_response_incomplete \<longrightarrow>
        protocol_terminal s = Some ''response.incomplete'') \<and>
     (kind e = Provider_response_failed \<longrightarrow> protocol_terminal s \<in> Some ` set (failed_allowed e))"

lemma closes_ok_step:
  "chain_step i e s = Inr t \<Longrightarrow> terminal t \<noteq> None \<Longrightarrow> closes_ok e t"
  unfolding closes_ok_def step_cases
  by (elim conjE disjE exE) (auto simp: close_chain_def Let_def split: if_splits)

definition chain_inv :: "'a closed_event_scheme list \<Rightarrow> 'c chain_scheme \<Rightarrow> bool" where
  "chain_inv es s \<longleftrightarrow> order_inv es s \<and> effect_inv es s \<and> gate_inv es s \<and> binding_inv es s \<and>
     (terminal s \<noteq> None \<longrightarrow> closes_ok (last es) s)"

lemma chain_inv_step [inv_intros]:
  assumes "chain_step (length es) e s = Inr t" "chain_inv es s"
  shows "chain_inv (es @ [e]) t"
proof -
  from assms(2) have "phase_inv s" by (simp add: chain_inv_def effect_inv_def)
  with assms show ?thesis
    by (auto simp: chain_inv_def order_inv_step effect_inv_step gate_inv_step binding_inv_step
        closes_ok_step)
qed

lemma chain_inv_init [inv_intros]: "chain_inv [] chain_init"
  by (simp add: chain_inv_def order_inv_def effect_inv_def phase_inv_def gate_inv_def
      binding_inv_def real_phase_def chain_init_def gates_def)

section \<open>Chains that are closed\<close>

locale receipt_chain = event_machine step init Inv
  for step :: "nat \<Rightarrow> 'a closed_event_scheme \<Rightarrow> 'c chain_scheme \<Rightarrow> 'c chain_scheme outcome"
    and init :: "'c chain_scheme" and Inv :: "'a closed_event_scheme list \<Rightarrow> 'c chain_scheme \<Rightarrow> bool" +
  assumes inv_chain: "Inv es s \<Longrightarrow> chain_inv es s"
begin

lemma run_chain_inv: "run_chain step es init = Inr s \<Longrightarrow> chain_inv es s"
  by (intro inv_chain run_inv)

lemma closed_shape:
  assumes "run_chain step es init = Inr s" "terminal s = Some k"
  shows "\<exists>middle. kinds es = [Wrapper_request_accepted] @ middle @ [k] \<and> k \<in> set terminals \<and>
    Wrapper_request_accepted \<notin> set middle \<and> set middle \<inter> set terminals = {}"
proof -
  have "order_inv es s" using run_chain_inv [OF assms(1)] by (simp add: chain_inv_def)
  with assms(2) have order: "es \<noteq> []" "kind (hd es) = Wrapper_request_accepted"
    "Wrapper_request_accepted \<notin> set (tl (kinds es))" "kind (last es) = k" "k \<in> set terminals"
    "set (kinds (butlast es)) \<inter> set terminals = {}"
    by (auto simp: order_inv_def)
  then obtain w rest where es: "es = w # rest" by (cases es) auto
  with order have "rest \<noteq> []" by (auto simp: terminals_def)
  then obtain mid l where "rest = mid @ [l]" by (metis append_butlast_last_id)
  with es order show ?thesis by (intro exI [of _ "kinds mid"]) auto
qed

lemma closed_effect:
  assumes "run_chain step es init = Inr s"
  shows "effect_possible s = (Transport_effect_pending \<in> set (kinds es))"
    and "acknowledged s = (Http_response_observed \<in> set (kinds es))"
    and "count_list (kinds es) Transport_effect_pending \<le> 1"
    and "count_list (kinds es) Http_response_observed \<le> 1"
    and "terminal s \<noteq> None \<Longrightarrow> (terminal s = Some Pre_transport_failed) = (\<not> effect_possible s)"
    and "terminal s \<notin> {None, Some Pre_transport_failed, Some Outcome_unresolved} \<Longrightarrow> acknowledged s"
  using run_chain_inv [OF assms] by (auto simp: chain_inv_def effect_inv_def)

lemma closed_gates:
  assumes "run_chain step es init = Inr s"
  shows "gates es = gate_range (ch_gate s)" and "gates_blocked es"
  using run_chain_inv [OF assms] by (simp_all add: chain_inv_def gate_inv_def)

lemma closed_evidence:
  assumes "run_chain step es init = Inr s"
    and "terminal s \<in> Some ` {Provider_response_completed, Provider_response_failed, Provider_response_incomplete}"
  shows "\<exists>h \<in> set es. kind h = Http_response_observed \<and> status_class h = status_class (last es)"
    and "\<exists>p \<in> set es. kind p = Parsed_protocol_event_observed \<and> protocol_event p = protocol_terminal s \<and>
           response_id_sha256 p = response_id_sha256 (last es)"
    and "\<forall>p \<in> set es. kind p = Parsed_protocol_event_observed \<longrightarrow> response_id_sha256 p \<noteq> None \<longrightarrow>
           response_id_sha256 p = response_id_sha256 (last es)"
    and "response_id_sha256 (last es) \<noteq> None" and "status_class (last es) \<noteq> None"
proof -
  have inv: "order_inv es s" "binding_inv es s" "terminal s \<noteq> None \<longrightarrow> closes_ok (last es) s"
    using run_chain_inv [OF assms(1)] by (simp_all add: chain_inv_def)
  then have k: "terminal s = Some (kind (last es))"
    using assms(2) by (auto simp: order_inv_def)
  have last: "response_status s \<noteq> None" "status_class (last es) = response_status s"
    "response_id s \<noteq> None" "response_id_sha256 (last es) = response_id s"
    using inv(3) k assms(2) by (auto simp: closes_ok_def)
  show "\<exists>h \<in> set es. kind h = Http_response_observed \<and> status_class h = status_class (last es)"
    using inv(2) last by (auto simp: binding_inv_def)
  show "\<exists>p \<in> set es. kind p = Parsed_protocol_event_observed \<and> protocol_event p = protocol_terminal s \<and>
      response_id_sha256 p = response_id_sha256 (last es)"
    using inv(2) last by (auto simp: binding_inv_def)
  show "\<forall>p \<in> set es. kind p = Parsed_protocol_event_observed \<longrightarrow> response_id_sha256 p \<noteq> None \<longrightarrow>
      response_id_sha256 p = response_id_sha256 (last es)"
    using inv(2) last by (auto simp: binding_inv_def)
  show "response_id_sha256 (last es) \<noteq> None" "status_class (last es) \<noteq> None"
    using last by simp_all
qed

lemma closed_completed:
  assumes "run_chain step es init = Inr s" "terminal s = Some Provider_response_completed"
  shows "protocol_terminal s = Some ''response.completed''" "status_class (last es) = Some 2"
proof -
  have "closes_ok (last es) s" "kind (last es) = Provider_response_completed"
    using run_chain_inv [OF assms(1)] assms(2) by (auto simp: chain_inv_def order_inv_def)
  then show "protocol_terminal s = Some ''response.completed''" "status_class (last es) = Some 2"
    by (auto simp: closes_ok_def)
qed

end

interpretation receipts: receipt_chain chain_step chain_init chain_inv
  by unfold_locales (auto intro: inv_intros)

lemma verify_receipt_chain_Inr:
  "verify_receipt_chain j = Inr c \<longleftrightarrow>
     (\<exists>s k. run_chain chain_step (journal_events j) chain_init = Inr s \<and> terminal s = Some k \<and>
        kind (last (journal_events j)) \<in> set terminals \<and>
        c = \<lparr>vc_journal = j, vc_terminal = k, vc_acknowledged = acknowledged s,
             vc_effect_possible = effect_possible s\<rparr>)"
  by (auto simp: verify_receipt_chain_def res_simps split: option.splits)

lemma accepted_chain:
  assumes "verify_receipt_chain j = Inr c"
  obtains s :: chain where "run_chain chain_step (journal_events j) chain_init = Inr s"
    "terminal s = Some (vc_terminal c)" "vc_acknowledged c = acknowledged s"
    "vc_effect_possible c = effect_possible s" "vc_journal c = j"
  using assms unfolding verify_receipt_chain_Inr by fastforce

text \<open>When a step is refused with the claim that no effect is possible.\<close>

lemmas handler_defs = on_wrapper_def on_gate_def on_retry_blocked_def on_pre_transport_failed_def
  on_effect_pending_def on_transport_entered_def on_http_response_def on_protocol_event_def
  on_remote_http_error_def on_completed_def on_failed_def on_incomplete_def on_unresolved_def

lemma chain_step_no_effect:
  assumes "chain_step i e s = Inl (Consumer_error reason False)"
  shows "\<not> effect_possible s \<and>
    (terminal s \<noteq> None \<or> kind e \<in> {Wrapper_request_accepted, Transport_gate_entered})"
  using assms unfolding chain_step_def
  by (cases "kind e")
    (auto simp only: handler_defs guardE_Inl_iff event_kind.simps outcome_error.inject simp_thms
      if_True if_False Let_def insert_iff split: if_splits option.splits)

lemma chain_step_caught: "chain_step i e s \<noteq> Inl (Uncaught x)"
  unfolding chain_step_def
  by (cases "kind e")
    (auto simp: handler_defs guardE_Inl_iff Let_def split: option.split)

section \<open>Properties of the reducer\<close>

text \<open>A journal around given events, for the concrete instances below; the reducer reads only the
  events, the artifact status and the retained identities.\<close>

definition sample_reservation :: receipt_reservation where
  "sample_reservation =
     \<lparr>consumer_task_id = PInt 1, ledger_sha256 = PStr [], process_id = PStr ''p'',
      case_id = PStr ''c'', logical_request_id = PStr ''l'', transport_gate_id = PStr ''g'',
      semantic_request_sha256 = PStr [], contract_sha256 = PStr [], mode = PStr ''sync'',
      requested_route = PStr ''r'', resolved_route = PStr ''r'', endpoint_origin_sha256 = PStr [],
      source_identity = PDict [], dependency_identity = PDict []\<rparr>"

definition sample_journal :: "'e list \<Rightarrow> 'e verified_journal" where
  "sample_journal es =
     \<lparr>jr_reservation = sample_reservation,
      jr_events = map (\<lambda>e. \<lparr>env_sequence = 0, previous_event_sha256 = None, env_event = e,
        env_raw = [], env_digest = []\<rparr>) es,
      jr_artifact = Accepted_exact\<rparr>"

definition plain_event :: "event_kind \<Rightarrow> closed_event" where
  "plain_event k = \<lparr>kind = k, gate_ordinal = None, status_class = None, error_class = None,
     protocol_event = None, response_id_sha256 = None, observed_model = None\<rparr>"

definition gate_event :: "event_kind \<Rightarrow> int \<Rightarrow> closed_event" where
  "gate_event k n = (plain_event k)\<lparr>gate_ordinal := Some n\<rparr>"

definition sample_id :: string where "sample_id = replicate 64 CHR ''a''"

definition completed_events :: "closed_event list" where
  "completed_events =
     [plain_event Wrapper_request_accepted, gate_event Transport_gate_entered 1,
      gate_event Transport_effect_pending 1, gate_event Transport_entered 1,
      gate_event Transport_gate_entered 2,
      (gate_event Retry_blocked_before_transport 2)\<lparr>error_class := Some ''retry_blocked''\<rparr>,
      (gate_event Http_response_observed 1)\<lparr>status_class := Some 2\<rparr>,
      (plain_event Parsed_protocol_event_observed)\<lparr>protocol_event := Some ''response.completed'',
         response_id_sha256 := Some sample_id\<rparr>,
      (plain_event Provider_response_completed)\<lparr>status_class := Some 2,
         response_id_sha256 := Some sample_id\<rparr>]"

lemma journal_events_sample [simp]: "journal_events (sample_journal es) = es"
  by (simp add: journal_events_def sample_journal_def comp_def)

lemmas run_simps = run_chain_def enumerate_eq_zip chain_step_def handler_defs chain_init_def close_chain_def
  Let_def protocol_key_def conflict_def failure_terminals_def id_mismatch_def failed_allowed_def
  plain_event_def gate_event_def upt_rec

lemma completed_accepted:
  "verify_receipt_chain (sample_journal completed_events) =
     Inr \<lparr>vc_journal = sample_journal completed_events, vc_terminal = Provider_response_completed,
          vc_acknowledged = True, vc_effect_possible = True\<rparr>"
  by (simp add: verify_receipt_chain_def completed_events_def run_simps terminals_def)

text \<open>C1: an accepted journal starts with the wrapper's acceptance, which occurs nowhere else, and
  ends with the one terminal event, which is the terminal the chain reports.\<close>

theorem accepted_chain_shape:
  assumes "verify_receipt_chain j = Inr c"
  shows "\<exists>middle. kinds (journal_events j) = [Wrapper_request_accepted] @ middle @ [vc_terminal c] \<and>
    vc_terminal c \<in> set terminals \<and> Wrapper_request_accepted \<notin> set middle \<and>
    set middle \<inter> set terminals = {}"
  using assms by (elim accepted_chain) (rule receipts.closed_shape)

theorem accepted_chain_shape_witness:
  "\<exists>middle. kinds completed_events =
     [Wrapper_request_accepted] @ middle @ [Provider_response_completed]"
  using accepted_chain_shape [OF completed_accepted]
  by (simp only: journal_events_sample verified_chain.simps) blast

text \<open>C2: an accepted chain reports an external effect exactly when the journal holds the pending
  effect, which it holds at most once, and reports none exactly when the request failed before
  transport; the request is acknowledged exactly when an HTTP response was observed, which every
  terminal that speaks of the provider requires.\<close>

theorem accepted_chain_effect:
  assumes "verify_receipt_chain j = Inr c"
  shows "vc_effect_possible c = (Transport_effect_pending \<in> set (kinds (journal_events j))) \<and>
    count_list (kinds (journal_events j)) Transport_effect_pending \<le> 1 \<and>
    (vc_terminal c = Pre_transport_failed) = (\<not> vc_effect_possible c) \<and>
    vc_acknowledged c = (Http_response_observed \<in> set (kinds (journal_events j))) \<and>
    (vc_terminal c \<in> {Pre_transport_failed, Outcome_unresolved} \<or> vc_acknowledged c)"
proof -
  from assms obtain s :: chain where s: "run_chain chain_step (journal_events j) chain_init = Inr s"
    "terminal s = Some (vc_terminal c)" "vc_acknowledged c = acknowledged s"
    "vc_effect_possible c = effect_possible s"
    by (rule accepted_chain)
  from receipts.closed_effect [OF s(1)] s(2-) show ?thesis by auto
qed

theorem accepted_chain_effect_witness:
  "\<exists>c. verify_receipt_chain (sample_journal completed_events) = Inr c \<and> vc_effect_possible c \<and>
     vc_acknowledged c \<and> Transport_effect_pending \<in> set (kinds completed_events)"
  using accepted_chain_effect [OF completed_accepted] completed_accepted by simp

text \<open>C8: in an accepted chain the transport gates are numbered 1, 2, .. in order, and every gate
  after the first, an attempt to retry, is followed at once by the event that blocks it.\<close>

theorem accepted_chain_gates:
  assumes "verify_receipt_chain j = Inr c"
  shows "\<exists>n. gates (journal_events j) = gate_range n \<and> gates_blocked (journal_events j)"
  using assms receipts.closed_gates by (elim accepted_chain) blast

theorem accepted_chain_gates_witness: "\<exists>n. gates completed_events = gate_range n"
  using accepted_chain_gates [OF completed_accepted] by auto

text \<open>C3: a chain accepted as completed holds the evidence: an HTTP response of the success class, a
  parsed \<open>response.completed\<close> event with the identity the terminal names, and no parsed event
  that names another response.\<close>

theorem completed_chain_evidence:
  assumes "verify_receipt_chain j = Inr c" "vc_terminal c = Provider_response_completed"
  shows "(\<exists>h \<in> set (journal_events j). kind h = Http_response_observed \<and> status_class h = Some 2) \<and>
    (\<exists>p \<in> set (journal_events j). kind p = Parsed_protocol_event_observed \<and>
       protocol_event p = Some ''response.completed'' \<and>
       response_id_sha256 p = response_id_sha256 (last (journal_events j))) \<and>
    response_id_sha256 (last (journal_events j)) \<noteq> None \<and>
    (\<forall>p \<in> set (journal_events j). kind p = Parsed_protocol_event_observed \<longrightarrow>
       response_id_sha256 p \<noteq> None \<longrightarrow>
       response_id_sha256 p = response_id_sha256 (last (journal_events j)))"
proof -
  from assms(1) obtain s :: chain where run: "run_chain chain_step (journal_events j) chain_init = Inr s"
    and t: "terminal s = Some (vc_terminal c)"
    by (rule accepted_chain)
  with assms(2) have k: "terminal s = Some Provider_response_completed" by simp
  then have "terminal s \<in> Some ` {Provider_response_completed, Provider_response_failed,
      Provider_response_incomplete}" by simp
  note evidence = receipts.closed_evidence [OF run this] receipts.closed_completed [OF run k]
  then show ?thesis by auto
qed

theorem completed_chain_evidence_witness:
  "\<exists>p \<in> set completed_events. protocol_event p = Some ''response.completed'' \<and>
     response_id_sha256 p = Some sample_id"
  using completed_chain_evidence [OF completed_accepted]
  by (auto simp: completed_events_def)




section \<open>Verdicts\<close>

lemma accepted_chain_terminal:
  assumes "verify_receipt_chain j = Inr c"
  shows "vc_terminal c \<in> set terminals"
    "(vc_terminal c = Pre_transport_failed) = (\<not> vc_effect_possible c)"
  using assms receipts.closed_shape receipts.closed_effect(5)
  by (elim accepted_chain; fastforce)+

lemma reduce_journal_accepted:
  assumes "reduce_journal loaded owner semantic = Inr p" "pr_accepted p"
  obtains j c oi d reason where "loaded = Inr j" "verify_receipt_chain j = Inr c"
    "jr_artifact j = Accepted_exact" "owner = Some (Inr oi)"
    "py_eq (source_identity (jr_reservation j)) (PDict (oi_source oi))"
    "py_eq (dependency_identity (jr_reservation j)) (PDict (oi_dependency oi))"
    "terminal_disposition (vc_terminal c) semantic = Inr (d, reason)"
    "p = \<lparr>pr_accepted = True, pr_acknowledged = Some (vc_acknowledged c),
          pr_effect_possible = vc_effect_possible c, pr_terminal = Some (vc_terminal c),
          pr_disposition = d, pr_reason = reason\<rparr>"
proof -
  obtain j c where j: "loaded = Inr j" "verify_receipt_chain j = Inr c"
    using assms by (cases loaded; cases "bindE loaded verify_receipt_chain")
      (auto simp: reduce_journal_def catch_consumer_def rejected_def split: outcome_error.splits)
  have c: "vc_journal c = j" using j(2) by (rule accepted_chain)
  have a: "jr_artifact j = Accepted_exact"
    using assms j c by (auto simp: reduce_journal_def catch_consumer_def rejected_def Let_def split: if_splits)
  obtain o' where o': "owner = Some o'"
    using assms j c a by (cases owner) (auto simp: reduce_journal_def catch_consumer_def rejected_def Let_def)
  have "check_owner (jr_reservation j) o' = Inr ()"
    using assms j c a o' by (cases "check_owner (jr_reservation j) o'")
      (auto simp: reduce_journal_def catch_consumer_def rejected_def Let_def split: outcome_error.splits)
  then obtain oi where oi: "o' = Inr oi"
    "py_eq (source_identity (jr_reservation j)) (PDict (oi_source oi))"
    "py_eq (dependency_identity (jr_reservation j)) (PDict (oi_dependency oi))"
    unfolding check_owner_def res_simps by blast
  obtain d reason where d: "terminal_disposition (vc_terminal c) semantic = Inr (d, reason)"
    using assms j c a o' oi by (cases "terminal_disposition (vc_terminal c) semantic")
      (auto simp: reduce_journal_def catch_consumer_def Let_def reduce_verified_chain_def check_owner_def)
  show ?thesis
    by (rule that [OF j a _ oi(2,3) d])
      (use assms(1) j c a o' oi d in \<open>simp_all add: reduce_journal_def catch_consumer_def Let_def
          reduce_verified_chain_def check_owner_def\<close>)
qed

lemma reduce_journal_rejected:
  assumes "reduce_journal loaded owner semantic = Inr p" "\<not> pr_accepted p"
  shows "p = rejected (pr_reason p) (pr_effect_possible p)"
  using assms
  by (auto simp: reduce_journal_def catch_consumer_def Let_def res_simps rejected_def
      split: sum.splits outcome_error.splits if_splits option.splits)

text \<open>C10: a journal is accepted only when it was loaded and verified, its reservation was made under
  an accepted artifact, and the retained identities are those of the owner artifact verified
  now; the projection then repeats the chain's facts.\<close>

theorem accepted_projection_sound:
  assumes "reduce_journal loaded owner semantic = Inr p" "pr_accepted p"
  shows "\<exists>j c oi. loaded = Inr j \<and> verify_receipt_chain j = Inr c \<and>
    jr_artifact j = Accepted_exact \<and> owner = Some (Inr oi) \<and>
    py_eq (source_identity (jr_reservation j)) (PDict (oi_source oi)) \<and>
    py_eq (dependency_identity (jr_reservation j)) (PDict (oi_dependency oi)) \<and>
    pr_terminal p = Some (vc_terminal c) \<and> pr_effect_possible p = vc_effect_possible c \<and>
    pr_acknowledged p = Some (vc_acknowledged c)"
  using assms by (elim reduce_journal_accepted) auto

definition sample_owner :: "owner_identities outcome option" where
  "sample_owner = Some (Inr \<lparr>oi_source = [], oi_dependency = []\<rparr>)"

lemma completed_projection:
  "reduce_journal (Inr (sample_journal completed_events)) sample_owner ''score_pass'' =
     Inr \<lparr>pr_accepted = True, pr_acknowledged = Some True, pr_effect_possible = True,
          pr_terminal = Some Provider_response_completed, pr_disposition = Passed,
          pr_reason = ''attributable_completion_score_pass''\<rparr>"
  by (simp add: reduce_journal_def completed_accepted catch_consumer_def sample_owner_def
      check_owner_def reduce_verified_chain_def terminal_disposition_def semantic_table_def)
    (simp add: sample_journal_def sample_reservation_def catch_consumer_def check_owner_def
      reduce_verified_chain_def terminal_disposition_def semantic_table_def)

theorem accepted_projection_sound_witness:
  "\<exists>c. verify_receipt_chain (sample_journal completed_events) = Inr c \<and>
     Some Provider_response_completed = Some (vc_terminal c)"
  using accepted_projection_sound [OF completed_projection] by auto



end
