(* ===== verification/Soomfon_Reducer.thy ===== *)
theory Soomfon_Reducer
  imports Outcome_Chain
begin

text \<open>
  The exact-status reducer (\<open>services/soomfon_provider_outcome_receipt_reducer.py\<close>).  Its loop
  keeps one more variable, the status code of the response; six handlers differ from the base
  reducer's and the others are the base handlers on the extended state.  The refinement shown
  below is that forgetting the codes turns every run it accepts into a run of the base reducer.
\<close>

record soomfon_chain = chain +
  response_status_code :: "int option"

definition soomfon_init :: soomfon_chain where
  "soomfon_init = chain.extend chain_init \<lparr>response_status_code = None\<rparr>"

definition code_mismatch :: "soomfon_event \<Rightarrow> soomfon_chain \<Rightarrow> bool" where
  "code_mismatch e s = (status_code e \<noteq> response_status_code s)"

definition soomfon_http_response :: "soomfon_event \<Rightarrow> soomfon_chain \<Rightarrow> soomfon_chain outcome" where
  "soomfon_http_response e s =
     guardE (phase s \<noteq> Transport \<or> gate_ordinal e \<noteq> Some 1) (drift ''http_response_order_drift'')
       (Inr (s\<lparr>phase := Response, acknowledged := True, response_status := status_class e,
               response_status_code := status_code e\<rparr>))"

definition soomfon_remote_http_error ::
    "soomfon_event \<Rightarrow> soomfon_chain \<Rightarrow> soomfon_chain outcome" where
  "soomfon_remote_http_error e s =
     guardE (phase s \<noteq> Response \<or> response_status s = None \<or> response_status s = Some 2 \<or>
             status_class e \<noteq> response_status s \<or> code_mismatch e s)
       (drift ''remote_http_terminal_order_drift'')
       (Inr (close_chain Remote_http_error_final s))"

definition soomfon_completed :: "soomfon_event \<Rightarrow> soomfon_chain \<Rightarrow> soomfon_chain outcome" where
  "soomfon_completed e s =
     guardE (phase s \<noteq> Response \<or> response_status s \<noteq> Some 2 \<or>
             status_class e \<noteq> response_status s \<or> code_mismatch e s \<or> id_mismatch e s \<or>
             protocol_terminal s \<noteq> Some ''response.completed'')
       (drift ''provider_completed_terminal_drift'')
       (Inr (close_chain Provider_response_completed s))"

definition soomfon_failed :: "soomfon_event \<Rightarrow> soomfon_chain \<Rightarrow> soomfon_chain outcome" where
  "soomfon_failed e s =
     guardE (phase s \<noteq> Response \<or> response_status s = None \<or>
             status_class e \<noteq> response_status s \<or> code_mismatch e s \<or> id_mismatch e s \<or>
             protocol_terminal s \<notin> Some ` set (failed_allowed e))
       (drift ''provider_failed_terminal_drift'')
       (Inr (close_chain Provider_response_failed s))"

definition soomfon_incomplete :: "soomfon_event \<Rightarrow> soomfon_chain \<Rightarrow> soomfon_chain outcome" where
  "soomfon_incomplete e s =
     guardE (phase s \<noteq> Response \<or> response_status s = None \<or>
             status_class e \<noteq> response_status s \<or> code_mismatch e s \<or> id_mismatch e s \<or>
             protocol_terminal s \<noteq> Some ''response.incomplete'')
       (drift ''provider_incomplete_terminal_drift'')
       (Inr (close_chain Provider_response_incomplete s))"

definition soomfon_unresolved :: "soomfon_event \<Rightarrow> soomfon_chain \<Rightarrow> soomfon_chain outcome" where
  "soomfon_unresolved e s =
     guardE (\<not> effect_possible s \<or> phase s \<notin> {Pending, Transport, Response})
       (drift ''unresolved_terminal_order_drift'')
    (guardE (status_class e \<noteq> None \<and> response_status s \<noteq> None \<and>
               (status_class e \<noteq> response_status s \<or> code_mismatch e s) \<or>
             conflict (response_id_sha256 e) (response_id s))
       (drift ''unresolved_terminal_binding_drift'')
       (Inr (close_chain Outcome_unresolved s)))"

definition soomfon_step :: "nat \<Rightarrow> soomfon_event \<Rightarrow> soomfon_chain \<Rightarrow> soomfon_chain outcome" where
  "soomfon_step index e s =
     guardE (terminal s \<noteq> None) (Consumer_error ''event_after_terminal'' (effect_possible s))
     (if kind e = Wrapper_request_accepted then on_wrapper index s
      else guardE (phase s = Absent) (drift ''wrapper_event_missing'')
       (case kind e of
          Wrapper_request_accepted \<Rightarrow> on_wrapper index s
        | Transport_gate_entered \<Rightarrow> on_gate e s
        | Retry_blocked_before_transport \<Rightarrow> on_retry_blocked e s
        | Pre_transport_failed \<Rightarrow> on_pre_transport_failed s
        | Transport_effect_pending \<Rightarrow> on_effect_pending e s
        | Transport_entered \<Rightarrow> on_transport_entered e s
        | Http_response_observed \<Rightarrow> soomfon_http_response e s
        | Parsed_protocol_event_observed \<Rightarrow> on_protocol_event e s
        | Remote_http_error_final \<Rightarrow> soomfon_remote_http_error e s
        | Provider_response_completed \<Rightarrow> soomfon_completed e s
        | Provider_response_failed \<Rightarrow> soomfon_failed e s
        | Provider_response_incomplete \<Rightarrow> soomfon_incomplete e s
        | Outcome_unresolved \<Rightarrow> soomfon_unresolved e s))"

record soomfon_verified_chain = "soomfon_event verified_chain" +
  vc_status_class :: "int option"
  vc_status_code :: "int option"

definition soomfon_verify_receipt_chain ::
    "soomfon_event verified_journal \<Rightarrow> soomfon_verified_chain outcome" where
  "soomfon_verify_receipt_chain j =
     bindE (run_chain soomfon_step (journal_events j) soomfon_init) (\<lambda>s.
       (case terminal s of
          None \<Rightarrow>
            Inl (Consumer_error
              (if effect_possible s then ''effect_capable_chain_open''
               else ''pre_effect_chain_incomplete'') (effect_possible s))
        | Some k \<Rightarrow>
            guardE (kind (last (journal_events j)) \<notin> set terminals)
              (Consumer_error ''terminal_not_last'' (effect_possible s))
              (Inr \<lparr>vc_journal = j, vc_terminal = k, vc_acknowledged = acknowledged s,
                    vc_effect_possible = effect_possible s,
                    vc_status_class = response_status s,
                    vc_status_code = response_status_code s\<rparr>)))"

record soomfon_reduced_outcome = reduced_outcome +
  ro_status_class :: "int option"
  ro_status_code :: "int option"

definition soomfon_reduce_verified_chain ::
    "soomfon_verified_chain \<Rightarrow> string \<Rightarrow> soomfon_reduced_outcome outcome" where
  "soomfon_reduce_verified_chain c semantic =
     bindE (terminal_disposition (vc_terminal c) semantic) (\<lambda>(d, reason).
       Inr \<lparr>ro_terminal = vc_terminal c, ro_acknowledged = vc_acknowledged c,
            ro_effect_possible = vc_effect_possible c, ro_disposition = d, ro_reason = reason,
            ro_status_class = vc_status_class c, ro_status_code = vc_status_code c\<rparr>)"

definition soomfon_rejected :: "string \<Rightarrow> bool \<Rightarrow> soomfon_projection" where
  "soomfon_rejected reason effect =
     \<lparr>pr_accepted = False, pr_acknowledged = None, pr_effect_possible = effect,
      pr_terminal = None,
      pr_disposition = (if effect then Effect_indeterminate else Error_disposition),
      pr_reason = reason, pr_status_class = None, pr_status_code = None\<rparr>"

definition soomfon_reduce_journal ::
    "soomfon_event verified_journal outcome \<Rightarrow> owner_identities outcome option \<Rightarrow> string
      \<Rightarrow> soomfon_projection outcome" where
  "soomfon_reduce_journal loaded owner semantic =
     catch_consumer (bindE loaded soomfon_verify_receipt_chain)
     (\<lambda>reason effect. Inr (soomfon_rejected reason effect))
     (\<lambda>c. let effect = vc_effect_possible c; j = vc_journal c in
       if jr_artifact j \<noteq> Accepted_exact
       then Inr (soomfon_rejected ''fixture_journal_not_accepted'' effect)
       else (case owner of
         None \<Rightarrow> Inr (soomfon_rejected ''accepted_owner_artifact_required'' effect)
       | Some o' \<Rightarrow>
           catch_consumer (check_owner (jr_reservation j) o')
           (\<lambda>reason _. Inr (soomfon_rejected reason effect))
           (\<lambda>_. bindE (soomfon_reduce_verified_chain c semantic) (\<lambda>r.
              Inr \<lparr>pr_accepted = True, pr_acknowledged = Some (ro_acknowledged r),
                   pr_effect_possible = ro_effect_possible r, pr_terminal = Some (ro_terminal r),
                   pr_disposition = ro_disposition r, pr_reason = ro_reason r,
                   pr_status_class =
                     (if ro_status_code r \<noteq> None then ro_status_class r else None),
                   pr_status_code = ro_status_code r\<rparr>))))"

section \<open>Refinement of the base reducer\<close>

lemma soomfon_http_response_Inr [handler_simps]:
  "soomfon_http_response e s = Inr t \<longleftrightarrow> (\<exists>u. on_http_response e s = Inr u \<and>
     t = u\<lparr>response_status_code := status_code e\<rparr>)"
  by (auto simp: soomfon_http_response_def on_http_response_def res_simps)

lemma soomfon_remote_http_error_Inr:
  "soomfon_remote_http_error e s = Inr t \<longleftrightarrow> on_remote_http_error e s = Inr t \<and> \<not> code_mismatch e s"
  by (auto simp: soomfon_remote_http_error_def on_remote_http_error_def res_simps)

lemma soomfon_completed_Inr:
  "soomfon_completed e s = Inr t \<longleftrightarrow> on_completed e s = Inr t \<and> \<not> code_mismatch e s"
  by (auto simp: soomfon_completed_def on_completed_def res_simps)

lemma soomfon_failed_Inr:
  "soomfon_failed e s = Inr t \<longleftrightarrow> on_failed e s = Inr t \<and> \<not> code_mismatch e s"
  by (auto simp: soomfon_failed_def on_failed_def res_simps)

lemma soomfon_incomplete_Inr:
  "soomfon_incomplete e s = Inr t \<longleftrightarrow> on_incomplete e s = Inr t \<and> \<not> code_mismatch e s"
  by (auto simp: soomfon_incomplete_def on_incomplete_def res_simps)

lemma soomfon_unresolved_Inr:
  "soomfon_unresolved e s = Inr t \<longleftrightarrow> on_unresolved e s = Inr t \<and>
     (status_class e \<noteq> None \<longrightarrow> response_status s \<noteq> None \<longrightarrow> \<not> code_mismatch e s)"
  by (auto simp: soomfon_unresolved_def on_unresolved_def conflict_def res_simps)

lemmas soomfon_handlers = soomfon_http_response_Inr soomfon_remote_http_error_Inr
  soomfon_completed_Inr soomfon_failed_Inr soomfon_incomplete_Inr soomfon_unresolved_Inr

text \<open>A step of the exact-status loop is a step of the base loop, which may also record the
  status code, and a response or a terminal that names a status carries its code.\<close>

lemma soomfon_step_base:
  assumes "soomfon_step i e s = Inr t"
  shows "\<exists>u. chain_step i e s = Inr u \<and>
    t = u\<lparr>response_status_code :=
      (if kind e = Http_response_observed then status_code e else response_status_code s)\<rparr>"
proof (cases "kind e = Http_response_observed")
  case True
  then show ?thesis
    using assms by (auto simp: soomfon_step_def chain_step_def res_simps soomfon_http_response_Inr)
next
  case False
  then have step: "chain_step i e s = Inr t"
    using assms unfolding soomfon_step_def chain_step_def
    by (cases "kind e") (simp_all add: res_simps soomfon_handlers)
  then have "response_status_code t = response_status_code s"
    using False unfolding step_cases
    by (elim conjE disjE exE) (simp_all add: close_chain_def Let_def)
  with False step show ?thesis by simp
qed

text \<open>The base invariants do not see the code.\<close>

lemma chain_inv_code [simp]: "chain_inv es (s\<lparr>response_status_code := c\<rparr>) = chain_inv es s"
  by (simp add: chain_inv_def order_inv_def effect_inv_def phase_inv_def real_phase_def gate_inv_def
      binding_inv_def closes_ok_def cong: option.case_cong)

text \<open>The retained status is that of the response, which is observed at most once.\<close>

definition code_inv :: "soomfon_event list \<Rightarrow> soomfon_chain \<Rightarrow> bool" where
  "code_inv es s \<longleftrightarrow>
     (\<not> acknowledged s \<longrightarrow> response_status_code s = None \<and> response_status s = None) \<and>
     (\<forall>h \<in> set es. kind h = Http_response_observed \<longrightarrow>
        response_status_code s = status_code h \<and> response_status s = status_class h) \<and>
     (terminal s \<notin> {None, Some Pre_transport_failed, Some Outcome_unresolved} \<longrightarrow>
        status_code (last es) = response_status_code s)"

definition soomfon_inv :: "soomfon_event list \<Rightarrow> soomfon_chain \<Rightarrow> bool" where
  "soomfon_inv es s \<longleftrightarrow> chain_inv es s \<and> code_inv es s"

lemma first_response:
  assumes "chain_inv es s" "phase s = Transport"
  shows "\<not> acknowledged s" "\<forall>h \<in> set es. kind h \<noteq> Http_response_observed"
proof -
  have "effect_inv es s" "order_inv es s" using assms(1) by (simp_all add: chain_inv_def)
  moreover from this assms(2) have "terminal s = None" by (auto simp: order_inv_def split: option.splits)
  ultimately have "\<not> acknowledged s \<and> Http_response_observed \<notin> kind ` set es"
    using assms(2) by (auto simp: effect_inv_def phase_inv_def real_phase_def split: option.splits)
  then show "\<not> acknowledged s" "\<forall>h \<in> set es. kind h \<noteq> Http_response_observed"
    by (auto intro: rev_image_eqI)
qed

lemma soomfon_step_codes:
  assumes "soomfon_step i e s = Inr t"
    and "kind e \<in> {Remote_http_error_final, Provider_response_completed, Provider_response_failed,
                  Provider_response_incomplete}"
  shows "status_code e = response_status_code s"
  using assms by (auto simp: soomfon_step_def res_simps soomfon_handlers code_mismatch_def)

lemma other_step_status:
  "chain_step i e s = Inr t \<Longrightarrow> kind e \<noteq> Http_response_observed \<Longrightarrow>
     acknowledged t = acknowledged s \<and> response_status t = response_status s"
  unfolding step_cases by (elim conjE disjE exE) (auto simp add: close_chain_def Let_def)

lemma step_terminal:
  "chain_step i e s = Inr t \<Longrightarrow> terminal t \<noteq> None \<Longrightarrow> terminal t = Some (kind e) \<and> kind e \<in> set terminals"
  using step_phase(3) by (metis option.distinct(1))

lemma code_inv_step:
  assumes step: "soomfon_step (length es) e s = Inr t" and inv: "chain_inv es s" "code_inv es s"
  shows "code_inv (es @ [e]) t"
proof -
  obtain u where u: "chain_step (length es) e s = Inr u" and t: "t = u\<lparr>response_status_code :=
      (if kind e = Http_response_observed then status_code e else response_status_code s)\<rparr>"
    using soomfon_step_base [OF step] by blast
  show ?thesis
  proof (cases "kind e = Http_response_observed")
    case True
    with u have "phase s = Transport" "acknowledged u" "response_status u = status_class e"
      "terminal u = None"
      by (auto simp: step_cases)
    with True t show ?thesis using first_response [OF inv(1)] by (auto simp: code_inv_def)
  next
    case False
    note same = other_step_status [OF u this]
    have "status_code e = response_status_code s"
      if "terminal u \<notin> {None, Some Pre_transport_failed, Some Outcome_unresolved}"
      by (rule soomfon_step_codes [OF step]) (use that step_terminal [OF u] in \<open>auto simp: terminals_def\<close>)
    with False t same inv(2) show ?thesis by (auto simp: code_inv_def)
  qed
qed

lemma soomfon_inv_step [inv_intros]:
  assumes "soomfon_step (length es) e s = Inr t" "soomfon_inv es s"
  shows "soomfon_inv (es @ [e]) t"
  using assms soomfon_step_base [OF assms(1)] code_inv_step [OF assms(1)] chain_inv_step
  by (auto simp: soomfon_inv_def)

lemma soomfon_inv_init [inv_intros]: "soomfon_inv [] soomfon_init"
  by (simp add: soomfon_inv_def code_inv_def soomfon_init_def chain.defs chain_init_def
      chain_inv_def order_inv_def effect_inv_def phase_inv_def gate_inv_def binding_inv_def
      real_phase_def gates_def)

interpretation soomfon: receipt_chain soomfon_step soomfon_init soomfon_inv
  by unfold_locales
    (rule soomfon_inv_init, erule (1) soomfon_inv_step, simp add: soomfon_inv_def)

text \<open>Forgetting the codes.\<close>

lemma truncate_event [simp]:
  "kind (closed_event.truncate e) = kind e"
  "gate_ordinal (closed_event.truncate e) = gate_ordinal e"
  "status_class (closed_event.truncate e) = status_class e"
  "error_class (closed_event.truncate e) = error_class e"
  "protocol_event (closed_event.truncate e) = protocol_event e"
  "response_id_sha256 (closed_event.truncate e) = response_id_sha256 e"
  "observed_model (closed_event.truncate e) = observed_model e"
  by (simp_all add: closed_event.defs)

lemma truncate_chain [simp]:
  "phase (chain.truncate s) = phase s" "return_phase (chain.truncate s) = return_phase s"
  "ch_gate (chain.truncate s) = ch_gate s" "effect_possible (chain.truncate s) = effect_possible s"
  "acknowledged (chain.truncate s) = acknowledged s"
  "response_status (chain.truncate s) = response_status s"
  "response_id (chain.truncate s) = response_id s"
  "protocol_terminal (chain.truncate s) = protocol_terminal s"
  "protocol_seen (chain.truncate s) = protocol_seen s" "terminal (chain.truncate s) = terminal s"
  by (simp_all add: chain.defs)

lemma chain_step_truncate:
  assumes "chain_step i e s = Inr t"
  shows "chain_step i (closed_event.truncate e) (chain.truncate s) = Inr (chain.truncate t)"
  using assms unfolding step_cases
  by (elim conjE disjE exE)
    (simp_all add: close_chain_def Let_def chain.defs protocol_key_def failed_allowed_def)

lemma truncate_code [simp]: "chain.truncate (s\<lparr>response_status_code := c\<rparr>) = chain.truncate s"
  by (simp add: chain.defs)

lemma soomfon_run_refines:
  "run_chain soomfon_step es soomfon_init = Inr s \<Longrightarrow>
     run_chain chain_step (map closed_event.truncate es) chain_init = Inr (chain.truncate s)"
proof (induction es arbitrary: s rule: rev_induct)
  case Nil
  then show ?case by (auto simp: soomfon.run_Nil receipts.run_Nil soomfon_init_def chain.defs chain_init_def)
next
  case (snoc e es)
  then show ?case
    by (auto simp: soomfon.run_snoc receipts.run_snoc res_simps dest!: soomfon_step_base
        dest: chain_step_truncate)
qed

section \<open>Properties of the exact-status reducer\<close>

definition erase_codes :: "soomfon_event verified_journal \<Rightarrow> closed_event verified_journal" where
  "erase_codes j =
     \<lparr>jr_reservation = jr_reservation j,
      jr_events = map (\<lambda>v. \<lparr>env_sequence = env_sequence v,
        previous_event_sha256 = previous_event_sha256 v,
        env_event = closed_event.truncate (env_event v), env_raw = env_raw v,
        env_digest = env_digest v\<rparr>) (jr_events j),
      jr_artifact = jr_artifact j\<rparr>"

lemma journal_events_erase [simp]:
  "journal_events (erase_codes j) = map closed_event.truncate (journal_events j)"
  by (simp add: journal_events_def erase_codes_def comp_def)

lemma soomfon_verify_Inr:
  "soomfon_verify_receipt_chain j = Inr c \<longleftrightarrow>
     (\<exists>s k. run_chain soomfon_step (journal_events j) soomfon_init = Inr s \<and> terminal s = Some k \<and>
        kind (last (journal_events j)) \<in> set terminals \<and>
        c = \<lparr>vc_journal = j, vc_terminal = k, vc_acknowledged = acknowledged s,
             vc_effect_possible = effect_possible s, vc_status_class = response_status s,
             vc_status_code = response_status_code s\<rparr>)"
  by (auto simp: soomfon_verify_receipt_chain_def res_simps split: option.splits)

definition soomfon_completed_events :: "soomfon_event list" where
  "soomfon_completed_events =
     map (\<lambda>e. closed_event.extend e \<lparr>status_code =
        (if kind e \<in> {Http_response_observed, Provider_response_completed} then Some 201 else None)\<rparr>)
       completed_events"

lemma soomfon_completed_accepted:
  "soomfon_verify_receipt_chain (sample_journal soomfon_completed_events) =
     Inr \<lparr>vc_journal = sample_journal soomfon_completed_events,
          vc_terminal = Provider_response_completed, vc_acknowledged = True,
          vc_effect_possible = True, vc_status_class = Some 2, vc_status_code = Some 201\<rparr>"
  by (simp add: soomfon_verify_receipt_chain_def soomfon_completed_events_def completed_events_def
      run_simps terminals_def soomfon_step_def soomfon_init_def soomfon_http_response_def
      soomfon_completed_def code_mismatch_def closed_event.defs chain.defs)

text \<open>C4: the exact-status reducer refines the base reducer: every journal it verifies is verified by
  the base reducer once the status codes are dropped, with the same terminal, acknowledgement
  and effect.\<close>

theorem soomfon_refines_base:
  assumes "soomfon_verify_receipt_chain j = Inr c"
  shows "verify_receipt_chain (erase_codes j) =
    Inr \<lparr>vc_journal = erase_codes j, vc_terminal = vc_terminal c,
         vc_acknowledged = vc_acknowledged c, vc_effect_possible = vc_effect_possible c\<rparr>"
proof -
  from assms obtain s where s: "run_chain soomfon_step (journal_events j) soomfon_init = Inr s"
    "terminal s = Some (vc_terminal c)" "kind (last (journal_events j)) \<in> set terminals"
    "vc_acknowledged c = acknowledged s" "vc_effect_possible c = effect_possible s"
    unfolding soomfon_verify_Inr by fastforce
  from s(1,2) have "journal_events j \<noteq> []"
    by (auto simp: soomfon.run_Nil soomfon_init_def chain.defs chain_init_def)
  with soomfon_run_refines [OF s(1)] s(2-) show ?thesis
    by (simp add: verify_receipt_chain_def last_map)
qed

theorem soomfon_refines_base_witness:
  "verify_receipt_chain (erase_codes (sample_journal soomfon_completed_events)) =
    Inr \<lparr>vc_journal = erase_codes (sample_journal soomfon_completed_events),
         vc_terminal = Provider_response_completed, vc_acknowledged = True, vc_effect_possible = True\<rparr>"
  using soomfon_refines_base [OF soomfon_completed_accepted] by simp

text \<open>The status an accepted exact-status chain reports is the one of the observed response, and
  every terminal that speaks of the provider repeats its code.\<close>

theorem soomfon_status_exact:
  assumes "soomfon_verify_receipt_chain j = Inr c"
  shows "(\<forall>h \<in> set (journal_events j). kind h = Http_response_observed \<longrightarrow>
      vc_status_code c = status_code h \<and> vc_status_class c = status_class h) \<and>
    (vc_acknowledged c \<or> vc_status_code c = None) \<and>
    (vc_terminal c \<in> {Pre_transport_failed, Outcome_unresolved} \<or>
     status_code (last (journal_events j)) = vc_status_code c)"
proof -
  from assms obtain s where s: "run_chain soomfon_step (journal_events j) soomfon_init = Inr s"
    "terminal s = Some (vc_terminal c)" "vc_acknowledged c = acknowledged s"
    "vc_status_class c = response_status s" "vc_status_code c = response_status_code s"
    unfolding soomfon_verify_Inr by fastforce
  from soomfon.run_inv [OF s(1)] have "code_inv (journal_events j) s" by (simp add: soomfon_inv_def)
  with s(2-) show ?thesis by (auto simp: code_inv_def)
qed

theorem soomfon_status_exact_witness:
  "\<exists>h \<in> set soomfon_completed_events. kind h = Http_response_observed \<and> Some 201 = status_code h"
  using soomfon_status_exact [OF soomfon_completed_accepted]
  by (auto simp: soomfon_completed_events_def completed_events_def plain_event_def gate_event_def
      closed_event.defs)

end
