(* ===== verification/Outcome_Journal.thy ===== *)
theory Outcome_Journal
  imports Outcome_Contract
begin

text \<open>
  The private, no-replace receipt journal (\<open>services/provider_outcome_receipt_journal.py\<close> and the
  exact-status \<open>services/soomfon_provider_outcome_receipt_journal.py\<close>, which differ in the schema
  name and the event type only: a \<open>journal_format\<close> holds what differs).

  A directory is a list of named members; a file has the posture \<open>lstat\<close> reports and the bytes
  a read returns, \<open>None\<close> when the read fails.  Writing takes a fault: the operating system may
  refuse to open the file, fail after some bytes, or fail to sync the directory.
\<close>

section \<open>Directories and files\<close>

record posture =
  po_directory :: bool
  po_regular :: bool
  po_symlink :: bool
  po_owned :: bool
  po_mode :: nat
  po_links :: nat

record jfile =
  jf_posture :: posture
  jf_bytes :: "string option"

record jnode = jfile +
  jn_children :: "(string \<times> jfile) list option"

record jstore =
  js_posture :: "posture option"
  js_members :: "(string \<times> jnode) list option"

definition reservation_name :: string where "reservation_name = ''reservation.json''"
definition events_name :: string where "events_name = ''events''"
definition poison_name :: string where "poison_name = ''poisoned.json''"
definition inflight_name :: string where "inflight_name = ''inflight.json''"

definition journal_terminals :: "event_kind list" where
  "journal_terminals =
     [Pre_transport_failed, Remote_http_error_final, Provider_response_completed,
      Provider_response_failed, Provider_response_incomplete, Outcome_unresolved]"

definition effect_kinds :: "event_kind list" where
  "effect_kinds =
     [Transport_effect_pending, Transport_entered, Http_response_observed,
      Parsed_protocol_event_observed] @
     filter (\<lambda>k. k \<noteq> Pre_transport_failed) journal_terminals"

definition require_private :: "posture option \<Rightarrow> bool \<Rightarrow> unit outcome" where
  "require_private info directory =
     (case info of
        None \<Rightarrow> reject ''journal_member_missing''
      | Some p \<Rightarrow>
          guardE (\<not> (if directory then po_directory p else po_regular p) \<or> po_symlink p \<or>
                  \<not> po_owned p \<or> po_mode p \<noteq> (if directory then 448 else 384) \<or>
                  \<not> directory \<and> po_links p \<noteq> 1)
            (Consumer_error ''journal_member_posture_drift'' False) (Inr ()))"

definition read_private :: "'a jfile_scheme \<Rightarrow> string outcome" where
  "read_private f =
     bindE (require_private (Some (jf_posture f)) False) (\<lambda>_.
       (case jf_bytes f of
          None \<Rightarrow> reject ''journal_read_failed''
        | Some raw \<Rightarrow>
            guardE (raw = [] \<or> max_event_bytes < length raw)
              (Consumer_error ''journal_member_size_drift'' False) (Inr raw)))"

text \<open>An integer too long to read raises a plain \<open>ValueError\<close>, which is not caught.\<close>

definition decode_mapping :: "string \<Rightarrow> string \<Rightarrow> (string \<times> pv) list outcome" where
  "decode_mapping raw reason =
     (case json_loads raw of
        Inl Bad_json \<Rightarrow> Inl (Consumer_error reason True)
      | Inl Int_too_long \<Rightarrow> Inl (Uncaught ValueError)
      | Inr value \<Rightarrow>
          guardE (\<not> is_mapping value) (Consumer_error reason True)
            (bindE (canonical_json value) (\<lambda>canonical.
              guardE (canonical \<noteq> raw) (Consumer_error reason True) (Inr (dict_of value)))))"

section \<open>Loading\<close>

definition reservation_keys :: "string list" where
  "reservation_keys =
     [''schema_version'', ''consumer_task_id'', ''ledger_sha256'', ''process_id'', ''case_id'',
      ''logical_request_id'', ''transport_gate_id'', ''semantic_request_sha256'',
      ''contract_sha256'', ''mode'', ''requested_route'', ''resolved_route'',
      ''endpoint_origin_sha256'', ''source_identity'', ''dependency_identity'']"

definition reservation_of_fields :: "(string \<times> pv) list \<Rightarrow> receipt_reservation" where
  "reservation_of_fields value =
     \<lparr>consumer_task_id = dget ''consumer_task_id'' value,
      ledger_sha256 = dget ''ledger_sha256'' value, process_id = dget ''process_id'' value,
      case_id = dget ''case_id'' value, logical_request_id = dget ''logical_request_id'' value,
      transport_gate_id = dget ''transport_gate_id'' value,
      semantic_request_sha256 = dget ''semantic_request_sha256'' value,
      contract_sha256 = dget ''contract_sha256'' value, mode = dget ''mode'' value,
      requested_route = dget ''requested_route'' value,
      resolved_route = dget ''resolved_route'' value,
      endpoint_origin_sha256 = dget ''endpoint_origin_sha256'' value,
      source_identity = dget ''source_identity'' value,
      dependency_identity = dget ''dependency_identity'' value\<rparr>"

definition reservation_from_payload :: "(string \<times> pv) list \<Rightarrow> receipt_reservation outcome" where
  "reservation_from_payload value =
     guardE (set (dict_keys value) \<noteq> set reservation_keys \<or>
             dget ''schema_version'' value \<noteq> PStr ''dspx-provider-outcome-reservation-v1'')
       (Consumer_error ''reservation_schema_drift'' False)
    (let reservation = reservation_of_fields value in
     bindE (reservation_payload reservation) (\<lambda>payload.
       guardE (\<not> py_eq (PDict payload) (PDict value))
         (Consumer_error ''reservation_schema_drift'' False) (Inr reservation)))"

record 'e journal_format =
  fm_wrapper_schema :: string
  fm_fields :: "string list"
  fm_parse :: "(string \<times> pv) list \<Rightarrow> 'e outcome"
  fm_payload :: "receipt_reservation \<Rightarrow> int \<Rightarrow> string option \<Rightarrow> 'e \<Rightarrow> (string \<times> pv) list outcome"
  fm_kind :: "'e \<Rightarrow> event_kind"

definition base_format :: "closed_event journal_format" where
  "base_format =
     \<lparr>fm_wrapper_schema = ''dspx-provider-outcome-consumption-v1'', fm_fields = event_fields,
      fm_parse = event_of_mapping, fm_payload = event_envelope_payload, fm_kind = kind\<rparr>"

definition soomfon_format :: "soomfon_event journal_format" where
  "soomfon_format =
     \<lparr>fm_wrapper_schema = ''dspx-soomfon-provider-outcome-consumption-v2'',
      fm_fields = soomfon_event_fields, fm_parse = soomfon_event_of_mapping,
      fm_payload = soomfon_event_envelope_payload, fm_kind = kind\<rparr>"

definition envelope_keys :: "string list" where
  "envelope_keys =
     [''schema_version'', ''reservation_id'', ''sequence'', ''previous_event_sha256'',
      ''producer'', ''source_identity_sha256'', ''dependency_identity_sha256'', ''event'']"

text \<open>\<open>except ProviderOutcomeConsumerError as exc: raise ..(exc.reason, effect_possible=effect)\<close>.\<close>

definition reraise :: "bool \<Rightarrow> 'a outcome \<Rightarrow> 'a outcome" where
  "reraise effect m =
     (case m of Inl (Consumer_error reason _) \<Rightarrow> Inl (Consumer_error reason effect) | _ \<Rightarrow> m)"

definition validate_envelope ::
    "'e journal_format \<Rightarrow> string \<Rightarrow> receipt_reservation \<Rightarrow> nat \<Rightarrow> string option
      \<Rightarrow> 'e journal_envelope outcome" where
  "validate_envelope fm raw r sequence previous =
     bindE (decode_mapping raw ''event_envelope_invalid'') (\<lambda>value.
     guardE (set (dict_keys value) \<noteq> set envelope_keys \<or> \<not> is_mapping (dget ''event'' value))
       (Consumer_error ''event_envelope_schema_drift'' True)
    (bindE (reraise True (fm_parse fm (dict_of (dget ''event'' value)))) (\<lambda>event.
     bindE (fm_payload fm r (int sequence) previous event) (\<lambda>expected.
     guardE (\<not> py_eq (PDict value) (PDict expected))
       (Consumer_error ''event_envelope_binding_drift'' True)
       (Inr \<lparr>env_sequence = int sequence, previous_event_sha256 = previous, env_event = event,
             env_raw = raw, env_digest = sha256 raw\<rparr>)))))"

definition event_name :: "nat \<Rightarrow> string" where
  "event_name n = replicate (6 - length (nat_text n)) CHR ''0'' @ nat_text n @ ''.json''"

fun load_events ::
    "'e journal_format \<Rightarrow> receipt_reservation \<Rightarrow> nat \<Rightarrow> string option \<Rightarrow> (string \<times> jfile) list
      \<Rightarrow> 'e journal_envelope list outcome" where
  "load_events fm r n previous [] = Inr []"
| "load_events fm r n previous ((name, f) # rest) =
     guardE (name \<noteq> event_name n) (Consumer_error ''event_sequence_drift'' True)
    (bindE (reraise True (bindE (read_private f) (\<lambda>raw. validate_envelope fm raw r n previous))) (\<lambda>env.
     bindE (load_events fm r (Suc n) (Some (env_digest env)) rest) (\<lambda>envs. Inr (env # envs))))"

definition wrapper_keys :: "string list" where
  "wrapper_keys = [''schema_version'', ''reservation_id'', ''artifact_verification'', ''reservation'']"

definition load_wrapper ::
    "'e journal_format \<Rightarrow> jnode \<Rightarrow> (receipt_reservation \<times> artifact_status) outcome" where
  "load_wrapper fm f =
     bindE (read_private f) (\<lambda>raw.
     bindE (decode_mapping raw ''reservation_invalid'') (\<lambda>wrapper.
     guardE (set (dict_keys wrapper) \<noteq> set wrapper_keys \<or>
             dget ''schema_version'' wrapper \<noteq> PStr (fm_wrapper_schema fm))
       (Consumer_error ''reservation_schema_drift'' False)
    (bindE (in_frozenset (dget ''artifact_verification'' wrapper) [''accepted_exact'', ''fixture_only'']) (\<lambda>known.
     guardE (\<not> known \<or> \<not> is_mapping (dget ''reservation'' wrapper))
       (Consumer_error ''reservation_schema_drift'' False)
    (bindE (reservation_from_payload (dict_of (dget ''reservation'' wrapper))) (\<lambda>r.
     bindE (reservation_id r) (\<lambda>rid.
     guardE (dget ''reservation_id'' wrapper \<noteq> PStr rid)
       (Consumer_error ''reservation_identity_drift'' False)
       (Inr (r, if dget ''artifact_verification'' wrapper = PStr ''accepted_exact''
                then Accepted_exact else Fixture_only)))))))))"

definition load_marker :: "string \<Rightarrow> jnode \<Rightarrow> 'a outcome" where
  "load_marker name f =
     bindE (read_private f) (\<lambda>raw.
     bindE (decode_mapping raw ''journal_marker_invalid'') (\<lambda>marker.
     Inl (Consumer_error
       (if name = poison_name then ''journal_poisoned'' else ''journal_inflight'')
       (case dget ''effect_possible'' marker of PBool b \<Rightarrow> b | _ \<Rightarrow> True))))"

definition load_members ::
    "'e journal_format \<Rightarrow> jnode \<Rightarrow> jnode \<Rightarrow> 'e verified_journal outcome" where
  "load_members fm reservation events =
     bindE (require_private (Some (jf_posture events)) True) (\<lambda>_.
     (case jn_children events of
        None \<Rightarrow> Inl (Consumer_error ''journal_read_failed'' True)
      | Some children \<Rightarrow>
          (let event_members = sort_key fst children in
           guardE (max_events < length event_members) (Consumer_error ''event_budget_exceeded'' True)
          (bindE (reraise (event_members \<noteq> []) (load_wrapper fm reservation)) (\<lambda>(r, artifact).
           bindE (load_events fm r 0 None event_members) (\<lambda>envelopes.
           Inr \<lparr>jr_reservation = r, jr_events = envelopes, jr_artifact = artifact\<rparr>))))))"

definition load_journal :: "'e journal_format \<Rightarrow> jstore \<Rightarrow> 'e verified_journal outcome" where
  "load_journal fm store =
     bindE (require_private (js_posture store) True) (\<lambda>_.
     (case js_members store of
        None \<Rightarrow> Inl (Consumer_error ''journal_read_failed'' True)
      | Some members \<Rightarrow>
          (case find (\<lambda>name. name \<in> set (dict_keys members)) [poison_name, inflight_name] of
             Some name \<Rightarrow> load_marker name (the (map_of members name))
           | None \<Rightarrow>
               guardE (set (dict_keys members) \<noteq> {reservation_name, events_name})
                 (Consumer_error ''unexpected_journal_member'' True)
                 (load_members fm (the (map_of members reservation_name))
                    (the (map_of members events_name))))))"

definition load_verified_journal :: "jstore \<Rightarrow> closed_event verified_journal outcome" where
  "load_verified_journal = load_journal base_format"

definition soomfon_load_verified_journal :: "jstore \<Rightarrow> soomfon_event verified_journal outcome" where
  "soomfon_load_verified_journal = load_journal soomfon_format"

definition soomfon_validate_envelope ::
    "string \<Rightarrow> receipt_reservation \<Rightarrow> nat \<Rightarrow> string option \<Rightarrow> soomfon_event journal_envelope outcome" where
  "soomfon_validate_envelope = validate_envelope soomfon_format"

end
