(* ===== verification/Journal_Writer.thy ===== *)
theory Journal_Writer
  imports Outcome_Journal
begin

text \<open>
  The writing side of the receipt journal, the class \<open>ReceiptJournal\<close>: creation, the issue of the
  one receipt capability, and the sink \<open>_append_owner_event\<close> that persists one event, with the
  in-flight marker around it and the poison marker after a failure.

  A call takes an environment that says how the calls outside the module end: whether another
  thread holds the lock, what \<open>artifact.revalidate()\<close> does, and the fault of each file
  operation.  The state is the object together with the files of its directory.
\<close>

section \<open>File operations\<close>

datatype write_fault = No_fault | Fail_open | Fail_write nat | Fail_sync

definition private_file :: posture where
  "private_file = \<lparr>po_directory = False, po_regular = True, po_symlink = False, po_owned = True,
     po_mode = 384, po_links = 1\<rparr>"

definition private_dir :: posture where
  "private_dir = \<lparr>po_directory = True, po_regular = False, po_symlink = False, po_owned = True,
     po_mode = 448, po_links = 2\<rparr>"

type_synonym files = "(string \<times> jfile) list"

definition file_of :: "string \<Rightarrow> jfile" where
  "file_of raw = \<lparr>jf_posture = private_file, jf_bytes = Some raw\<rparr>"

text \<open>\<open>_write_file\<close>: exclusive creation; a failed write leaves the bytes written so far.\<close>

definition write_file :: "string \<Rightarrow> string \<Rightarrow> write_fault \<Rightarrow> files \<Rightarrow> files \<times> unit outcome" where
  "write_file name raw fault fs =
     (if raw = [] \<or> max_event_bytes < length raw then (fs, reject ''journal_member_size_drift'')
      else if name \<in> set (dict_keys fs) then (fs, reject ''journal_member_exists'')
      else (case fault of
          No_fault \<Rightarrow> (fs @ [(name, file_of raw)], Inr ())
        | Fail_open \<Rightarrow> (fs, reject ''journal_persistence_failed'')
        | Fail_write n \<Rightarrow> (fs @ [(name, file_of (take n raw))], reject ''journal_persistence_failed'')
        | Fail_sync \<Rightarrow> (fs @ [(name, file_of raw)], reject ''directory_sync_failed'')))"

definition poison_value :: "bool \<Rightarrow> pv" where
  "poison_value effect = PDict
     [(''schema_version'', PStr ''dspx-provider-outcome-poison-v1''),
      (''effect_possible'', PBool effect)]"

definition inflight_value :: "nat \<Rightarrow> bool \<Rightarrow> pv" where
  "inflight_value sequence effect = PDict
     [(''schema_version'', PStr ''dspx-provider-outcome-inflight-v1''),
      (''sequence'', PInt (int sequence)), (''effect_possible'', PBool effect)]"

text \<open>\<open>_write_poison\<close> swallows every failure; an existing marker is kept.\<close>

definition write_poison :: "bool \<Rightarrow> write_fault \<Rightarrow> files \<Rightarrow> files" where
  "write_poison effect fault fs =
     (case canonical_json (poison_value effect) of
        Inl _ \<Rightarrow> fs
      | Inr raw \<Rightarrow>
          (if poison_name \<in> set (dict_keys fs) then fs
           else fst (write_file poison_name raw fault fs)))"

definition write_inflight :: "nat \<Rightarrow> bool \<Rightarrow> write_fault \<Rightarrow> files \<Rightarrow> files \<times> unit outcome" where
  "write_inflight sequence effect fault fs =
     (case canonical_json (inflight_value sequence effect) of
        Inl x \<Rightarrow> (fs, Inl x)
      | Inr raw \<Rightarrow> write_file inflight_name raw fault fs)"

datatype clear_fault = Clear_ok | Unlink_fails | Clear_sync_fails

definition clear_inflight :: "clear_fault \<Rightarrow> files \<Rightarrow> files \<times> unit outcome" where
  "clear_inflight fault fs =
     (if inflight_name \<notin> set (dict_keys fs) \<or> fault = Unlink_fails
      then (fs, reject ''inflight_cleanup_failed'')
      else (filter (\<lambda>p. fst p \<noteq> inflight_name) fs,
            if fault = Clear_sync_fails then reject ''directory_sync_failed'' else Inr ()))"

section \<open>The journal object\<close>

record receipt_journal =
  rj_files :: files
  rj_events :: files
  rj_reservation :: receipt_reservation
  rj_next :: nat
  rj_previous :: "string option"
  rj_terminal_seen :: bool
  rj_poisoned :: bool
  rj_effect :: bool
  rj_issued :: bool

text \<open>The directory as a loader sees it.\<close>

definition store_of :: "receipt_journal \<Rightarrow> jstore" where
  "store_of j =
     \<lparr>js_posture = Some private_dir,
      js_members = Some (
        (events_name, \<lparr>jf_posture = private_dir, jf_bytes = None,
                       jn_children = Some (rj_events j)\<rparr>) #
        map (\<lambda>(name, f). (name, jfile.extend f \<lparr>jn_children = None\<rparr>)) (rj_files j))\<rparr>"

datatype root_fault = Root_ok | Root_posture_drift | Root_exists | Root_create_fails | Root_sync_fails

record artifact_facts =
  af_source :: "(string \<times> pv) list"
  af_dependency :: "(string \<times> pv) list"
  af_accepted :: bool

definition wrapper_payload ::
    "'e journal_format \<Rightarrow> receipt_reservation \<Rightarrow> bool \<Rightarrow> (string \<times> pv) list outcome" where
  "wrapper_payload fm r accepted =
     bindE (reservation_id r) (\<lambda>rid.
     bindE (reservation_payload r) (\<lambda>payload.
     Inr [(''schema_version'', PStr (fm_wrapper_schema fm)), (''reservation_id'', PStr rid),
          (''artifact_verification'', PStr (artifact_status_name
             (if accepted then Accepted_exact else Fixture_only))),
          (''reservation'', PDict payload)]))"

definition create_journal ::
    "'e journal_format \<Rightarrow> unit outcome \<Rightarrow> root_fault \<Rightarrow> write_fault \<Rightarrow> receipt_reservation
      \<Rightarrow> artifact_facts \<Rightarrow> receipt_journal outcome" where
  "create_journal fm revalidated root fault r artifact =
     bindE revalidated (\<lambda>_.
     guardE (\<not> py_eq (source_identity r) (PDict (af_source artifact)) \<or>
             \<not> py_eq (dependency_identity r) (PDict (af_dependency artifact)))
       (Consumer_error ''reservation_artifact_identity_drift'' False)
    (case root of
        Root_posture_drift \<Rightarrow> reject ''journal_root_posture_drift''
      | Root_exists \<Rightarrow> reject ''journal_root_exists''
      | Root_create_fails \<Rightarrow> reject ''journal_root_create_failed''
      | Root_sync_fails \<Rightarrow> reject ''directory_sync_failed''
      | Root_ok \<Rightarrow>
          bindE (wrapper_payload fm r (af_accepted artifact)) (\<lambda>wrapper.
          bindE (canonical_json (PDict wrapper)) (\<lambda>raw.
          (case write_file reservation_name raw fault [] of
             (fs, Inl x) \<Rightarrow> Inl x
           | (fs, Inr _) \<Rightarrow>
               Inr \<lparr>rj_files = fs, rj_events = [], rj_reservation = r, rj_next = 0,
                    rj_previous = None, rj_terminal_seen = False, rj_poisoned = False,
                    rj_effect = False, rj_issued = False\<rparr>)))))"

definition poison_with :: "write_fault \<Rightarrow> bool \<Rightarrow> receipt_journal \<Rightarrow> receipt_journal" where
  "poison_with fault effect j =
     j\<lparr>rj_poisoned := True, rj_files := write_poison effect fault (rj_files j)\<rparr>"

text \<open>
  \<open>provider_receipt\<close>: the owner's constructor is outside the module; it raises, returns a receipt
  whose fields differ, or returns the expected one.
\<close>

datatype receipt_result = Receipt_raises outcome_error | Receipt_drifts | Receipt_ok

definition provider_receipt ::
    "bool \<Rightarrow> unit outcome \<Rightarrow> receipt_result \<Rightarrow> write_fault \<Rightarrow> receipt_journal
      \<Rightarrow> receipt_journal \<times> unit outcome" where
  "provider_receipt busy revalidated result fault j =
     (if busy then (j, reject ''concurrent_receipt_issue'')
      else if rj_poisoned j \<or> rj_issued j then (j, reject ''receipt_capability_already_issued'')
      else (case revalidated of
          Inl x \<Rightarrow> (j, Inl x)
        | Inr _ \<Rightarrow>
            (case result of
               Receipt_raises x \<Rightarrow> (poison_with fault False j, Inl x)
             | Receipt_drifts \<Rightarrow>
                 (poison_with fault False j, reject ''owner_receipt_capability_drift'')
             | Receipt_ok \<Rightarrow> (j\<lparr>rj_issued := True\<rparr>, Inr ()))))"

section \<open>Appending an event\<close>

record owner_event =
  oe_exact_type :: bool
  oe_field_names :: "string list option"
  oe_values :: "(string \<times> pv) list"

definition event_from_owner :: "'e journal_format \<Rightarrow> owner_event \<Rightarrow> 'e outcome" where
  "event_from_owner fm oe =
     guardE (\<not> oe_exact_type oe) (Consumer_error ''alternate_owner_event_type'' False)
     (case oe_field_names oe of
        None \<Rightarrow> reject ''owner_event_not_dataclass''
      | Some names \<Rightarrow>
          guardE (names \<noteq> fm_fields fm) (Consumer_error ''owner_event_schema_drift'' False)
            (fm_parse fm (map (\<lambda>n. (n, dget n (oe_values oe))) (fm_fields fm))))"

record append_env =
  ae_busy :: bool
  ae_revalidated :: "unit outcome"
  ae_inflight :: write_fault
  ae_event :: write_fault
  ae_clear :: clear_fault
  ae_poison :: write_fault

text \<open>The first protected block: the event, whether an effect is possible with it, and its bytes.\<close>

definition prepare_event ::
    "'e journal_format \<Rightarrow> append_env \<Rightarrow> owner_event \<Rightarrow> receipt_journal
      \<Rightarrow> bool \<times> ('e \<times> string) outcome" where
  "prepare_event fm env oe j =
     (case bindE (ae_revalidated env) (\<lambda>_. event_from_owner fm oe) of
        Inl x \<Rightarrow> (rj_effect j, Inl x)
      | Inr e \<Rightarrow>
          (rj_effect j \<or> fm_kind fm e \<in> set effect_kinds,
           bindE (fm_payload fm (rj_reservation j) (int (rj_next j)) (rj_previous j) e) (\<lambda>payload.
           bindE (canonical_json (PDict payload)) (\<lambda>raw. Inr (e, raw)))))"

text \<open>The marker, the event file, and the removal of the marker.  A failure after the marker was
  written leaves it in place and does not add a poison marker.\<close>

definition commit_event ::
    "'e journal_format \<Rightarrow> append_env \<Rightarrow> bool \<Rightarrow> 'e \<Rightarrow> string \<Rightarrow> receipt_journal
      \<Rightarrow> receipt_journal \<times> unit outcome" where
  "commit_event fm env possible e raw j =
     (case write_inflight (rj_next j) possible (ae_inflight env) (rj_files j) of
        (fs, Inl x) \<Rightarrow> (poison_with (ae_poison env) possible (j\<lparr>rj_files := fs\<rparr>), Inl x)
      | (fs, Inr _) \<Rightarrow>
          (case write_file (event_name (rj_next j)) raw (ae_event env) (rj_events j) of
             (es, Inl x) \<Rightarrow> (j\<lparr>rj_files := fs, rj_events := es, rj_poisoned := True\<rparr>, Inl x)
           | (es, Inr _) \<Rightarrow>
               (case clear_inflight (ae_clear env) fs of
                  (fs', Inl x) \<Rightarrow> (j\<lparr>rj_files := fs', rj_events := es, rj_poisoned := True\<rparr>, Inl x)
                | (fs', Inr _) \<Rightarrow>
                    (j\<lparr>rj_files := fs', rj_events := es, rj_previous := Some (sha256 raw),
                       rj_next := Suc (rj_next j), rj_effect := possible,
                       rj_terminal_seen := fm_kind fm e \<in> set journal_terminals\<rparr>, Inr ()))))"

definition append_owner_event ::
    "'e journal_format \<Rightarrow> append_env \<Rightarrow> owner_event \<Rightarrow> receipt_journal
      \<Rightarrow> receipt_journal \<times> unit outcome" where
  "append_owner_event fm env oe j =
     (if ae_busy env then
        (poison_with (ae_poison env) (rj_effect j) j,
         Inl (Consumer_error ''concurrent_sink_invocation'' (rj_effect j)))
      else if rj_poisoned j \<or> \<not> rj_issued j then
        (j, Inl (Consumer_error ''journal_not_writable'' (rj_effect j)))
      else if rj_terminal_seen j \<or> max_events \<le> rj_next j then
        (poison_with (ae_poison env) (rj_effect j) j,
         Inl (Consumer_error
           (if rj_terminal_seen j then ''event_after_terminal'' else ''event_budget_exceeded'')
           (rj_effect j)))
      else (case prepare_event fm env oe j of
          (possible, Inl x) \<Rightarrow> (poison_with (ae_poison env) possible j, Inl x)
        | (possible, Inr (e, raw)) \<Rightarrow> commit_event fm env possible e raw j))"

definition load_verified :: "'e journal_format \<Rightarrow> receipt_journal \<Rightarrow> 'e verified_journal outcome" where
  "load_verified fm j =
     (if rj_poisoned j then Inl (Consumer_error ''journal_poisoned'' (rj_effect j))
      else load_journal fm (store_of j))"

text \<open>The two journals of the program.\<close>

definition receipt_append ::
    "append_env \<Rightarrow> owner_event \<Rightarrow> receipt_journal \<Rightarrow> receipt_journal \<times> unit outcome" where
  "receipt_append = append_owner_event base_format"

definition soomfon_append ::
    "append_env \<Rightarrow> owner_event \<Rightarrow> receipt_journal \<Rightarrow> receipt_journal \<times> unit outcome" where
  "soomfon_append = append_owner_event soomfon_format"

definition receipt_create ::
    "unit outcome \<Rightarrow> root_fault \<Rightarrow> write_fault \<Rightarrow> receipt_reservation \<Rightarrow> artifact_facts
      \<Rightarrow> receipt_journal outcome" where
  "receipt_create = create_journal base_format"

definition soomfon_provider_receipt ::
    "bool \<Rightarrow> unit outcome \<Rightarrow> receipt_result \<Rightarrow> write_fault \<Rightarrow> receipt_journal
      \<Rightarrow> receipt_journal \<times> unit outcome" where
  "soomfon_provider_receipt = provider_receipt"

definition soomfon_create ::
    "unit outcome \<Rightarrow> root_fault \<Rightarrow> write_fault \<Rightarrow> receipt_reservation \<Rightarrow> artifact_facts
      \<Rightarrow> receipt_journal outcome" where
  "soomfon_create = create_journal soomfon_format"

end
