(* ===== verification/Journal_Identity.thy ===== *)
theory Journal_Identity
  imports Journal_Writer
begin

text \<open>
  What a reservation is after it went through its JSON file: the encoder sorts the keys, so the
  loaded identities are the original ones up to the order of keys, and every payload computed
  from them is the same.  \<open>source_ok\<close>, \<open>dependency_ok\<close> and \<open>reservation_ok\<close> say what the closed
  identity checks and \<open>payload\<close> accept.
\<close>

section \<open>Sorting the keys changes nothing a reader sees\<close>

lemma plain_sort_keys_iff: "plain (sort_keys v) \<longleftrightarrow> plain v"
proof (induction v)
  case (PDict kvs)
  let ?g = "\<lambda>kv :: string \<times> pv. (fst kv, sort_keys (snd kv))"
  have "distinct (dict_keys (sort_key fst (map ?g kvs))) \<longleftrightarrow> distinct (dict_keys (map ?g kvs))"
    by (simp only: distinct_map distinct_sort set_sort)
  also have "\<dots> \<longleftrightarrow> distinct (dict_keys kvs)" by (simp add: comp_def)
  finally show ?case
    using PDict by (fastforce simp: sort_keys_items_map plain_items_iff snds.simps)
qed (auto simp: sort_keys_list_map plain_list_iff)

lemma sort_keys_scalar [simp]:
  "sort_keys v = PStr s \<longleftrightarrow> v = PStr s" "sort_keys v = PNone \<longleftrightarrow> v = PNone"
  "sort_keys v = PInt i \<longleftrightarrow> v = PInt i" "sort_keys v = PBool b \<longleftrightarrow> v = PBool b"
  "is_str (sort_keys v) = is_str v" "str_of (sort_keys v) = str_of v"
  "is_mapping (sort_keys v) = is_mapping v" "is_list (sort_keys v) = is_list v"
  "is_int (sort_keys v) = is_int v" "is_bool (sort_keys v) = is_bool v"
  "int_of (sort_keys v) = int_of v"
  by (cases v; simp)+

lemma bad_int_sort [simp]: "bad_int (sort_keys v) P = bad_int v P"
  by (simp add: bad_int_def)

lemma check_sha256_sort [simp]: "check_sha256 (sort_keys v) n = check_sha256 v n"
  by (simp add: check_sha256_def)

lemma bounded_id_sort [simp]: "bounded_id (sort_keys v) n = bounded_id v n"
  by (simp add: bounded_id_def)

lemma is_bounded_id_sort [simp]: "is_bounded_id (sort_keys v) = is_bounded_id v"
  by (simp add: is_bounded_id_def)

lemma is_git_sha_sort [simp]: "is_git_sha (sort_keys v) = is_git_sha v"
  by (simp add: is_git_sha_def)

lemma in_frozenset_sort [simp]: "in_frozenset (sort_keys v) ss = in_frozenset v ss"
  by (cases v) (simp_all add: in_frozenset_def)

lemma set_keys_sorted [simp]: "fst ` set (dict_of (sort_keys v)) = fst ` set (dict_of v)"
  by (cases v) (auto simp: sort_keys_items_map image_image)

lemma dget_sorted:
  "plain v \<Longrightarrow> dget k (dict_of (sort_keys v)) = sort_keys (dget k (dict_of v))"
  by (cases v) (simp_all add: dget_sort_keys)

lemma dict_of_mapping: "is_mapping v \<Longrightarrow> PDict (dict_of v) = v"
  by (cases v) simp_all

lemma dget_notin: "k \<notin> set (dict_keys kvs) \<Longrightarrow> dget k kvs = PNone"
  by (simp add: dget_def map_of_eq_None_iff [THEN iffD2])

lemma plain_dget: "plain (PDict kvs) \<Longrightarrow> plain (dget k kvs)"
  by (auto simp: dget_def plain_items_iff split: option.splits dest: map_of_SomeD)

lemma plain_field [simp]: "plain v \<Longrightarrow> plain (dget k (dict_of v))"
  by (cases v) (auto simp: dget_def plain_items_iff split: option.splits dest: map_of_SomeD)

lemma dget_table [simp]: "dget k (map (\<lambda>k. (k, f k)) ks) = (if k \<in> set ks then f k else PNone)"
  by (induction ks) auto

lemma sort_keys_eqI:
  assumes "distinct (dict_keys xs)" "distinct (dict_keys ys)" "set (dict_keys xs) = set (dict_keys ys)"
    and "\<And>k. k \<in> set (dict_keys xs) \<Longrightarrow> sort_keys (dget k xs) = sort_keys (dget k ys)"
  shows "sort_keys (PDict xs) = sort_keys (PDict ys)"
proof -
  let ?g = "\<lambda>kv :: string \<times> pv. (fst kv, sort_keys (snd kv))"
  have entries: "set (map ?g zs) = (\<lambda>k. (k, sort_keys (dget k zs))) ` set (dict_keys zs)"
    if "distinct (dict_keys zs)" for zs :: "(string \<times> pv) list"
    using that by (force simp: dget_def)
  have "set (map ?g xs) = set (map ?g ys)"
    using assms by (simp add: entries del: set_map)
  then have "sort_key fst (map ?g xs) = sort_key fst (map ?g ys)"
    using assms(1,2)
    by (intro map_sorted_distinct_set_unique [of fst])
      (auto simp: distinct_map inj_on_def comp_def intro!: inj_onI dest: map_of_is_SomeI)
  then show ?thesis by (simp add: sort_keys_items_map)
qed


section \<open>Closed identities\<close>

lemma ascii_no_surrogate: "list_all (\<lambda>c. (of_char c :: nat) < 128) s \<Longrightarrow> \<not> has_surrogate s"
  by (induction s rule: has_surrogate.induct) auto

lemma ascii_plain: "list_all (\<lambda>c. (of_char c :: nat) < 128) s \<Longrightarrow> plain (PStr s)"
  by (simp add: utf8_ok_ascii ascii_no_surrogate)

lemma hex_digit_ascii: "is_hex_digit c \<Longrightarrow> (of_char c :: nat) < 128"
  by (auto simp: is_hex_digit_def is_digit_def Let_def)

lemma id_char_ascii: "is_id_char c \<Longrightarrow> (of_char c :: nat) < 128"
  by (auto simp: is_id_char_def is_digit_def is_letter_def Let_def)

lemma sha256_re_plain: "sha256_re s \<Longrightarrow> plain (PStr s)"
  by (rule ascii_plain) (auto simp: sha256_re_def list_all_iff hex_digit_ascii)

lemma id_re_plain: "id_re s \<Longrightarrow> plain (PStr s)"
  by (rule ascii_plain) (auto simp: id_re_def list_all_iff id_char_ascii)

lemma sha256_digest_plain: "plain (PStr (sha256 s))"
  by (rule ascii_plain) (auto simp: list_all_iff dest!: sha256_hex)

definition source_ok :: "pv \<Rightarrow> bool" where
  "source_ok v \<longleftrightarrow>
     (let value = dict_of v; modules = dict_of (dget ''module_sha256'' value) in
     is_mapping v \<and> set (dict_keys value) = set source_identity_fields \<and>
     dget ''owner'' value = PStr ''tryinget-dspy-lm-auth'' \<and> is_bounded_id (dget ''version'' value) \<and>
     is_git_sha (dget ''commit'' value) \<and> is_git_sha (dget ''tree'' value) \<and>
     is_mapping (dget ''module_sha256'' value) \<and> set (dict_keys modules) = set module_names \<and>
     (\<forall>k \<in> set module_names. \<exists>h. dget k modules = PStr h \<and> sha256_re h) \<and>
     (\<exists>h. dget ''lock_sha256'' value = PStr h \<and> sha256_re h))"

definition canonical_source :: "pv \<Rightarrow> (string \<times> pv) list" where
  "canonical_source v =
     (let value = dict_of v; modules = dict_of (dget ''module_sha256'' value) in
     map (\<lambda>k. (k, dget k value)) [''owner'', ''version'', ''commit'', ''tree'', ''lock_sha256''] @
     [(''module_sha256'', PDict (map (\<lambda>k. (k, dget k modules)) module_names))])"

lemma closed_modules_Inr:
  "mapE (\<lambda>key. bindE (check_sha256 (f key) (n key)) (\<lambda>h. Inr (key, PStr h))) ks = Inr ms \<longleftrightarrow>
     (\<forall>k \<in> set ks. \<exists>h. f k = PStr h \<and> sha256_re h) \<and> ms = map (\<lambda>k. (k, f k)) ks"
  by (induction ks arbitrary: ms) (auto simp: res_simps check_sha256_Inr)

lemma closed_source_identity_Inr:
  "closed_source_identity v = Inr c \<longleftrightarrow> source_ok v \<and> c = canonical_source v"
  unfolding closed_source_identity_def Let_def guardE_Inr_iff bindE_Inr_iff closed_modules_Inr
    check_sha256_Inr source_ok_def canonical_source_def
  by (auto simp del: set_map)

lemma source_ok_sort: "plain v \<Longrightarrow> source_ok (sort_keys v) = source_ok v"
  by (simp add: source_ok_def dget_sorted Let_def)

lemma canonical_source_sort:
  assumes "plain v" "source_ok v"
  shows "canonical_source (sort_keys v) = canonical_source v"
proof -
  have str: "sort_keys x = x" if "is_str x" for x using that by (cases x) simp_all
  have "sort_keys (dget k (dict_of (dget ''module_sha256'' (dict_of v)))) =
      dget k (dict_of (dget ''module_sha256'' (dict_of v)))" if "k \<in> set module_names" for k
    using assms(2) that by (auto simp: source_ok_def Let_def)
  then show ?thesis
    using assms
    by (auto simp: canonical_source_def dget_sorted Let_def source_ok_def
        is_bounded_id_def is_git_sha_def intro!: str)
qed

lemma sort_canonical_source:
  assumes "plain v" "source_ok v"
  shows "sort_keys (PDict (canonical_source v)) = sort_keys v"
proof -
  let ?fields = "dict_of v" and ?modules = "dict_of (dget ''module_sha256'' (dict_of v))"
  have v: "v = PDict ?fields" "dget ''module_sha256'' ?fields = PDict ?modules"
    using assms(2) by (simp_all add: source_ok_def Let_def dict_of_mapping)
  then have "plain (PDict ?fields)" "plain (PDict ?modules)"
    using assms(1) plain_field [OF assms(1), of "''module_sha256''"] by metis+
  then have keys: "distinct (dict_keys ?fields)" "distinct (dict_keys ?modules)" by auto
  have sets: "set (dict_keys ?fields) = set source_identity_fields" "set (dict_keys ?modules) = set module_names"
    using assms(2) by (simp_all add: source_ok_def Let_def)
  have names: "distinct module_names" by (simp add: module_names_def)
  have m: "sort_keys (PDict (map (\<lambda>k. (k, dget k ?modules)) module_names)) = sort_keys (PDict ?modules)"
    by (rule sort_keys_eqI) (use keys sets names in \<open>simp_all add: comp_def del: sort_keys.simps\<close>)
  have "sort_keys (PDict (canonical_source v)) = sort_keys (PDict ?fields)"
  proof (rule sort_keys_eqI)
    show "distinct (dict_keys (canonical_source v))" by (simp add: canonical_source_def Let_def)
    show "set (dict_keys (canonical_source v)) = set (dict_keys ?fields)"
      unfolding sets by (auto simp: canonical_source_def Let_def source_identity_fields_def)
    fix k assume "k \<in> set (dict_keys (canonical_source v))"
    then show "sort_keys (dget k (canonical_source v)) = sort_keys (dget k ?fields)"
      using m v(2) by (auto simp: canonical_source_def Let_def simp del: sort_keys.simps)
  qed (rule keys)
  then show ?thesis using v by metis
qed


definition entry_ok :: "pv \<Rightarrow> bool" where
  "entry_ok v \<longleftrightarrow>
     (let entry = dict_of v in
     is_mapping v \<and> set (dict_keys entry) = set dependency_fields \<and>
     is_bounded_id (dget ''version'' entry) \<and>
     \<not> bad_int (dget ''payload_count'' entry) (\<lambda>n. 1 \<le> n \<and> n \<le> 100000) \<and>
     (\<forall>k \<in> {''locked_wheel_sha256'', ''payload_sha256'', ''record_sha256''}.
        \<exists>h. dget k entry = PStr h \<and> sha256_re h))"

definition canonical_entry :: "pv \<Rightarrow> pv" where
  "canonical_entry v = PDict (map (\<lambda>k. (k, dget k (dict_of v))) dependency_fields)"

lemma closed_dependency_Inr:
  "closed_dependency key v = Inr kv \<longleftrightarrow> entry_ok v \<and> kv = (key, canonical_entry v)"
proof -
  let ?entry = "dict_of v"
  have "closed_dependency key v = Inr kv \<longleftrightarrow>
    (is_mapping v \<and> set (dict_keys ?entry) = set dependency_fields \<and>
     is_bounded_id (dget ''version'' ?entry) \<and>
     \<not> bad_int (dget ''payload_count'' ?entry) (\<lambda>n. 1 \<le> n \<and> n \<le> 100000)) \<and>
    (\<exists>w p r. dget ''locked_wheel_sha256'' ?entry = PStr w \<and> sha256_re w \<and>
      dget ''payload_sha256'' ?entry = PStr p \<and> sha256_re p \<and>
      dget ''record_sha256'' ?entry = PStr r \<and> sha256_re r \<and>
      kv = (key, PDict [(''version'', dget ''version'' ?entry), (''locked_wheel_sha256'', PStr w),
        (''payload_count'', dget ''payload_count'' ?entry), (''payload_sha256'', PStr p),
        (''record_sha256'', PStr r)]))"
    unfolding closed_dependency_def Let_def guardE_Inr_iff bindE_Inr_iff check_sha256_Inr
    by (simp only: sum.inject) blast
  also have "\<dots> \<longleftrightarrow> entry_ok v \<and> kv = (key, canonical_entry v)"
    unfolding entry_ok_def Let_def canonical_entry_def dependency_fields_def
    by (rule iffI; elim conjE exE; simp del: set_map; elim exE conjE; simp)
  finally show ?thesis .
qed

definition dependency_ok :: "pv \<Rightarrow> bool" where
  "dependency_ok v \<longleftrightarrow> is_mapping v \<and> set (dict_keys (dict_of v)) = set dependency_names \<and>
     (\<forall>k \<in> set dependency_names. entry_ok (dget k (dict_of v)))"

definition canonical_dependency :: "pv \<Rightarrow> (string \<times> pv) list" where
  "canonical_dependency v = map (\<lambda>k. (k, canonical_entry (dget k (dict_of v)))) dependency_names"

lemma closed_dependencies_Inr:
  "mapE (\<lambda>key. closed_dependency key (f key)) ks = Inr es \<longleftrightarrow>
     (\<forall>k \<in> set ks. entry_ok (f k)) \<and> es = map (\<lambda>k. (k, canonical_entry (f k))) ks"
  by (induction ks arbitrary: es) (auto simp: res_simps closed_dependency_Inr)

lemma closed_dependency_identity_Inr:
  "closed_dependency_identity v = Inr c \<longleftrightarrow> dependency_ok v \<and> c = canonical_dependency v"
  by (cases v) (auto simp: closed_dependency_identity_def dependency_ok_def canonical_dependency_def
      guardE_Inr_iff closed_dependencies_Inr)

lemma entry_ok_sort [simp]: "plain v \<Longrightarrow> entry_ok (sort_keys v) = entry_ok v"
  by (simp add: entry_ok_def dget_sorted Let_def)

lemma dependency_ok_sort: "plain v \<Longrightarrow> dependency_ok (sort_keys v) = dependency_ok v"
  by (simp add: dependency_ok_def dget_sorted)

lemma sort_keys_str: "is_str v \<Longrightarrow> sort_keys v = v"
  by (cases v) simp_all

lemma canonical_entry_sort:
  assumes "plain v" "entry_ok v"
  shows "canonical_entry (sort_keys v) = canonical_entry v"
proof -
  let ?same = "\<lambda>k. sort_keys (dget k (dict_of v)) = dget k (dict_of v)"
  have "?same ''version''"
    using assms(2) by (intro sort_keys_str) (simp add: entry_ok_def Let_def is_bounded_id_def)
  moreover have "?same ''payload_count''"
  proof -
    from assms(2) obtain i where "dget ''payload_count'' (dict_of v) = PInt i"
      unfolding entry_ok_def Let_def bad_int_iff by blast
    then show ?thesis by simp
  qed
  moreover have "?same ''locked_wheel_sha256'' \<and> ?same ''payload_sha256'' \<and> ?same ''record_sha256''"
    using assms(2) unfolding entry_ok_def Let_def by (elim conjE) (auto simp del: set_map)
  ultimately have "list_all ?same dependency_fields" by (simp add: dependency_fields_def)
  then have "?same k" if "k \<in> set dependency_fields" for k using that by (simp add: list_all_iff)
  with assms(1) show ?thesis by (simp add: canonical_entry_def dget_sorted)
qed

lemma canonical_dependency_sort:
  "plain v \<Longrightarrow> dependency_ok v \<Longrightarrow> canonical_dependency (sort_keys v) = canonical_dependency v"
  by (simp add: canonical_dependency_def dget_sorted dependency_ok_def canonical_entry_sort)

lemma plain_mapping_keys: "plain v \<Longrightarrow> distinct (dict_keys (dict_of v))"
  by (cases v) simp_all

lemma sort_canonical_entry:
  assumes "plain v" "entry_ok v"
  shows "sort_keys (canonical_entry v) = sort_keys v"
proof -
  have v: "PDict (dict_of v) = v" using assms(2) by (simp add: entry_ok_def Let_def dict_of_mapping)
  have sets: "set (dict_keys (dict_of v)) = set dependency_fields" "distinct dependency_fields"
    using assms(2) by (simp_all add: entry_ok_def Let_def) (simp add: dependency_fields_def)
  have "sort_keys (canonical_entry v) = sort_keys (PDict (dict_of v))"
    unfolding canonical_entry_def
    by (rule sort_keys_eqI)
      (use sets plain_mapping_keys [OF assms(1)] in \<open>simp_all add: comp_def del: sort_keys.simps\<close>)
  then show ?thesis by (simp only: v)
qed

lemma sort_canonical_dependency:
  assumes "plain v" "dependency_ok v"
  shows "sort_keys (PDict (canonical_dependency v)) = sort_keys v"
proof -
  have v: "PDict (dict_of v) = v" using assms(2) by (simp add: dependency_ok_def dict_of_mapping)
  have sets: "set (dict_keys (dict_of v)) = set dependency_names" "distinct dependency_names"
    using assms(2) by (simp_all add: dependency_ok_def) (simp add: dependency_names_def)
  have entries: "sort_keys (canonical_entry (dget k (dict_of v))) = sort_keys (dget k (dict_of v))"
    if "k \<in> set dependency_names" for k
    using assms that by (intro sort_canonical_entry) (simp_all add: dependency_ok_def)
  have "sort_keys (PDict (canonical_dependency v)) = sort_keys (PDict (dict_of v))"
    unfolding canonical_dependency_def
    by (rule sort_keys_eqI)
      (use sets entries plain_mapping_keys [OF assms(1)] in
        \<open>simp_all add: comp_def del: sort_keys.simps\<close>)
  then show ?thesis by (simp only: v)
qed

section \<open>The retained reservation\<close>

lemma canonical_json_Inr: "canonical_json v = Inr raw \<longleftrightarrow> json_ok v \<and> raw = json_text (sort_keys v)"
  by (auto simp: canonical_json_def json_dumps_def)

lemma canonical_json_sort_eq:
  "plain v \<Longrightarrow> plain w \<Longrightarrow> sort_keys v = sort_keys w \<Longrightarrow> canonical_json v = canonical_json w"
  by (simp add: canonical_json_def json_dumps_def plain_json_ok)

text \<open>What \<open>payload\<close> accepts, and the payload it then returns.\<close>

definition reservation_ok :: "receipt_reservation \<Rightarrow> bool" where
  "reservation_ok r \<longleftrightarrow>
     \<not> bad_int (consumer_task_id r) (\<lambda>i. 1 \<le> i) \<and> mode r \<in> {PStr ''sync'', PStr ''async''} \<and>
     (\<forall>h \<in> {ledger_sha256 r, semantic_request_sha256 r, contract_sha256 r, endpoint_origin_sha256 r}.
        \<exists>s. h = PStr s \<and> sha256_re s) \<and>
     (\<forall>i \<in> {process_id r, case_id r, logical_request_id r, transport_gate_id r, requested_route r,
           resolved_route r}. \<exists>s. i = PStr s \<and> id_re s) \<and>
     source_ok (source_identity r) \<and> dependency_ok (dependency_identity r)"

definition payload_of :: "receipt_reservation \<Rightarrow> (string \<times> pv) list" where
  "payload_of r =
     [(''schema_version'', PStr ''dspx-provider-outcome-reservation-v1''),
      (''consumer_task_id'', consumer_task_id r), (''ledger_sha256'', ledger_sha256 r),
      (''process_id'', process_id r), (''case_id'', case_id r),
      (''logical_request_id'', logical_request_id r), (''transport_gate_id'', transport_gate_id r),
      (''semantic_request_sha256'', semantic_request_sha256 r),
      (''contract_sha256'', contract_sha256 r),
      (''mode'', mode r), (''requested_route'', requested_route r),
      (''resolved_route'', resolved_route r), (''endpoint_origin_sha256'', endpoint_origin_sha256 r),
      (''source_identity'', PDict (canonical_source (source_identity r))),
      (''dependency_identity'', PDict (canonical_dependency (dependency_identity r)))]"

lemma reservation_payload_Inr:
  "reservation_payload r = Inr p \<longleftrightarrow> reservation_ok r \<and> p = payload_of r \<and>
     json_ok (PDict (payload_of r)) \<and> length (json_text (sort_keys (PDict (payload_of r)))) \<le> max_event_bytes"
  unfolding reservation_payload_def Let_def bindE_True guardE_Inr_iff bindE_Inr_iff
    closed_source_identity_Inr closed_dependency_identity_Inr check_sha256_Inr bounded_id_Inr
    canonical_json_Inr in_frozenset_Inr_True reservation_ok_def payload_of_def
  by (auto simp del: sort_keys.simps json_ok.simps json_text.simps)

definition identities_plain :: "receipt_reservation \<Rightarrow> bool" where
  "identities_plain r \<longleftrightarrow> plain (source_identity r) \<and> plain (dependency_identity r)"

text \<open>The reservation a loader gets back.\<close>

definition retained :: "receipt_reservation \<Rightarrow> receipt_reservation" where
  "retained r = r\<lparr>source_identity := sort_keys (source_identity r),
     dependency_identity := sort_keys (dependency_identity r)\<rparr>"

lemma retained_ok:
  "identities_plain r \<Longrightarrow> reservation_ok r \<Longrightarrow> reservation_ok (retained r)"
  by (simp add: reservation_ok_def retained_def identities_plain_def source_ok_sort dependency_ok_sort)

lemma payload_of_retained:
  "identities_plain r \<Longrightarrow> reservation_ok r \<Longrightarrow> payload_of (retained r) = payload_of r"
  by (simp add: payload_of_def retained_def identities_plain_def reservation_ok_def
      canonical_source_sort canonical_dependency_sort)

lemma reservation_payload_retained:
  "identities_plain r \<Longrightarrow> reservation_payload r = Inr p \<Longrightarrow> reservation_payload (retained r) = Inr p"
  unfolding reservation_payload_Inr by (simp only: retained_ok payload_of_retained simp_thms)

lemma reservation_id_retained:
  "identities_plain r \<Longrightarrow> reservation_payload r = Inr p \<Longrightarrow> reservation_id (retained r) = reservation_id r"
  by (simp add: reservation_id_def reservation_payload_retained)

lemma plain_canonical:
  assumes "identities_plain r" "reservation_ok r"
  shows "plain (PDict (canonical_source (source_identity r)))"
    "plain (PDict (canonical_dependency (dependency_identity r)))"
  using assms
  by (metis plain_sort_keys_iff sort_canonical_source sort_canonical_dependency
      identities_plain_def reservation_ok_def)+

definition ascii :: "string \<Rightarrow> bool" where "ascii s \<longleftrightarrow> list_all (\<lambda>c. \<not> digit7 c) s"

lemma ascii_iff: "ascii s \<longleftrightarrow> list_all (\<lambda>c. (of_char c :: nat) < 128) s"
proof -
  have "\<not> digit7 c \<longleftrightarrow> (of_char c :: nat) < 128" for c
    by (cases c) (simp add: of_char_def of_bool_def)
  then show ?thesis by (simp add: ascii_def)
qed

lemma plain_dict:
  assumes "distinct (dict_keys kvs)" "list_all ascii (dict_keys kvs)" "list_all plain (map snd kvs)"
  shows "plain (PDict kvs)"
  using assms by (auto simp: plain_items_iff list_all_iff [of ascii] list_all_iff [of plain]
      ascii_iff utf8_ok_ascii ascii_no_surrogate)

lemma reservation_keys_ascii: "list_all ascii reservation_keys" "distinct reservation_keys"
  by (simp_all add: reservation_keys_def ascii_def)

lemma keys_payload_of: "dict_keys (payload_of r) = reservation_keys"
  by (simp add: payload_of_def reservation_keys_def)

lemma reservation_ok_plain:
  assumes "reservation_ok r"
  shows "plain (ledger_sha256 r)" "plain (semantic_request_sha256 r)" "plain (contract_sha256 r)"
    "plain (endpoint_origin_sha256 r)" "plain (process_id r)" "plain (case_id r)"
    "plain (logical_request_id r)" "plain (transport_gate_id r)" "plain (requested_route r)"
    "plain (resolved_route r)"
  using assms sha256_re_plain id_re_plain unfolding reservation_ok_def ball_simps by metis+

lemma reservation_ok_mode: "reservation_ok r \<Longrightarrow> plain (mode r)"
  using ascii_plain [of "''sync''"] ascii_plain [of "''async''"]
  unfolding reservation_ok_def insert_iff empty_iff ascii_iff [symmetric]
  by (elim conjE disjE) (simp_all add: ascii_def)

lemma reservation_ok_task:
  assumes "reservation_ok r" "json_ok (consumer_task_id r)"
  shows "plain (consumer_task_id r)"
proof -
  have "\<not> bad_int (consumer_task_id r) (\<lambda>i. 1 \<le> i)" using assms(1) by (simp add: reservation_ok_def)
  then obtain n where "consumer_task_id r = PInt n" unfolding bad_int_iff by blast
  with assms(2) show ?thesis by simp
qed

lemma payload_task_ok: "json_ok (PDict (payload_of r)) \<Longrightarrow> json_ok (consumer_task_id r)"
  by (simp only: payload_of_def json_ok.simps) simp

lemma plain_payload:
  assumes "identities_plain r" "reservation_ok r" "json_ok (PDict (payload_of r))"
  shows "plain (PDict (payload_of r))"
proof (rule plain_dict)
  have "plain (PStr ''dspx-provider-outcome-reservation-v1'')"
    by (rule ascii_plain) (simp only: ascii_iff [symmetric], simp add: ascii_def)
  then show "list_all plain (map snd (payload_of r))"
    using reservation_ok_plain [OF assms(2)] reservation_ok_mode [OF assms(2)]
      reservation_ok_task [OF assms(2) payload_task_ok [OF assms(3)]] plain_canonical [OF assms(1,2)]
    by (simp only: payload_of_def list.map snd_conv list.pred_inject simp_thms)
qed (simp_all only: keys_payload_of reservation_keys_ascii)

text \<open>The retained reservation is read back from the sorted payload.\<close>

lemma dget_payload_of: "dget ''schema_version'' (payload_of r) = PStr ''dspx-provider-outcome-reservation-v1''"
  by (simp add: payload_of_def)

lemma reservation_of_sorted:
  assumes "identities_plain r" "reservation_ok r" "json_ok (PDict (payload_of r))"
  shows "reservation_of_fields (dict_of (sort_keys (PDict (payload_of r)))) = retained r"
proof -
  have f: "dget k (dict_of (sort_keys (PDict (payload_of r)))) = sort_keys (dget k (payload_of r))" for k
    using plain_payload [OF assms] dget_sorted [of "PDict (payload_of r)" k] by (simp only: dict_of.simps)
  have str: "sort_keys h = h" if "\<exists>s. h = PStr s \<and> P s" for h P
    using that by auto
  have task: "sort_keys (consumer_task_id r) = consumer_task_id r"
    using assms(2) unfolding reservation_ok_def bad_int_iff by auto
  have mode: "sort_keys (mode r) = mode r"
    using assms(2) unfolding reservation_ok_def by auto
  have rest: "sort_keys (ledger_sha256 r) = ledger_sha256 r"
    "sort_keys (semantic_request_sha256 r) = semantic_request_sha256 r"
    "sort_keys (contract_sha256 r) = contract_sha256 r"
    "sort_keys (endpoint_origin_sha256 r) = endpoint_origin_sha256 r"
    "sort_keys (process_id r) = process_id r" "sort_keys (case_id r) = case_id r"
    "sort_keys (logical_request_id r) = logical_request_id r"
    "sort_keys (transport_gate_id r) = transport_gate_id r"
    "sort_keys (requested_route r) = requested_route r"
    "sort_keys (resolved_route r) = resolved_route r"
    using assms(2) unfolding reservation_ok_def ball_simps by (auto intro!: str)
  have ids: "sort_keys (PDict (canonical_source (source_identity r))) = sort_keys (source_identity r)"
    "sort_keys (PDict (canonical_dependency (dependency_identity r))) = sort_keys (dependency_identity r)"
    using assms sort_canonical_source sort_canonical_dependency
    by (simp_all only: identities_plain_def reservation_ok_def)
  show ?thesis
    unfolding reservation_of_fields_def retained_def f
    by (simp add: payload_of_def task mode rest ids del: sort_keys.simps)
qed

lemma reservation_from_sorted:
  assumes "identities_plain r" "reservation_payload r = Inr p"
  shows "reservation_from_payload (dict_of (sort_keys (PDict p))) = Inr (retained r)"
proof -
  from assms(2) have ok: "reservation_ok r" "json_ok (PDict (payload_of r))" and p: "p = payload_of r"
    by (simp_all only: reservation_payload_Inr)
  note pl = plain_payload [OF assms(1) ok]
  have keys: "set (dict_keys (dict_of (sort_keys (PDict (payload_of r))))) = set reservation_keys"
    by (simp only: set_keys_sorted list.set_map dict_of.simps) (simp only: list.set_map [symmetric] keys_payload_of)
  have schema: "dget ''schema_version'' (dict_of (sort_keys (PDict (payload_of r)))) =
      PStr ''dspx-provider-outcome-reservation-v1''"
    using dget_sorted [OF pl] by (simp only: dict_of.simps dget_payload_of sort_keys.simps)
  have eq: "PDict (dict_of (sort_keys (PDict (payload_of r)))) = sort_keys (PDict (payload_of r))"
    by (rule dict_of_mapping) (simp only: sort_keys_scalar is_mapping.simps)
  have "py_eq (PDict (payload_of r)) (sort_keys (PDict (payload_of r)))"
    by (rule py_eq_sorted) (simp_all only: pl plain_sort_keys sort_keys_idem)
  then show ?thesis
    unfolding p reservation_from_payload_def Let_def keys schema reservation_of_sorted [OF assms(1) ok] eq
      reservation_payload_retained [OF assms(1) assms(2) [unfolded p]]
    by (simp add: guardE_def)
qed

text \<open>A file written with the canonical encoder decodes to the same mapping, its keys sorted.\<close>

lemma decode_canonical:
  assumes "plain (PDict kvs)" "canonical_json (PDict kvs) = Inr raw"
  shows "decode_mapping raw reason = Inr (dict_of (sort_keys (PDict kvs)))"
proof -
  have raw: "raw = json_text (sort_keys (PDict kvs))" using assms(2) by (simp only: canonical_json_Inr)
  have load: "json_loads raw = Inr (sort_keys (PDict kvs))"
    unfolding raw by (rule json_loads_text) (rule plain_sort_keys [OF assms(1)])
  have again: "canonical_json (sort_keys (PDict kvs)) = Inr raw"
    by (simp only: canonical_json_Inr raw sort_keys_idem plain_json_ok [OF plain_sort_keys [OF assms(1)]] simp_thms)
  have "is_mapping (sort_keys (PDict kvs))" by (simp only: sort_keys_scalar is_mapping.simps)
  then show ?thesis by (simp add: decode_mapping_def load again guardE_def del: sort_keys.simps)
qed

end
