(* ===== verification/Journal_Codec.thy ===== *)
theory Journal_Codec
  imports Journal_Identity
begin

text \<open>
  What the journal relies on of an event format, as the locale \<open>journal_codec\<close>: the envelope a
  format writes has the keys the loader expects, is a value the JSON reader gives back, its event
  parses to the event it was made of, and is the same for a reservation read back from its file.
  The receipt events and the exact-status events both meet it.
\<close>


section \<open>The interface of an event format\<close>

locale journal_codec =
  fixes fm :: "'e journal_format" and text_ok :: "'e \<Rightarrow> bool"
  assumes payload_shape: "\<lbrakk>fm_payload fm r n previous e = Inr p; identities_plain r; text_ok e;
      fm_parse fm m = Inr e; opt_all utf8_ok previous; json_ok (PDict p)\<rbrakk> \<Longrightarrow>
      plain (PDict p) \<and> set (dict_keys p) = set envelope_keys \<and> is_mapping (dget ''event'' p)"
    and payload_parse: "\<lbrakk>fm_payload fm r n previous e = Inr p; identities_plain r; text_ok e;
      fm_parse fm m = Inr e; opt_all utf8_ok previous; json_ok (PDict p)\<rbrakk> \<Longrightarrow>
      fm_parse fm (dict_of (sort_keys (dget ''event'' p))) = Inr e"
    and payload_retained: "\<lbrakk>fm_payload fm r n previous e = Inr p; identities_plain r\<rbrakk> \<Longrightarrow>
      fm_payload fm (retained r) n previous e = Inr p"

definition envelope_of :: "nat \<Rightarrow> string option \<Rightarrow> 'e \<Rightarrow> string \<Rightarrow> 'e journal_envelope" where
  "envelope_of n previous e raw =
     \<lparr>env_sequence = int n, previous_event_sha256 = previous, env_event = e, env_raw = raw,
      env_digest = sha256 raw\<rparr>"

definition recorded :: "'e journal_format \<Rightarrow> ('e \<Rightarrow> bool) \<Rightarrow> receipt_reservation \<Rightarrow> nat \<Rightarrow> string option \<Rightarrow> 'e journal_envelope \<Rightarrow> bool" where
  "recorded fm text_ok r n previous env \<longleftrightarrow>
     (\<exists>p m. env = envelope_of n previous (env_event env) (env_raw env) \<and> text_ok (env_event env) \<and>
        opt_all utf8_ok previous \<and>
        fm_parse fm m = Inr (env_event env) \<and>
        fm_payload fm r (int n) previous (env_event env) = Inr p \<and>
        canonical_json (PDict p) = Inr (env_raw env) \<and>
        env_raw env \<noteq> [] \<and> length (env_raw env) \<le> max_event_bytes)"

context journal_codec
begin

lemma validate_recorded:
  assumes "recorded fm text_ok r n previous env" "identities_plain r"
  shows "validate_envelope fm (env_raw env) (retained r) n previous = Inr env"
proof -
  obtain p m where env: "env = envelope_of n previous (env_event env) (env_raw env)"
    and parsed: "text_ok (env_event env)" "fm_parse fm m = Inr (env_event env)"
      "opt_all utf8_ok previous"
    and p: "fm_payload fm r (int n) previous (env_event env) = Inr p"
    and raw: "canonical_json (PDict p) = Inr (env_raw env)"
    using assms(1) unfolding recorded_def by blast
  have "json_ok (PDict p)" using raw by (simp only: canonical_json_Inr)
  note facts = payload_shape [OF p assms(2) parsed this] payload_parse [OF p assms(2) parsed this]
  then have pl: "plain (PDict p)" by simp
  let ?v = "dict_of (sort_keys (PDict p))"
  have keys: "set (dict_keys ?v) = set envelope_keys"
    using facts by (simp only: set_keys_sorted list.set_map dict_of.simps)
  have event: "dget ''event'' ?v = sort_keys (dget ''event'' p)"
    using dget_sorted [OF pl] by (simp only: dict_of.simps)
  have eq: "PDict ?v = sort_keys (PDict p)"
    by (rule dict_of_mapping) (simp only: sort_keys_scalar is_mapping.simps)
  have "py_eq (sort_keys (PDict p)) (PDict p)"
    by (rule py_eq_sorted) (simp_all only: pl plain_sort_keys sort_keys_idem)
  then show ?thesis
    unfolding validate_envelope_def decode_canonical [OF pl raw] bindE_simps keys event eq
    using facts payload_retained [OF p assms(2)] env
    by (simp add: guardE_def reraise_def envelope_of_def del: sort_keys.simps)
qed

end

fun linked :: "'e journal_format \<Rightarrow> ('e \<Rightarrow> bool) \<Rightarrow> receipt_reservation \<Rightarrow> nat \<Rightarrow> string option
    \<Rightarrow> 'e journal_envelope list \<Rightarrow> bool" where
  "linked fm text_ok r n previous [] = True"
| "linked fm text_ok r n previous (env # envs) =
     (recorded fm text_ok r n previous env \<and> linked fm text_ok r (Suc n) (Some (env_digest env)) envs)"

fun event_files :: "nat \<Rightarrow> 'e journal_envelope list \<Rightarrow> files" where
  "event_files n [] = []"
| "event_files n (env # envs) = (event_name n, file_of (env_raw env)) # event_files (Suc n) envs"

fun last_digest :: "string option \<Rightarrow> 'e journal_envelope list \<Rightarrow> string option" where
  "last_digest previous [] = previous"
| "last_digest previous (env # envs) = last_digest (Some (env_digest env)) envs"

lemma linked_snoc:
  "linked fm text_ok r n previous (envs @ [env]) \<longleftrightarrow> linked fm text_ok r n previous envs \<and>
     recorded fm text_ok r (n + length envs) (last_digest previous envs) env"
  by (induction envs arbitrary: n previous) auto

lemma event_files_snoc:
  "event_files n (envs @ [env]) = event_files n envs @ [(event_name (n + length envs), file_of (env_raw env))]"
  by (induction envs arbitrary: n) auto

lemma last_digest_snoc [simp]: "last_digest previous (envs @ [env]) = Some (env_digest env)"
  by (induction envs arbitrary: previous) auto

lemma event_files_names: "dict_keys (event_files n envs) = map event_name [n..<n + length envs]"
  by (induction envs arbitrary: n) (simp_all add: upt_rec)

lemma length_event_files [simp]: "length (event_files n envs) = length envs"
  by (induction envs arbitrary: n) auto

lemma event_names_sorted: "sorted (map event_name [0..<max_events])"
  unfolding max_events_def event_name_def by code_simp

lemma event_names_distinct: "distinct (map event_name [0..<max_events])"
  unfolding max_events_def event_name_def by code_simp

lemma event_files_sorted:
  assumes "length envs \<le> max_events"
  shows "sort_key fst (event_files 0 envs) = event_files 0 envs"
proof (rule sort_key_id_if_sorted)
  have "map event_name [0..<length envs] = take (length envs) (map event_name [0..<max_events])"
    using assms by (simp add: take_map)
  then show "sorted (dict_keys (event_files 0 envs))"
    by (simp only: event_files_names add_0 event_names_sorted sorted_wrt_take)
qed

lemma read_private_file:
  "raw \<noteq> [] \<Longrightarrow> length raw \<le> max_event_bytes \<Longrightarrow> read_private (file_of raw) = Inr raw"
  by (simp add: read_private_def require_private_def file_of_def private_file_def guardE_def)

context journal_codec
begin

lemma load_linked:
  assumes "linked fm text_ok r n previous envs" "identities_plain r"
  shows "load_events fm (retained r) n previous (event_files n envs) = Inr envs"
  using assms(1)
proof (induction envs arbitrary: n previous)
  case (Cons env envs)
  then have env: "recorded fm text_ok r n previous env" by simp
  then have "read_private (file_of (env_raw env)) = Inr (env_raw env)"
    unfolding recorded_def by (auto intro: read_private_file)
  with Cons validate_recorded [OF env assms(2)] show ?case
    by (simp add: guardE_def reraise_def)
qed simp

end

section \<open>The two formats\<close>

lemma envelope_shape:
  assumes "envelope_payload schema r n previous event = Inr p" "identities_plain r"
    and "ascii schema" "opt_all utf8_ok previous" "json_ok (PDict p)"
    and "json_ok (PDict event) \<Longrightarrow> plain (PDict event)"
  shows "plain (PDict p) \<and> set (dict_keys p) = set envelope_keys \<and> dget ''event'' p = PDict event"
proof -
  let ?producer = "map (\<lambda>k. (k, dget k (dict_of (source_identity r)))) [''owner'', ''version'', ''commit'', ''tree'']"
  obtain rid src dep where p: "p = [(''schema_version'', PStr schema), (''reservation_id'', PStr rid),
      (''sequence'', PInt n), (''previous_event_sha256'', pv_of_str previous),
      (''producer'', PDict ?producer), (''source_identity_sha256'', PStr (sha256 src)),
      (''dependency_identity_sha256'', PStr (sha256 dep)), (''event'', PDict event)]"
    and rid: "reservation_id r = Inr rid"
    using assms(1) by (auto simp: envelope_payload_def Let_def res_simps guardE_Inr_iff)
  from rid obtain q where "rid = sha256 q" by (auto simp: reservation_id_def res_simps)
  then have digests: "plain (PStr rid)" "plain (PStr (sha256 src))" "plain (PStr (sha256 dep))"
    using sha256_digest_plain by simp_all
  have ok: "json_ok (PInt n)" "json_ok (pv_of_str previous)" "json_ok (PDict event)"
    using assms(5) unfolding p by simp_all
  have "plain (pv_of_str previous)"
    using ok(2) assms(4) by (cases previous) (simp_all add: pv_of_str_def)
  moreover have "plain (PInt n)" using ok(1) by simp
  moreover have "plain (PDict event)" using assms(6) ok(3) by simp
  moreover have "plain (PStr schema)" using ascii_plain assms(3) by (simp only: ascii_iff)
  moreover have "plain (PDict ?producer)"
  proof (rule plain_dict)
    have "plain (source_identity r)" using assms(2) by (simp add: identities_plain_def)
    then show "list_all plain (map snd ?producer)" by simp
  qed (simp_all add: ascii_def)
  moreover have "dict_keys p = envelope_keys" by (simp add: p envelope_keys_def)
  moreover have "distinct envelope_keys" "list_all ascii envelope_keys"
    by (simp_all add: envelope_keys_def ascii_def)
  ultimately have "plain (PDict p)"
    using digests by (intro plain_dict) (simp_all only:, simp only: p list.map snd_conv list.pred_inject simp_thms)
  moreover have "dget ''event'' p = PDict event" by (simp add: p)
  moreover have "set (dict_keys p) = set envelope_keys" using \<open>dict_keys p = envelope_keys\<close> by simp
  ultimately show ?thesis by blast
qed

lemma envelope_retained:
  assumes "envelope_payload schema r n previous event = Inr p" "identities_plain r"
  shows "envelope_payload schema (retained r) n previous event = Inr p"
proof -
  obtain q rid where q: "reservation_payload r = Inr q" and rid: "reservation_id r = Inr rid"
    using assms(1) by (auto simp: envelope_payload_def reservation_id_def Let_def res_simps guardE_Inr_iff)
  then have ok: "reservation_ok r" by (simp only: reservation_payload_Inr)
  have plain: "plain (source_identity r)" "plain (dependency_identity r)"
    using assms(2) by (simp_all add: identities_plain_def)
  have "canonical_json (sort_keys v) = canonical_json v" if "plain v" for v
    by (rule canonical_json_sort_eq) (simp_all add: that plain_sort_keys sort_keys_idem)
  note json = this [OF plain(1)] this [OF plain(2)]
  have strs: "is_str (dget k (dict_of (source_identity r)))"
    if "k \<in> {''owner'', ''version'', ''commit'', ''tree''}" for k
    using ok that unfolding reservation_ok_def source_ok_def Let_def is_bounded_id_def is_git_sha_def
    by (elim conjE insertE emptyE) simp_all
  then have same: "dget k (dict_of (sort_keys (source_identity r))) = dget k (dict_of (source_identity r))"
    if "k \<in> {''owner'', ''version'', ''commit'', ''tree''}" for k
    using that sort_keys_str dget_sorted [OF plain(1)] by metis
  have rid': "reservation_id (retained r) = reservation_id r"
    by (rule reservation_id_retained [OF assms(2) q])
  show ?thesis
    using assms(1) unfolding envelope_payload_def Let_def rid'
    by (simp add: retained_def json same)
qed

definition event_text :: "'a closed_event_scheme \<Rightarrow> bool" where
  "event_text e \<longleftrightarrow> opt_all utf8_ok (observed_model e)"

lemma ascii_lists: "list_all ascii error_classes" "list_all ascii protocol_events"
  "list_all ascii event_fields" "list_all ascii soomfon_event_fields"
  "distinct event_fields" "distinct soomfon_event_fields"
  by (simp_all add: error_classes_def protocol_events_def event_fields_def soomfon_event_fields_def ascii_def)

lemma ascii_kind: "ascii (kind_name k)"
  by (cases k) (simp_all add: ascii_def)

lemma ascii_plain': "ascii s \<Longrightarrow> plain (PStr s)"
  by (rule ascii_plain) (simp only: ascii_iff)

lemma plain_opt_int: "json_ok (pv_of_int i) \<Longrightarrow> plain (pv_of_int i)"
  by (cases i) (simp_all add: pv_of_int_def)

lemma plain_opt_member: "opt_all (\<lambda>s. s \<in> set ss) v \<Longrightarrow> list_all ascii ss \<Longrightarrow> plain (pv_of_str v)"
  using ascii_plain' by (cases v) (auto simp: pv_of_str_def list_all_iff)

lemma plain_opt_hash: "opt_all sha256_re v \<Longrightarrow> plain (pv_of_str v)"
  using sha256_re_plain by (cases v) (auto simp: pv_of_str_def)

lemma plain_opt_text: "opt_all utf8_ok v \<Longrightarrow> json_ok (pv_of_str v) \<Longrightarrow> plain (pv_of_str v)"
  by (cases v) (auto simp: pv_of_str_def)

lemma plain_event_payload:
  assumes "fields_ok e" "event_text e" "json_ok (PDict (event_payload e))"
  shows "plain (PDict (event_payload e))"
proof (rule plain_dict)
  have "json_ok (pv_of_int (gate_ordinal e))" "json_ok (pv_of_int (status_class e))"
    "json_ok (pv_of_str (observed_model e))"
    using assms(3) by (simp_all add: event_payload_def)
  then show "list_all plain (map snd (event_payload e))"
    using assms(1,2) plain_opt_int plain_opt_member [OF _ ascii_lists(1)] plain_opt_member [OF _ ascii_lists(2)]
      plain_opt_hash plain_opt_text ascii_plain' [OF ascii_kind]
    by (simp only: event_payload_def fields_ok_def event_text_def list.map snd_conv list.pred_inject simp_thms)
qed (simp_all add: event_payload_def ascii_def)

lemma plain_soomfon_payload:
  assumes "fields_ok e" "event_text e" "json_ok (PDict (soomfon_event_payload e))"
  shows "plain (PDict (soomfon_event_payload e))"
proof (rule plain_dict)
  have "json_ok (pv_of_int (gate_ordinal e))" "json_ok (pv_of_int (status_class e))"
    "json_ok (pv_of_int (status_code e))" "json_ok (pv_of_str (observed_model e))"
    using assms(3) by (simp_all add: soomfon_event_payload_def)
  then show "list_all plain (map snd (soomfon_event_payload e))"
    using assms(1,2) plain_opt_int plain_opt_member [OF _ ascii_lists(1)] plain_opt_member [OF _ ascii_lists(2)]
      plain_opt_hash plain_opt_text ascii_plain' [OF ascii_kind]
    by (simp only: soomfon_event_payload_def fields_ok_def event_text_def list.map snd_conv list.pred_inject simp_thms)
qed (simp_all add: soomfon_event_payload_def ascii_def)

lemma sort_pv_of [simp]: "sort_keys (pv_of_int i) = pv_of_int i" "sort_keys (pv_of_str s) = pv_of_str s"
  by (cases i; cases s; simp add: pv_of_int_def pv_of_str_def)+

lemma carries_sorted:
  assumes "plain (PDict kvs)" "set (dict_keys kvs) = set fs"
    and "\<And>k. k \<in> set fs \<Longrightarrow> sort_keys (dget k kvs) = dget k kvs"
  shows "carries (dict_of (sort_keys (PDict kvs))) fs kvs"
  using assms(2,3) dget_sorted [OF assms(1)]
  by (simp only: carries_def set_keys_sorted list.set_map dict_of.simps) simp

lemma event_payload_carried:
  assumes "plain (PDict (event_payload e))"
  shows "carries (dict_of (sort_keys (PDict (event_payload e)))) event_fields (event_payload e)"
  by (rule carries_sorted [OF assms]) (auto simp: event_payload_def event_fields_def)

lemma soomfon_payload_carried:
  assumes "plain (PDict (soomfon_event_payload e))"
  shows "carries (dict_of (sort_keys (PDict (soomfon_event_payload e)))) soomfon_event_fields
    (soomfon_event_payload e)"
  by (rule carries_sorted [OF assms]) (auto simp: soomfon_event_payload_def soomfon_event_fields_def)

interpretation base_codec: journal_codec base_format event_text
proof
  fix r n previous e p m
  assume a: "fm_payload base_format r n previous e = Inr p" "identities_plain r" "event_text e"
    "fm_parse base_format m = Inr e" "opt_all utf8_ok previous" "json_ok (PDict p)"
  then have wf: "wf_event e" by (simp add: base_format_def event_of_mapping_iff)
  have pl: "json_ok (PDict (event_payload e)) \<Longrightarrow> plain (PDict (event_payload e))"
    by (rule plain_event_payload) (use wf a(3) in \<open>simp_all only: wf_event_def\<close>)
  have schema: "ascii ''dspx-provider-outcome-consumption-event-v1''" by (simp add: ascii_def)
  note shape = envelope_shape [OF a(1) [unfolded base_format_def event_envelope_payload_def, simplified]
    a(2) schema a(5,6) pl]
  then show "plain (PDict p) \<and> set (dict_keys p) = set envelope_keys \<and> is_mapping (dget ''event'' p)"
    by simp
  have event: "plain (PDict (event_payload e))"
    using shape plain_dget [of p "''event''"] by simp
  show "fm_parse base_format (dict_of (sort_keys (dget ''event'' p))) = Inr e"
    using shape event_payload_carried [OF event] wf
    by (simp add: base_format_def event_of_mapping_iff del: sort_keys.simps)
qed (simp add: base_format_def event_envelope_payload_def envelope_retained)

interpretation soomfon_codec: journal_codec soomfon_format event_text
proof
  fix r n previous e p m
  assume a: "fm_payload soomfon_format r n previous e = Inr p" "identities_plain r" "event_text e"
    "fm_parse soomfon_format m = Inr e" "opt_all utf8_ok previous" "json_ok (PDict p)"
  then have wf: "wf_soomfon_event e" by (simp add: soomfon_format_def soomfon_event_of_mapping_iff)
  have pl: "json_ok (PDict (soomfon_event_payload e)) \<Longrightarrow> plain (PDict (soomfon_event_payload e))"
    by (rule plain_soomfon_payload) (use wf a(3) in \<open>simp_all only: wf_soomfon_event_def\<close>)
  have schema: "ascii ''dspx-soomfon-provider-outcome-consumption-event-v2''" by (simp add: ascii_def)
  note shape = envelope_shape [OF a(1) [unfolded soomfon_format_def soomfon_event_envelope_payload_def, simplified]
    a(2) schema a(5,6) pl]
  then show "plain (PDict p) \<and> set (dict_keys p) = set envelope_keys \<and> is_mapping (dget ''event'' p)"
    by simp
  have event: "plain (PDict (soomfon_event_payload e))"
    using shape plain_dget [of p "''event''"] by simp
  show "fm_parse soomfon_format (dict_of (sort_keys (dget ''event'' p))) = Inr e"
    using shape soomfon_payload_carried [OF event] wf
    by (simp add: soomfon_format_def soomfon_event_of_mapping_iff del: sort_keys.simps)
qed (simp add: soomfon_format_def soomfon_event_envelope_payload_def envelope_retained)

end
