(* ===== verification/Journal_Recovery.thy ===== *)
theory Journal_Recovery
  imports Journal_Codec
begin

text \<open>
  A journal written through its object and read back from its directory.  \<open>journal_holds\<close> is the
  invariant every call keeps, whatever faults it meets; \<open>journal_reach\<close> are the objects a program
  can reach, with the events whose append returned; a load of a reached journal gives exactly these.
\<close>


section \<open>The reservation file\<close>

abbreviation member :: "jfile \<Rightarrow> jnode" where
  "member f \<equiv> jfile.extend f \<lparr>jn_children = None\<rparr>"

lemma read_member [simp]: "read_private (member f) = read_private f"
  by (simp add: read_private_def jfile.defs)

definition wrapper_file ::
    "'e journal_format \<Rightarrow> receipt_reservation \<Rightarrow> bool \<Rightarrow> string \<Rightarrow> bool" where
  "wrapper_file fm r accepted raw \<longleftrightarrow>
     (\<exists>w. wrapper_payload fm r accepted = Inr w \<and> canonical_json (PDict w) = Inr raw \<and>
        raw \<noteq> [] \<and> length raw \<le> max_event_bytes)"

lemma status_ascii: "ascii (artifact_status_name a)"
  by (cases a) (simp_all add: ascii_def)

lemma load_wrapper_file:
  assumes "wrapper_file fm r accepted raw" "identities_plain r" "ascii (fm_wrapper_schema fm)"
  shows "load_wrapper fm (member (file_of raw)) =
    Inr (retained r, if accepted then Accepted_exact else Fixture_only)"
proof -
  let ?status = "PStr (artifact_status_name (if accepted then Accepted_exact else Fixture_only))"
  from assms(1) obtain w where w: "wrapper_payload fm r accepted = Inr w"
    and raw: "canonical_json (PDict w) = Inr raw" "raw \<noteq> []" "length raw \<le> max_event_bytes"
    unfolding wrapper_file_def by blast
  from w obtain rid p where rid: "reservation_id r = Inr rid" and p: "reservation_payload r = Inr p"
    and w: "w = [(''schema_version'', PStr (fm_wrapper_schema fm)), (''reservation_id'', PStr rid),
      (''artifact_verification'', ?status), (''reservation'', PDict p)]"
    unfolding wrapper_payload_def bindE_Inr_iff by (simp only: sum.inject) blast
  from p have ok: "reservation_ok r" "json_ok (PDict (payload_of r))" "p = payload_of r"
    by (simp_all only: reservation_payload_Inr)
  have pp: "plain (PDict p)" using plain_payload [OF assms(2) ok(1,2)] by (simp only: ok(3))
  obtain q where "rid = sha256 q" using rid by (auto simp: reservation_id_def res_simps)
  then have "plain (PStr rid)" by (simp only: sha256_digest_plain)
  then have plain: "plain (PDict w)"
    using ascii_plain' [OF assms(3)] ascii_plain' [OF status_ascii] pp
    by (intro plain_dict) (simp add: w, simp add: w ascii_def,
      simp only: w list.map snd_conv list.pred_inject simp_thms)
  let ?v = "dict_of (sort_keys (PDict w))"
  have keys: "set (dict_keys ?v) = set wrapper_keys"
    by (simp only: set_keys_sorted list.set_map dict_of.simps)
      (simp add: w wrapper_keys_def)
  have field: "dget k ?v = sort_keys (dget k w)" for k
    using dget_sorted [OF plain] by (simp only: dict_of.simps)
  have fields: "dget ''schema_version'' ?v = PStr (fm_wrapper_schema fm)"
    "dget ''reservation_id'' ?v = PStr rid" "dget ''artifact_verification'' ?v = ?status"
    "dget ''reservation'' ?v = sort_keys (PDict p)"
    unfolding field by (simp_all add: w del: sort_keys.simps(5))
  have rid': "reservation_id (retained r) = Inr rid"
    using reservation_id_retained [OF assms(2) p] rid by simp
  have known: "in_frozenset ?status [''accepted_exact'', ''fixture_only''] = Inr True"
    by (simp add: in_frozenset_def)
  show ?thesis
    unfolding load_wrapper_def read_member read_private_file [OF raw(2,3)] bindE_simps
      decode_canonical [OF plain raw(1)] keys fields known reservation_from_sorted [OF assms(2) p] rid'
    by (simp add: guardE_def del: sort_keys.simps(5))
qed

section \<open>What every call keeps of a journal\<close>

text \<open>
  \<open>journal_holds fm text_ok j disk\<close>: the reservation file, the marker files beside it, and the
  records \<open>disk\<close> in the event directory; the events are only fixed while no marker is present, and
  the object's own counters only while it is not poisoned.
\<close>

definition markers :: "files \<Rightarrow> bool" where
  "markers extra \<longleftrightarrow> set (dict_keys extra) \<subseteq> {poison_name, inflight_name}"

definition journal_holds ::
    "'e journal_format \<Rightarrow> ('e \<Rightarrow> bool) \<Rightarrow> receipt_journal \<Rightarrow> 'e journal_envelope list \<Rightarrow> files \<Rightarrow> bool" where
  "journal_holds fm text_ok j disk extra \<longleftrightarrow>
     identities_plain (rj_reservation j) \<and> markers extra \<and>
     (\<exists>accepted raw. wrapper_file fm (rj_reservation j) accepted raw \<and>
        rj_files j = (reservation_name, file_of raw) # extra) \<and>
     linked fm text_ok (rj_reservation j) 0 None disk \<and> length disk \<le> max_events \<and>
     (extra = [] \<longrightarrow> rj_events j = event_files 0 disk) \<and>
     (\<not> rj_poisoned j \<longrightarrow> extra = [] \<and> rj_next j = length disk \<and>
        rj_previous j = last_digest None disk)"

lemma write_file_Inr:
  "write_file name raw fault fs = (fs', Inr u) \<longleftrightarrow>
     raw \<noteq> [] \<and> length raw \<le> max_event_bytes \<and> name \<notin> set (dict_keys fs) \<and> fault = No_fault \<and>
     fs' = fs @ [(name, file_of raw)]"
  by (auto simp: write_file_def split: write_fault.splits)

lemma write_file_keeps:
  "write_file name raw fault fs = (fs', res) \<Longrightarrow>
     fs' = fs \<or> (\<exists>f. fs' = fs @ [(name, f)])"
  by (auto simp: write_file_def split: write_fault.splits if_splits)

lemma write_poison_keeps:
  "write_poison effect fault fs = fs \<or> (\<exists>f. write_poison effect fault fs = fs @ [(poison_name, f)])"
  using write_file_keeps [OF prod.collapse [symmetric]]
  by (simp add: write_poison_def split: sum.split)

lemma write_inflight_keeps:
  "write_inflight n effect fault fs = (fs', res) \<Longrightarrow> fs' = fs \<or> (\<exists>f. fs' = fs @ [(inflight_name, f)])"
  by (auto simp: write_inflight_def split: sum.splits dest: write_file_keeps)

lemma write_inflight_Inr:
  "write_inflight n effect fault fs = (fs', Inr u) \<Longrightarrow>
     inflight_name \<notin> set (dict_keys fs) \<and> (\<exists>f. fs' = fs @ [(inflight_name, f)])"
  by (auto simp: write_inflight_def write_file_Inr split: sum.splits)

lemma names_differ [simp]:
  "reservation_name \<noteq> inflight_name" "inflight_name \<noteq> reservation_name"
  "reservation_name \<noteq> poison_name" "poison_name \<noteq> reservation_name"
  "poison_name \<noteq> inflight_name" "inflight_name \<noteq> poison_name"
  "reservation_name \<noteq> events_name" "events_name \<noteq> reservation_name"
  "poison_name \<noteq> events_name" "inflight_name \<noteq> events_name"
  by (simp_all add: reservation_name_def inflight_name_def poison_name_def events_name_def)

text \<open>Poisoning keeps the records and may add a marker.\<close>

lemma poison_holds:
  assumes "journal_holds fm text_ok j disk extra"
  shows "\<exists>extra'. journal_holds fm text_ok (poison_with fault effect j) disk extra'"
proof -
  from write_poison_keeps [of effect fault "rj_files j"]
  obtain more where "write_poison effect fault (rj_files j) = rj_files j @ more" "markers more"
    by (auto simp: markers_def)
  with assms have "journal_holds fm text_ok (poison_with fault effect j) disk (extra @ more)"
    unfolding journal_holds_def poison_with_def by (auto simp: markers_def)
  then show ?thesis ..
qed

lemma receipt_holds:
  assumes "journal_holds fm text_ok j disk extra" "provider_receipt busy rv result fault j = (j', res)"
  shows "\<exists>extra'. journal_holds fm text_ok j' disk extra'"
proof -
  have "journal_holds fm text_ok (j\<lparr>rj_issued := b\<rparr>) disk extra" for b
    using assms(1) by (simp add: journal_holds_def)
  then show ?thesis
    using assms poison_holds [OF assms(1)]
    by (auto simp: provider_receipt_def split: if_splits sum.splits receipt_result.splits)
qed

section \<open>Appending\<close>

text \<open>What \<open>prepare_event\<close> returns is ready to be recorded.\<close>

definition clean :: "'e journal_format \<Rightarrow> ('e \<Rightarrow> bool) \<Rightarrow> owner_event \<Rightarrow> bool" where
  "clean fm text_ok oe \<longleftrightarrow> (\<forall>e. event_from_owner fm oe = Inr e \<longrightarrow> text_ok e)"

lemma prepare_event_Inr:
  "prepare_event fm env oe j = (possible, Inr (e, raw)) \<Longrightarrow>
     event_from_owner fm oe = Inr e \<and> possible = (rj_effect j \<or> fm_kind fm e \<in> set effect_kinds) \<and>
     (\<exists>p. fm_payload fm (rj_reservation j) (int (rj_next j)) (rj_previous j) e = Inr p \<and>
          canonical_json (PDict p) = Inr raw)"
  by (auto simp: prepare_event_def res_simps split: sum.splits)

lemma owner_parsed: "event_from_owner fm oe = Inr e \<Longrightarrow> \<exists>m. fm_parse fm m = Inr e"
  by (auto simp: event_from_owner_def res_simps guardE_def split: option.splits if_splits)

lemma digest_utf8: "opt_all utf8_ok (last_digest None envs)" if "linked fm text_ok r 0 None envs"
proof (cases envs rule: rev_cases)
  case (snoc xs env)
  then have "env_digest env = sha256 (env_raw env)"
    using that by (simp add: linked_snoc recorded_def envelope_of_def) (metis journal_envelope.select_convs(5))
  then show ?thesis using snoc sha256_digest_plain by simp
qed simp

lemma prepared_recorded:
  assumes "journal_holds fm text_ok j disk extra" "\<not> rj_poisoned j" "clean fm text_ok oe"
    and "prepare_event fm env oe j = (possible, Inr (e, raw))" "raw \<noteq> []" "length raw \<le> max_event_bytes"
  shows "recorded fm text_ok (rj_reservation j) (length disk) (last_digest None disk)
    (envelope_of (length disk) (last_digest None disk) e raw)"
proof -
  have counters: "rj_next j = length disk" "rj_previous j = last_digest None disk"
    and linked: "linked fm text_ok (rj_reservation j) 0 None disk"
    using assms(1,2) by (simp_all add: journal_holds_def)
  show ?thesis
    using prepare_event_Inr [OF assms(4)] owner_parsed [of fm oe e] assms(3,5,6) digest_utf8 [OF linked]
    unfolding counters recorded_def clean_def by (simp add: envelope_of_def)
qed

lemma clear_inflight_cases:
  "clear_inflight fault fs = (fs', res) \<Longrightarrow> (fs' = fs \<and> (\<exists>x. res = Inl x)) \<or>
     fs' = filter (\<lambda>p. fst p \<noteq> inflight_name) fs"
  by (auto simp: clear_inflight_def split: if_splits)

text \<open>Committing adds one record, or poisons the object and either leaves a marker or has added it.\<close>

lemma commit_holds:
  assumes "journal_holds fm text_ok j disk []" "\<not> rj_poisoned j" "clean fm text_ok oe"
    and "length disk < max_events" "prepare_event fm env oe j = (possible, Inr (e, raw))"
    and "commit_event fm env possible e raw j = (j', res)"
  shows "(\<exists>u. res = Inr u \<and> \<not> rj_poisoned j' \<and>
      journal_holds fm text_ok j' (disk @ [envelope_of (length disk) (last_digest None disk) e raw]) []) \<or>
    (\<exists>x extra. res = Inl x \<and> rj_poisoned j' \<and>
      (journal_holds fm text_ok j' disk extra \<or>
       journal_holds fm text_ok j' (disk @ [envelope_of (length disk) (last_digest None disk) e raw]) extra))"
proof -
  let ?env = "envelope_of (length disk) (last_digest None disk) e raw"
  have counters: "rj_next j = length disk" "rj_events j = event_files 0 disk"
    using assms(1,2) by (simp_all add: journal_holds_def)
  obtain fs res1 where fs: "write_inflight (rj_next j) possible (ae_inflight env) (rj_files j) = (fs, res1)"
    by fastforce
  obtain es res2 where es: "write_file (event_name (rj_next j)) raw (ae_event env) (rj_events j) = (es, res2)"
    by fastforce
  obtain fs' res3 where fs': "clear_inflight (ae_clear env) fs = (fs', res3)"
    by fastforce
  show ?thesis
  proof (cases res1)
    case (Inl x)
    from write_inflight_keeps [OF fs] obtain more where "fs = rj_files j @ more" "markers more"
      by (auto simp: markers_def)
    with assms(1) have "journal_holds fm text_ok (j\<lparr>rj_files := fs, rj_poisoned := True\<rparr>) disk more"
      by (auto simp: journal_holds_def)
    from poison_holds [OF this, of "ae_poison env" possible]
    have "\<exists>extra. journal_holds fm text_ok (poison_with (ae_poison env) possible (j\<lparr>rj_files := fs\<rparr>)) disk extra"
      by (simp add: poison_with_def)
    then show ?thesis using assms(6) fs Inl by (auto simp: commit_event_def poison_with_def)
  next
    case (Inr u)
    with fs write_inflight_Inr obtain f where f: "fs = rj_files j @ [(inflight_name, f)]" by blast
    have marked: "journal_holds fm text_ok (j\<lparr>rj_files := fs, rj_events := es, rj_poisoned := True\<rparr>) disk
        [(inflight_name, f)]" for es
      using assms(1) f by (auto simp: journal_holds_def markers_def)
    show ?thesis
    proof (cases res2)
      case (Inl x)
      then show ?thesis using assms(6) fs Inr es marked [of es] by (auto simp: commit_event_def)
    next
      case (Inr u')
      then have raw: "raw \<noteq> []" "length raw \<le> max_event_bytes"
        and es': "es = rj_events j @ [(event_name (length disk), file_of raw)]"
        using es counters(1) by (auto simp: write_file_Inr)
      have linked: "linked fm text_ok (rj_reservation j) 0 None (disk @ [?env])"
        using assms(1) prepared_recorded [OF assms(1,2,3,5) raw]
        by (simp add: linked_snoc journal_holds_def)
      have events: "es = event_files 0 (disk @ [?env])"
        by (simp add: es' counters(2) event_files_snoc envelope_of_def)
      have files: "filter (\<lambda>p. fst p \<noteq> inflight_name) fs = rj_files j"
        using assms(1) f by (auto simp: journal_holds_def)
      from clear_inflight_cases [OF fs'] show ?thesis
      proof (elim disjE conjE exE)
        fix x assume "fs' = fs" "res3 = Inl x"
        then have "res = Inl x" "j' = j\<lparr>rj_files := fs, rj_events := es, rj_poisoned := True\<rparr>"
          using assms(6) fs \<open>res1 = Inr u\<close> es Inr fs' by (simp_all add: commit_event_def)
        with marked [of es] show ?thesis by auto
      next
        assume "fs' = filter (\<lambda>p. fst p \<noteq> inflight_name) fs"
        then have "fs' = rj_files j" using files by simp
        then have grown: "journal_holds fm text_ok (j\<lparr>rj_files := fs', rj_events := es, rj_poisoned := True\<rparr>)
            (disk @ [?env]) []"
          "journal_holds fm text_ok (j\<lparr>rj_files := fs', rj_events := es, rj_previous := Some (sha256 raw),
             rj_next := Suc (rj_next j), rj_effect := possible,
             rj_terminal_seen := fm_kind fm e \<in> set journal_terminals\<rparr>) (disk @ [?env]) []"
          using assms(1,4) linked events counters(1) by (simp_all add: journal_holds_def, simp add: envelope_of_def)
        show ?thesis
        proof (cases res3)
          case (Inl x)
          then have "res = Inl x" "j' = j\<lparr>rj_files := fs', rj_events := es, rj_poisoned := True\<rparr>"
            using assms(6) fs \<open>res1 = Inr u\<close> es \<open>res2 = Inr u'\<close> fs' by (simp_all add: commit_event_def)
          with grown(1) show ?thesis by auto
        next
          case (Inr v)
          then have "res = Inr ()" "j' = j\<lparr>rj_files := fs', rj_events := es, rj_previous := Some (sha256 raw),
             rj_next := Suc (rj_next j), rj_effect := possible,
             rj_terminal_seen := fm_kind fm e \<in> set journal_terminals\<rparr>"
            using assms(6) fs \<open>res1 = Inr u\<close> es \<open>res2 = Inr u'\<close> fs' by (simp_all add: commit_event_def)
          with grown(2) assms(2) show ?thesis by simp
        qed
      qed
    qed
  qed
qed

lemma append_holds:
  assumes "journal_holds fm text_ok j disk extra" "clean fm text_ok oe"
    and "append_owner_event fm env oe j = (j', res)"
  shows "(\<exists>u e raw. res = Inr u \<and> \<not> rj_poisoned j \<and> \<not> rj_poisoned j' \<and> event_from_owner fm oe = Inr e \<and>
      journal_holds fm text_ok j' (disk @ [envelope_of (length disk) (last_digest None disk) e raw]) []) \<or>
    (\<exists>x extra'. res = Inl x \<and> (rj_poisoned j \<longrightarrow> rj_poisoned j') \<and>
      (journal_holds fm text_ok j' disk extra' \<or>
       (\<exists>e raw. \<not> rj_poisoned j \<and> rj_poisoned j' \<and>
         journal_holds fm text_ok j' (disk @ [envelope_of (length disk) (last_digest None disk) e raw]) extra')))"
proof -
  have poison: "\<exists>extra'. journal_holds fm text_ok (poison_with (ae_poison env) effect j) disk extra'" for effect
    using poison_holds [OF assms(1)] .
  have poisoned: "rj_poisoned (poison_with (ae_poison env) effect j)" for effect
    by (simp add: poison_with_def)
  consider (early) x effect where "res = Inl x" "j' = poison_with (ae_poison env) effect j"
    | (same) x where "res = Inl x" "j' = j"
    | (commit) possible e raw where "\<not> rj_poisoned j" "rj_next j < max_events"
        "prepare_event fm env oe j = (possible, Inr (e, raw))"
        "commit_event fm env possible e raw j = (j', res)"
    using assms(3) by (auto simp: append_owner_event_def split: if_splits prod.splits sum.splits)
  then show ?thesis
  proof cases
    case early
    with poison [of effect] poisoned [of effect] show ?thesis by auto
  next
    case same
    with assms(1) show ?thesis by auto
  next
    case commit
    then have extra: "extra = []" "length disk < max_events" using assms(1) by (simp_all add: journal_holds_def)
    have e: "event_from_owner fm oe = Inr e" using prepare_event_Inr [OF commit(3)] by simp
    from commit_holds [OF assms(1) [unfolded extra(1)] commit(1) assms(2) extra(2) commit(3,4)]
    show ?thesis using commit(1) e by blast
  qed
qed

section \<open>Journals that a program can reach\<close>

text \<open>
  \<open>journal_reach fm text_ok j es\<close>: the object \<open>j\<close> arises from a successful creation by receipts and
  appends, whatever faults they meet, and \<open>es\<close> are the events whose append returned.
\<close>

inductive journal_reach ::
    "'e journal_format \<Rightarrow> ('e \<Rightarrow> bool) \<Rightarrow> receipt_journal \<Rightarrow> 'e list \<Rightarrow> bool"
  for fm :: "'e journal_format" and text_ok :: "'e \<Rightarrow> bool" where
  created: "create_journal fm rv root fault r artifact = Inr j \<Longrightarrow> identities_plain r \<Longrightarrow>
    journal_reach fm text_ok j []"
| receipt: "journal_reach fm text_ok j es \<Longrightarrow> provider_receipt busy rv result fault j = (j', res) \<Longrightarrow>
    journal_reach fm text_ok j' es"
| accepted: "journal_reach fm text_ok j es \<Longrightarrow> clean fm text_ok oe \<Longrightarrow>
    append_owner_event fm env oe j = (j', Inr ()) \<Longrightarrow> event_from_owner fm oe = Inr e \<Longrightarrow>
    journal_reach fm text_ok j' (es @ [e])"
| refused: "journal_reach fm text_ok j es \<Longrightarrow> clean fm text_ok oe \<Longrightarrow>
    append_owner_event fm env oe j = (j', Inl x) \<Longrightarrow> journal_reach fm text_ok j' es"

lemma create_holds:
  assumes "create_journal fm rv root fault r artifact = Inr j" "identities_plain r"
  shows "journal_holds fm text_ok j [] [] \<and> \<not> rj_poisoned j"
proof -
  from assms(1) obtain w raw where w: "wrapper_payload fm r (af_accepted artifact) = Inr w"
    "canonical_json (PDict w) = Inr raw"
    and j: "(case write_file reservation_name raw fault [] of (fs, Inl x) \<Rightarrow> Inl x
       | (fs, Inr _) \<Rightarrow> Inr \<lparr>rj_files = fs, rj_events = [], rj_reservation = r, rj_next = 0,
           rj_previous = None, rj_terminal_seen = False, rj_poisoned = False, rj_effect = False,
           rj_issued = False\<rparr>) = Inr j"
    unfolding create_journal_def
    by (auto simp: guardE_Inr_iff bindE_Inr_iff split: root_fault.splits)
  have saved: "wrapper_file fm r (af_accepted artifact) raw" if "raw \<noteq> []" "length raw \<le> max_event_bytes"
    using w that unfolding wrapper_file_def by blast
  obtain fs res where "write_file reservation_name raw fault [] = (fs, res)" by fastforce
  with j have "write_file reservation_name raw fault [] = (fs, Inr ())"
    and j: "j = \<lparr>rj_files = fs, rj_events = [], rj_reservation = r, rj_next = 0, rj_previous = None,
      rj_terminal_seen = False, rj_poisoned = False, rj_effect = False, rj_issued = False\<rparr>"
    by (simp_all split: sum.splits)
  then have "raw \<noteq> []" "length raw \<le> max_event_bytes" "fs = [(reservation_name, file_of raw)]"
    by (simp_all add: write_file_Inr)
  then show ?thesis
    using assms(2) saved unfolding j journal_holds_def markers_def by auto
qed

lemma receipt_keeps_poison:
  "provider_receipt busy rv result fault j = (j', res) \<Longrightarrow> rj_poisoned j \<Longrightarrow> rj_poisoned j'"
  by (auto simp: provider_receipt_def split: if_splits)

lemma reach_holds:
  "journal_reach fm text_ok j es \<Longrightarrow>
     \<exists>disk extra. journal_holds fm text_ok j disk extra \<and>
       (map env_event disk = es \<or> rj_poisoned j \<and> (\<exists>e. map env_event disk = es @ [e]))"
proof (induction rule: journal_reach.induct)
  case (created rv root fault r artifact j)
  from create_holds [OF this, of text_ok] show ?case by auto
next
  case (receipt j es busy rv result fault j' res)
  then show ?case using receipt_holds receipt_keeps_poison by metis
next
  case (accepted j es oe env j' e)
  then obtain disk extra where disk: "journal_holds fm text_ok j disk extra"
    "map env_event disk = es \<or> rj_poisoned j \<and> (\<exists>e. map env_event disk = es @ [e])" by blast
  from append_holds [OF disk(1) accepted(2,3)] disk(2) accepted(4) show ?case
    by (fastforce simp: envelope_of_def)
next
  case (refused j es oe env j' x)
  then obtain disk extra where disk: "journal_holds fm text_ok j disk extra"
    "map env_event disk = es \<or> rj_poisoned j \<and> (\<exists>e. map env_event disk = es @ [e])" by blast
  from append_holds [OF disk(1) refused(2,3)] disk(2) show ?case
    by (fastforce simp: envelope_of_def)
qed

section \<open>Loading a reached journal\<close>

lemma load_marker_rejects: "load_marker name f \<noteq> Inr v"
  by (simp add: load_marker_def bindE_Inr_iff)

lemma load_journal_marker:
  assumes "js_members store = Some members"
    and "find (\<lambda>name. name \<in> set (dict_keys members)) [poison_name, inflight_name] = Some n"
  shows "load_journal fm store \<noteq> Inr v"
  unfolding load_journal_def bindE_Inr_iff assms(1) option.simps assms(2)
  by (simp add: load_marker_rejects)

lemma store_members: "dict_keys (map (\<lambda>(name, f). (name, member f)) fs) = dict_keys fs"
  by (induction fs) auto

lemma load_with_marker:
  assumes "journal_holds fm text_ok j disk extra" "extra \<noteq> []"
  shows "load_journal fm (store_of j) \<noteq> Inr v"
proof -
  obtain name f more where extra: "extra = (name, f) # more" using assms(2) by (cases extra) auto
  then have name: "name \<in> {poison_name, inflight_name}" "name \<in> set (dict_keys (rj_files j))"
    using assms(1) by (auto simp: journal_holds_def markers_def)
  let ?members = "(events_name, \<lparr>jf_posture = private_dir, jf_bytes = None,
                       jn_children = Some (rj_events j)\<rparr>) #
        map (\<lambda>(name, f). (name, member f)) (rj_files j)"
  have "find (\<lambda>name. name \<in> set (dict_keys ?members)) [poison_name, inflight_name] \<noteq> None"
    using name by (simp only: find_None_iff list.map set_simps store_members) auto
  then obtain n where "find (\<lambda>name. name \<in> set (dict_keys ?members)) [poison_name, inflight_name] = Some n"
    by blast
  moreover have "js_members (store_of j) = Some ?members" by (simp add: store_of_def)
  ultimately show ?thesis by (rule load_journal_marker [rotated])
qed

context journal_codec
begin

lemma load_without_marker:
  assumes "journal_holds fm text_ok j disk []" "ascii (fm_wrapper_schema fm)"
  shows "\<exists>status. load_journal fm (store_of j) =
    Inr \<lparr>jr_reservation = retained (rj_reservation j), jr_events = disk, jr_artifact = status\<rparr>"
proof -
  from assms(1) obtain accepted raw where files: "rj_files j = [(reservation_name, file_of raw)]"
    and wrapper: "wrapper_file fm (rj_reservation j) accepted raw"
    and facts: "identities_plain (rj_reservation j)" "linked fm text_ok (rj_reservation j) 0 None disk"
      "length disk \<le> max_events" "rj_events j = event_files 0 disk"
    by (auto simp: journal_holds_def)
  note loads = load_wrapper_file [OF wrapper facts(1) assms(2)] load_linked [OF facts(2,1)]
    event_files_sorted [OF facts(3)]
  show ?thesis
    using loads facts(3)
    by (simp add: load_journal_def store_of_def files facts(4) require_private_def private_dir_def
        guardE_def load_members_def reraise_def insert_commute)
qed

end

lemma base_ascii: "ascii (fm_wrapper_schema base_format)" "ascii (fm_wrapper_schema soomfon_format)"
  by (simp_all add: base_format_def soomfon_format_def ascii_def)

lemma load_reached:
  assumes "journal_holds fm text_ok j disk extra" "load_journal fm (store_of j) = Inr v"
  shows "extra = []"
  using load_with_marker [OF assms(1)] assms(2) by blast

context journal_codec
begin

lemma reached_load:
  assumes "journal_reach fm text_ok j es" "ascii (fm_wrapper_schema fm)"
    and "load_journal fm (store_of j) = Inr v"
  shows "jr_reservation v = retained (rj_reservation j) \<and>
    (map env_event (jr_events v) = es \<or>
     rj_poisoned j \<and> (\<exists>e. map env_event (jr_events v) = es @ [e]))"
proof -
  obtain disk extra where disk: "journal_holds fm text_ok j disk extra"
    "map env_event disk = es \<or> rj_poisoned j \<and> (\<exists>e. map env_event disk = es @ [e])"
    using reach_holds [OF assms(1)] by blast
  with load_reached [OF disk(1) assms(3)] load_without_marker [of j disk] assms(2,3) show ?thesis
    by fastforce
qed

lemma live_load:
  assumes "journal_reach fm text_ok j es" "ascii (fm_wrapper_schema fm)" "\<not> rj_poisoned j"
  shows "\<exists>v. load_verified fm j = Inr v \<and> map env_event (jr_events v) = es \<and>
    jr_reservation v = retained (rj_reservation j)"
proof -
  obtain disk extra where disk: "journal_holds fm text_ok j disk extra" "map env_event disk = es"
    using reach_holds [OF assms(1)] assms(3) by blast
  then have "extra = []" using assms(3) by (simp add: journal_holds_def)
  with load_without_marker [of j disk] disk assms(2,3) show ?thesis
    by (auto simp: load_verified_def)
qed

end

end
