(* ===== verification/Journal_Properties.thy ===== *)
theory Journal_Properties
  imports Journal_Recovery
begin

text \<open>
  The properties of the two journals and the concrete journal that witnesses them: a reservation
  whose file and first event are within the size limit, created, issued and appended to.
\<close>

section \<open>Sizes\<close>

lemma length_join: "length (join sep xs) = sum_list (map length xs) + (length xs - 1) * length sep"
  by (induction sep xs rule: join.induct) (auto simp: algebra_simps)

lemma json_items_map: "json_items kvs = map (\<lambda>kv. json_string (fst kv) @ '':'' @ json_text (snd kv)) kvs"
  by (induction kvs) auto

lemma json_texts_map: "json_texts xs = map json_text xs"
  by (induction xs) auto

lemma sum_list_sort: "sum_list (map f (sort_key g xs)) = sum_list (map (f :: 'a \<Rightarrow> nat) xs)"
proof -
  have "sum_list (map f (insort_key g x ys)) = f x + sum_list (map f ys)" for x ys
    by (induction ys) auto
  then show ?thesis by (induction xs) auto
qed

lemma length_json_sorted: "length (json_text (sort_keys v)) = length (json_text v)"
proof (induction v)
  case (PDict kvs)
  let ?g = "\<lambda>kv :: string \<times> pv. (fst kv, sort_keys (snd kv))"
  have "sum_list (map length (json_items (sort_key fst (map ?g kvs)))) = sum_list (map length (json_items kvs))"
    unfolding json_items_map map_map sum_list_sort comp_def
    by (rule arg_cong [of _ _ sum_list], rule map_cong [OF refl]) (use PDict in \<open>force simp: snds.simps\<close>)
  then show ?case by (simp add: length_join sort_keys_items_map json_items_map)
next
  case (PList xs)
  then have "map (\<lambda>x. length (json_text (sort_keys x))) xs = map (\<lambda>x. length (json_text x)) xs" by simp
  then show ?case by (simp add: length_join sort_keys_list_map json_texts_map comp_def del: map_eq_conv)
qed simp_all


text \<open>A bound on the length of a text that needs no evaluation of digests.\<close>

fun json_size :: "pv \<Rightarrow> nat" and json_size_items :: "(string \<times> pv) list \<Rightarrow> nat" where
  "json_size (PStr s) = 2 + length s"
| "json_size (PBool b) = 5"
| "json_size (PInt i) = length (int_text i)"
| "json_size (PDict kvs) = 2 + json_size_items kvs"
| "json_size v = length (json_text v)"
| "json_size_items [] = 0"
| "json_size_items ((k, v) # kvs) = 4 + length k + json_size v + json_size_items kvs"

definition simple_char :: "char \<Rightarrow> bool" where
  "simple_char c \<longleftrightarrow> \<not> digit7 c \<and> (digit6 c \<or> digit5 c) \<and> c \<noteq> CHR 0x22 \<and> c \<noteq> CHR 0x5C"

fun simple :: "pv \<Rightarrow> bool" and simple_items :: "(string \<times> pv) list \<Rightarrow> bool" where
  "simple (PStr s) = list_all simple_char s"
| "simple (PDict kvs) = simple_items kvs"
| "simple v = True"
| "simple_items [] = True"
| "simple_items ((k, v) # kvs) = (list_all simple_char k \<and> simple v \<and> simple_items kvs)"

lemma json_simple_char: "simple_char c \<Longrightarrow> json_char c = [c]"
proof (cases c)
  case (Char b0 b1 b2 b3 b4 b5 b6 b7)
  assume "simple_char c"
  then show ?thesis
    unfolding Char simple_char_def json_char_def Let_def
    by (cases b0; cases b1; cases b2; cases b3; cases b4; cases b5; cases b6; simp add: of_char_def)
qed

lemma json_simple_string: "list_all simple_char s \<Longrightarrow> length (json_string s) = 2 + length s"
proof (induction s)
  case (Cons c s)
  then show ?case by (simp add: json_string_def json_simple_char)
qed (simp add: json_string_def)

lemma length_json_text:
  "simple v \<Longrightarrow> length (json_text v) \<le> json_size v"
  "simple_items kvs \<Longrightarrow> length (join '','' (json_items kvs)) \<le> json_size_items kvs"
proof (induction v and kvs rule: json_size_json_size_items.induct)
  case (7 k v kvs)
  then show ?case by (cases kvs) (auto simp: json_simple_string)
qed (auto simp: json_simple_string)

lemma sha256_simple: "list_all simple_char (sha256 s)"
proof -
  have "list_all simple_char ''0123456789abcdef''" by (simp add: simple_char_def)
  then show ?thesis using sha256_hex by (auto simp: list_all_iff)
qed


section \<open>A concrete journal\<close>

definition sample_hash :: pv where "sample_hash = PStr (replicate 64 CHR ''a'')"
definition sample_id :: pv where "sample_id = PStr ''x1''"

definition sample_source :: "(string \<times> pv) list" where
  "sample_source =
     [(''owner'', PStr ''tryinget-dspy-lm-auth''), (''version'', sample_id),
      (''commit'', PStr (replicate 40 CHR ''b'')), (''tree'', PStr (replicate 40 CHR ''c'')),
      (''lock_sha256'', sample_hash),
      (''module_sha256'', PDict (map (\<lambda>k. (k, sample_hash)) module_names))]"

definition sample_entry :: pv where
  "sample_entry = PDict [(''version'', sample_id), (''locked_wheel_sha256'', sample_hash),
     (''payload_count'', PInt 3), (''payload_sha256'', sample_hash), (''record_sha256'', sample_hash)]"

definition sample_dependency :: "(string \<times> pv) list" where
  "sample_dependency = map (\<lambda>k. (k, sample_entry)) dependency_names"

definition sample_reservation :: receipt_reservation where
  "sample_reservation =
     \<lparr>consumer_task_id = PInt 7, ledger_sha256 = sample_hash, process_id = sample_id,
      case_id = sample_id, logical_request_id = sample_id, transport_gate_id = sample_id,
      semantic_request_sha256 = sample_hash, contract_sha256 = sample_hash, mode = PStr ''sync'',
      requested_route = sample_id, resolved_route = sample_id,
      endpoint_origin_sha256 = sample_hash, source_identity = PDict sample_source,
      dependency_identity = PDict sample_dependency\<rparr>"

lemma sample_hash_ok [simp]: "sample_hash = PStr s \<and> sha256_re s \<longleftrightarrow> s = replicate 64 CHR ''a''"
  "plain sample_hash" "simple sample_hash" "json_size sample_hash = 66"
proof -
  have re: "sha256_re (replicate 64 CHR ''a'')" by (simp add: sha256_re_def is_hex_digit_def list_all_iff)
  then show "sample_hash = PStr s \<and> sha256_re s \<longleftrightarrow> s = replicate 64 CHR ''a''" by (auto simp: sample_hash_def)
  show "plain sample_hash" using sha256_re_plain [OF re] by (simp only: sample_hash_def)
qed (simp_all add: sample_hash_def simple_char_def list_all_iff)

lemma sample_id_ok [simp]: "is_bounded_id sample_id" "plain sample_id" "simple sample_id" "json_size sample_id = 4"
proof -
  have re: "id_re ''x1''" by (simp add: id_re_def is_id_char_def is_digit_def is_letter_def Let_def)
  then show "is_bounded_id sample_id" by (simp add: is_bounded_id_def sample_id_def)
  show "plain sample_id" using id_re_plain [OF re] by (simp only: sample_id_def)
qed (simp_all add: sample_id_def simple_char_def)

lemma sample_source_ok: "source_ok (PDict sample_source)"
  by (simp add: source_ok_def sample_source_def Let_def is_git_sha_def is_hex_digit_def source_identity_fields_def
     list_all_iff comp_def image_image)

lemma sample_dependency_ok: "dependency_ok (PDict sample_dependency)"
proof -
  have "entry_ok sample_entry"
    by (simp add: entry_ok_def sample_entry_def Let_def dependency_fields_def bad_int_def)
  then show ?thesis by (simp add: dependency_ok_def sample_dependency_def comp_def)
qed


lemma sample_reservation_ok: "reservation_ok sample_reservation"
  using sample_source_ok sample_dependency_ok
  by (simp add: reservation_ok_def sample_reservation_def bad_int_def)
    (simp add: sample_id_def id_re_def is_id_char_def is_digit_def is_letter_def Let_def)

lemma sample_entry_plain: "plain sample_entry"
  unfolding sample_entry_def
  by (rule plain_dict) (simp_all add: ascii_def int_printable_def nat_text.simps)

lemma sample_plain: "identities_plain sample_reservation"
proof -
  have names: "list_all ascii module_names" "distinct module_names" "list_all ascii dependency_names"
    "distinct dependency_names"
    by (simp_all add: module_names_def dependency_names_def ascii_def)
  have "plain (PDict sample_dependency)"
    unfolding sample_dependency_def
    by (rule plain_dict) (use names sample_entry_plain in \<open>simp_all add: comp_def list_all_iff\<close>)
  moreover have "plain (PDict (map (\<lambda>k. (k, sample_hash)) module_names))"
    by (rule plain_dict) (use names in \<open>simp_all add: comp_def list_all_iff\<close>)
  then have "plain (PDict sample_source)"
    unfolding sample_source_def
    using ascii_plain' [of "''tryinget-dspy-lm-auth''"] ascii_plain' [of "replicate 40 CHR ''b''"]
      ascii_plain' [of "replicate 40 CHR ''c''"]
    by (intro plain_dict) (simp_all add: ascii_def list_all_iff del: plain.simps)
  ultimately show ?thesis by (simp add: identities_plain_def sample_reservation_def)
qed

lemma canonical_sample:
  "canonical_source (PDict sample_source) = sample_source"
  "canonical_dependency (PDict sample_dependency) = sample_dependency"
  by (simp_all add: canonical_source_def sample_source_def canonical_dependency_def sample_dependency_def
      canonical_entry_def sample_entry_def dependency_fields_def)

lemma simple_payload: "simple (PDict (payload_of sample_reservation))"
  unfolding payload_of_def sample_reservation_def receipt_reservation.simps canonical_sample
  by (simp add: sample_source_def sample_dependency_def sample_entry_def module_names_def
      dependency_names_def simple_char_def list_all_iff)

lemma size_payload: "json_size (PDict (payload_of sample_reservation)) \<le> 4000"
  unfolding payload_of_def sample_reservation_def receipt_reservation.simps canonical_sample
  by (simp add: sample_source_def sample_dependency_def sample_entry_def module_names_def
      dependency_names_def int_text_def nat_text.simps)

lemma sample_payload: "reservation_payload sample_reservation = Inr (payload_of sample_reservation)"
proof -
  have "length (json_text (sort_keys (PDict (payload_of sample_reservation)))) \<le> max_event_bytes"
    using length_json_text(1) [OF simple_payload] size_payload
    unfolding length_json_sorted by (simp add: max_event_bytes_def)
  moreover have "json_ok (PDict (payload_of sample_reservation))"
    using sample_plain plain_json_ok [of "PDict sample_source"] plain_json_ok [of "PDict sample_dependency"]
      plain_json_ok [of sample_hash] plain_json_ok [of sample_id]
    unfolding payload_of_def sample_reservation_def receipt_reservation.simps canonical_sample
    by (simp add: identities_plain_def int_printable_def nat_text.simps)
  ultimately show ?thesis by (simp only: reservation_payload_Inr sample_reservation_ok simp_thms)
qed


definition sample_artifact :: artifact_facts where
  "sample_artifact = \<lparr>af_source = sample_source, af_dependency = sample_dependency, af_accepted = True\<rparr>"

lemma sample_id_exists: "\<exists>q. reservation_id sample_reservation = Inr (sha256 q)"
proof -
  have "json_ok (PDict (payload_of sample_reservation))" using sample_payload by (simp only: reservation_payload_Inr)
  then show ?thesis by (auto simp only: reservation_id_def sample_payload bindE_simps canonical_json_Inr res_simps)
qed

text \<open>A mapping with a size bound is written.\<close>

lemma canonical_bounded:
  assumes "json_ok v" "simple v" "json_size v \<le> max_event_bytes" "is_mapping v"
  shows "\<exists>raw. canonical_json v = Inr raw \<and> raw \<noteq> [] \<and> length raw \<le> max_event_bytes"
proof -
  have "length (json_text (sort_keys v)) \<le> max_event_bytes"
    using length_json_text(1) [OF assms(2)] assms(3) by (simp add: length_json_sorted)
  moreover have "json_text (sort_keys v) \<noteq> []" using assms(4) by (cases v) simp_all
  ultimately show ?thesis using assms(1) by (simp add: canonical_json_Inr)
qed

lemma sha256_ok: "json_ok (PStr (sha256 q))" "simple (PStr (sha256 q))"
  using plain_json_ok [OF sha256_digest_plain] by (simp_all add: sha256_simple del: json_ok.simps)

definition plain_schema :: "'e journal_format \<Rightarrow> bool" where
  "plain_schema fm \<longleftrightarrow> list_all simple_char (fm_wrapper_schema fm) \<and>
     json_ok (PStr (fm_wrapper_schema fm)) \<and> length (fm_wrapper_schema fm) < 100"

lemma plain_schemas: "plain_schema base_format" "plain_schema soomfon_format"
  using plain_json_ok [OF ascii_plain' [OF base_ascii(1)]] plain_json_ok [OF ascii_plain' [OF base_ascii(2)]]
  unfolding plain_schema_def by (simp_all add: base_format_def soomfon_format_def simple_char_def)

lemma sample_wrapper:
  assumes "plain_schema fm"
  shows "\<exists>w raw. wrapper_payload fm sample_reservation True = Inr w \<and>
     canonical_json (PDict w) = Inr raw \<and> raw \<noteq> [] \<and> length raw \<le> max_event_bytes"
proof -
  obtain q where q: "reservation_id sample_reservation = Inr (sha256 q)" using sample_id_exists by blast
  let ?w = "[(''schema_version'', PStr (fm_wrapper_schema fm)),
     (''reservation_id'', PStr (sha256 q)), (''artifact_verification'', PStr ''accepted_exact''),
     (''reservation'', PDict (payload_of sample_reservation))]"
  have "json_ok (PDict (payload_of sample_reservation))" using sample_payload by (simp only: reservation_payload_Inr)
  then have "json_ok (PDict ?w)" using sha256_ok(1) [of q] assms by (simp add: plain_schema_def)
  moreover have "simple (PDict ?w)" using simple_payload sha256_ok(2) [of q] assms by (simp add: simple_char_def plain_schema_def)
  moreover have "json_size (PDict ?w) \<le> max_event_bytes"
    using size_payload assms by (simp add: max_event_bytes_def plain_schema_def)
  moreover have "wrapper_payload fm sample_reservation True = Inr ?w"
    by (simp add: wrapper_payload_def q sample_payload)
  ultimately show ?thesis using canonical_bounded [of "PDict ?w"] by auto
qed

lemma sample_created:
  assumes "plain_schema fm"
  shows "\<exists>raw. create_journal fm (Inr ()) Root_ok No_fault sample_reservation sample_artifact =
     Inr \<lparr>rj_files = [(reservation_name, file_of raw)], rj_events = [],
       rj_reservation = sample_reservation, rj_next = 0, rj_previous = None, rj_terminal_seen = False,
       rj_poisoned = False, rj_effect = False, rj_issued = False\<rparr>"
proof -
  obtain w raw where w: "wrapper_payload fm sample_reservation True = Inr w"
    "canonical_json (PDict w) = Inr raw" "raw \<noteq> []" "length raw \<le> max_event_bytes"
    using sample_wrapper [OF assms] by blast
  have "py_eq (source_identity sample_reservation) (PDict (af_source sample_artifact))"
    "py_eq (dependency_identity sample_reservation) (PDict (af_dependency sample_artifact))"
    using sample_plain py_eq_sorted [of "PDict sample_source" "PDict sample_source"]
     py_eq_sorted [of "PDict sample_dependency" "PDict sample_dependency"]
    by (simp_all add: sample_reservation_def sample_artifact_def identities_plain_def del: plain.simps)
  then show ?thesis
    using w by (simp add: create_journal_def guardE_def sample_artifact_def write_file_def) blast
qed


definition sample_event :: closed_event where
  "sample_event = \<lparr>kind = Wrapper_request_accepted, gate_ordinal = None, status_class = None,
     error_class = None, protocol_event = None, response_id_sha256 = None, observed_model = None\<rparr>"

definition sample_owner_event :: owner_event where
  "sample_owner_event = \<lparr>oe_exact_type = True, oe_field_names = Some event_fields,
     oe_values = event_payload sample_event\<rparr>"

definition no_faults :: append_env where
  "no_faults = \<lparr>ae_busy = False, ae_revalidated = Inr (), ae_inflight = No_fault, ae_event = No_fault,
     ae_clear = Clear_ok, ae_poison = No_fault\<rparr>"

lemma sample_owner_parsed: "event_from_owner base_format sample_owner_event = Inr sample_event"
proof -
  have "wf_event sample_event"
    by (simp add: wf_event_def fields_ok_def sample_event_def validate_shape_def validate_classes_def
       guardE_def present_fields_def opt_field_def)
  then show ?thesis
    by (simp add: event_from_owner_def sample_owner_event_def base_format_def guardE_def
        event_of_mapping_iff carries_def comp_def)
qed

lemma sample_owner_clean: "clean base_format event_text sample_owner_event"
  by (simp add: clean_def sample_owner_parsed event_text_def sample_event_def)

lemma sample_envelope:
  "\<exists>p raw. event_envelope_payload sample_reservation 0 None sample_event = Inr p \<and>
     canonical_json (PDict p) = Inr raw \<and> raw \<noteq> [] \<and> length raw \<le> max_event_bytes"
proof -
  obtain q where q: "reservation_id sample_reservation = Inr (sha256 q)" using sample_id_exists by blast
  have "json_ok (PDict sample_source)" "json_ok (PDict sample_dependency)"
    using sample_plain plain_json_ok by (simp_all only: identities_plain_def sample_reservation_def receipt_reservation.simps)
  then obtain src dep where ids: "canonical_json (PDict sample_source) = Inr src"
    "canonical_json (PDict sample_dependency) = Inr dep"
    by (simp only: canonical_json_Inr)
  let ?p = "[(''schema_version'', PStr ''dspx-provider-outcome-consumption-event-v1''),
     (''reservation_id'', PStr (sha256 q)), (''sequence'', PInt 0), (''previous_event_sha256'', PNone),
     (''producer'', PDict [(''owner'', PStr ''tryinget-dspy-lm-auth''), (''version'', sample_id),
      (''commit'', PStr (replicate 40 CHR ''b'')), (''tree'', PStr (replicate 40 CHR ''c''))]),
     (''source_identity_sha256'', PStr (sha256 src)), (''dependency_identity_sha256'', PStr (sha256 dep)),
     (''event'', PDict (event_payload sample_event))]"
  have identities: "source_identity sample_reservation = PDict sample_source"
    "dependency_identity sample_reservation = PDict sample_dependency"
    by (simp_all add: sample_reservation_def)
  have fields: "dget ''owner'' sample_source = PStr ''tryinget-dspy-lm-auth''"
    "dget ''version'' sample_source = sample_id" "dget ''commit'' sample_source = PStr (replicate 40 CHR ''b'')"
    "dget ''tree'' sample_source = PStr (replicate 40 CHR ''c'')"
    by (simp_all add: sample_source_def)
  have "event_envelope_payload sample_reservation 0 None sample_event = Inr ?p"
    using ids by (simp add: event_envelope_payload_def envelope_payload_def q Let_def guardE_def identities
      fields pv_of_str_def) (simp add: sample_id_def)
  moreover have "json_ok (PStr (replicate 40 CHR ''b''))" "json_ok (PStr (replicate 40 CHR ''c''))"
    by (rule plain_json_ok [OF ascii_plain']; simp add: ascii_def list_all_iff)+
  then have "json_ok (PDict ?p)"
    using sha256_ok(1) [of q] sha256_ok(1) [of src] sha256_ok(1) [of dep] plain_json_ok [OF sample_id_ok(2)]
    by (simp add: event_payload_def sample_event_def pv_of_int_def pv_of_str_def int_printable_def nat_text.simps)
  moreover have "simple (PDict ?p)"
    using sha256_ok(2)
    by (simp add: event_payload_def sample_event_def pv_of_int_def pv_of_str_def simple_char_def list_all_iff)
  moreover have "json_size (PDict ?p) \<le> max_event_bytes"
    by (simp add: event_payload_def sample_event_def pv_of_int_def pv_of_str_def max_event_bytes_def
       int_text_def nat_text.simps)
  ultimately show ?thesis using canonical_bounded [of "PDict ?p"] by auto
qed


lemma sample_inflight: "\<exists>raw. canonical_json (inflight_value 0 False) = Inr raw \<and> raw \<noteq> [] \<and>
  length raw \<le> max_event_bytes"
  by (rule canonical_bounded)
    (simp_all add: inflight_value_def simple_char_def max_event_bytes_def int_text_def nat_text.simps
      int_printable_def)

text \<open>Creation, the receipt, and one append, all without a fault.\<close>

lemma sample_reached:
  "\<exists>j. journal_reach base_format event_text j [sample_event] \<and> \<not> rj_poisoned j"
proof -
  obtain raw where created: "create_journal base_format (Inr ()) Root_ok No_fault sample_reservation sample_artifact =
     Inr \<lparr>rj_files = [(reservation_name, file_of raw)], rj_events = [],
       rj_reservation = sample_reservation, rj_next = 0, rj_previous = None, rj_terminal_seen = False,
       rj_poisoned = False, rj_effect = False, rj_issued = False\<rparr>" (is "_ = Inr ?j")
    using sample_created [OF plain_schemas(1)] by blast
  from journal_reach.created [OF created sample_plain]
  have "journal_reach base_format event_text ?j []" .
  moreover have "provider_receipt False (Inr ()) Receipt_ok No_fault ?j = (?j\<lparr>rj_issued := True\<rparr>, Inr ())"
    by (simp add: provider_receipt_def)
  ultimately have issued: "journal_reach base_format event_text (?j\<lparr>rj_issued := True\<rparr>) []"
    by (rule journal_reach.receipt)
  obtain p raw' where p: "event_envelope_payload sample_reservation 0 None sample_event = Inr p"
    "canonical_json (PDict p) = Inr raw'" "raw' \<noteq> []" "length raw' \<le> max_event_bytes"
    using sample_envelope by blast
  obtain raw'' where marker: "canonical_json (inflight_value 0 False) = Inr raw''" "raw'' \<noteq> []"
    "length raw'' \<le> max_event_bytes" using sample_inflight by blast
  have "prepare_event base_format no_faults sample_owner_event (?j\<lparr>rj_issued := True\<rparr>) =
      (False, Inr (sample_event, raw'))"
    using p by (simp add: prepare_event_def no_faults_def sample_owner_parsed)
      (simp add: base_format_def sample_event_def effect_kinds_def journal_terminals_def)
  then obtain j' where "append_owner_event base_format no_faults sample_owner_event (?j\<lparr>rj_issued := True\<rparr>) =
      (j', Inr ())" "\<not> rj_poisoned j'"
    using p marker by (simp add: append_owner_event_def commit_event_def write_inflight_def write_file_def
       clear_inflight_def no_faults_def max_events_def)
  with journal_reach.accepted [OF issued sample_owner_clean _ sample_owner_parsed] show ?thesis by fastforce
qed

section \<open>Properties of the journals\<close>

text \<open>C14: what a live journal has accepted is what a loader reads: after any sequence of receipt
  calls and appends, the load returns the reservation (its identities with sorted keys) and exactly
  the events whose append returned, in order.\<close>

theorem journal_roundtrip:
  assumes "journal_reach base_format event_text j es" "\<not> rj_poisoned j"
  shows "\<exists>v. load_verified base_format j = Inr v \<and> map env_event (jr_events v) = es \<and>
    jr_reservation v = retained (rj_reservation j)"
  by (rule base_codec.live_load [OF assms(1) base_ascii(1) assms(2)])

theorem journal_roundtrip_witness:
  "\<exists>j v. load_verified base_format j = Inr v \<and> map env_event (jr_events v) = [sample_event]"
proof -
  obtain j where j: "journal_reach base_format event_text j [sample_event]" "\<not> rj_poisoned j"
    using sample_reached by blast
  from journal_roundtrip [OF j] show ?thesis by (elim exE conjE, intro exI conjI)
qed

text \<open>C15: whatever failed while the journal was written, a loader of the directory never reads
  anything but the accepted events, or these and the one event whose clean-up failed; in the second
  case the journal object is poisoned.\<close>

theorem journal_crash_safe:
  assumes "journal_reach base_format event_text j es" "load_verified_journal (store_of j) = Inr v"
  shows "map env_event (jr_events v) = es \<or>
    rj_poisoned j \<and> (\<exists>e. map env_event (jr_events v) = es @ [e])"
  using base_codec.reached_load [OF assms(1) base_ascii(1)] assms(2)
  by (simp add: load_verified_journal_def)

theorem journal_crash_safe_witness:
  "\<exists>j v. load_verified_journal (store_of j) = Inr v \<and> map env_event (jr_events v) = [sample_event]"
proof -
  obtain j where j: "journal_reach base_format event_text j [sample_event]" "\<not> rj_poisoned j"
    using sample_reached by blast
  then obtain v where v: "load_verified_journal (store_of j) = Inr v"
    using base_codec.live_load [OF j(1) base_ascii(1) j(2)]
    by (auto simp: load_verified_def load_verified_journal_def)
  from journal_crash_safe [OF j(1) v] j(2) have "map env_event (jr_events v) = [sample_event]" by simp
  with v show ?thesis by (intro exI conjI)
qed

text \<open>The exact-status journal keeps its events in the same way: a live one is loaded with exactly
  the events whose append returned.\<close>

theorem soomfon_journal_roundtrip:
  assumes "journal_reach soomfon_format event_text j es" "\<not> rj_poisoned j"
  shows "\<exists>v. load_verified soomfon_format j = Inr v \<and> map env_event (jr_events v) = es \<and>
    jr_reservation v = retained (rj_reservation j)"
  by (rule soomfon_codec.live_load [OF assms(1) base_ascii(2) assms(2)])

lemma sample_soomfon_reached:
  "\<exists>j. journal_reach soomfon_format event_text j [] \<and> \<not> rj_poisoned j"
proof -
  obtain raw where created: "create_journal soomfon_format (Inr ()) Root_ok No_fault sample_reservation
     sample_artifact = Inr \<lparr>rj_files = [(reservation_name, file_of raw)], rj_events = [],
       rj_reservation = sample_reservation, rj_next = 0, rj_previous = None, rj_terminal_seen = False,
       rj_poisoned = False, rj_effect = False, rj_issued = False\<rparr>" (is "_ = Inr ?j")
    using sample_created [OF plain_schemas(2)] by blast
  from journal_reach.created [OF created sample_plain]
  have "journal_reach soomfon_format event_text ?j []" .
  moreover have "\<not> rj_poisoned ?j" by simp
  ultimately show ?thesis by blast
qed

theorem soomfon_journal_roundtrip_witness:
  "\<exists>j v. load_verified soomfon_format j = Inr v \<and> jr_events v = []"
proof -
  obtain j where j: "journal_reach soomfon_format event_text j []" "\<not> rj_poisoned j"
    using sample_soomfon_reached by blast
  from soomfon_journal_roundtrip [OF j] show ?thesis by (elim exE conjE, intro exI conjI) simp_all
qed

text \<open>And after any failure a loader reads the accepted events, or these and the one event whose
  clean-up failed.\<close>

theorem soomfon_journal_crash_safe:
  assumes "journal_reach soomfon_format event_text j es" "soomfon_load_verified_journal (store_of j) = Inr v"
  shows "map env_event (jr_events v) = es \<or>
    rj_poisoned j \<and> (\<exists>e. map env_event (jr_events v) = es @ [e])"
  using soomfon_codec.reached_load [OF assms(1) base_ascii(2)] assms(2)
  by (simp add: soomfon_load_verified_journal_def)

theorem soomfon_journal_crash_safe_witness:
  "\<exists>j v. soomfon_load_verified_journal (store_of j) = Inr v \<and> jr_events v = []"
proof -
  obtain j where j: "journal_reach soomfon_format event_text j []" "\<not> rj_poisoned j"
    using sample_soomfon_reached by blast
  then obtain v where v: "soomfon_load_verified_journal (store_of j) = Inr v"
    using soomfon_codec.live_load [OF j(1) base_ascii(2) j(2)]
    by (auto simp: load_verified_def soomfon_load_verified_journal_def)
  from soomfon_journal_crash_safe [OF j(1) v] j(2) have "jr_events v = []" by simp
  with v show ?thesis by (intro exI conjI)
qed

text \<open>C16: a marker whose write stopped before the first byte is read as a size error, and that error
  says no effect is possible, although the marker was there to say the opposite.\<close>

theorem empty_marker_denies_effect:
  assumes "js_posture store = Some private_dir" "js_members store = Some members"
    and "map_of members inflight_name = Some (member (file_of []))" "poison_name \<notin> set (dict_keys members)"
  shows "load_verified_journal store = Inl (Consumer_error ''journal_member_size_drift'' False)"
proof -
  have "inflight_name \<in> set (dict_keys members)"
    using assms(3) by (metis map_of_eq_None_iff option.distinct(1) list.set_map)
  then show ?thesis
    using assms
    by (simp add: load_verified_journal_def load_journal_def require_private_def private_dir_def guardE_def
        load_marker_def read_private_def file_of_def private_file_def jfile.defs)
qed

theorem empty_marker_denies_effect_witness:
  "load_verified_journal \<lparr>js_posture = Some private_dir,
     js_members = Some [(inflight_name, member (file_of []))]\<rparr> =
   Inl (Consumer_error ''journal_member_size_drift'' False)"
  by (rule empty_marker_denies_effect [where members = "[(inflight_name, member (file_of []))]"])
    (simp_all only: jstore.simps map_of.simps list.map set_simps fst_conv snd_conv fun_upd_same, simp)

end
