(* ===== verification/Capabilities.thy ===== *)
theory Capabilities
  imports Canonical_Json
begin

text \<open>
  Capability contracts of generated programs (\<open>services/program_capabilities.py\<close>), with the strict
  boolean parser of \<open>contract_scalars.py\<close> and the naming helpers of \<open>services/program_contracts.py\<close>
  they use.  Mappings are the dictionaries of \<open>Py_Value\<close>; an error is the exception raised, with
  its message when the source gives one.
\<close>

section \<open>Errors\<close>

text \<open>\<open>ProgramTopologyMaterializationError\<close> is a subclass of \<open>ValueError\<close>.\<close>

datatype raised =
    Value_error string
  | Topology_error string
  | Type_error
  | Attribute_error
  | Overflow_error

type_synonym 'a checked = "raised + 'a"

fun is_value_error :: "raised \<Rightarrow> bool" where
  "is_value_error (Value_error _) = True"
| "is_value_error (Topology_error _) = True"
| "is_value_error _ = False"

text \<open>\<open>f"{names}"\<close> for a list of strings.\<close>

definition names_text :: "string list \<Rightarrow> string" where
  "names_text names = py_repr (PList (map PStr names))"

text \<open>\<open>str(value or "")\<close>, without the \<open>strip\<close> of \<open>text_of\<close>.\<close>

definition name_of :: "pv \<Rightarrow> string" where
  "name_of v = py_str (py_or v (PStr []))"

section \<open>Identifiers\<close>

definition python_keywords :: "string list" where
  "python_keywords =
     [''False'', ''None'', ''True'', ''and'', ''as'', ''assert'', ''async'', ''await'', ''break'',
      ''class'', ''continue'', ''def'', ''del'', ''elif'', ''else'', ''except'', ''finally'',
      ''for'', ''from'', ''global'', ''if'', ''import'', ''in'', ''is'', ''lambda'', ''nonlocal'',
      ''not'', ''or'', ''pass'', ''raise'', ''return'', ''try'', ''while'', ''with'', ''yield'']"

definition is_word_char :: "char \<Rightarrow> bool" where
  "is_word_char c = (is_letter c \<or> is_digit c \<or> c = CHR ''_'')"

text \<open>\<open>_IDENTIFIER_RE\<close> and \<open>_DOTTED_NAME_RE\<close> on a stripped text.\<close>

definition identifier_re :: "string \<Rightarrow> bool" where
  "identifier_re s = (s \<noteq> [] \<and> \<not> is_digit (hd s) \<and> list_all is_word_char s)"

fun split_on :: "char \<Rightarrow> string \<Rightarrow> string list" where
  "split_on d [] = [[]]"
| "split_on d (c # s) = (if c = d then [] # split_on d s
     else (case split_on d s of [] \<Rightarrow> [[c]] | w # ws \<Rightarrow> (c # w) # ws))"

definition dotted_name_re :: "string \<Rightarrow> bool" where
  "dotted_name_re s = list_all identifier_re (split_on CHR ''.'' s)"

definition validate_identifier :: "pv \<Rightarrow> string \<Rightarrow> string checked" where
  "validate_identifier value label =
     (let text = text_of value in
     guardE (text = [] \<or> \<not> identifier_re text \<or> text \<in> set python_keywords)
       (Value_error (label @ '' must be a valid Python identifier'')) (Inr text))"

definition validate_dotted_name :: "pv \<Rightarrow> string \<Rightarrow> string checked" where
  "validate_dotted_name value label =
     (let text = text_of value in
     guardE (text = [] \<or> \<not> dotted_name_re text)
       (Value_error (label @ '' must be a dotted Python identifier path'')) (Inr text))"

text \<open>\<open>sanitize_ident\<close>: a run of other characters becomes one underscore.  Bytes of characters
  outside ASCII count as word characters here.\<close>

fun squash :: "bool \<Rightarrow> string \<Rightarrow> string" where
  "squash gap [] = []"
| "squash gap (c # s) =
     (if is_word_char c \<or> 128 \<le> (of_char c :: nat) then c # squash False s
      else if gap then squash True s else CHR ''_'' # squash True s)"

definition sanitize_ident :: "string \<Rightarrow> string \<Rightarrow> string" where
  "sanitize_ident name fallback =
     (let squashed = squash False (strip name);
          v = (if squashed = [] then fallback else squashed);
          v = (if is_digit (hd v) then CHR ''_'' # v else v)
      in if v \<in> set python_keywords then v @ ''_'' else v)"

section \<open>Scalars\<close>

definition true_strings :: "string list" where "true_strings = [''1'', ''true'', ''yes'', ''on'']"
definition false_strings :: "string list" where "false_strings = [''0'', ''false'', ''no'', ''off'']"

definition contract_bool :: "pv \<Rightarrow> bool \<Rightarrow> string \<Rightarrow> bool checked" where
  "contract_bool value dflt label =
     (case value of
        PNone \<Rightarrow> Inr dflt
      | PBool b \<Rightarrow> Inr b
      | PStr s \<Rightarrow>
          (let normalized = lower (strip s) in
           if normalized \<in> set true_strings then Inr True
           else if normalized \<in> set false_strings then Inr False
           else Inl (Value_error (label @ '' must be a boolean'')))
      | _ \<Rightarrow> Inl (Value_error (label @ '' must be a boolean'')))"

text \<open>\<open>int(text)\<close>: a sign, then digits in groups separated by single underscores, at most 4300.\<close>

definition int_of_text :: "string \<Rightarrow> int option" where
  "int_of_text s =
     (let t = strip s; neg = starts_with t ''-'';
          body = (if neg \<or> starts_with t ''+'' then tl t else t);
          groups = split_on CHR ''_'' body
      in if list_all (\<lambda>g. g \<noteq> [] \<and> list_all is_digit g) groups \<and> length (concat groups) \<le> 4300
         then Some ((if neg then - 1 else 1) * int (digits_value (concat groups))) else None)"

text \<open>\<open>int(value)\<close>; the truncation of a float reads its decimal text.\<close>

fun py_int :: "pv \<Rightarrow> int checked" where
  "py_int (PInt i) = Inr i"
| "py_int (PBool b) = Inr (if b then 1 else 0)"
| "py_int (PFloat (Dec c e)) =
     Inr (if 0 \<le> e then c * 10 ^ nat e else sgn c * (\<bar>c\<bar> div 10 ^ nat (- e)))"
| "py_int (PFloat FNan) = Inl (Value_error ''cannot convert float NaN to integer'')"
| "py_int (PFloat (FInf _)) = Inl Overflow_error"
| "py_int (PStr s) =
     (case int_of_text s of None \<Rightarrow> Inl (Value_error ''invalid literal for int()'') | Some i \<Rightarrow> Inr i)"
| "py_int _ = Inl Type_error"

section \<open>Primitives\<close>

definition materializable_primitives :: "string list" where
  "materializable_primitives = [''ChainOfThought'', ''Predict'']"

definition conditional_primitives :: "string list" where
  "conditional_primitives = [''Retriever'', ''ReAct'', ''ProgramOfThought'']"

definition allowed_topology_kinds :: "string list" where
  "allowed_topology_kinds =
     [''pipeline'', ''router'', ''retrieve_then_answer'', ''extract_transform_validate'',
      ''generate_critique_revise'']"

definition max_retriever_k :: int where "max_retriever_k = 10"
definition max_retriever_documents :: nat where "max_retriever_documents = 100"
definition max_document_chars :: nat where "max_document_chars = 4000"

definition primitive_names :: "(string \<times> string) list" where
  "primitive_names =
     [(''predict'', ''Predict''), (''chainofthought'', ''ChainOfThought''),
      (''chain_of_thought'', ''ChainOfThought''), (''react'', ''ReAct''), (''reactv2'', ''ReActV2''),
      (''react_v2'', ''ReActV2''), (''react-v2'', ''ReActV2''),
      (''programofthought'', ''ProgramOfThought''), (''program_of_thought'', ''ProgramOfThought''),
      (''retriever'', ''Retriever''), (''retrieve'', ''Retriever''), (''custom'', ''Custom'')]"

definition canonical_name :: "string \<Rightarrow> string" where
  "canonical_name text = (case map_of primitive_names (lower text) of None \<Rightarrow> text | Some p \<Rightarrow> p)"

definition canonical_primitive :: "pv \<Rightarrow> string" where
  "canonical_primitive value = canonical_name (text_of value)"

definition capability_id :: "string \<Rightarrow> string" where
  "capability_id primitive = ''dspy.primitive.'' @ primitive"

definition primitive_capability_id :: "pv \<Rightarrow> string" where
  "primitive_capability_id primitive = capability_id (canonical_primitive primitive)"

definition is_primitive_materializable :: "pv \<Rightarrow> bool" where
  "is_primitive_materializable primitive =
     (canonical_primitive primitive \<in> set materializable_primitives)"

section \<open>Retrievers\<close>

definition retriever_prefix :: "string \<Rightarrow> string" where
  "retriever_prefix module_id = ''pipeline Retriever module '' @ repr_str module_id @ '' ''"

definition extra_keys :: "(string \<times> pv) list \<Rightarrow> string list \<Rightarrow> string list" where
  "extra_keys payload allowed = sorted_diff (dict_keys payload) allowed"

definition retriever_k :: "string \<Rightarrow> pv \<Rightarrow> int checked" where
  "retriever_k module_id raw_k =
     (let not_int = Value_error (retriever_prefix module_id @ ''retriever.k must be an integer'') in
     guardE (is_bool raw_k) not_int
     (case py_int raw_k of
        Inl Overflow_error \<Rightarrow> Inl Overflow_error
      | Inl _ \<Rightarrow> Inl not_int
      | Inr k \<Rightarrow>
          guardE (k < 1 \<or> max_retriever_k < k)
            (Value_error (retriever_prefix module_id @ ''retriever.k must be between 1 and 10''))
            (Inr k)))"

text \<open>One document: its identifier and its text, given the documents before it.\<close>

definition retriever_document ::
    "string \<Rightarrow> nat \<times> pv \<Rightarrow> (string \<times> string) list \<Rightarrow> (string \<times> string) list checked" where
  "retriever_document module_id = (\<lambda>(index, raw) documents.
     (let prefix = retriever_prefix module_id; document = dict_of raw;
          doc = prefix @ ''document '' @ nat_text index @ '' '';
          doc_id = text_of (dget ''id'' document); content = name_of (dget ''text'' document) in
     guardE (\<not> is_mapping raw) (Value_error (doc @ ''must be an object''))
    (guardE (extra_keys document [''id'', ''text''] \<noteq> [])
       (Value_error (doc @ ''has unsupported keys: '' @
          names_text (extra_keys document [''id'', ''text''])))
    (guardE (doc_id = []) (Value_error (doc @ ''id must not be blank''))
    (guardE (doc_id \<in> set (dict_keys documents)) (Value_error (prefix @ ''document ids must be unique''))
    (guardE (strip content = [])
       (Value_error (prefix @ ''document '' @ repr_str doc_id @ '' text must not be blank''))
    (guardE (max_document_chars < utf8_len content)
       (Value_error (prefix @ ''document '' @ repr_str doc_id @ '' text exceeds 4000 characters''))
       (Inr (documents @ [(doc_id, content)])))))))))"

definition document_value :: "string \<times> string \<Rightarrow> pv" where
  "document_value d = PDict [(''id'', PStr (fst d)), (''text'', PStr (snd d))]"

definition normalize_inline_retriever_config :: "pv \<Rightarrow> string \<Rightarrow> pv checked" where
  "normalize_inline_retriever_config value module_id =
     (let prefix = retriever_prefix module_id; payload = dict_of value;
          extra = extra_keys payload [''mode'', ''k'', ''documents''];
          raw_documents = dget ''documents'' payload in
     guardE (\<not> is_mapping value) (Value_error (prefix @ ''requires retriever object''))
    (guardE (extra \<noteq> [])
       (Value_error (prefix @ ''retriever has unsupported keys: '' @ names_text extra))
    (guardE (text_of (dget ''mode'' payload) \<noteq> ''inline_corpus'')
       (Value_error (prefix @ ''supports only retriever.mode='' @ repr_str ''inline_corpus'' @
          '' or '' @ repr_str ''local_corpus_snapshot''))
    (bindE (retriever_k module_id (dget_or ''k'' (PInt 3) payload)) (\<lambda>k.
     guardE (\<not> is_list raw_documents \<or> list_of raw_documents = [])
       (Value_error (prefix @ ''retriever.documents must be a non-empty list''))
    (guardE (max_retriever_documents < length (list_of raw_documents))
       (Value_error (prefix @ ''retriever.documents must contain at most 100 documents''))
    (bindE (foldE (retriever_document module_id)
        (zip [0..<length (list_of raw_documents)] (list_of raw_documents)) []) (\<lambda>documents.
     Inr (PDict [(''mode'', PStr ''inline_corpus''), (''k'', PInt k),
                 (''documents'', PList (map document_value documents))])))))))))"

definition text_or :: "pv \<Rightarrow> string \<Rightarrow> string" where
  "text_or value dflt =
     (let content = strip (py_str (py_or value (PStr dflt))) in if content = [] then dflt else content)"

definition normalize_retriever_config :: "pv \<Rightarrow> string \<Rightarrow> pv checked" where
  "normalize_retriever_config value module_id =
     (let prefix = retriever_prefix module_id; payload = dict_of value;
          extra = extra_keys payload [''mode'', ''k'', ''path'', ''id_field'', ''text_field''];
          path = text_of (dget ''path'' payload) in
     guardE (\<not> is_mapping value) (Value_error (prefix @ ''requires retriever object''))
    (if text_of (dget ''mode'' payload) = ''local_corpus_snapshot'' then
       guardE (extra \<noteq> [])
         (Value_error (prefix @ ''retriever has unsupported keys: '' @ names_text extra))
      (guardE (path = []) (Value_error (prefix @ ''retriever.path must not be blank''))
      (bindE (retriever_k module_id (dget_or ''k'' (PInt 3) payload)) (\<lambda>k.
       Inr (PDict [(''mode'', PStr ''local_corpus_snapshot''), (''path'', PStr path),
                   (''id_field'', PStr (text_or (dget ''id_field'' payload) ''id'')),
                   (''text_field'', PStr (text_or (dget ''text_field'' payload) ''text'')),
                   (''k'', PInt k)]))))
     else normalize_inline_retriever_config value module_id))"

section \<open>Modules that can be materialized\<close>

text \<open>An \<open>OverflowError\<close> is no \<open>ValueError\<close> and escapes the handler.\<close>

definition is_module_materializable :: "(string \<times> pv) list \<Rightarrow> bool checked" where
  "is_module_materializable m =
     (let primitive = canonical_primitive (py_or (dget ''primitive'' m) (PStr ''Predict''));
          react = dget ''react'' m; config = dget ''program_of_thought'' m in
     if primitive \<in> {''Predict'', ''ChainOfThought''} then Inr True
     else if primitive = ''ReActV2'' then Inr False
     else if primitive = ''ReAct'' then
       Inr (is_mapping react \<and> py_eq (dget ''tools'' (dict_of react)) (PList []) \<and>
            is_int (dget ''max_iters'' (dict_of react)))
     else if primitive = ''ProgramOfThought'' then
       Inr (is_mapping config \<and> is_int (dget ''max_iters'' (dict_of config)) \<and>
            is_mapping (dget ''sandbox'' (dict_of config)))
     else if primitive = ''Retriever'' then
       (case normalize_inline_retriever_config (dget ''retriever'' m) (name_of (dget ''id'' m)) of
          Inr _ \<Rightarrow> Inr True
        | Inl e \<Rightarrow> (if is_value_error e then Inr False else Inl e))
     else Inr False)"

definition module_capability_ref :: "(string \<times> pv) list \<Rightarrow> (string \<times> pv) list checked" where
  "module_capability_ref m =
     (let primitive = canonical_primitive (py_or (dget ''primitive'' m) (PStr ''Predict''));
          plain = primitive \<in> set materializable_primitives;
          ref = (\<lambda>status materializable binding.
            [(''schema_version'', PStr ''program-capability-contract-v1''),
             (''capability_id'', PStr (capability_id primitive)), (''primitive'', PStr primitive),
             (''status'', PStr status), (''materializable'', PBool materializable),
             (''runtime_binding'', PStr binding)]);
          declared = ref ''declared_only_not_materializable'' False ''none'';
          adapted = (\<lambda>status binding. bindE (is_module_materializable m) (\<lambda>ok.
            Inr (if ok then ref status True binding else declared))) in
     if plain then Inr (ref ''materializable'' True ''generated_dspy_primitive'')
     else if primitive = ''Retriever'' then
       adapted ''materializable_with_bounded_inline_adapter''
         ''generated_bounded_inline_retriever_adapter''
     else if primitive = ''ReAct'' then
       adapted ''materializable_with_empty_tools'' ''generated_bounded_react_no_tools''
     else if primitive = ''ProgramOfThought'' then
       adapted ''materializable_with_empty_sandbox'' ''generated_sandboxed_program_of_thought''
     else if primitive = ''ReActV2'' then
       Inr (ref ''experimental_declared_only_not_materializable'' False ''none'')
     else Inr declared)"

section \<open>Contracts of the primitives\<close>

definition falses :: "string list \<Rightarrow> pv" where
  "falses names = PDict (map (\<lambda>n. (n, PBool False)) names)"

definition descriptor_effects :: pv where
  "descriptor_effects = falses
     [''provider_called'', ''tool_called'', ''custom_import_loaded'', ''network'',
      ''filesystem_read'', ''filesystem_write'', ''subprocess'', ''external_authority'']"

definition non_authority :: pv where
  "non_authority = falses
     [''ranking_authority'', ''promotion_authority'', ''activation_authority'',
      ''oracle_authority'', ''governance_authority'', ''canonical_mutation'',
      ''external_mutation'']"

definition primitive_contract :: "string \<Rightarrow> (string \<times> pv) list" where
  "primitive_contract name =
     (let primitive = canonical_primitive (PStr name);
          materializable = primitive \<in> set materializable_primitives;
          experimental = primitive = ''ReActV2'';
          conditional = primitive \<in> set conditional_primitives;
          kinds = (if materializable then ''single_module'' # allowed_topology_kinds
                   else if conditional then allowed_topology_kinds else []) in
     [(''schema_version'', PStr ''program-capability-contract-v1''),
      (''capability_id'', PStr (capability_id primitive)),
      (''kind'', PStr ''dspy_primitive''), (''primitive'', PStr primitive),
      (''status'', PStr
        (if materializable then ''materializable''
         else if experimental then ''experimental_declared_only_not_materializable''
         else if conditional then ''conditionally_materializable_with_adapter''
         else ''declared_only_not_materializable'')),
      (''materializable'', PBool materializable),
      (''conditional_materializable'', PBool conditional),
      (''experimental'', PBool experimental),
      (''allowed_topology_kinds'', PList (map PStr kinds)),
      (''materialization_policy'', PDict
        [(''generated_code_only'', PBool (materializable \<or> conditional)),
         (''custom_import_allowed'', PBool False), (''tool_binding_allowed'', PBool False),
         (''retriever_binding_allowed'', PBool False),
         (''bounded_inline_retriever_adapter_allowed'', PBool (primitive = ''Retriever'')),
         (''local_corpus_snapshot_adapter_allowed'', PBool (primitive = ''Retriever'')),
         (''live_external_retriever_binding_allowed'', PBool False),
         (''react_loop_allowed'', PBool (primitive = ''ReAct'')),
         (''react_v2_declared_only'', PBool (primitive = ''ReActV2'')),
         (''react_v2_materialization_requires_explicit_opt_in'', PBool False),
         (''react_v2_requires_public_dspy_react_v2'', PBool False),
         (''react_v2_tool_binding_allowed'', PBool False),
         (''program_of_thought_allowed'', PBool (primitive = ''ProgramOfThought'')),
         (''provider_call_allowed_by_contract'', PBool False),
         (''fail_closed_without_explicit_adapter'', PBool True)]),
      (''routing_policy'', PDict
        [(''when_field_equals'', PBool (materializable \<or> conditional)),
         (''arbitrary_expression'', PBool False)]),
      (''effects'', descriptor_effects), (''non_authority'', non_authority)])"

definition builtin_capability_contracts :: "pv list" where
  "builtin_capability_contracts = map (\<lambda>p. PDict (primitive_contract p))
     [''Predict'', ''ChainOfThought'', ''Retriever'', ''ReAct'', ''ProgramOfThought'', ''ReActV2'',
      ''Custom'']"

definition capability_contract_for_primitive :: "pv \<Rightarrow> (string \<times> pv) list" where
  "capability_contract_for_primitive primitive = primitive_contract (canonical_primitive primitive)"

section \<open>Declarations\<close>

definition declaration_kinds :: "string list" where
  "declaration_kinds =
     [''custom_import'', ''custom_module'', ''dspy_primitive'', ''program_of_thought'', ''react'',
      ''react_v2'', ''retriever'', ''tool'']"

text \<open>An optional entry of the result: nothing when the key is absent or \<open>None\<close>.\<close>

definition optional_entry ::
    "string \<Rightarrow> (string \<times> pv) list \<Rightarrow> (pv \<Rightarrow> pv checked) \<Rightarrow> (string \<times> pv) list checked" where
  "optional_entry key raw f =
     (if dget key raw = PNone then Inr [] else bindE (f (dget key raw)) (\<lambda>v. Inr [(key, v)]))"

definition name_list :: "string \<Rightarrow> pv \<Rightarrow> pv checked" where
  "name_list message v =
     guardE (\<not> is_list v) (Value_error message)
       (Inr (PList (map (\<lambda>item. PStr (py_str item)) (list_of v))))"

definition declared_retriever ::
    "string \<Rightarrow> (string \<times> pv) list \<Rightarrow> (string \<times> pv) list checked" where
  "declared_retriever declaration_id raw =
     (let prefix = ''capability declaration '' @ repr_str declaration_id @ '' '' in
     if dget ''retriever'' raw \<noteq> PNone then
       guardE (\<not> is_mapping (dget ''retriever'' raw)) (Value_error (prefix @ ''retriever must be an object''))
         (bindE (normalize_retriever_config (dget ''retriever'' raw) declaration_id) (\<lambda>v.
          Inr [(''retriever'', v)]))
     else if dget ''mode'' raw \<noteq> PNone then
       bindE (normalize_retriever_config
           (PDict (map (\<lambda>key. (key, dget key raw))
             (filter (\<lambda>key. key \<in> set (dict_keys raw))
               [''mode'', ''k'', ''documents'', ''path'', ''id_field'', ''text_field'']))) declaration_id)
         (\<lambda>v. Inr [(''retriever'', v)])
     else Inr [])"

definition declared_tool :: "string \<Rightarrow> (string \<times> pv) list \<Rightarrow> (string \<times> pv) list checked" where
  "declared_tool declaration_id raw =
     (let prefix = ''capability declaration '' @ repr_str declaration_id @ '' '' in
     bindE (mapE (\<lambda>key. optional_entry key raw (\<lambda>v.
         guardE (\<not> is_mapping v) (Value_error (prefix @ key @ '' must be an object'')) (Inr v)))
       [''args_schema'', ''return_schema'', ''allowlists'', ''timeout_policy'', ''redaction_policy''])
     (\<lambda>objects.
     bindE (optional_entry ''effect_class'' raw (\<lambda>v. Inr (PStr (py_str (py_or v (PStr ''pure'')))))) (\<lambda>effect.
     bindE (optional_entry ''mutation_allowed'' raw (\<lambda>v.
         bindE (contract_bool v False (prefix @ ''mutation_allowed'')) (\<lambda>b. Inr (PBool b)))) (\<lambda>mutation.
     Inr (concat objects @ effect @ mutation)))))"

definition normalize_capability_declaration :: "pv \<Rightarrow> (string \<times> pv) list checked" where
  "normalize_capability_declaration value =
     (let raw = dict_of value in
     guardE (\<not> is_mapping value)
       (Value_error ''program intent capability declarations must contain objects'')
    (bindE (validate_identifier (py_or (dget ''id'' raw) (dget ''name'' raw)) ''capability declaration id'')
     (\<lambda>declaration_id.
     let prefix = ''capability declaration '' @ repr_str declaration_id @ '' '';
         declared_kind = text_of (dget ''kind'' raw) in
     guardE (declared_kind = []) (Value_error (prefix @ ''kind must not be blank''))
    (guardE (declared_kind \<notin> set declaration_kinds)
       (Value_error (prefix @ ''kind must be one of '' @ names_text declaration_kinds))
    (bindE (optional_entry ''primitive'' raw (\<lambda>v. Inr (PStr (canonical_primitive v)))) (\<lambda>primitive.
     bindE (optional_entry ''module'' raw (\<lambda>v.
        bindE (validate_dotted_name v (prefix @ ''module'')) (\<lambda>t. Inr (PStr t)))) (\<lambda>module_entry.
     bindE (optional_entry ''import'' raw (\<lambda>v.
        bindE (validate_dotted_name v (prefix @ ''import'')) (\<lambda>t. Inr (PStr t)))) (\<lambda>import_entry.
     bindE (optional_entry ''description'' raw (\<lambda>v. Inr (PStr (name_of v)))) (\<lambda>description.
     bindE (optional_entry ''name'' raw (\<lambda>v. Inr (PStr (py_str (py_or v (PStr declaration_id)))))) (\<lambda>name_entry.
     bindE (optional_entry ''inputs'' raw (name_list (prefix @ ''inputs must be a list''))) (\<lambda>inputs.
     bindE (optional_entry ''outputs'' raw (name_list (prefix @ ''outputs must be a list''))) (\<lambda>outputs.
     bindE (if declared_kind = ''retriever'' then declared_retriever declaration_id raw else Inr []) (\<lambda>retriever.
     bindE (if declared_kind = ''tool'' then declared_tool declaration_id raw else Inr []) (\<lambda>tool.
     Inr ([(''schema_version'', PStr ''program-capability-declaration-v1''),
           (''id'', PStr declaration_id), (''kind'', PStr declared_kind),
           (''status'', PStr ''declared_only_not_bound''), (''materializable'', PBool False),
           (''runtime_binding'', PStr ''none''), (''effects'', descriptor_effects),
           (''non_authority'', non_authority)] @
          primitive @ module_entry @ import_entry @ description @ name_entry @ inputs @ outputs @
          retriever @ tool)))))))))))))))"

text \<open>The identifiers of the normalized declarations must be distinct.\<close>

definition normalize_program_capabilities :: "pv \<Rightarrow> (string \<times> pv) list checked" where
  "normalize_program_capabilities value =
     (let raw = dget_or ''declarations'' (PList []) (dict_of value) in
     if value = PNone then Inr [] else
     guardE (\<not> is_mapping value) (Value_error ''program intent capabilities must be an object'')
    (guardE (\<not> is_list raw)
       (Value_error ''program intent capabilities.declarations must be a list'')
    (bindE (mapE normalize_capability_declaration (list_of raw)) (\<lambda>declarations.
     guardE (\<not> distinct (map (dget ''id'') declarations))
       (Value_error ''program intent capability declaration ids must be unique'')
    (Inr (if declarations = [] then [] else
       [(''schema_version'', PStr ''program-capabilities-v1''),
        (''status'', PStr ''declared_only_not_bound''),
        (''declarations'', PList (map PDict declarations))]))))))"

section \<open>Stripped texts\<close>

lemma strip_fixed: "s = [] \<or> \<not> is_space (hd s) \<and> \<not> is_space (last s) \<Longrightarrow> strip s = s"
  using dropWhile_eq_self_iff [of is_space s] dropWhile_eq_self_iff [of is_space "rev s"]
  by (auto simp: strip_def hd_rev)

lemma strip_ends: "strip s \<noteq> [] \<Longrightarrow> \<not> is_space (hd (strip s)) \<and> \<not> is_space (last (strip s))"
proof -
  let ?u = "dropWhile is_space s" and ?r = "dropWhile is_space (rev (dropWhile is_space s))"
  assume "strip s \<noteq> []"
  then have r: "?r \<noteq> []" by (simp add: strip_def)
  have "rev ?u = takeWhile is_space (rev ?u) @ ?r" by simp
  then have u: "?u = rev ?r @ rev (takeWhile is_space (rev ?u))" by (metis rev_append rev_rev_ident)
  with r have "?u \<noteq> []" "hd ?u = hd (rev ?r)" by (metis append_is_Nil_conv rev_is_Nil_conv, metis hd_append2 rev_is_Nil_conv)
  then have "\<not> is_space (hd (rev ?r))" using hd_dropWhile by metis
  moreover have "\<not> is_space (hd ?r)" using r hd_dropWhile by blast
  ultimately show ?thesis using r by (simp add: strip_def last_rev)
qed

lemma strip_strip [simp]: "strip (strip s) = strip s"
  using strip_ends [of s] strip_fixed by blast

lemma strip_text_of [simp]: "strip (text_of v) = text_of v"
  by (simp add: text_of_def)

section \<open>Retriever configurations\<close>

definition document_ok :: "string \<times> string \<Rightarrow> bool" where
  "document_ok d \<longleftrightarrow> fst d \<noteq> [] \<and> strip (fst d) = fst d \<and> strip (snd d) \<noteq> [] \<and>
     utf8_len (snd d) \<le> max_document_chars"

lemma retriever_document_Inr:
  "retriever_document module_id (index, raw) documents = Inr documents' \<Longrightarrow>
     \<exists>d. documents' = documents @ [d] \<and> document_ok d \<and> fst d \<notin> set (dict_keys documents)"
  by (auto simp: retriever_document_def Let_def guardE_Inr_iff document_ok_def)

lemma retriever_documents_Inr:
  "foldE (retriever_document module_id) items documents = Inr documents' \<Longrightarrow>
     \<exists>ds. documents' = documents @ ds \<and> length ds = length items \<and> list_all document_ok ds \<and>
       (distinct (dict_keys documents) \<longrightarrow> distinct (dict_keys documents'))"
proof (induction items arbitrary: documents)
  case (Cons item items)
  then obtain d where d: "document_ok d" "fst d \<notin> set (dict_keys documents)"
    "foldE (retriever_document module_id) items (documents @ [d]) = Inr documents'"
    using retriever_document_Inr [of module_id "fst item" "snd item" documents]
    by (auto simp: res_simps)
  from Cons.IH [OF d(3)] d(1,2) show ?case by (auto intro: exI [of _ "d # _"])
qed simp

lemma retriever_document_again:
  assumes "document_ok d" "fst d \<notin> set (dict_keys documents)"
  shows "retriever_document module_id (index, document_value d) documents = Inr (documents @ [d])"
proof -
  have "snd d \<noteq> []" using assms(1) by (auto simp: document_ok_def strip_def)
  then have "name_of (PStr (snd d)) = snd d" by (simp add: name_of_def py_or_def)
  moreover have "extra_keys (dict_of (document_value d)) [''id'', ''text''] = []"
    by (simp add: extra_keys_def document_value_def)
  ultimately show ?thesis
    using assms by (simp add: retriever_document_def document_value_def document_ok_def Let_def)
qed

lemma retriever_documents_again:
  assumes "list_all document_ok ds" "distinct (dict_keys (documents @ ds))" "length is = length ds"
  shows "foldE (retriever_document module_id) (zip is (map document_value ds)) documents =
    Inr (documents @ ds)"
  using assms
proof (induction ds arbitrary: documents "is")
  case (Cons d ds)
  then obtain i js where "is = i # js" by (cases "is") auto
  with Cons retriever_document_again [of d documents module_id i] show ?case
    by (simp del: set_map add: image_Un) 
qed simp

lemma retriever_k_Inr:
  "retriever_k module_id raw = Inr k \<Longrightarrow> 1 \<le> k \<and> k \<le> 10"
  by (auto simp: retriever_k_def Let_def guardE_Inr_iff max_retriever_k_def
      split: sum.splits raised.splits)

lemma retriever_k_again: "1 \<le> k \<Longrightarrow> k \<le> 10 \<Longrightarrow> retriever_k module_id (PInt k) = Inr k"
  by (simp add: retriever_k_def Let_def max_retriever_k_def)

definition inline_config :: "int \<Rightarrow> (string \<times> string) list \<Rightarrow> pv" where
  "inline_config k ds = PDict [(''mode'', PStr ''inline_corpus''), (''k'', PInt k),
     (''documents'', PList (map document_value ds))]"

lemma inline_config_iff:
  "normalize_inline_retriever_config value module_id = Inr r \<Longrightarrow>
     \<exists>k ds. r = inline_config k ds \<and> 1 \<le> k \<and> k \<le> 10 \<and> 1 \<le> length ds \<and>
       length ds \<le> 100 \<and> list_all document_ok ds \<and> distinct (dict_keys ds)"
proof -
  assume "normalize_inline_retriever_config value module_id = Inr r"
  then obtain k ds where k: "retriever_k module_id (dget_or ''k'' (PInt 3) (dict_of value)) = Inr k"
    and len: "list_of (dget ''documents'' (dict_of value)) \<noteq> []"
      "length (list_of (dget ''documents'' (dict_of value))) \<le> 100"
    and ds: "foldE (retriever_document module_id)
        (zip [0..<length (list_of (dget ''documents'' (dict_of value)))]
          (list_of (dget ''documents'' (dict_of value)))) [] = Inr ds"
    and r: "r = inline_config k ds"
    unfolding normalize_inline_retriever_config_def Let_def guardE_Inr_iff bindE_Inr_iff
      inline_config_def max_retriever_documents_def
    by (auto simp only: not_less de_Morgan_disj sum.inject)
  from retriever_documents_Inr [OF ds] len have "1 \<le> length ds" "length ds \<le> 100"
    "list_all document_ok ds" "distinct (dict_keys ds)" by (auto simp: Suc_le_eq)
  with r retriever_k_Inr [OF k] show ?thesis by blast
qed

lemma strip_literals [simp]: "strip ''inline_corpus'' = ''inline_corpus''"
  "strip ''local_corpus_snapshot'' = ''local_corpus_snapshot''"
  by (rule strip_fixed, simp add: is_space_def)+

lemma inline_config_again:
  assumes "1 \<le> k" "k \<le> 10" "1 \<le> length ds" "length ds \<le> 100" "list_all document_ok ds"
    "distinct (dict_keys ds)"
  shows "normalize_inline_retriever_config (inline_config k ds) module_id = Inr (inline_config k ds)"
proof -
  have "ds \<noteq> []" using assms(3) by auto
  then show ?thesis
    using assms retriever_documents_again [of ds "[]" "[0..<length ds]" module_id]
    unfolding normalize_inline_retriever_config_def inline_config_def
    by (simp add: Let_def extra_keys_def retriever_k_again dget_or_def max_retriever_documents_def)
qed

lemma text_or_fixed: "text_or value dflt \<noteq> [] \<or> dflt = []"
  by (simp add: text_or_def Let_def)

lemma text_or_again:
  assumes "strip dflt = dflt" "dflt \<noteq> []"
  shows "text_or (PStr (text_or value dflt)) dflt = text_or value dflt"
proof -
  have "strip (text_or value dflt) = text_or value dflt"
    using assms(1) by (simp add: text_or_def Let_def)
  then show ?thesis using text_or_fixed [of "value" dflt] assms(2) by (simp add: text_or_def [of "PStr x" for x] py_or_def)
qed

definition local_config :: "string \<Rightarrow> string \<Rightarrow> string \<Rightarrow> int \<Rightarrow> pv" where
  "local_config path id_field text_field k = PDict
     [(''mode'', PStr ''local_corpus_snapshot''), (''path'', PStr path), (''id_field'', PStr id_field),
      (''text_field'', PStr text_field), (''k'', PInt k)]"

lemma local_config_iff:
  assumes "normalize_retriever_config value module_id = Inr r"
    and "text_of (dget ''mode'' (dict_of value)) = ''local_corpus_snapshot''"
  shows "\<exists>path u v k. r = local_config path (text_or u ''id'') (text_or v ''text'') k \<and>
    path \<noteq> [] \<and> strip path = path \<and> 1 \<le> k \<and> k \<le> 10"
  using assms retriever_k_Inr strip_text_of
  by (auto simp: normalize_retriever_config_def Let_def guardE_Inr_iff bindE_Inr_iff local_config_def)

lemma local_config_again:
  assumes "path \<noteq> []" "strip path = path" "1 \<le> k" "k \<le> 10"
  shows "normalize_retriever_config (local_config path (text_or u ''id'') (text_or v ''text'') k) module_id =
    Inr (local_config path (text_or u ''id'') (text_or v ''text'') k)"
proof -
  have "strip ''id'' = ''id''" "strip ''text'' = ''text''"
    by (rule strip_fixed, simp add: is_space_def)+
  then show ?thesis
    using assms
    by (simp add: normalize_retriever_config_def local_config_def Let_def extra_keys_def dget_or_def
        retriever_k_again text_or_again)
qed

lemma normalize_inline_mode:
  "normalize_inline_retriever_config value module_id = Inr r \<Longrightarrow>
     normalize_retriever_config r module_id = normalize_inline_retriever_config r module_id"
  using inline_config_iff [of "value" module_id r]
  by (auto simp: normalize_retriever_config_def inline_config_def Let_def)

text \<open>An inline retriever the normalizer accepts asks for one to ten documents out of one to a
  hundred, with distinct non-blank identifiers and non-blank texts of at most 4000 characters.\<close>

theorem retriever_bounds:
  assumes "normalize_inline_retriever_config value module_id = Inr r"
  shows "\<exists>k ds. r = PDict [(''mode'', PStr ''inline_corpus''), (''k'', PInt k),
      (''documents'', PList (map document_value ds))] \<and> 1 \<le> k \<and> k \<le> 10 \<and>
    1 \<le> length ds \<and> length ds \<le> 100 \<and> distinct (map fst ds) \<and>
    (\<forall>d \<in> set ds. fst d \<noteq> [] \<and> strip (snd d) \<noteq> [] \<and> utf8_len (snd d) \<le> 4000)"
  using inline_config_iff [OF assms]
  by (auto simp: inline_config_def document_ok_def max_document_chars_def list_all_iff)

definition sample_retriever :: pv where
  "sample_retriever = PDict [(''mode'', PStr '' inline_corpus''), (''k'', PStr ''2''),
     (''documents'', PList [PDict [(''id'', PInt 7), (''text'', PStr ''body'')]])]"

lemma sample_retriever_normal: "normalize_inline_retriever_config sample_retriever ''m'' =
  Inr (PDict [(''mode'', PStr ''inline_corpus''), (''k'', PInt 2),
    (''documents'', PList [document_value (''7'', ''body'')])])"
  by code_simp

theorem retriever_bounds_witness:
  "\<exists>k ds. PDict [(''mode'', PStr ''inline_corpus''), (''k'', PInt 2),
      (''documents'', PList [document_value (''7'', ''body'')])] =
    PDict [(''mode'', PStr ''inline_corpus''), (''k'', PInt k),
      (''documents'', PList (map document_value ds))] \<and> 1 \<le> k \<and> k \<le> 10 \<and>
    1 \<le> length ds \<and> length ds \<le> 100 \<and> distinct (map fst ds) \<and>
    (\<forall>d \<in> set ds. fst d \<noteq> [] \<and> strip (snd d) \<noteq> [] \<and> utf8_len (snd d) \<le> 4000)"
  by (rule retriever_bounds [OF sample_retriever_normal])

text \<open>Normalizing a retriever configuration again changes nothing.\<close>

theorem retriever_idempotent:
  assumes "normalize_retriever_config value module_id = Inr r"
  shows "normalize_retriever_config r module_id = Inr r"
proof (cases "text_of (dget ''mode'' (dict_of value)) = ''local_corpus_snapshot''")
  case True
  from local_config_iff [OF assms this] show ?thesis by (auto simp: local_config_again)
next
  case False
  with assms have inline: "normalize_inline_retriever_config value module_id = Inr r"
    by (simp add: normalize_retriever_config_def Let_def guardE_Inr_iff)
  from inline_config_iff [OF this] normalize_inline_mode [OF this] show ?thesis
    by (auto simp: inline_config_again)
qed

theorem retriever_idempotent_witness:
  "normalize_retriever_config (PDict [(''mode'', PStr ''inline_corpus''), (''k'', PInt 2),
      (''documents'', PList [document_value (''7'', ''body'')])]) ''m'' =
    Inr (PDict [(''mode'', PStr ''inline_corpus''), (''k'', PInt 2),
      (''documents'', PList [document_value (''7'', ''body'')])])"
proof -
  have "normalize_retriever_config sample_retriever ''m'' = normalize_inline_retriever_config sample_retriever ''m''"
    by code_simp
  then show ?thesis
    by (intro retriever_idempotent [of sample_retriever]) (simp only: sample_retriever_normal)
qed

text \<open>An infinite \<open>k\<close> is not a configuration error: the conversion raises \<open>OverflowError\<close>, which
  passes the handler that turns a bad configuration into "cannot be materialized".\<close>

theorem infinite_k_escapes:
  assumes "canonical_primitive (dget ''primitive'' m) = ''Retriever''"
    and "dget ''retriever'' m = PDict [(''mode'', PStr ''inline_corpus''), (''k'', PFloat (FInf False))]"
  shows "is_module_materializable m = Inl Overflow_error"
proof -
  have "truthy (dget ''primitive'' m)"
  proof (rule ccontr)
    assume "\<not> truthy (dget ''primitive'' m)"
    then have "text_of (dget ''primitive'' m) = []" by (simp add: text_of_def py_or_def strip_def)
    with assms(1) show False
      by (simp add: canonical_primitive_def canonical_name_def primitive_names_def lower_def)
  qed
  with assms show ?thesis
    by (simp add: is_module_materializable_def Let_def py_or_def normalize_inline_retriever_config_def
        extra_keys_def retriever_k_def dget_or_def)
qed

theorem infinite_k_escapes_witness:
  "is_module_materializable [(''primitive'', PStr ''retrieve''), (''retriever'',
     PDict [(''mode'', PStr ''inline_corpus''), (''k'', PFloat (FInf False))])] = Inl Overflow_error"
  by (rule infinite_k_escapes, code_simp, simp)

end
