(* ===== verification/Graph_Search.thy ===== *)
theory Graph_Search
  imports Prelude
begin

text \<open>
  The graph searches of the topology contracts, over adjacency dictionaries
  (\<open>services/program_intent.py\<close>): the worklist \<open>_reachable_from\<close> and the depth-first search for a
  cycle \<open>_topology_module_cycle\<close>.  The results are compared with the reflexive-transitive and the
  transitive closure of the edge relation.
\<close>

section \<open>Adjacency dictionaries\<close>

type_synonym graph = "(string \<times> string list) list"

definition succs :: "graph \<Rightarrow> string \<Rightarrow> string list" where
  "succs g v = (case map_of g v of None \<Rightarrow> [] | Some ts \<Rightarrow> ts)"

definition arcs :: "graph \<Rightarrow> (string \<times> string) set" where
  "arcs g = {(u, v). v \<in> set (succs g u)}"

text \<open>\<open>{node: set() for node in nodes}\<close> and \<open>adjacency[source].add(target)\<close>.\<close>

definition empty_graph :: "string list \<Rightarrow> graph" where
  "empty_graph nodes = map (\<lambda>v. (v, [])) nodes"

definition add_arc :: "string \<Rightarrow> string \<Rightarrow> graph \<Rightarrow> graph" where
  "add_arc u v g = (if v \<in> set (succs g u) then g else dict_set u (succs g u @ [v]) g)"

lemma arcs_iff [simp]: "(u, v) \<in> arcs g \<longleftrightarrow> v \<in> set (succs g u)"
  by (simp add: arcs_def)

lemma succs_empty [simp]: "succs (empty_graph nodes) v = []"
  by (induction nodes) (simp_all add: empty_graph_def succs_def)

lemma succs_add_arc:
  "succs (add_arc u v g) w =
     (if w = u \<and> v \<notin> set (succs g u) then succs g u @ [v] else succs g w)"
  by (simp add: add_arc_def succs_def)

lemma set_succs_add_arc [simp]:
  "set (succs (add_arc u v g) w) = set (succs g w) \<union> (if w = u then {v} else {})"
  by (auto simp: succs_add_arc)

lemma arcs_empty [simp]: "arcs (empty_graph nodes) = {}"
  by (simp add: arcs_def)

lemma arcs_add_arc [simp]: "arcs (add_arc u v g) = insert (u, v) (arcs g)"
  by (auto simp: arcs_def split: if_splits)

lemma distinct_succs_add_arc:
  "(\<And>w. distinct (succs g w)) \<Longrightarrow> distinct (succs (add_arc u v g) w)"
  by (simp add: succs_add_arc)

lemma succs_in_graph: "set (succs g v) \<subseteq> set (concat (map snd g))"
  by (cases "map_of g v") (auto simp: succs_def dest: map_of_SomeD)

section \<open>Reachability\<close>

definition unseen :: "graph \<Rightarrow> string list \<Rightarrow> string list \<Rightarrow> nat" where
  "unseen g stack seen = card ((set (concat (map snd g)) \<union> set stack) - set seen)"

lemma unseen_skip: "unseen g stack seen \<le> unseen g (current # stack) seen"
  unfolding unseen_def by (rule card_mono) auto

lemma unseen_visit:
  assumes "current \<notin> set seen"
  shows "unseen g (rev (sorted_diff (succs g current) (current # seen)) @ stack) (current # seen)
    < unseen g (current # stack) seen"
  unfolding unseen_def by (rule psubset_card_mono) (use assms succs_in_graph [of g current] in auto)

text \<open>The stack has its top at the front, so \<open>extend(sorted(..))\<close> pushes the reverse.\<close>

function reach_loop :: "graph \<Rightarrow> string list \<Rightarrow> string list \<Rightarrow> string list" where
  "reach_loop g [] seen = seen"
| "reach_loop g (current # stack) seen =
     (if current \<in> set seen then reach_loop g stack seen
      else reach_loop g (rev (sorted_diff (succs g current) (current # seen)) @ stack)
             (current # seen))"
  by pat_completeness auto

termination
  by (relation "measures [\<lambda>(g, stack, seen). unseen g stack seen, \<lambda>(g, stack, seen). length stack]")
    (use unseen_visit unseen_skip in \<open>auto simp: le_less less_Suc_eq_le\<close>)

definition reachable_from :: "string \<Rightarrow> graph \<Rightarrow> string list" where
  "reachable_from start g = reach_loop g [start] []"

lemma reach_loop_sound:
  "(\<forall>u v. P u \<longrightarrow> v \<in> set (succs g u) \<longrightarrow> P v) \<Longrightarrow> (\<forall>v \<in> set stack \<union> set seen. P v) \<Longrightarrow>
   \<forall>v \<in> set (reach_loop g stack seen). P v"
proof (induction g stack seen rule: reach_loop.induct)
  case (2 g current stack seen)
  show ?case
  proof (cases "current \<in> set seen")
    case False
    have "\<forall>v \<in> set (rev (sorted_diff (succs g current) (current # seen)) @ stack) \<union> set (current # seen). P v"
      using 2(3,4) by auto
    from 2(2) [OF False 2(3) this] False show ?thesis by simp
  qed (use 2 in auto)
qed auto

lemma reach_loop_closed:
  "(\<And>u v. u \<in> set seen \<Longrightarrow> v \<in> set (succs g u) \<Longrightarrow> v \<in> set seen \<union> set stack) \<Longrightarrow>
   set seen \<union> set stack \<subseteq> set (reach_loop g stack seen) \<and>
   (\<forall>u \<in> set (reach_loop g stack seen). set (succs g u) \<subseteq> set (reach_loop g stack seen))"
proof (induction g stack seen rule: reach_loop.induct)
  case (2 g current stack seen)
  show ?case
  proof (cases "current \<in> set seen")
    case True
    with 2 show ?thesis by auto
  next
    case False
    have "v \<in> set (current # seen) \<union> set (rev (sorted_diff (succs g current) (current # seen)) @ stack)"
      if "u \<in> set (current # seen)" "v \<in> set (succs g u)" for u v
      using that 2(3) [of u v] by auto
    from 2(2) [OF False this] False show ?thesis by auto
  qed
qed auto

lemma set_reachable_from: "set (reachable_from start g) = (arcs g)\<^sup>* `` {start}"
proof
  let ?P = "\<lambda>v. (start, v) \<in> (arcs g)\<^sup>*"
  have "\<forall>u v. ?P u \<longrightarrow> v \<in> set (succs g u) \<longrightarrow> ?P v"
    by (metis arcs_iff rtrancl_into_rtrancl)
  then have "\<forall>v \<in> set (reach_loop g [start] []). ?P v" by (rule reach_loop_sound) simp
  then show "set (reachable_from start g) \<subseteq> (arcs g)\<^sup>* `` {start}"
    by (auto simp: reachable_from_def simp del: reach_loop.simps)
  have closed: "start \<in> set (reachable_from start g)"
    "\<And>u. u \<in> set (reachable_from start g) \<Longrightarrow> set (succs g u) \<subseteq> set (reachable_from start g)"
    using reach_loop_closed [of "[]" g "[start]"] by (auto simp: reachable_from_def)
  have "v \<in> set (reachable_from start g)" if "(start, v) \<in> (arcs g)\<^sup>*" for v
    using that by (induction rule: rtrancl_induct) (use closed in auto)
  then show "(arcs g)\<^sup>* `` {start} \<subseteq> set (reachable_from start g)" by auto
qed

section \<open>Search for a cycle\<close>

text \<open>
  \<open>visit\<close> is recursive over two sets and a path that all calls share; the state is returned.  The
  fuel bounds the depth: one more than the number of nodes is enough (\<open>visit_total\<close>), as every
  nested call adds a node to \<open>visiting\<close>.
\<close>

record dfs =
  visiting :: "string list"
  visited :: "string list"
  dfs_path :: "string list"

fun visit :: "nat \<Rightarrow> graph \<Rightarrow> string \<Rightarrow> dfs \<Rightarrow> (string list \<times> dfs) option"
  and visits :: "nat \<Rightarrow> graph \<Rightarrow> string list \<Rightarrow> dfs \<Rightarrow> (string list \<times> dfs) option" where
  "visit 0 g node st = None"
| "visit (Suc n) g node st =
     (if node \<in> set (visiting st) then
        Some ((if node \<in> set (dfs_path st) then dropWhile (\<lambda>v. v \<noteq> node) (dfs_path st)
               else dfs_path st) @ [node], st)
      else if node \<in> set (visited st) then Some ([], st)
      else (case visits n g (sorted_set (succs g node))
                (st\<lparr>visiting := node # visiting st, dfs_path := dfs_path st @ [node]\<rparr>) of
          None \<Rightarrow> None
        | Some (cycle, st') \<Rightarrow>
            Some (if cycle \<noteq> [] then (cycle, st')
              else ([], st'\<lparr>dfs_path := butlast (dfs_path st'),
                            visiting := filter (\<lambda>v. v \<noteq> node) (visiting st'),
                            visited := node # visited st'\<rparr>))))"
| "visits n g [] st = Some ([], st)"
| "visits n g (target # targets) st =
     (case visit n g target st of
        None \<Rightarrow> None
      | Some (cycle, st') \<Rightarrow> if cycle \<noteq> [] then Some (cycle, st') else visits n g targets st')"

definition module_graph :: "string list \<Rightarrow> (string \<times> string) list \<Rightarrow> graph" where
  "module_graph module_ids edges =
     fold (\<lambda>(source, target) g.
         if source \<in> set module_ids \<and> target \<in> set module_ids then add_arc source target g else g)
       edges (empty_graph module_ids)"

definition topology_module_cycle :: "string list \<Rightarrow> (string \<times> string) list \<Rightarrow> string list" where
  "topology_module_cycle module_ids edges =
     (case visits (Suc (length module_ids)) (module_graph module_ids edges) (sorted_set module_ids)
         \<lparr>visiting = [], visited = [], dfs_path = []\<rparr> of
        None \<Rightarrow> []
      | Some (cycle, st) \<Rightarrow> cycle)"

lemma arcs_module_graph:
  "arcs (module_graph module_ids edges) = set edges \<inter> (set module_ids \<times> set module_ids)"
proof -
  have "arcs (fold (\<lambda>(source, target) g.
         if source \<in> set module_ids \<and> target \<in> set module_ids then add_arc source target g else g)
       edges g) = arcs g \<union> set edges \<inter> (set module_ids \<times> set module_ids)" for g
  proof (induction edges arbitrary: g)
    case (Cons e edges)
    obtain a b where "e = (a, b)" by fastforce
    then show ?case
      by (cases "a \<in> set module_ids \<and> b \<in> set module_ids") (auto simp: Cons.IH simp del: arcs_iff)
  qed simp
  then show ?thesis by (simp add: module_graph_def)
qed

text \<open>The state between calls: the path is the chain of the nodes being visited, and what has been
  visited is closed under successors and free of cycles.\<close>

fun chain_from :: "graph \<Rightarrow> string list \<Rightarrow> bool" where
  "chain_from g (u # v # vs) = (v \<in> set (succs g u) \<and> chain_from g (v # vs))"
| "chain_from g _ = True"

definition dfs_ok :: "graph \<Rightarrow> dfs \<Rightarrow> bool" where
  "dfs_ok g st \<longleftrightarrow>
     distinct (dfs_path st) \<and> set (visiting st) = set (dfs_path st) \<and>
     chain_from g (dfs_path st) \<and> set (visiting st) \<inter> set (visited st) = {} \<and>
     (\<forall>u \<in> set (visited st). set (succs g u) \<subseteq> set (visited st) \<and> (u, u) \<notin> (arcs g)\<^sup>+)"

definition is_cycle :: "graph \<Rightarrow> string list \<Rightarrow> bool" where
  "is_cycle g cycle \<longleftrightarrow> 2 \<le> length cycle \<and> hd cycle = last cycle \<and> chain_from g cycle"

lemma chain_from_append:
  "chain_from g (xs @ ys) \<longleftrightarrow> chain_from g xs \<and> chain_from g ys \<and>
     (xs \<noteq> [] \<and> ys \<noteq> [] \<longrightarrow> hd ys \<in> set (succs g (last xs)))"
  by (induction g xs rule: chain_from.induct) (cases ys; auto)+

lemma chain_from_dropWhile: "chain_from g xs \<Longrightarrow> chain_from g (dropWhile P xs)"
  using takeWhile_dropWhile_id [of P xs] chain_from_append [of g "takeWhile P xs" "dropWhile P xs"] by simp

lemma closed_trancl:
  assumes "(u, v) \<in> (arcs g)\<^sup>+" "u \<in> A" "\<forall>u \<in> A. set (succs g u) \<subseteq> A"
  shows "v \<in> A"
  using assms(1,2) by (induction rule: trancl_induct) (use assms(3) in auto)

lemma cycle_trancl: "is_cycle g cycle \<Longrightarrow> (last cycle, last cycle) \<in> (arcs g)\<^sup>+"
proof -
  have "chain_from g vs \<Longrightarrow> 2 \<le> length vs \<Longrightarrow> (hd vs, last vs) \<in> (arcs g)\<^sup>+" for vs
  proof (induction g vs rule: chain_from.induct)
    case (1 g u v vs)
    then show ?case by (cases vs) (auto intro: trancl_into_trancl2)
  qed auto
  then show "is_cycle g cycle \<Longrightarrow> (last cycle, last cycle) \<in> (arcs g)\<^sup>+"
    unfolding is_cycle_def by metis
qed

text \<open>A call that finds no cycle leaves the nodes being visited as they were.\<close>

lemma visit_keeps:
  "visit n g node st = Some ([], st') \<Longrightarrow> visiting st' = visiting st \<and> dfs_path st' = dfs_path st"
  "visits n g targets st = Some ([], st') \<Longrightarrow> visiting st' = visiting st \<and> dfs_path st' = dfs_path st"
proof (induction n g node st and n g targets st arbitrary: st' and st' rule: visit_visits.induct)
  case (2 n g node st)
  let ?st = "st\<lparr>visiting := node # visiting st, dfs_path := dfs_path st @ [node]\<rparr>"
  show ?case
  proof (cases "node \<in> set (visiting st) \<or> node \<in> set (visited st)")
    case True
    with 2(2) show ?thesis by (auto split: if_splits)
  next
    case False
    with 2(2) obtain st1 where r: "visits n g (sorted_set (succs g node)) ?st = Some ([], st1)"
      and st': "st' = st1\<lparr>dfs_path := butlast (dfs_path st1),
        visiting := filter (\<lambda>v. v \<noteq> node) (visiting st1), visited := node # visited st1\<rparr>"
      by (auto split: option.splits if_splits)
    have "visiting st1 = node # visiting st" "dfs_path st1 = dfs_path st @ [node]"
      using 2(1) [OF _ _ r] False by simp_all
    with False show ?thesis unfolding st' by (auto intro!: filter_True)
  qed
next
  case (4 n g target targets st)
  obtain c st1 where r: "visit n g target st = Some (c, st1)"
    using "4.prems" by (cases "visit n g target st") auto
  with 4(3) have "c = []" by (cases "c = []") simp_all
  with r 4(3) have rest: "visits n g targets st1 = Some ([], st')" by simp
  have "visiting st1 = visiting st \<and> dfs_path st1 = dfs_path st"
    using 4(1) [of st1] r \<open>c = []\<close> by blast
  moreover have "visiting st' = visiting st1 \<and> dfs_path st' = dfs_path st1"
    using 4(2) [OF r refl _ rest] \<open>c = []\<close> by blast
  ultimately show ?case by metis
qed auto

lemma visit_total:
  assumes "finite N" "\<And>v. v \<in> N \<Longrightarrow> set (succs g v) \<subseteq> N"
  shows "node \<in> N \<Longrightarrow> card (N - set (visiting st)) < n \<Longrightarrow> \<exists>r. visit n g node st = Some r"
    "set targets \<subseteq> N \<Longrightarrow> card (N - set (visiting st)) < n \<Longrightarrow> \<exists>r. visits n g targets st = Some r"
  using assms(2)
proof (induction n g node st and n g targets st rule: visit_visits.induct)
  case (2 n g node st)
  show ?case
  proof (cases "node \<in> set (visiting st) \<or> node \<in> set (visited st)")
    case False
    let ?st = "st\<lparr>visiting := node # visiting st, dfs_path := dfs_path st @ [node]\<rparr>"
    have "N - set (visiting ?st) \<subset> N - set (visiting st)" using False 2(2) by auto
    then have "card (N - set (visiting ?st)) < n"
      using psubset_card_mono [of "N - set (visiting st)"] assms(1) 2(3) by fastforce
    moreover have "set (sorted_set (succs g node)) \<subseteq> N" using 2(2,4) by simp
    ultimately obtain r where "visits n g (sorted_set (succs g node)) ?st = Some r"
      using 2(1) [OF _ _ _ _ 2(4)] False by blast
    with False show ?thesis by (cases r) simp
  qed auto
next
  case (4 n g target targets st)
  then obtain cycle st' where r: "visit n g target st = Some (cycle, st')" by fastforce
  show ?case
  proof (cases "cycle = []")
    case True
    with r have "visiting st' = visiting st" using visit_keeps(1) by blast
    with 4 r True show ?thesis by auto
  qed (use r in simp)
qed auto

lemma dfs_ok_push:
  assumes "dfs_ok g st" "node \<notin> set (visiting st)" "node \<notin> set (visited st)"
    and "dfs_path st \<noteq> [] \<Longrightarrow> node \<in> set (succs g (last (dfs_path st)))"
  shows "dfs_ok g (st\<lparr>visiting := node # visiting st, dfs_path := dfs_path st @ [node]\<rparr>)"
  using assms by (auto simp: dfs_ok_def chain_from_append)

lemma dfs_ok_pop:
  assumes "dfs_ok g st" "dfs_path st = path @ [node]" "visiting st = node # before"
    and "set (succs g node) \<subseteq> set (visited st)"
  shows "dfs_ok g (st\<lparr>dfs_path := path, visiting := filter (\<lambda>v. v \<noteq> node) (visiting st),
    visited := node # visited st\<rparr>)"
proof -
  have "node \<notin> set (visited st)" using assms(1,3) by (auto simp: dfs_ok_def)
  moreover have "(node, node) \<notin> (arcs g)\<^sup>+"
  proof
    assume "(node, node) \<in> (arcs g)\<^sup>+"
    then obtain v where "(node, v) \<in> arcs g" "v = node \<or> (v, node) \<in> (arcs g)\<^sup>+"
      by (metis tranclD rtrancl_eq_or_trancl)
    then have "node \<in> set (visited st)"
      using assms(1,4) closed_trancl [of v node g "set (visited st)"] by (auto simp: dfs_ok_def)
    with \<open>node \<notin> set (visited st)\<close> show False ..
  qed
  ultimately show ?thesis using assms by (auto simp: dfs_ok_def chain_from_append)
qed

lemma visit_ok:
  "visit n g node st = Some (cycle, st') \<Longrightarrow> dfs_ok g st \<Longrightarrow>
     (dfs_path st \<noteq> [] \<longrightarrow> node \<in> set (succs g (last (dfs_path st)))) \<Longrightarrow>
     (if cycle = [] then dfs_ok g st' \<and> insert node (set (visited st)) \<subseteq> set (visited st')
      else is_cycle g cycle)"
  "visits n g targets st = Some (cycle, st') \<Longrightarrow> dfs_ok g st \<Longrightarrow>
     (dfs_path st \<noteq> [] \<longrightarrow> set targets \<subseteq> set (succs g (last (dfs_path st)))) \<Longrightarrow>
     (if cycle = [] then dfs_ok g st' \<and> set targets \<union> set (visited st) \<subseteq> set (visited st')
      else is_cycle g cycle)"
proof (induction n g node st and n g targets st arbitrary: cycle st' and cycle st' rule: visit_visits.induct)
  case (2 n g node st)
  consider "node \<in> set (visiting st)" | "node \<notin> set (visiting st)" "node \<in> set (visited st)"
    | "node \<notin> set (visiting st)" "node \<notin> set (visited st)" by blast
  then show ?case
  proof cases
    case 1
    let ?path = "dropWhile (\<lambda>v. v \<noteq> node) (dfs_path st)"
    from 1 2(3) have "node \<in> set (dfs_path st)" by (simp add: dfs_ok_def)
    then have path: "?path \<noteq> []" "hd ?path = node" using hd_dropWhile [of "\<lambda>v. v \<noteq> node"] by auto
    then have "last ?path = last (dfs_path st)" "dfs_path st \<noteq> []" using last_appendR [OF path(1), of "takeWhile (\<lambda>v. v \<noteq> node) (dfs_path st)"]
      by auto
    with 2(3,4) path have "chain_from g (?path @ [node])"
      by (simp add: dfs_ok_def chain_from_append chain_from_dropWhile)
    with path have "is_cycle g (?path @ [node])"
      by (cases ?path) (simp_all add: is_cycle_def)
    with 1 2(2) \<open>node \<in> set (dfs_path st)\<close> show ?thesis by auto
  next
    case 2
    with "2.prems" show ?thesis by auto
  next
    case 3
    let ?st = "st\<lparr>visiting := node # visiting st, dfs_path := dfs_path st @ [node]\<rparr>"
    obtain c st1 where r: "visits n g (sorted_set (succs g node)) ?st = Some (c, st1)"
      using 2(2) 3 by (auto split: option.splits)
    have "dfs_ok g ?st" using dfs_ok_push [OF 2(3) 3] 2(4) by blast
    from 2(1) [OF 3 r this] have inner: "if c = []
      then dfs_ok g st1 \<and> set (succs g node) \<union> set (visited st) \<subseteq> set (visited st1) else is_cycle g c"
      by (simp split: if_splits)
    show ?thesis
    proof (cases "c = []")
      case True
      with r visit_keeps(2) have keep: "visiting st1 = node # visiting st" "dfs_path st1 = dfs_path st @ [node]"
        by fastforce+
      have "dfs_ok g (st1\<lparr>dfs_path := dfs_path st, visiting := filter (\<lambda>v. v \<noteq> node) (visiting st1),
          visited := node # visited st1\<rparr>)"
        by (rule dfs_ok_pop) (use inner True keep in auto)
      with 2(2) 3 r True keep inner show ?thesis by auto
    next
      case False
      with 2(2) 3 r inner show ?thesis by auto
    qed
  qed
next
  case (4 n g target targets st)
  obtain c st1 where r: "visit n g target st = Some (c, st1)"
    using "4.prems"(1) by (cases "visit n g target st") auto
  have first: "if c = [] then dfs_ok g st1 \<and> insert target (set (visited st)) \<subseteq> set (visited st1) else is_cycle g c"
    using "4.IH"(1) [OF r] "4.prems" by simp
  show ?case
  proof (cases "c = []")
    case True
    with r visit_keeps(1) have "dfs_path st1 = dfs_path st" by blast
    with True r first "4.prems" "4.IH"(2) [OF r refl] show ?thesis by (auto split: if_splits)
  next
    case False
    with r first "4.prems" show ?thesis by auto
  qed
qed auto

lemma cycle_search_exact:
  "if topology_module_cycle module_ids edges = []
   then acyclic (set edges \<inter> (set module_ids \<times> set module_ids))
   else is_cycle (module_graph module_ids edges) (topology_module_cycle module_ids edges)"
proof -
  let ?g = "module_graph module_ids edges" and ?st = "\<lparr>visiting = [], visited = [], dfs_path = []\<rparr>"
  have succs: "set (succs ?g v) \<subseteq> set module_ids" for v
    using arcs_module_graph [of module_ids edges] by (auto simp: arcs_def)
  have "card (set module_ids - set (visiting ?st)) < Suc (length module_ids)"
    by (simp add: card_length le_imp_less_Suc)
  then obtain cycle st where r: "visits (Suc (length module_ids)) ?g (sorted_set module_ids) ?st = Some (cycle, st)"
    using visit_total(2) [of "set module_ids" ?g "sorted_set module_ids" ?st] succs by fastforce
  have "dfs_ok ?g ?st" by (simp add: dfs_ok_def)
  from visit_ok(2) [OF r this] have result: "if cycle = []
    then dfs_ok ?g st \<and> set module_ids \<subseteq> set (visited st) else is_cycle ?g cycle"
    by (simp split: if_splits)
  have cycle: "topology_module_cycle module_ids edges = cycle"
    using r by (simp add: topology_module_cycle_def)
  show ?thesis
  proof (cases "cycle = []")
    case True
    have "(u, u) \<notin> (arcs ?g)\<^sup>+" for u
    proof
      assume u: "(u, u) \<in> (arcs ?g)\<^sup>+"
      then have "u \<in> set module_ids" using succs by (metis arcs_iff subsetD tranclD2)
      with True result u show False by (auto simp: dfs_ok_def)
    qed
    with True cycle show ?thesis by (simp add: acyclic_def arcs_module_graph)
  qed (use cycle result in simp)
qed

end
