(* ===== verification/Program_Intent.thy ===== *)
theory Program_Intent
  imports Capabilities Graph_Search
begin

text \<open>
  The topology part of the program-intent contract (\<open>services/program_intent.py\<close>): normalization of
  modules, signatures and edges, and the graph contract a declared topology must meet before
  anything is rendered from it.
\<close>

definition accepted_topology_kinds :: "string list" where
  "accepted_topology_kinds =
     [''custom'', ''extract_transform_validate'', ''generate_critique_revise'', ''pipeline'',
      ''retrieve_then_answer'', ''router'', ''single_module'']"

definition declared_status :: string where "declared_status = ''declared_not_materialized''"

section \<open>Modules\<close>

definition validate_identifier_list :: "pv \<Rightarrow> string \<Rightarrow> string list checked" where
  "validate_identifier_list value label =
     guardE (\<not> is_list value) (Value_error (label @ '' must be a list''))
    (bindE (mapE (\<lambda>item. validate_identifier item label) (list_of value)) (\<lambda>names.
     guardE (names = []) (Value_error (label @ '' must include at least one field''))
    (guardE (\<not> distinct names) (Value_error (label @ '' fields must be unique'')) (Inr names))))"

definition names_value :: "string list \<Rightarrow> pv" where
  "names_value names = PList (map PStr names)"

definition normalize_signature :: "pv \<Rightarrow> string \<Rightarrow> pv checked" where
  "normalize_signature value module_id =
     (let prefix = ''topology module '' @ repr_str module_id @ '' ''; signature = dict_of value in
     guardE (\<not> is_mapping value) (Value_error (prefix @ ''signature must be an object''))
    (bindE (validate_identifier (dget ''name'' signature) (prefix @ ''signature.name'')) (\<lambda>name.
     bindE (validate_identifier_list (dget ''inputs'' signature) (prefix @ ''signature.inputs'')) (\<lambda>inputs.
     bindE (validate_identifier_list (dget ''outputs'' signature) (prefix @ ''signature.outputs'')) (\<lambda>outputs.
     Inr (PDict [(''name'', PStr name), (''inputs'', names_value inputs),
                 (''outputs'', names_value outputs)]))))))"

definition bounded_int :: "pv \<Rightarrow> string \<Rightarrow> int \<Rightarrow> int \<Rightarrow> int \<Rightarrow> int checked" where
  "bounded_int value label dflt minimum maximum =
     (let not_int = Value_error (label @ '' must be an integer'') in
     if value = PNone then Inr dflt else
     guardE (is_bool value) not_int
    (guardE (\<not> is_str value \<and> \<not> is_int value) not_int
    (case py_int value of
       Inl _ \<Rightarrow> Inl not_int
     | Inr number \<Rightarrow>
         guardE (number < minimum \<or> maximum < number)
           (Value_error (label @ '' must be between '' @ int_text minimum @ '' and '' @ int_text maximum))
           (Inr number))))"

definition normalize_react_config :: "(string \<times> pv) list \<Rightarrow> string \<Rightarrow> (string \<times> pv) list checked" where
  "normalize_react_config m module_id =
     (let prefix = ''topology ReAct module '' @ repr_str module_id @ '' '';
          or_empty = (\<lambda>v. if v = PNone then PList [] else v);
          tools = or_empty (dget_or ''tools'' (PList []) m);
          refs = or_empty (dget_or ''tool_refs'' (PList []) m) in
     guardE (\<not> is_list tools) (Value_error (prefix @ ''tools must be a list''))
    (guardE (list_of tools \<noteq> [])
       (Value_error (prefix @ ''supports only an empty tools list in this renderer''))
    (guardE (\<not> is_list refs) (Value_error (prefix @ ''tool_refs must be a list''))
    (bindE (mapE (\<lambda>item. validate_identifier item (prefix @ ''tool_refs'')) (list_of refs)) (\<lambda>tool_refs.
     guardE (\<not> distinct tool_refs) (Value_error (prefix @ ''tool_refs must be unique''))
    (bindE (bounded_int (dget ''max_iters'' m) (prefix @ ''max_iters'') 1 1 5) (\<lambda>max_iters.
     Inr [(''tools'', PList []), (''declared_tool_refs'', names_value tool_refs),
          (''tool_binding_status'', PStr ''declared_refs_only_not_bound''),
          (''max_iters'', PInt max_iters)])))))))"

definition empty_sandbox :: pv where
  "empty_sandbox = PDict
     [(''read_paths'', PList []), (''write_paths'', PList []), (''env_vars'', PList []),
      (''network_access'', PList []), (''tools'', PList []), (''sync_files'', PBool False)]"

definition normalize_program_of_thought_config ::
    "(string \<times> pv) list \<Rightarrow> string \<Rightarrow> (string \<times> pv) list checked" where
  "normalize_program_of_thought_config m module_id =
     bindE (bounded_int (dget ''max_iters'' m)
       (''topology ProgramOfThought module '' @ repr_str module_id @ '' max_iters'') 1 1 3) (\<lambda>max_iters.
     Inr [(''max_iters'', PInt max_iters), (''sandbox'', empty_sandbox)])"

text \<open>The keys a module may have besides the common four; \<open>None\<close> when only \<open>retriever\<close> is
  forbidden.\<close>

definition common_module_keys :: "string list" where
  "common_module_keys = [''id'', ''primitive'', ''signature'', ''role'']"

definition allowed_module_keys :: "string \<Rightarrow> string list option" where
  "allowed_module_keys primitive =
     (if primitive = ''Retriever'' then Some (common_module_keys @ [''retriever''])
      else if primitive \<in> {''ReAct'', ''ReActV2''} then
        Some (common_module_keys @ [''tools'', ''tool_refs'', ''max_iters'', ''react''])
      else if primitive = ''ProgramOfThought'' then
        Some (common_module_keys @ [''max_iters'', ''program_of_thought''])
      else None)"

definition check_module_keys :: "string \<Rightarrow> string \<Rightarrow> (string \<times> pv) list \<Rightarrow> unit checked" where
  "check_module_keys primitive module_id m =
     (case allowed_module_keys primitive of
        Some allowed \<Rightarrow>
          guardE (extra_keys m allowed \<noteq> [])
            (Value_error (''topology '' @ primitive @ '' module '' @ repr_str module_id @
               '' has unsupported keys: '' @ names_text (extra_keys m allowed))) (Inr ())
      | None \<Rightarrow>
          guardE (''retriever'' \<in> set (dict_keys m))
            (Value_error (''topology module '' @ repr_str module_id @
               '' may declare retriever only when primitive is Retriever'')) (Inr ()))"

text \<open>\<open>{**old, **new}\<close>: the entries of \<open>new\<close> win.\<close>

definition dict_merge :: "(string \<times> pv) list \<Rightarrow> (string \<times> pv) list \<Rightarrow> (string \<times> pv) list" where
  "dict_merge old new = fold (\<lambda>(k, v). dict_set k v) new old"

definition module_react :: "string \<Rightarrow> string \<Rightarrow> (string \<times> pv) list \<Rightarrow> (string \<times> pv) list checked" where
  "module_react primitive module_id m =
     (if primitive \<in> {''ReAct'', ''ReActV2''} then
        bindE (normalize_react_config (dict_merge (dict_of (dget ''react'' m)) m) module_id) (\<lambda>react.
        Inr [(''react'', PDict (react @ (if primitive = ''ReActV2'' then
           [(''version'', PStr ''v2''),
            (''status'', PStr ''experimental_declared_only_not_materializable'')] else [])))])
      else Inr [])"

definition normalize_topology_module :: "pv \<Rightarrow> (string \<times> pv) list checked" where
  "normalize_topology_module value =
     (let m = dict_of value in
     guardE (\<not> is_mapping value) (Value_error ''topology modules must contain objects'')
    (bindE (validate_identifier (dget ''id'' m) ''topology module id'') (\<lambda>module_id.
     let declared = text_of (dget ''primitive'' m); primitive = canonical_name declared in
     guardE (declared = [])
       (Value_error (''topology module '' @ repr_str module_id @ '' primitive must not be blank''))
    (bindE (check_module_keys primitive module_id m) (\<lambda>_.
     bindE (normalize_signature (dget ''signature'' m) module_id) (\<lambda>signature.
     let role = text_of (dget ''role'' m) in
     bindE (if ''retriever'' \<in> set (dict_keys m) then
         bindE (normalize_retriever_config (dget ''retriever'' m) module_id) (\<lambda>v.
           Inr [(''retriever'', v)]) else Inr []) (\<lambda>retriever.
     bindE (module_react primitive module_id m) (\<lambda>react.
     bindE (if primitive = ''ProgramOfThought'' then
         bindE (normalize_program_of_thought_config m module_id) (\<lambda>v.
           Inr [(''program_of_thought'', PDict v)]) else Inr []) (\<lambda>thought.
     Inr ([(''id'', PStr module_id), (''primitive'', PStr primitive), (''signature'', signature)] @
          (if role = [] then [] else [(''role'', PStr role)]) @ retriever @ react @ thought))))))))))"

section \<open>Edges\<close>

definition arrow :: "string \<Rightarrow> string \<Rightarrow> string \<Rightarrow> string" where
  "arrow sep source target = repr_str source @ sep @ repr_str target"

definition normalize_when :: "pv \<Rightarrow> string \<Rightarrow> string \<Rightarrow> pv checked" where
  "normalize_when value source target =
     (let clause = dict_of value; equals = dget ''equals'' clause in
     guardE (\<not> is_mapping value)
       (Value_error (''topology edge when clauses must be objects with field/equals; invalid edge: '' @
          arrow '' -> '' source target))
    (bindE (validate_identifier (dget ''field'' clause)
        (''topology edge '' @ arrow ''->'' source target @ '' when.field'')) (\<lambda>field.
     guardE (''equals'' \<notin> set (dict_keys clause))
       (Value_error (''topology edge when clauses must include equals; invalid edge: '' @
          arrow '' -> '' source target))
    (guardE (is_mapping equals \<or> is_list equals)
       (Value_error (''topology edge when.equals must be a scalar value; invalid edge: '' @
          arrow '' -> '' source target))
    (Inr (PDict [(''field'', PStr field), (''equals'', equals)]))))))"

definition normalize_topology_edge :: "string list \<Rightarrow> pv \<Rightarrow> (string \<times> pv) list checked" where
  "normalize_topology_edge allowed_refs value =
     (let edge = dict_of value; source = text_of (dget ''from'' edge);
          target = text_of (dget ''to'' edge);
          invalid = filter (\<lambda>r. r \<notin> set allowed_refs) [source, target] in
     guardE (\<not> is_mapping value) (Value_error ''topology edges must contain objects'')
    (guardE (invalid \<noteq> [])
       (Value_error (''topology edges must reference input, output, or declared module ids; invalid refs: ''
          @ names_text invalid @ ''; allowed refs: '' @ names_text (sorted_set allowed_refs)))
    (bindE (if ''when'' \<in> set (dict_keys edge) then
        bindE (normalize_when (dget ''when'' edge) source target) (\<lambda>w. Inr [(''when'', w)])
      else Inr []) (\<lambda>clause.
     Inr ([(''from'', PStr source), (''to'', PStr target)] @ clause)))))"

section \<open>The graph contract\<close>

definition edge_ends :: "(string \<times> pv) list \<Rightarrow> string \<times> string" where
  "edge_ends edge = (py_str (dget ''from'' edge), py_str (dget ''to'' edge))"

definition reverse_edges :: "(string \<times> string) list \<Rightarrow> (string \<times> string) list" where
  "reverse_edges = map (\<lambda>(source, target). (target, source))"

definition edge_graph :: "string list \<Rightarrow> (string \<times> string) list \<Rightarrow> graph" where
  "edge_graph nodes edges = fold (\<lambda>(source, target). add_arc source target) edges (empty_graph nodes)"

definition disconnected_text :: "string list \<Rightarrow> string list \<Rightarrow> string" where
  "disconnected_text unreachable dead_ends = join ''; ''
     ((if unreachable \<noteq> [] then [''unreachable from input: '' @ names_text unreachable] else []) @
      (if dead_ends \<noteq> [] then [''cannot reach output: '' @ names_text dead_ends] else []))"

definition validate_graph_contract ::
    "string \<Rightarrow> string list \<Rightarrow> (string \<times> string) list \<Rightarrow> unit checked" where
  "validate_graph_contract kind module_ids edges =
     (if kind = ''single_module'' \<and> edges = [] then
        guardE (module_ids \<noteq> [])
          (Value_error ''program intent topology.edges must connect input, declared modules, and output when single_module topology declares modules'')
          (Inr ())
      else
        guardE (kind \<noteq> ''single_module'' \<and> edges = [])
          (Value_error ''program intent topology.edges must include at least one edge when topology.kind is not single_module'')
       (if module_ids = [] then Inr () else
        guardE (''input'' \<notin> set (map fst edges))
          (Value_error ''program intent topology.edges must include an input edge to at least one declared module'')
       (guardE (''output'' \<notin> set (map snd edges))
          (Value_error ''program intent topology.edges must include at least one final-output producer edge to output'')
       (let nodes = [''input'', ''output''] @ module_ids;
            unreachable = sorted_diff module_ids (reachable_from ''input'' (edge_graph nodes edges));
            dead_ends = sorted_diff module_ids
              (reachable_from ''output'' (edge_graph nodes (reverse_edges edges)));
            cycle = topology_module_cycle module_ids edges in
        guardE (unreachable \<noteq> [] \<or> dead_ends \<noteq> [])
          (Value_error (''program intent topology graph is disconnected; '' @
             disconnected_text unreachable dead_ends))
       (guardE (cycle \<noteq> [])
          (Value_error (''program intent topology graph must be acyclic; cycle detected: '' @
             join '' -> '' cycle)) (Inr ()))))))"

definition normalize_program_topology :: "pv \<Rightarrow> (string \<times> pv) list checked" where
  "normalize_program_topology value =
     (let topology = dict_of value; kind = text_of (dget ''kind'' topology);
          execution_status = strip (py_str (py_or (dget ''execution_status'' topology) (PStr declared_status)));
          raw_modules = dget_or ''modules'' (PList []) topology;
          raw_edges = dget_or ''edges'' (PList []) topology in
     if value = PNone then Inr [] else
     guardE (\<not> is_mapping value) (Value_error ''program intent topology must be an object'')
    (if topology = [] then Inr [] else
     guardE (kind = []) (Value_error ''program intent topology.kind is required when topology is provided'')
    (guardE (kind \<notin> set accepted_topology_kinds)
       (Value_error (''program intent topology.kind must be one of '' @ names_text accepted_topology_kinds))
    (guardE (execution_status \<noteq> declared_status)
       (Value_error (''program intent topology.execution_status must be '' @ repr_str declared_status @
          ''; explicit topology is not materialized or executed by this renderer''))
    (guardE ((kind \<noteq> ''single_module'' \<or> ''modules'' \<in> set (dict_keys topology)) \<and> \<not> is_list raw_modules)
       (Value_error ''program intent topology.modules must be a list'')
    (guardE (kind \<noteq> ''single_module'' \<and> list_of raw_modules = [])
       (Value_error ''program intent topology.modules must include at least one module when topology.kind is not single_module'')
    (bindE (mapE normalize_topology_module (list_of raw_modules)) (\<lambda>modules.
     let module_ids = map (\<lambda>m. py_str (dget ''id'' m)) modules in
     guardE (\<not> distinct module_ids)
       (Value_error ''program intent topology module ids must be unique'')
    (guardE ((''edges'' \<in> set (dict_keys topology) \<or> kind \<noteq> ''single_module'') \<and> \<not> is_list raw_edges)
       (Value_error ''program intent topology.edges must be a list'')
    (bindE (mapE (normalize_topology_edge ([''input'', ''output''] @ module_ids)) (list_of raw_edges)) (\<lambda>edges.
     bindE (validate_graph_contract kind module_ids (map edge_ends edges)) (\<lambda>_.
     Inr [(''kind'', PStr kind), (''execution_status'', PStr declared_status),
          (''modules'', PList (map PDict modules)), (''edges'', PList (map PDict edges))]))))))))))))"

section \<open>What an accepted topology is\<close>

lemma arcs_edge_graph: "arcs (edge_graph nodes edges) = set edges"
proof -
  have "arcs (fold (\<lambda>(source, target). add_arc source target) edges g) = arcs g \<union> set edges" for g
    by (induction edges arbitrary: g) (auto simp: arcs_def split: if_splits)
  then show ?thesis by (simp add: edge_graph_def)
qed

lemma set_reverse_edges: "set (reverse_edges edges) = (set edges)\<inverse>"
  by (auto simp: reverse_edges_def)

text \<open>Every module lies on a path from the input to the output, and no path comes back.\<close>

definition well_connected :: "string list \<Rightarrow> (string \<times> string) list \<Rightarrow> bool" where
  "well_connected module_ids edges \<longleftrightarrow>
     (\<forall>v \<in> set module_ids. (''input'', v) \<in> (set edges)\<^sup>* \<and> (v, ''output'') \<in> (set edges)\<^sup>*) \<and>
     acyclic (set edges \<inter> (set module_ids \<times> set module_ids))"

lemma cycle_empty_iff:
  "topology_module_cycle module_ids edges = [] \<longleftrightarrow>
     acyclic (set edges \<inter> (set module_ids \<times> set module_ids))"
proof
  assume "acyclic (set edges \<inter> (set module_ids \<times> set module_ids))"
  moreover have "\<not> acyclic (set edges \<inter> (set module_ids \<times> set module_ids))"
    if "is_cycle (module_graph module_ids edges) cycle" for cycle
    using cycle_trancl [OF that] by (auto simp: acyclic_def arcs_module_graph)
  ultimately show "topology_module_cycle module_ids edges = []"
    using cycle_search_exact [of module_ids edges] by (auto split: if_splits)
qed (use cycle_search_exact [of module_ids edges] in \<open>simp split: if_splits\<close>)

lemma graph_contract_iff:
  assumes "module_ids \<noteq> []"
  shows "validate_graph_contract kind module_ids edges = Inr () \<longleftrightarrow>
    edges \<noteq> [] \<and> ''input'' \<in> fst ` set edges \<and> ''output'' \<in> snd ` set edges \<and>
    well_connected module_ids edges"
proof -
  have reach: "sorted_diff module_ids (reachable_from ''input'' (edge_graph nodes edges)) = [] \<longleftrightarrow>
      (\<forall>v \<in> set module_ids. (''input'', v) \<in> (set edges)\<^sup>*)" for nodes
    by (auto simp: set_reachable_from arcs_edge_graph)
  have leaves: "sorted_diff module_ids (reachable_from ''output'' (edge_graph nodes (reverse_edges edges))) = [] \<longleftrightarrow>
      (\<forall>v \<in> set module_ids. (v, ''output'') \<in> (set edges)\<^sup>*)" for nodes
    by (auto simp: set_reachable_from arcs_edge_graph set_reverse_edges rtrancl_converse)
  show ?thesis
    unfolding validate_graph_contract_def Let_def well_connected_def
    using assms by (simp add: guardE_Inr_iff reach leaves cycle_empty_iff del: sorted_diff_Nil_iff) blast
qed

text \<open>C25: the graph contract of a declared topology accepts the edges exactly when they leave the
  input and enter the output, every module is on a path from the input to the output, and the edges
  between modules form no cycle.\<close>

theorem graph_contract_exact:
  assumes "module_ids \<noteq> []"
  shows "validate_graph_contract kind module_ids edges = Inr () \<longleftrightarrow>
    ''input'' \<in> fst ` set edges \<and> ''output'' \<in> snd ` set edges \<and>
    (\<forall>v \<in> set module_ids. (''input'', v) \<in> (set edges)\<^sup>* \<and> (v, ''output'') \<in> (set edges)\<^sup>*) \<and>
    acyclic (set edges \<inter> (set module_ids \<times> set module_ids))"
  unfolding graph_contract_iff [OF assms] well_connected_def by auto

theorem graph_contract_exact_witness:
  "validate_graph_contract ''pipeline'' [''a''] [(''input'', ''a''), (''a'', ''output'')] = Inr ()"
proof -
  have "acyclic (set [(''input'', ''a''), (''a'', ''output'')] \<inter> (set [''a''] \<times> set [''a'']))"
    by (simp add: acyclic_def)
  then show ?thesis by (subst graph_contract_exact) auto
qed

section \<open>What a normalized module is\<close>

definition python_name :: "string \<Rightarrow> bool" where
  "python_name s \<longleftrightarrow> identifier_re s \<and> s \<notin> set python_keywords"

lemma validate_identifier_Inr:
  "validate_identifier value label = Inr s \<longleftrightarrow> s = text_of value \<and> python_name s"
  by (auto simp: validate_identifier_def Let_def guardE_Inr_iff python_name_def identifier_re_def)

lemma validate_identifiers_Inr:
  "mapE (\<lambda>item. validate_identifier item label) items = Inr names \<Longrightarrow>
     names = map text_of items \<and> list_all python_name names"
  by (induction items arbitrary: names) (auto simp: res_simps validate_identifier_Inr)

definition field_names :: "string list \<Rightarrow> bool" where
  "field_names names \<longleftrightarrow> names \<noteq> [] \<and> distinct names \<and> list_all python_name names"

lemma validate_identifier_list_Inr:
  "validate_identifier_list value label = Inr names \<Longrightarrow> field_names names"
  by (auto simp: validate_identifier_list_def guardE_Inr_iff bindE_Inr_iff field_names_def
      dest: validate_identifiers_Inr)

lemma normalize_signature_Inr:
  "normalize_signature value module_id = Inr v \<Longrightarrow>
     \<exists>name inputs outputs. v = PDict [(''name'', PStr name), (''inputs'', names_value inputs),
       (''outputs'', names_value outputs)] \<and> python_name name \<and> field_names inputs \<and> field_names outputs"
  by (auto simp: normalize_signature_def Let_def guardE_Inr_iff bindE_Inr_iff validate_identifier_Inr
      dest!: validate_identifier_list_Inr)

lemma bounded_int_Inr:
  "bounded_int value label dflt minimum maximum = Inr n \<Longrightarrow> minimum \<le> dflt \<Longrightarrow> dflt \<le> maximum \<Longrightarrow>
     minimum \<le> n \<and> n \<le> maximum"
  by (auto simp: bounded_int_def Let_def guardE_Inr_iff split: if_splits sum.splits)

lemma normalize_module_Inr:
  assumes "normalize_topology_module value = Inr m"
  shows "\<exists>module_id signature role retriever react thought primitive.
    m = [(''id'', PStr module_id), (''primitive'', PStr primitive), (''signature'', signature)] @
        (if role = [] then [] else [(''role'', PStr role)]) @ retriever @ react @ thought \<and>
    python_name module_id \<and> primitive = canonical_primitive (dget ''primitive'' (dict_of value)) \<and>
    normalize_signature (dget ''signature'' (dict_of value)) module_id = Inr signature \<and>
    (retriever = [] \<or> (\<exists>v. retriever = [(''retriever'', v)] \<and>
      normalize_retriever_config (dget ''retriever'' (dict_of value)) module_id = Inr v)) \<and>
    module_react primitive module_id (dict_of value) = Inr react \<and>
    (if primitive = ''ProgramOfThought''
     then \<exists>c. thought = [(''program_of_thought'', PDict c)] \<and>
       normalize_program_of_thought_config (dict_of value) module_id = Inr c else thought = [])"
proof -
  from assms obtain module_id signature retriever react thought where
    id: "python_name module_id" and
    steps: "normalize_signature (dget ''signature'' (dict_of value)) module_id = Inr signature"
      "(if ''retriever'' \<in> set (dict_keys (dict_of value)) then
         bindE (normalize_retriever_config (dget ''retriever'' (dict_of value)) module_id) (\<lambda>v.
           Inr [(''retriever'', v)]) else Inr []) = Inr retriever"
      "module_react (canonical_primitive (dget ''primitive'' (dict_of value))) module_id (dict_of value) = Inr react"
      "(if canonical_primitive (dget ''primitive'' (dict_of value)) = ''ProgramOfThought'' then
         bindE (normalize_program_of_thought_config (dict_of value) module_id) (\<lambda>v.
           Inr [(''program_of_thought'', PDict v)]) else Inr []) = Inr thought" and
    m: "m = [(''id'', PStr module_id), (''primitive'', PStr (canonical_primitive (dget ''primitive'' (dict_of value)))),
         (''signature'', signature)] @ (if text_of (dget ''role'' (dict_of value)) = [] then []
           else [(''role'', PStr (text_of (dget ''role'' (dict_of value))))]) @ retriever @ react @ thought"
    unfolding normalize_topology_module_def Let_def guardE_Inr_iff bindE_Inr_iff validate_identifier_Inr
      canonical_primitive_def [symmetric]
    by (elim exE conjE) (simp only: sum.inject)
  from steps(2) have "retriever = [] \<or> (\<exists>v. retriever = [(''retriever'', v)] \<and>
      normalize_retriever_config (dget ''retriever'' (dict_of value)) module_id = Inr v)"
    by (auto simp: res_simps split: if_splits)
  moreover from steps(4) have "if canonical_primitive (dget ''primitive'' (dict_of value)) = ''ProgramOfThought''
     then \<exists>c. thought = [(''program_of_thought'', PDict c)] \<and>
       normalize_program_of_thought_config (dict_of value) module_id = Inr c else thought = []"
    by (auto simp: res_simps split: if_splits)
  ultimately show ?thesis
    using id steps(1,3) m by (intro exI conjI) (assumption | rule refl | simp)+
qed

lemma dget_append: "dget k (xs @ ys) = (if k \<in> set (dict_keys xs) then dget k xs else dget k ys)"
  using map_of_eq_None_iff [of xs k] by (auto simp: dget_def map_add_def split: option.split)

lemma module_react_keys:
  "module_react primitive module_id m = Inr react \<Longrightarrow>
     if primitive \<in> {''ReAct'', ''ReActV2''} then \<exists>c. react = [(''react'', PDict c)] else react = []"
  by (auto simp: module_react_def res_simps split: if_splits)

lemma react_config_Inr:
  "normalize_react_config m module_id = Inr c \<Longrightarrow>
     \<exists>n refs. c = [(''tools'', PList []), (''declared_tool_refs'', names_value refs),
       (''tool_binding_status'', PStr ''declared_refs_only_not_bound''), (''max_iters'', PInt n)] \<and>
       1 \<le> n \<and> n \<le> 5"
  by (auto simp: normalize_react_config_def Let_def guardE_Inr_iff bindE_Inr_iff dest!: bounded_int_Inr)

lemma bounded_int_none: "bounded_int PNone label dflt minimum maximum = Inr n \<longleftrightarrow> n = dflt"
  by (auto simp: bounded_int_def)

lemma thought_config_Inr:
  assumes "normalize_program_of_thought_config m module_id = Inr c"
  shows "\<exists>n. c = [(''max_iters'', PInt n), (''sandbox'', empty_sandbox)] \<and> 1 \<le> n \<and> n \<le> 3 \<and>
       (dget ''max_iters'' m = PNone \<longrightarrow> n = 1)"
proof -
  from assms obtain n label where n: "bounded_int (dget ''max_iters'' m) label 1 1 3 = Inr n"
    and c: "c = [(''max_iters'', PInt n), (''sandbox'', empty_sandbox)]"
    unfolding normalize_program_of_thought_config_def bindE_Inr_iff by (auto simp only: sum.inject)
  from bounded_int_Inr [OF n] n c show ?thesis by (auto simp: bounded_int_none)
qed

text \<open>What follows the first three entries of a normalized module.\<close>

lemma module_tail:
  assumes "normalize_topology_module value = Inr m"
  shows "\<exists>module_id primitive react thought.
    dget ''primitive'' m = PStr primitive \<and>
    primitive = canonical_primitive (dget ''primitive'' (dict_of value)) \<and>
    (\<forall>k \<in> {''react'', ''program_of_thought'', ''max_iters''}. dget k m = dget k (react @ thought)) \<and>
    module_react primitive module_id (dict_of value) = Inr react \<and>
    (if primitive = ''ProgramOfThought''
     then \<exists>c. thought = [(''program_of_thought'', PDict c)] \<and>
       normalize_program_of_thought_config (dict_of value) module_id = Inr c else thought = [])"
proof -
  from normalize_module_Inr [OF assms] obtain module_id signature role retriever react thought primitive where
    m: "m = [(''id'', PStr module_id), (''primitive'', PStr primitive), (''signature'', signature)] @
        (if role = [] then [] else [(''role'', PStr role)]) @ retriever @ react @ thought" and
    parts: "retriever = [] \<or> (\<exists>v. retriever = [(''retriever'', v)] \<and>
      normalize_retriever_config (dget ''retriever'' (dict_of value)) module_id = Inr v)" and
    rest: "primitive = canonical_primitive (dget ''primitive'' (dict_of value))"
      "module_react primitive module_id (dict_of value) = Inr react"
      "if primitive = ''ProgramOfThought''
       then \<exists>c. thought = [(''program_of_thought'', PDict c)] \<and>
         normalize_program_of_thought_config (dict_of value) module_id = Inr c else thought = []"
    by (elim exE conjE)
  have "\<forall>k \<in> {''react'', ''program_of_thought'', ''max_iters''}. dget k m = dget k (react @ thought)"
    using parts by (elim disjE exE conjE) (simp_all add: m dget_append)
  moreover have "dget ''primitive'' m = PStr primitive" by (simp add: m)
  ultimately show ?thesis using rest by (intro exI conjI)
qed

lemma module_fields:
  assumes "normalize_topology_module value = Inr m"
  shows "\<exists>module_id name inputs outputs.
    dget ''id'' m = PStr module_id \<and> python_name module_id \<and>
    dget ''primitive'' m = PStr (canonical_primitive (dget ''primitive'' (dict_of value))) \<and>
    dget ''signature'' m = PDict [(''name'', PStr name), (''inputs'', names_value inputs),
      (''outputs'', names_value outputs)] \<and>
    python_name name \<and> field_names inputs \<and> field_names outputs"
  using normalize_module_Inr [OF assms] normalize_signature_Inr by fastforce

text \<open>A normalized module has a Python identifier as its id and a signature whose name is an
  identifier and whose inputs and outputs are non-empty lists of distinct identifiers.\<close>

theorem normalized_module_type:
  assumes "normalize_topology_module value = Inr m"
  shows "\<exists>module_id name inputs outputs.
    dget ''id'' m = PStr module_id \<and> python_name module_id \<and>
    dget ''signature'' m = PDict [(''name'', PStr name), (''inputs'', names_value inputs),
      (''outputs'', names_value outputs)] \<and> python_name name \<and>
    inputs \<noteq> [] \<and> distinct inputs \<and> list_all python_name inputs \<and>
    outputs \<noteq> [] \<and> distinct outputs \<and> list_all python_name outputs"
  using module_fields [OF assms] unfolding field_names_def by blast

definition sample_thought :: pv where
  "sample_thought = PDict
     [(''id'', PStr ''solve''), (''primitive'', PStr ''program_of_thought''),
      (''signature'', PDict [(''name'', PStr ''Solve''), (''inputs'', PList [PStr ''question'']),
        (''outputs'', PList [PStr ''answer''])]), (''max_iters'', PInt 3)]"

definition sample_thought_module :: "int \<Rightarrow> (string \<times> pv) list" where
  "sample_thought_module n =
     [(''id'', PStr ''solve''), (''primitive'', PStr ''ProgramOfThought''),
      (''signature'', PDict [(''name'', PStr ''Solve''), (''inputs'', PList [PStr ''question'']),
        (''outputs'', PList [PStr ''answer''])]),
      (''program_of_thought'', PDict [(''max_iters'', PInt n), (''sandbox'', empty_sandbox)])]"

lemma sample_thought_normal: "normalize_topology_module sample_thought = Inr (sample_thought_module 3)"
  by code_simp

theorem normalized_module_type_witness:
  "\<exists>module_id name inputs outputs.
    dget ''id'' (sample_thought_module 3) = PStr module_id \<and> python_name module_id \<and>
    dget ''signature'' (sample_thought_module 3) = PDict [(''name'', PStr name),
      (''inputs'', names_value inputs), (''outputs'', names_value outputs)] \<and> python_name name \<and>
    inputs \<noteq> [] \<and> distinct inputs \<and> list_all python_name inputs \<and>
    outputs \<noteq> [] \<and> distinct outputs \<and> list_all python_name outputs"
  by (rule normalized_module_type [OF sample_thought_normal])

text \<open>The loops of a normalized module are bounded: a ReAct module runs one to five iterations and
  has no tools, a ProgramOfThought module one to three in the empty sandbox.\<close>

theorem module_loop_bounds:
  assumes "normalize_topology_module value = Inr m"
  shows "(dget ''primitive'' m = PStr ''ReAct'' \<longrightarrow>
      (\<exists>c n. dget ''react'' m = PDict c \<and> dget ''tools'' c = PList [] \<and>
         dget ''max_iters'' c = PInt n \<and> 1 \<le> n \<and> n \<le> 5)) \<and>
    (dget ''primitive'' m = PStr ''ProgramOfThought'' \<longrightarrow>
      (\<exists>c n. dget ''program_of_thought'' m = PDict c \<and> dget ''sandbox'' c = empty_sandbox \<and>
         dget ''max_iters'' c = PInt n \<and> 1 \<le> n \<and> n \<le> 3))"
proof -
  from module_tail [OF assms] obtain module_id primitive react thought where
    m: "dget ''primitive'' m = PStr primitive"
      "\<forall>k \<in> {''react'', ''program_of_thought'', ''max_iters''}. dget k m = dget k (react @ thought)" and
    react: "module_react primitive module_id (dict_of value) = Inr react" and
    thought: "if primitive = ''ProgramOfThought''
       then \<exists>c. thought = [(''program_of_thought'', PDict c)] \<and>
         normalize_program_of_thought_config (dict_of value) module_id = Inr c else thought = []"
    by (elim exE conjE)
  show ?thesis
  proof (intro conjI impI)
    assume "dget ''primitive'' m = PStr ''ReAct''"
    then have p: "primitive = ''ReAct''" using m(1) by simp
    with react obtain c where "normalize_react_config (dict_merge (dict_of (dget ''react'' (dict_of value))) (dict_of value)) module_id = Inr c"
      "react = [(''react'', PDict c)]" by (auto simp: module_react_def bindE_Inr_iff)
    with react_config_Inr m(2) show "\<exists>c n. dget ''react'' m = PDict c \<and> dget ''tools'' c = PList [] \<and>
         dget ''max_iters'' c = PInt n \<and> 1 \<le> n \<and> n \<le> 5" by fastforce
  next
    assume "dget ''primitive'' m = PStr ''ProgramOfThought''"
    then have p: "primitive = ''ProgramOfThought''" using m(1) by simp
    with thought obtain c where c: "thought = [(''program_of_thought'', PDict c)]"
      "normalize_program_of_thought_config (dict_of value) module_id = Inr c" by auto
    from react p have "react = []" by (simp add: module_react_def)
    with thought_config_Inr [OF c(2)] c(1) m(2) show "\<exists>c n. dget ''program_of_thought'' m = PDict c \<and>
         dget ''sandbox'' c = empty_sandbox \<and> dget ''max_iters'' c = PInt n \<and> 1 \<le> n \<and> n \<le> 3" by auto
  qed
qed

theorem module_loop_bounds_witness:
  "\<exists>c n. dget ''program_of_thought'' (sample_thought_module 3) = PDict c \<and>
     dget ''sandbox'' c = empty_sandbox \<and> dget ''max_iters'' c = PInt n \<and> 1 \<le> n \<and> n \<le> 3"
  using module_loop_bounds [OF sample_thought_normal] by (simp add: sample_thought_module_def)

text \<open>Normalization is not idempotent: a ProgramOfThought module keeps its iteration limit under
  \<open>program_of_thought\<close>, but the normalizer reads it from the module itself, so normalizing a
  normalized module puts the limit back to one.\<close>

theorem renormalized_loop_limit:
  assumes "normalize_topology_module value = Inr m" "dget ''primitive'' m = PStr ''ProgramOfThought''"
    and "normalize_topology_module (PDict m) = Inr m'"
  shows "\<exists>c. dget ''program_of_thought'' m' = PDict c \<and> dget ''max_iters'' c = PInt 1"
proof -
  from module_tail [OF assms(1)] obtain module_id primitive react thought where
    m: "dget ''primitive'' m = PStr primitive"
      "\<forall>k \<in> {''react'', ''program_of_thought'', ''max_iters''}. dget k m = dget k (react @ thought)" and
    react: "module_react primitive module_id (dict_of value) = Inr react" and
    thought: "if primitive = ''ProgramOfThought''
       then \<exists>c. thought = [(''program_of_thought'', PDict c)] \<and>
         normalize_program_of_thought_config (dict_of value) module_id = Inr c else thought = []"
    by (elim exE conjE)
  have "primitive = ''ProgramOfThought''" using assms(2) m(1) by simp
  with react thought m(2) have none: "dget ''max_iters'' m = PNone" by (auto simp: module_react_def)
  from module_tail [OF assms(3), unfolded dict_of.simps] obtain module_id' primitive' react' thought' where
    m': "primitive' = canonical_primitive (dget ''primitive'' m)"
      "\<forall>k \<in> {''react'', ''program_of_thought'', ''max_iters''}. dget k m' = dget k (react' @ thought')" and
    react': "module_react primitive' module_id' m = Inr react'" and
    thought': "if primitive' = ''ProgramOfThought''
       then \<exists>c. thought' = [(''program_of_thought'', PDict c)] \<and>
         normalize_program_of_thought_config m module_id' = Inr c else thought' = []"
    by (elim exE conjE)
  have p: "primitive' = ''ProgramOfThought''"
    unfolding m'(1) assms(2) by code_simp
  with thought' obtain c where c: "thought' = [(''program_of_thought'', PDict c)]"
    "normalize_program_of_thought_config m module_id' = Inr c" by auto
  from react' p have "react' = []" by (simp add: module_react_def)
  with thought_config_Inr [OF c(2)] c(1) m'(2) none show ?thesis by auto
qed

theorem renormalized_loop_limit_witness:
  "\<exists>c. dget ''program_of_thought'' (sample_thought_module 1) = PDict c \<and> dget ''max_iters'' c = PInt 1"
proof -
  have "normalize_topology_module (PDict (sample_thought_module 3)) = Inr (sample_thought_module 1)"
    by code_simp
  from renormalized_loop_limit [OF sample_thought_normal _ this] show ?thesis
    by (simp add: sample_thought_module_def)
qed

end
