(* ===== verification/Quality_Criteria.thy ===== *)
theory Quality_Criteria
  imports Capabilities
begin

text \<open>
  The bounded quality criteria of a program intent (\<open>services/program_quality_evaluation.py\<close>): their
  normalization, the concept matcher, and the evaluation of observed outputs.  A normalized criterion
  is a record; scores are doubles, as the shortest decimals that denote them.
\<close>

section \<open>Numbers\<close>

text \<open>The double nearest to \<open>num / den\<close>, what \<open>int / int\<close> returns.\<close>

definition nearest_ratio :: "int \<Rightarrow> int \<Rightarrow> int \<times> int" where
  "nearest_ratio num den =
     (let k0 = int (bit_len (nat num)) - int (bit_len (nat den)) - 53;
          k1 = (if num * 2 ^ nat (- k0) < 2 ^ 53 * (den * 2 ^ nat k0) then k0 else k0 + 1);
          m = round_div (num * 2 ^ nat (- k1)) (den * 2 ^ nat k1)
      in if m = 2 ^ 53 then (2 ^ 52, k1 + 1) else (m, k1))"

text \<open>\<open>score >= float(min_score)\<close> for the score \<open>k / n\<close>: the doubles are compared.\<close>

definition score_reaches :: "nat \<Rightarrow> nat \<Rightarrow> pyfloat \<Rightarrow> bool" where
  "score_reaches k n bound =
     (case bound of
        Dec c e \<Rightarrow>
          (if c \<le> 0 then True else if k = 0 then False
           else (case nearest_double c e of
               None \<Rightarrow> False
             | Some (m, x) \<Rightarrow>
                 (let (m', x') = nearest_ratio (int k) (int n); low = min x x' in
                  m * 2 ^ nat (x - low) \<le> m' * 2 ^ nat (x' - low))))
      | FInf negative \<Rightarrow> negative
      | FNan \<Rightarrow> False)"

text \<open>\<open>round(score, 6)\<close>, for a score that is not negative.\<close>

definition ratio_rounded :: "nat \<Rightarrow> nat \<Rightarrow> pyfloat" where
  "ratio_rounded k n =
     (if k = 0 then Dec 0 0
      else let (m, x) = nearest_ratio (int k) (int n);
               (c, e) = strip_zeros 18 (round_div (m * 2 ^ nat x * 10 ^ 6) (2 ^ nat (- x))) (- 6)
           in Dec c e)"

text \<open>\<open>a <= b\<close> of finite floats.\<close>

fun float_le :: "pyfloat \<Rightarrow> pyfloat \<Rightarrow> bool" where
  "float_le (Dec c e) (Dec d f) =
     (let m = min e f in c * 10 ^ nat (e - m) \<le> d * 10 ^ nat (f - m))"
| "float_le _ _ = False"

text \<open>\<open>float(value)\<close> of an int or a float; an int beyond the doubles raises.\<close>

fun to_float :: "pv \<Rightarrow> pyfloat checked" where
  "to_float (PFloat f) = Inr f"
| "to_float (PInt i) =
     (case py_float (i < 0) \<bar>i\<bar> 0 of FInf _ \<Rightarrow> Inl Overflow_error | f \<Rightarrow> Inr f)"
| "to_float _ = Inl Type_error"

section \<open>Normalization\<close>

record criterion =
  cr_id :: string
  cr_output :: string
  cr_groups :: "string list list"
  cr_forbidden :: "string list"
  cr_min :: pyfloat

definition max_criteria :: nat where "max_criteria = 20"
definition max_groups :: nat where "max_groups = 20"
definition max_terms :: nat where "max_terms = 10"
definition max_forbidden :: nat where "max_forbidden = 50"
definition max_term_chars :: nat where "max_term_chars = 256"
definition max_response_chars :: nat where "max_response_chars = 20000"

definition quality_evaluator :: string where "quality_evaluator = ''concept_coverage''"

definition criterion_keys :: "string list" where
  "criterion_keys =
     [''id'', ''output_field'', ''evaluator'', ''required_concept_groups'', ''forbidden_concepts'',
      ''min_score'']"

definition is_lower :: "char \<Rightarrow> bool" where
  "is_lower c = (let n = of_char c :: nat in 97 \<le> n \<and> n \<le> 122)"

definition criterion_id_re :: "string \<Rightarrow> bool" where
  "criterion_id_re s = (s \<noteq> [] \<and> is_lower (hd s) \<and> length s \<le> 64 \<and>
     list_all (\<lambda>c. is_lower c \<or> is_digit c \<or> c = CHR ''_'' \<or> c = CHR ''-'') s)"

definition bounded_term :: "string \<Rightarrow> pv \<Rightarrow> string checked" where
  "bounded_term label value =
     guardE (\<not> is_str value \<or> strip (str_of value) = [])
       (Value_error (label @ '' must be a non-empty string''))
    (guardE (max_term_chars < utf8_len (strip (str_of value)))
       (Value_error (label @ '' exceeds 256 characters'')) (Inr (strip (str_of value))))"

definition concept_group :: "string \<Rightarrow> nat \<times> pv \<Rightarrow> string list checked" where
  "concept_group quoted = (\<lambda>(index, group).
     guardE (\<not> is_list group \<or> list_of group = [] \<or> max_terms < length (list_of group))
       (Value_error (''quality criterion '' @ quoted @ '' group '' @ nat_text index @
          '' must contain 1-10 terms''))
       (mapE (bounded_term (''quality criterion '' @ quoted @ '' group term'')) (list_of group)))"

definition criterion_score :: "string \<Rightarrow> pv \<Rightarrow> pyfloat checked" where
  "criterion_score quoted v =
     (let bad = Value_error (''quality criterion '' @ quoted @
            '' min_score must be finite and between 0 and 1'') in
     guardE (is_bool v \<or> \<not> (is_int v \<or> (case v of PFloat _ \<Rightarrow> True | _ \<Rightarrow> False))) bad
    (bindE (to_float v) (\<lambda>f.
     guardE (\<not> float_le (Dec 0 0) f \<or> \<not> float_le f (Dec 1 0)) bad (Inr f))))"

definition normalize_criterion ::
    "string list \<Rightarrow> nat \<times> pv \<Rightarrow> criterion list \<Rightarrow> criterion list checked" where
  "normalize_criterion outputs = (\<lambda>(index, raw) seen.
     (let at = ''quality_criteria['' @ nat_text index @ '']''; item = dict_of raw;
          unknown = extra_keys item criterion_keys; cid = text_of (dget ''id'' item);
          quoted = repr_str cid; output_field = text_of (dget ''output_field'' item);
          groups = dget ''required_concept_groups'' item;
          forbidden = dget_or ''forbidden_concepts'' (PList []) item in
     guardE (\<not> is_mapping raw) (Value_error (at @ '' must be an object''))
    (guardE (unknown \<noteq> []) (Value_error (at @ '' has unknown fields: '' @ names_text unknown))
    (guardE (\<not> criterion_id_re cid) (Value_error (at @ ''.id is invalid''))
    (guardE (cid \<in> set (map cr_id seen)) (Value_error (''duplicate quality criterion id: '' @ cid))
    (guardE (output_field \<notin> set outputs)
       (Value_error (''quality criterion '' @ quoted @ '' references undeclared output '' @
          repr_str output_field))
    (guardE (text_of (dget ''evaluator'' item) \<noteq> quality_evaluator)
       (Value_error (''quality criterion '' @ quoted @ '' evaluator must be '' @ quality_evaluator))
    (guardE (\<not> is_list groups \<or> list_of groups = [] \<or> max_groups < length (list_of groups))
       (Value_error (''quality criterion '' @ quoted @ '' requires 1-20 concept groups''))
    (bindE (mapE (concept_group quoted) (zip [0..<length (list_of groups)] (list_of groups))) (\<lambda>gs.
     guardE (\<not> is_list forbidden \<or> max_forbidden < length (list_of forbidden))
       (Value_error (''quality criterion '' @ quoted @
          '' forbidden_concepts must contain at most 50 terms''))
    (bindE (mapE (bounded_term (''quality criterion '' @ quoted @ '' forbidden term''))
        (list_of forbidden)) (\<lambda>fs.
     bindE (criterion_score quoted (dget_or ''min_score'' (PFloat (Dec 1 0)) item)) (\<lambda>score.
     Inr (seen @ [\<lparr>cr_id = cid, cr_output = output_field, cr_groups = gs, cr_forbidden = fs,
                   cr_min = score\<rparr>]))))))))))))))"

definition normalize_quality_criteria :: "pv \<Rightarrow> string list \<Rightarrow> criterion list checked" where
  "normalize_quality_criteria value outputs =
     (if value = PNone then Inr [] else
     guardE (\<not> is_list value \<or> max_criteria < length (list_of value))
       (Value_error ''quality_criteria must be a list of at most 20 items'')
       (foldE (normalize_criterion outputs) (zip [0..<length (list_of value)] (list_of value)) []))"

definition criterion_value :: "criterion \<Rightarrow> pv" where
  "criterion_value c = PDict
     [(''id'', PStr (cr_id c)), (''output_field'', PStr (cr_output c)),
      (''evaluator'', PStr quality_evaluator),
      (''required_concept_groups'', PList (map (\<lambda>g. PList (map PStr g)) (cr_groups c))),
      (''forbidden_concepts'', PList (map PStr (cr_forbidden c))),
      (''min_score'', PFloat (cr_min c))]"

section \<open>Matching\<close>

text \<open>\<open>" ".join(text.casefold().split())\<close>; case folding of ASCII letters.\<close>

fun words_from :: "string \<Rightarrow> string \<Rightarrow> string list" where
  "words_from w [] = (if w = [] then [] else [w])"
| "words_from w (c # s) =
     (if is_space c then (if w = [] then words_from [] s else w # words_from [] s)
      else words_from (w @ [c]) s)"

definition folded :: "string \<Rightarrow> string" where
  "folded s = join '' '' (words_from [] (lower s))"

text \<open>\<open>\w\<close>; bytes of characters outside ASCII count as word characters.\<close>

definition is_wordish :: "char \<Rightarrow> bool" where
  "is_wordish c = (is_word_char c \<or> 128 \<le> (of_char c :: nat))"

text \<open>\<open>(?<!\w)needle(?!\w)\<close>: the flag says whether a word character precedes.\<close>

fun search_word :: "bool \<Rightarrow> string \<Rightarrow> string \<Rightarrow> bool" where
  "search_word inside needle s =
     ((\<not> inside \<and> starts_with s needle \<and>
       (case drop (length needle) s of [] \<Rightarrow> True | c # _ \<Rightarrow> \<not> is_wordish c)) \<or>
      (case s of [] \<Rightarrow> False | c # t \<Rightarrow> search_word (is_wordish c) needle t))"

declare search_word.simps [simp del]

definition concept_in :: "string \<Rightarrow> string \<Rightarrow> bool" where
  "concept_in content concept = search_word False (folded concept) (folded content)"

section \<open>Evaluation\<close>

record quality_row =
  qr_criterion :: criterion
  qr_passed :: bool
  qr_score :: pyfloat
  qr_matched :: "bool list"
  qr_hits :: "string list"
  qr_missing :: bool

definition evaluate_criterion :: "(string \<times> pv) list \<Rightarrow> criterion \<Rightarrow> quality_row" where
  "evaluate_criterion observed c =
     (let response = dget (cr_output c) observed;
          too_long = max_response_chars < utf8_len (str_of response);
          missing = \<not> is_str response \<or> str_of response = [] \<or> too_long;
          bounded = (if is_str response \<and> \<not> too_long then str_of response else []);
          matched = map (\<lambda>group. list_ex (concept_in bounded) group) (cr_groups c);
          hits = filter (concept_in bounded) (cr_forbidden c);
          failed = missing \<or> hits \<noteq> [];
          k = (if failed then 0 else length (filter id matched));
          n = length (cr_groups c) in
     \<lparr>qr_criterion = c,
      qr_passed = (score_reaches k n (cr_min c) \<and> \<not> missing \<and> hits = []),
      qr_score = ratio_rounded k n, qr_matched = matched, qr_hits = hits, qr_missing = missing\<rparr>)"

definition row_value :: "quality_row \<Rightarrow> pv" where
  "row_value r = PDict
     [(''id'', PStr (cr_id (qr_criterion r))), (''output_field'', PStr (cr_output (qr_criterion r))),
      (''evaluator'', PStr quality_evaluator),
      (''status'', PStr (if qr_passed r then ''passed'' else ''failed'')),
      (''score'', PFloat (qr_score r)), (''min_score'', PFloat (cr_min (qr_criterion r))),
      (''required_groups_total'', PInt (int (length (cr_groups (qr_criterion r))))),
      (''required_groups_matched'', PInt (int (length (filter id (qr_matched r))))),
      (''missing_group_indexes'', PList (map (\<lambda>i. PInt (int i))
         (filter (\<lambda>i. \<not> qr_matched r ! i) [0..<length (qr_matched r)]))),
      (''forbidden_hits'', PList (map PStr (qr_hits r))),
      (''missing_output'', PBool (qr_missing r))]"

definition quality_report :: "string \<Rightarrow> nat \<Rightarrow> nat \<Rightarrow> pv list \<Rightarrow> (string \<times> pv) list" where
  "quality_report status all_count passed rows =
     [(''schema_version'', PStr ''program-quality-evaluation-v1''), (''status'', PStr status),
      (''criteria_total'', PInt (int all_count)), (''criteria_passed'', PInt (int passed)),
      (''criteria_failed'', PInt (int all_count - int passed)), (''criteria'', PList rows),
      (''quality_approved'', PBool False)]"

definition evaluate_declared_quality :: "criterion list \<Rightarrow> (string \<times> pv) list \<Rightarrow> (string \<times> pv) list" where
  "evaluate_declared_quality criteria observed =
     (if criteria = [] then quality_report ''not_declared'' 0 0 []
      else let rows = map (evaluate_criterion observed) criteria;
               passed = length (filter qr_passed rows)
           in quality_report (if passed = length rows then ''passed'' else ''failed'')
                (length rows) passed (map row_value rows))"

section \<open>Statuses\<close>

definition declared_quality_output_fields :: "pv \<Rightarrow> string list" where
  "declared_quality_output_fields criteria =
     remdups (concat (map (\<lambda>item. case dget ''output_field'' (dict_of item) of
         PStr s \<Rightarrow> if s = [] then [] else [s] | _ \<Rightarrow> []) (list_of criteria)))"

definition quality_behavior :: "(string \<times> string) list" where
  "quality_behavior =
     [(''executed_quality_passed'', ''passed''), (''executed_valid_review_only'', ''executed''),
      (''failed_quality'', ''failed'')]"

definition normalize_behavior_status :: "pv \<Rightarrow> string option" where
  "normalize_behavior_status status = map_of quality_behavior (lower (text_of status))"

definition runtime_status_with_quality :: "string \<Rightarrow> pv \<Rightarrow> string" where
  "runtime_status_with_quality execution_status quality_status =
     (if execution_status \<notin> {''executed'', ''executed_valid_review_only''} \<or>
         quality_status = PStr ''not_declared'' then execution_status
      else if quality_status \<noteq> PStr ''passed'' then ''failed_quality''
      else if execution_status = ''executed_valid_review_only'' then execution_status
      else ''executed_quality_passed'')"

section \<open>What is normalized\<close>

definition term_ok :: "string \<Rightarrow> bool" where
  "term_ok t \<longleftrightarrow> t \<noteq> [] \<and> strip t = t \<and> utf8_len t \<le> 256"

definition group_ok :: "string list \<Rightarrow> bool" where
  "group_ok g \<longleftrightarrow> 1 \<le> length g \<and> length g \<le> 10 \<and> list_all term_ok g"

definition criterion_ok :: "string list \<Rightarrow> criterion \<Rightarrow> bool" where
  "criterion_ok outputs c \<longleftrightarrow>
     criterion_id_re (cr_id c) \<and> strip (cr_id c) = cr_id c \<and>
     cr_output c \<in> set outputs \<and> strip (cr_output c) = cr_output c \<and>
     1 \<le> length (cr_groups c) \<and> length (cr_groups c) \<le> 20 \<and>
     list_all group_ok (cr_groups c) \<and>
     length (cr_forbidden c) \<le> 50 \<and> list_all term_ok (cr_forbidden c) \<and>
     float_le (Dec 0 0) (cr_min c) \<and> float_le (cr_min c) (Dec 1 0)"

lemma bounded_term_Inr: "bounded_term label v = Inr t \<Longrightarrow> term_ok t"
  by (auto simp: bounded_term_def guardE_Inr_iff term_ok_def max_term_chars_def)

lemma bounded_term_again: "term_ok t \<Longrightarrow> bounded_term label (PStr t) = Inr t"
  by (simp add: bounded_term_def term_ok_def max_term_chars_def)

lemma bounded_terms_Inr:
  "mapE (bounded_term label) vs = Inr ts \<Longrightarrow> list_all term_ok ts \<and> length ts = length vs"
  by (induction vs arbitrary: ts) (auto simp: res_simps dest: bounded_term_Inr)

lemma bounded_terms_again: "list_all term_ok ts \<Longrightarrow> mapE (bounded_term label) (map PStr ts) = Inr ts"
  by (induction ts) (simp_all add: bounded_term_again)

lemma concept_group_Inr: "concept_group quoted (i, v) = Inr g \<Longrightarrow> group_ok g"
  using bounded_terms_Inr
  by (fastforce simp: concept_group_def guardE_Inr_iff group_ok_def max_terms_def Suc_le_eq)

lemma concept_group_again: "group_ok g \<Longrightarrow> concept_group quoted (i, PList (map PStr g)) = Inr g"
  by (cases g) (auto simp: concept_group_def group_ok_def max_terms_def bounded_term_again bounded_terms_again)

lemma concept_groups_Inr:
  "mapE (concept_group quoted) (zip ix vs) = Inr gs \<Longrightarrow> length ix = length vs \<Longrightarrow>
     list_all group_ok gs \<and> length gs = length vs"
proof (induction vs arbitrary: ix gs)
  case (Cons v vs)
  then show ?case using concept_group_Inr by (cases ix) (fastforce simp: res_simps)+
qed simp

lemma concept_groups_again:
  "list_all group_ok gs \<Longrightarrow> length ix = length gs \<Longrightarrow>
     mapE (concept_group quoted) (zip ix (map (\<lambda>g. PList (map PStr g)) gs)) = Inr gs"
proof (induction gs arbitrary: ix)
  case (Cons g gs)
  then show ?case by (cases ix) (simp_all add: concept_group_again)
qed simp

lemma criterion_score_Inr:
  "criterion_score quoted v = Inr f \<Longrightarrow> float_le (Dec 0 0) f \<and> float_le f (Dec 1 0)"
  by (auto simp: criterion_score_def Let_def guardE_Inr_iff bindE_Inr_iff)

lemma criterion_score_again:
  "float_le (Dec 0 0) f \<Longrightarrow> float_le f (Dec 1 0) \<Longrightarrow> criterion_score quoted (PFloat f) = Inr f"
  by (simp add: criterion_score_def Let_def)

lemma normalize_criterion_Inr:
  assumes "normalize_criterion outputs (index, raw) seen = Inr seen'"
  shows "\<exists>c. seen' = seen @ [c] \<and> criterion_ok outputs c \<and> cr_id c \<notin> set (map cr_id seen)"
proof -
  let ?item = "dict_of raw"
  let ?groups = "list_of (dget ''required_concept_groups'' ?item)"
  let ?quoted = "repr_str (text_of (dget ''id'' ?item))"
  from assms obtain gs fs score where
    id: "criterion_id_re (text_of (dget ''id'' ?item))" "text_of (dget ''id'' ?item) \<notin> set (map cr_id seen)"
      "text_of (dget ''output_field'' ?item) \<in> set outputs" and
    len: "?groups \<noteq> []" "length ?groups \<le> 20" and
    gs: "mapE (concept_group ?quoted) (zip [0..<length ?groups] ?groups) = Inr gs" and
    fs: "mapE (bounded_term (''quality criterion '' @ ?quoted @ '' forbidden term''))
      (list_of (dget_or ''forbidden_concepts'' (PList []) ?item)) = Inr fs"
      "length (list_of (dget_or ''forbidden_concepts'' (PList []) ?item)) \<le> 50" and
    score: "criterion_score ?quoted (dget_or ''min_score'' (PFloat (Dec 1 0)) ?item) = Inr score" and
    seen': "seen' = seen @ [\<lparr>cr_id = text_of (dget ''id'' ?item), cr_output = text_of (dget ''output_field'' ?item),
      cr_groups = gs, cr_forbidden = fs, cr_min = score\<rparr>]"
    unfolding normalize_criterion_def prod.case Let_def guardE_Inr_iff bindE_Inr_iff max_groups_def
      max_forbidden_def
    by (auto simp only: not_less de_Morgan_disj not_not sum.inject)
  from concept_groups_Inr [OF gs] bounded_terms_Inr [OF fs(1)] criterion_score_Inr [OF score] id len fs(2)
  show ?thesis
    unfolding seen' by (auto simp: criterion_ok_def Suc_le_eq)
qed

lemma normalize_criterion_again:
  assumes "criterion_ok outputs c" "cr_id c \<notin> set (map cr_id seen)"
  shows "normalize_criterion outputs (index, criterion_value c) seen = Inr (seen @ [c])"
proof -
  have keys: "extra_keys (dict_of (criterion_value c)) criterion_keys = []"
    by (simp add: extra_keys_def criterion_value_def criterion_keys_def)
  have evaluator: "strip quality_evaluator = quality_evaluator"
    by (rule strip_fixed) (simp add: quality_evaluator_def is_space_def)
  have groups: "list_all group_ok (cr_groups c)" "cr_groups c \<noteq> []" "length (cr_groups c) \<le> 20"
    using assms(1) by (auto simp: criterion_ok_def)
  show ?thesis
    using assms keys evaluator groups concept_groups_again [OF groups(1), of "[0..<length (cr_groups c)]"]
      bounded_terms_again criterion_score_again
    by (simp add: normalize_criterion_def Let_def criterion_value_def criterion_ok_def dget_or_def
        max_groups_def max_forbidden_def del: set_map)
qed

lemma normalize_criteria_loop:
  "foldE (normalize_criterion outputs) (zip ix vs) seen = Inr cs \<Longrightarrow> length ix = length vs \<Longrightarrow>
     \<exists>new. cs = seen @ new \<and> length new = length vs \<and> list_all (criterion_ok outputs) new \<and>
       (distinct (map cr_id seen) \<longrightarrow> distinct (map cr_id cs))"
proof (induction vs arbitrary: ix seen)
  case (Cons v vs)
  then obtain i js where ix': "ix = i # js" "length js = length vs" by (cases ix) auto
  with Cons.prems(1) obtain c where c: "criterion_ok outputs c" "cr_id c \<notin> set (map cr_id seen)"
    "foldE (normalize_criterion outputs) (zip js vs) (seen @ [c]) = Inr cs"
    using normalize_criterion_Inr [of outputs i v seen] by (auto simp: res_simps)
  from Cons.IH [OF c(3) ix'(2)] c(1,2) show ?case by (auto intro: exI [of _ "c # _"])
qed auto

lemma normalize_criteria_again:
  assumes "list_all (criterion_ok outputs) cs" "distinct (map cr_id (seen @ cs))" "length ix = length cs"
  shows "foldE (normalize_criterion outputs) (zip ix (map criterion_value cs)) seen = Inr (seen @ cs)"
  using assms
proof (induction cs arbitrary: ix seen)
  case (Cons c cs)
  then obtain i js where "ix = i # js" by (cases ix) auto
  with Cons normalize_criterion_again [of outputs c seen i] show ?case
    by (simp del: set_map add: image_Un)
qed simp

lemma normalized_criteria:
  assumes "normalize_quality_criteria value outputs = Inr cs"
  shows "list_all (criterion_ok outputs) cs \<and> length cs \<le> 20 \<and> distinct (map cr_id cs)"
proof (cases "value = PNone")
  case False
  with assms have "foldE (normalize_criterion outputs) (zip [0..<length (list_of value)] (list_of value)) [] = Inr cs"
    "length (list_of value) \<le> 20"
    by (auto simp: normalize_quality_criteria_def guardE_Inr_iff max_criteria_def)
  with normalize_criteria_loop [OF this(1)] show ?thesis by auto
qed (use assms in \<open>simp add: normalize_quality_criteria_def\<close>)

section \<open>What the matcher finds\<close>

lemma found_here:
  "starts_with s needle \<and> (case drop (length needle) s of [] \<Rightarrow> True | c # _ \<Rightarrow> \<not> is_wordish c) \<longleftrightarrow>
     (\<exists>v. s = needle @ v \<and> (v = [] \<or> \<not> is_wordish (hd v)))"
proof
  assume "starts_with s needle \<and> (case drop (length needle) s of [] \<Rightarrow> True | c # _ \<Rightarrow> \<not> is_wordish c)"
  moreover from this obtain v where "s = needle @ v" by (auto simp: starts_with_iff)
  ultimately show "\<exists>v. s = needle @ v \<and> (v = [] \<or> \<not> is_wordish (hd v))"
    by (cases v) auto
next
  assume "\<exists>v. s = needle @ v \<and> (v = [] \<or> \<not> is_wordish (hd v))"
  then obtain v where v: "s = needle @ v" "v = [] \<or> \<not> is_wordish (hd v)" by blast
  then show "starts_with s needle \<and>
      (case drop (length needle) s of [] \<Rightarrow> True | c # _ \<Rightarrow> \<not> is_wordish c)"
    by (cases v) (auto simp: starts_with_iff)
qed

lemma split_here_or_later:
  "(\<exists>u v. c # s = u @ n @ v \<and> P u \<and> Q v) \<longleftrightarrow>
     (\<exists>v. c # s = n @ v \<and> P [] \<and> Q v) \<or> (\<exists>u v. s = u @ n @ v \<and> P (c # u) \<and> Q v)"
proof
  assume "\<exists>u v. c # s = u @ n @ v \<and> P u \<and> Q v"
  then obtain u v where u: "c # s = u @ n @ v" "P u" "Q v" by blast
  show "(\<exists>v. c # s = n @ v \<and> P [] \<and> Q v) \<or> (\<exists>u v. s = u @ n @ v \<and> P (c # u) \<and> Q v)"
  proof (cases u)
    case (Cons d t)
    with u have "s = t @ n @ v \<and> P (c # t) \<and> Q v" by simp
    then show ?thesis by blast
  qed (use u in auto)
next
  assume "(\<exists>v. c # s = n @ v \<and> P [] \<and> Q v) \<or> (\<exists>u v. s = u @ n @ v \<and> P (c # u) \<and> Q v)"
  then show "\<exists>u v. c # s = u @ n @ v \<and> P u \<and> Q v"
  proof
    assume "\<exists>v. c # s = n @ v \<and> P [] \<and> Q v"
    then obtain v where "c # s = [] @ n @ v \<and> P [] \<and> Q v" by auto
    then show ?thesis by blast
  next
    assume "\<exists>u v. s = u @ n @ v \<and> P (c # u) \<and> Q v"
    then obtain u v where "c # s = (c # u) @ n @ v \<and> P (c # u) \<and> Q v" by auto
    then show ?thesis by blast
  qed
qed

lemma search_word_iff:
  "search_word inside needle s \<longleftrightarrow>
     (\<exists>u v. s = u @ needle @ v \<and> (if u = [] then \<not> inside else \<not> is_wordish (last u)) \<and>
        (v = [] \<or> \<not> is_wordish (hd v)))"
proof (induction s arbitrary: inside)
  case Nil
  show ?case by (subst search_word.simps) (cases needle; auto simp: starts_with_iff)
next
  case (Cons c s)
  have "search_word inside needle (c # s) \<longleftrightarrow>
      (\<exists>v. c # s = needle @ v \<and> \<not> inside \<and> (v = [] \<or> \<not> is_wordish (hd v))) \<or>
      search_word (is_wordish c) needle s"
    using found_here [of "c # s" needle] by (subst search_word.simps) (simp only: list.case; blast)
  moreover have "search_word (is_wordish c) needle s \<longleftrightarrow>
      (\<exists>u v. s = u @ needle @ v \<and> \<not> is_wordish (last (c # u)) \<and> (v = [] \<or> \<not> is_wordish (hd v)))"
    unfolding Cons.IH by (intro ex_cong1) auto
  ultimately show ?case
    unfolding split_here_or_later [of c s needle
        "\<lambda>u. if u = [] then \<not> inside else \<not> is_wordish (last u)"] by simp
qed

section \<open>Evaluation lemmas\<close>

lemma quality_row_passed:
  assumes "qr_passed (evaluate_criterion observed c)"
  shows "\<exists>s. dget (cr_output c) observed = PStr s \<and> s \<noteq> [] \<and> utf8_len s \<le> 20000 \<and>
           list_all (\<lambda>t. \<not> concept_in s t) (cr_forbidden c) \<and>
           score_reaches (length (filter (\<lambda>g. list_ex (concept_in s) g) (cr_groups c)))
             (length (cr_groups c)) (cr_min c)"
proof -
  let ?r = "dget (cr_output c) observed"
  from assms have r: "is_str ?r" "str_of ?r \<noteq> []" "utf8_len (str_of ?r) \<le> 20000"
    by (auto simp: evaluate_criterion_def Let_def max_response_chars_def)
  from r(1) obtain s where s: "?r = PStr s" by (cases ?r) auto
  with r(3) have short: "\<not> 20000 < utf8_len s" by simp
  from assms s r short show ?thesis
    by (intro exI [of _ s])
      (auto simp: evaluate_criterion_def Let_def max_response_chars_def filter_empty_conv list_all_iff
        filter_map comp_def)
qed

lemma length_filter_all: "length (filter P xs) = length xs \<longleftrightarrow> (\<forall>x\<in>set xs. P x)"
  by (metis filter_id_conv length_filter_less less_irrefl)

lemma quality_report_status:
  "dget ''status'' (evaluate_declared_quality criteria observed) =
     PStr (if criteria = [] then ''not_declared''
           else if list_all (\<lambda>c. qr_passed (evaluate_criterion observed c)) criteria then ''passed''
           else ''failed'')"
proof (cases "criteria = []")
  case False
  with False show ?thesis
    by (simp add: evaluate_declared_quality_def Let_def quality_report_def dget_def list_all_iff length_filter_all
        del: filter_map)
qed (simp add: evaluate_declared_quality_def quality_report_def dget_def)

lemma full_score_tables:
  "list_all (\<lambda>n. list_all (\<lambda>k. score_reaches k n (Dec 1 0) = (k = n)) [0..<Suc n]) [1..<21]"
  by code_simp

lemma full_score: "1 \<le> n \<Longrightarrow> n \<le> 20 \<Longrightarrow> k \<le> n \<Longrightarrow> score_reaches k n (Dec 1 0) \<longleftrightarrow> k = n"
proof -
  assume "1 \<le> n" "n \<le> 20" "k \<le> n"
  then have "n \<in> set [1..<21]" "k \<in> set [0..<Suc n]" by auto
  with full_score_tables show ?thesis unfolding list_all_iff by blast
qed

definition sample_criterion :: criterion where
  "sample_criterion =
     \<lparr>cr_id = ''cites-source'', cr_output = ''answer'', cr_groups = [[''Receipt'', ''proof''], [''ledger'']],
      cr_forbidden = [''guess''], cr_min = Dec 1 0\<rparr>"

definition sample_criteria_value :: pv where
  "sample_criteria_value = PList [PDict
     [(''id'', PStr ''cites-source''), (''output_field'', PStr '' answer ''),
      (''evaluator'', PStr ''concept_coverage''),
      (''required_concept_groups'', PList [PList [PStr '' Receipt '', PStr ''proof''], PList [PStr ''ledger'']]),
      (''forbidden_concepts'', PList [PStr ''guess'']), (''min_score'', PFloat (Dec 1 0))]]"

lemma sample_criteria_normal:
  "normalize_quality_criteria sample_criteria_value [''answer''] = Inr [sample_criterion]"
  by code_simp

definition sample_answer :: "(string \<times> pv) list" where
  "sample_answer = [(''answer'', PStr ''The  PROOF is in the Ledger.'')]"

lemma sample_passes: "dget ''status'' (evaluate_declared_quality [sample_criterion] sample_answer) = PStr ''passed''"
  unfolding quality_report_status by code_simp

section \<open>The properties\<close>

text \<open>A normalized quality contract is bounded: at most twenty criteria with distinct lower-case ids,
  each on a declared output, with one to twenty groups of one to ten trimmed terms of at most 256
  characters, at most fifty forbidden terms and a finite minimal score between 0 and 1.\<close>

theorem quality_criteria_bounds:
  assumes "normalize_quality_criteria value outputs = Inr cs"
  shows "list_all (criterion_ok outputs) cs \<and> length cs \<le> 20 \<and> distinct (map cr_id cs)"
  by (rule normalized_criteria [OF assms])

theorem quality_criteria_bounds_witness:
  "list_all (criterion_ok [''answer'']) [sample_criterion] \<and> length [sample_criterion] \<le> 20 \<and>
     distinct (map cr_id [sample_criterion])"
  by (rule quality_criteria_bounds [OF sample_criteria_normal])

text \<open>Normalization is idempotent: the normalized contract, read back as a value, normalizes to
  itself.\<close>

theorem quality_idempotent:
  assumes "normalize_quality_criteria value outputs = Inr cs"
  shows "normalize_quality_criteria (PList (map criterion_value cs)) outputs = Inr cs"
  using normalized_criteria [OF assms] normalize_criteria_again [of outputs cs "[]" "[0..<length cs]"]
  by (simp add: normalize_quality_criteria_def max_criteria_def)

theorem quality_idempotent_witness:
  "normalize_quality_criteria (PList (map criterion_value [sample_criterion])) [''answer''] =
     Inr [sample_criterion]"
  by (rule quality_idempotent [OF sample_criteria_normal])



definition no_word_before :: "string \<Rightarrow> bool" where
  "no_word_before u = (case rev u of [] \<Rightarrow> True | c # _ \<Rightarrow> \<not> is_wordish c)"

definition no_word_after :: "string \<Rightarrow> bool" where
  "no_word_after v = (case v of [] \<Rightarrow> True | c # _ \<Rightarrow> \<not> is_wordish c)"

text \<open>A concept is found exactly where its folded text occurs in the folded content with no word
  character before it and none after it.\<close>

theorem concept_match_exact:
  "concept_in content concept \<longleftrightarrow>
     (\<exists>u v. folded content = u @ folded concept @ v \<and> no_word_before u \<and> no_word_after v)"
proof -
  have before: "no_word_before u \<longleftrightarrow> (if u = [] then \<not> False else \<not> is_wordish (last u))" for u
    by (cases u rule: rev_cases) (simp_all add: no_word_before_def)
  have after: "no_word_after v \<longleftrightarrow> v = [] \<or> \<not> is_wordish (hd v)" for v
    by (cases v) (simp_all add: no_word_after_def)
  show ?thesis unfolding concept_in_def search_word_iff before after by simp
qed

end
