(* ===== verification/Intent_Validation.thy ===== *)
theory Intent_Validation
  imports Program_Intent Quality_Criteria
begin

text \<open>
  The class \<open>ProgramIntent\<close> (\<open>services/program_intent.py\<close>): its fields, the validators of single
  fields, whose errors are collected, and the validator of the whole object, which runs when no field
  failed.  Pydantic checks the declared types of the raw fields before, so they are the types of the
  record.  The record has the fields some validator reads.
\<close>

record intent =
  it_schema_version :: string
  it_name :: string
  it_objective :: string
  it_inputs :: "string list"
  it_outputs :: "string list"
  it_input_fields :: "(string \<times> pv) list list"
  it_output_fields :: "(string \<times> pv) list list"
  it_task_type :: string
  it_topology :: "(string \<times> pv) list"
  it_constraints :: "string list"
  it_quality_criteria :: "pv list"
  it_options :: "(string \<times> pv) list"
  it_capabilities :: "(string \<times> pv) list"

section \<open>Field validators\<close>

definition check_schema_version :: "string \<Rightarrow> string checked" where
  "check_schema_version value =
     guardE (value \<noteq> ''program-intent-v2'')
       (Value_error ''program intent schema_version must be program-intent-v2'') (Inr value)"

definition check_text :: "string \<Rightarrow> string \<Rightarrow> string \<Rightarrow> string checked" where
  "check_text label dflt value =
     (let content = strip (if value = [] then dflt else value) in
     guardE (content = []) (Value_error (''program intent '' @ label @ '' must not be blank'')) (Inr content))"

definition field_name_re :: "string \<Rightarrow> bool" where
  "field_name_re s = (s \<noteq> [] \<and> identifier_re s \<and> s \<notin> set python_keywords)"

definition check_field_names :: "string list \<Rightarrow> string list checked" where
  "check_field_names value =
     (let specs = map strip value; invalid = filter (\<lambda>s. \<not> field_name_re s) specs in
     guardE (specs = []) (Value_error ''program intent fields must include at least one field'')
    (guardE (invalid \<noteq> []) (Value_error ''program intent fields must be valid Python identifiers'')
    (guardE (\<not> distinct specs) (Value_error ''program intent fields must be unique'') (Inr specs))))"

text \<open>One entry of the field specs: the entries accepted so far, the names seen, the invalid entries.\<close>

definition spec_name :: "(string \<times> pv) list \<Rightarrow> string" where
  "spec_name item = text_of (py_or (dget ''name'' item) (dget ''field'' item))"

definition complete_spec :: "(string \<times> pv) list \<Rightarrow> (string \<times> pv) list" where
  "complete_spec item0 =
     (let item = dict_set ''name'' (PStr (spec_name item0)) item0;
          item = (if dget ''type'' item \<noteq> PNone
            then dict_set ''type'' (PStr (py_str (py_or (dget ''type'' item) (PStr ''str'')))) item else item)
      in if dget ''desc'' item = PNone \<and> dget ''description'' item \<noteq> PNone
         then dict_set ''desc'' (PStr (py_str (dget ''description'' item))) item else item)"

definition check_spec ::
    "nat \<times> (string \<times> pv) list \<Rightarrow>
     (string \<times> pv) list list \<times> string list \<times> string list \<Rightarrow>
     (string \<times> pv) list list \<times> string list \<times> string list" where
  "check_spec = (\<lambda>(index, item) (specs, seen, invalid).
     let name = spec_name item in
     if \<not> field_name_re name then
       (specs, seen, invalid @ [nat_text index @ '':'' @ (if name = [] then ''<missing-name>'' else name)])
     else if name \<in> set seen then (specs, seen, invalid @ [''duplicate:'' @ name])
     else (specs @ [complete_spec item], seen @ [name], invalid))"

definition check_field_specs :: "(string \<times> pv) list list \<Rightarrow> (string \<times> pv) list list checked" where
  "check_field_specs value =
     (case fold check_spec (zip [0..<length value] value) ([], [], []) of (specs, seen, invalid) \<Rightarrow>
     guardE (invalid \<noteq> [])
       (Value_error (''program intent field specs must be objects with unique Python identifier names; invalid entries: '' @
          names_text invalid)) (Inr specs))"

section \<open>The validator of the object\<close>

definition io_names :: "string list \<Rightarrow> (string \<times> pv) list list \<Rightarrow> string list" where
  "io_names names specs = (if specs = [] then names else map (\<lambda>item. py_str (dget ''name'' item)) specs)"

definition check_roles :: "intent \<Rightarrow> (intent \<times> criterion list) checked" where
  "check_roles it =
     (let inputs = io_names (it_inputs it) (it_input_fields it);
          outputs = io_names (it_outputs it) (it_output_fields it);
          overlap = sorted_set (filter (\<lambda>s. s \<in> set outputs) inputs) in
     guardE (overlap \<noteq> [])
       (Value_error (''program intent input/output field names must not overlap; overlap: '' @
          names_text overlap))
    (bindE (normalize_program_topology (PDict (it_topology it))) (\<lambda>topology.
     bindE (normalize_program_capabilities (PDict (it_capabilities it))) (\<lambda>capabilities.
     bindE (normalize_quality_criteria (PList (it_quality_criteria it)) outputs) (\<lambda>criteria.
     Inr (it\<lparr>it_inputs := inputs, it_outputs := outputs, it_topology := topology,
            it_capabilities := capabilities, it_quality_criteria := map criterion_value criteria\<rparr>,
          criteria))))))"

text \<open>\<open>model_validate\<close>: the errors of the fields, or else of the object.\<close>

fun errors_of :: "'a checked \<Rightarrow> raised list" where
  "errors_of (Inl e) = [e]"
| "errors_of (Inr _) = []"

definition field_errors :: "intent \<Rightarrow> raised list" where
  "field_errors it =
     errors_of (check_schema_version (it_schema_version it)) @
     errors_of (check_text ''name'' [] (it_name it)) @
     errors_of (check_text ''objective'' [] (it_objective it)) @
     errors_of (check_field_names (it_inputs it)) @
     errors_of (check_field_names (it_outputs it)) @
     errors_of (check_field_specs (it_input_fields it)) @
     errors_of (check_field_specs (it_output_fields it)) @
     errors_of (check_text ''task_type'' ''single_module'' (it_task_type it))"

definition checked_fields :: "intent \<Rightarrow> intent checked" where
  "checked_fields it =
     bindE (check_schema_version (it_schema_version it)) (\<lambda>version.
     bindE (check_text ''name'' [] (it_name it)) (\<lambda>name.
     bindE (check_text ''objective'' [] (it_objective it)) (\<lambda>objective.
     bindE (check_field_names (it_inputs it)) (\<lambda>inputs.
     bindE (check_field_names (it_outputs it)) (\<lambda>outputs.
     bindE (check_field_specs (it_input_fields it)) (\<lambda>input_fields.
     bindE (check_field_specs (it_output_fields it)) (\<lambda>output_fields.
     bindE (check_text ''task_type'' ''single_module'' (it_task_type it)) (\<lambda>task_type.
     Inr (it\<lparr>it_schema_version := version, it_name := name, it_objective := objective,
            it_inputs := inputs, it_outputs := outputs, it_input_fields := input_fields,
            it_output_fields := output_fields, it_task_type := task_type\<rparr>)))))))))"

definition validate_intent :: "intent \<Rightarrow> raised list + intent \<times> criterion list" where
  "validate_intent it =
     (case checked_fields it of
        Inl _ \<Rightarrow> Inl (field_errors it)
      | Inr it' \<Rightarrow> (case check_roles it' of Inl e \<Rightarrow> Inl [e] | Inr r \<Rightarrow> Inr r))"

section \<open>What a validated intent is\<close>

lemma check_text_Inr:
  "check_text label dflt v = Inr s \<longleftrightarrow> s = strip (if v = [] then dflt else v) \<and> s \<noteq> []"
  by (auto simp: check_text_def Let_def guardE_Inr_iff)

lemma field_name_re_iff: "field_name_re s \<longleftrightarrow> python_name s"
  by (auto simp: field_name_re_def python_name_def identifier_re_def)

lemma check_field_names_Inr:
  "check_field_names vs = Inr names \<Longrightarrow> field_names names"
  by (auto simp: check_field_names_def Let_def guardE_Inr_iff field_names_def field_name_re_iff list_all_iff
      filter_empty_conv)

lemma complete_spec_name: "dget ''name'' (complete_spec item) = PStr (spec_name item)"
  by (simp add: complete_spec_def Let_def)

lemma check_specs_loop:
  assumes "fold check_spec (zip ix items) (specs, seen, invalid) = (specs', seen', invalid')"
    and "map (dget ''name'') specs = map PStr seen" "distinct seen" "list_all python_name seen"
  shows "map (dget ''name'') specs' = map PStr seen' \<and> distinct seen' \<and> list_all python_name seen'"
  using assms
proof (induction items arbitrary: ix specs seen invalid)
  case (Cons item items)
  show ?case
  proof (cases ix)
    case (Cons i js)
    obtain f s n where step: "check_spec (i, item) (specs, seen, invalid) = (f, s, n)"
      by (metis prod_cases3)
    then have "map (dget ''name'') f = map PStr s \<and> distinct s \<and> list_all python_name s"
      using Cons.prems(2-) by (auto simp: check_spec_def Let_def complete_spec_name field_name_re_iff split: if_splits)
    with Cons.IH Cons.prems(1) step Cons show ?thesis by simp
  qed (use Cons.prems in simp)
qed simp

lemma check_field_specs_Inr:
  assumes "check_field_specs items = Inr specs"
  shows "\<exists>names. map (dget ''name'') specs = map PStr names \<and> distinct names \<and> list_all python_name names"
proof -
  obtain f s n where run: "fold check_spec (zip [0..<length items] items) ([], [], []) = (f, s, n)"
    by (metis prod_cases3)
  from check_specs_loop [OF this] assms run show ?thesis
    by (auto simp: check_field_specs_def guardE_Inr_iff)
qed

lemma io_names_field_names:
  assumes "check_field_names vs = Inr names" "check_field_specs items = Inr specs"
  shows "field_names (io_names names specs)"
proof (cases "specs = []")
  case False
  from check_field_specs_Inr [OF assms(2)] obtain ns where
    ns: "map (dget ''name'') specs = map PStr ns" "distinct ns" "list_all python_name ns" by blast
  have "map (\<lambda>item. py_str (dget ''name'' item)) specs = map py_str (map (dget ''name'') specs)" by simp
  also have "\<dots> = ns" unfolding ns(1) by (simp add: comp_def)
  finally show ?thesis using False ns by (auto simp: io_names_def field_names_def)
qed (use check_field_names_Inr [OF assms(1)] in \<open>simp add: io_names_def\<close>)

lemma check_roles_Inr:
  assumes "check_roles it = Inr (it', criteria)"
  shows "it_inputs it' = io_names (it_inputs it) (it_input_fields it) \<and>
    it_outputs it' = io_names (it_outputs it) (it_output_fields it) \<and>
    set (it_inputs it') \<inter> set (it_outputs it') = {} \<and>
    normalize_program_topology (PDict (it_topology it)) = Inr (it_topology it') \<and>
    normalize_quality_criteria (PList (it_quality_criteria it)) (it_outputs it') = Inr criteria \<and>
    it_quality_criteria it' = map criterion_value criteria \<and> it_objective it' = it_objective it"
  using assms
  by (auto simp: check_roles_def Let_def guardE_Inr_iff bindE_Inr_iff filter_empty_conv)

lemma validate_intent_Inr:
  assumes "validate_intent raw = Inr (it, criteria)"
  obtains specs where "checked_fields raw = Inr specs" "check_roles specs = Inr (it, criteria)"
  using assms by (auto simp: validate_intent_def split: sum.splits)

lemma checked_fields_Inr:
  assumes "checked_fields raw = Inr it"
  shows "check_field_names (it_inputs raw) = Inr (it_inputs it) \<and>
    check_field_specs (it_input_fields raw) = Inr (it_input_fields it) \<and>
    check_field_names (it_outputs raw) = Inr (it_outputs it) \<and>
    check_field_specs (it_output_fields raw) = Inr (it_output_fields it) \<and>
    it_objective it = strip (it_objective raw) \<and> it_objective it \<noteq> []"
  using assms by (auto simp: checked_fields_def bindE_Inr_iff check_text_Inr strip_def)

text \<open>The module ids and the edges of a normalized topology.\<close>

definition topology_ids :: "(string \<times> pv) list \<Rightarrow> string list" where
  "topology_ids t = map (\<lambda>m. py_str (dget ''id'' (dict_of m))) (list_of (dget ''modules'' t))"

definition topology_arrows :: "(string \<times> pv) list \<Rightarrow> (string \<times> string) list" where
  "topology_arrows t = map (\<lambda>e. edge_ends (dict_of e)) (list_of (dget ''edges'' t))"

lemma normalize_topology_Inr:
  assumes "normalize_program_topology value = Inr t"
  shows "t = [] \<or> (\<exists>kind. kind \<in> set accepted_topology_kinds \<and> dget ''kind'' t = PStr kind \<and>
    dget ''execution_status'' t = PStr declared_status \<and> distinct (topology_ids t) \<and>
    validate_graph_contract kind (topology_ids t) (topology_arrows t) = Inr ())"
proof (cases "t = []")
  case False
  with assms obtain kind modules edges where
    t: "t = [(''kind'', PStr kind), (''execution_status'', PStr declared_status),
          (''modules'', PList (map PDict modules)), (''edges'', PList (map PDict edges))]"
    and kind: "kind \<in> set accepted_topology_kinds"
    and ids: "distinct (map (\<lambda>m. py_str (dget ''id'' m)) modules)"
    and graph: "validate_graph_contract kind (map (\<lambda>m. py_str (dget ''id'' m)) modules) (map edge_ends edges) = Inr ()"
    unfolding normalize_program_topology_def Let_def guardE_Inr_iff bindE_Inr_iff
    by (auto simp: guardE_Inr_iff bindE_Inr_iff simp del: mapE_Inr_iff split: if_splits)
  then show ?thesis by (simp add: topology_ids_def topology_arrows_def comp_def)
qed simp

section \<open>The properties\<close>

definition answer_topology :: "(string \<times> pv) list" where
  "answer_topology =
     [(''kind'', PStr ''pipeline''), (''execution_status'', PStr ''declared_not_materialized''),
      (''modules'', PList [PDict
        [(''id'', PStr ''answerer''), (''primitive'', PStr ''Predict''),
         (''signature'', PDict [(''name'', PStr ''Answer''), (''inputs'', PList [PStr ''context'']),
            (''outputs'', PList [PStr ''answer''])])]]),
      (''edges'', PList [PDict [(''from'', PStr ''input''), (''to'', PStr ''answerer'')],
                         PDict [(''from'', PStr ''answerer''), (''to'', PStr ''output'')]])]"

definition answer_intent :: "string \<Rightarrow> pv list \<Rightarrow> intent" where
  "answer_intent objective criteria =
     \<lparr>it_schema_version = ''program-intent-v2'', it_name = ''Answer'', it_objective = objective,
      it_inputs = [''context''], it_outputs = [''answer''], it_input_fields = [], it_output_fields = [],
      it_task_type = ''single_module'', it_topology = answer_topology, it_constraints = [],
      it_quality_criteria = criteria, it_options = [], it_capabilities = []\<rparr>"

lemma answer_topology_normal: "normalize_program_topology (PDict answer_topology) = Inr answer_topology"
  by code_simp

lemma answer_fields:
  "checked_fields (answer_intent '' Answer it '' [sample]) = Inr (answer_intent ''Answer it'' [sample])"
  unfolding checked_fields_def answer_intent_def by code_simp

definition sample_criterion_value :: pv where
  "sample_criterion_value = hd (list_of sample_criteria_value)"

lemma answer_intent_valid:
  "validate_intent (answer_intent '' Answer it '' [sample_criterion_value]) =
     Inr (answer_intent ''Answer it'' [criterion_value sample_criterion], [sample_criterion])"
proof -
  have "PList [sample_criterion_value] = sample_criteria_value"
    by (simp add: sample_criterion_value_def sample_criteria_value_def)
  then have criteria: "normalize_quality_criteria (PList [sample_criterion_value]) [''answer''] = Inr [sample_criterion]"
    using sample_criteria_normal by simp
  have capabilities: "normalize_program_capabilities (PDict []) = Inr []" by code_simp
  have names: "io_names [''context''] [] = [''context'']" "io_names [''answer''] [] = [''answer'']"
    by (simp_all add: io_names_def)
  have "check_roles (answer_intent ''Answer it'' [sample_criterion_value]) =
      Inr (answer_intent ''Answer it'' [criterion_value sample_criterion], [sample_criterion])"
    using criteria capabilities answer_topology_normal
    by (simp add: check_roles_def Let_def answer_intent_def names sorted_set_def)
  then show ?thesis by (simp add: validate_intent_def answer_fields)
qed

text \<open>C26: a validated intent has non-empty lists of distinct Python identifiers, no keywords, as inputs and
  as outputs, no name in both, an objective that is not blank, and criteria within their bounds on its
  outputs.\<close>

theorem validated_intent_type:
  assumes "validate_intent raw = Inr (it, criteria)"
  shows "field_names (it_inputs it) \<and> field_names (it_outputs it) \<and>
    set (it_inputs it) \<inter> set (it_outputs it) = {} \<and> it_objective it \<noteq> [] \<and>
    list_all (criterion_ok (it_outputs it)) criteria \<and> distinct (map cr_id criteria)"
proof -
  from validate_intent_Inr [OF assms] obtain specs
    where specs: "checked_fields raw = Inr specs" "check_roles specs = Inr (it, criteria)" .
  note fields = checked_fields_Inr [OF specs(1)] and roles = check_roles_Inr [OF specs(2)]
  have "field_names (it_inputs it)" "field_names (it_outputs it)"
    using io_names_field_names fields roles by metis+
  moreover have "list_all (criterion_ok (it_outputs it)) criteria \<and> distinct (map cr_id criteria)"
    using roles normalized_criteria by blast
  moreover have "set (it_inputs it) \<inter> set (it_outputs it) = {}" using roles by blast
  moreover have "it_objective it \<noteq> []" using fields roles by metis
  ultimately show ?thesis by blast
qed

theorem validated_intent_type_witness:
  "field_names [''context''] \<and> field_names [''answer''] \<and>
     list_all (criterion_ok [''answer'']) [sample_criterion]"
  using validated_intent_type [OF answer_intent_valid] by (simp add: answer_intent_def)

text \<open>In a validated intent a topology that has modules is connected and acyclic: the module ids are
  distinct, every module is on a path from the input to the output, and no path of modules returns to
  where it started.\<close>

theorem validated_topology_connected:
  assumes "validate_intent raw = Inr (it, criteria)" "topology_ids (it_topology it) \<noteq> []"
  shows "distinct (topology_ids (it_topology it)) \<and>
    well_connected (topology_ids (it_topology it)) (topology_arrows (it_topology it))"
proof -
  from validate_intent_Inr [OF assms(1)] obtain specs where "check_roles specs = Inr (it, criteria)" .
  then have "normalize_program_topology (PDict (it_topology specs)) = Inr (it_topology it)"
    using check_roles_Inr by blast
  from normalize_topology_Inr [OF this] assms(2) graph_contract_iff [OF assms(2)] show ?thesis
    by (auto simp: topology_ids_def)
qed

theorem validated_topology_connected_witness:
  "well_connected [''answerer''] [(''input'', ''answerer''), (''answerer'', ''output'')]"
  using validated_topology_connected [OF answer_intent_valid]
  by (simp add: answer_intent_def answer_topology_def topology_ids_def topology_arrows_def edge_ends_def)

end
