(* ===== verification/Topology_Inference.thy ===== *)
theory Topology_Inference
  imports Intent_Validation
begin

text \<open>
  Which pipeline topology a program intent has (\<open>services/program_topology.py\<close>): the declared one, one
  adapted from a named kind, or one inferred from the words of the objective.
\<close>

section \<open>Declared topologies\<close>

definition materializable_kinds :: "string list" where
  "materializable_kinds =
     [''pipeline'', ''retrieve_then_answer'', ''router'', ''extract_transform_validate'',
      ''generate_critique_revise'']"

definition declared_pipeline_topology :: "intent \<Rightarrow> (string \<times> pv) list" where
  "declared_pipeline_topology it =
     (if dget ''kind'' (it_topology it) = PStr ''pipeline'' then it_topology it else [])"

definition declared_retrieve_then_answer_topology :: "intent \<Rightarrow> (string \<times> pv) list" where
  "declared_retrieve_then_answer_topology it =
     (if dget ''kind'' (it_topology it) = PStr ''retrieve_then_answer'' then it_topology it else [])"

definition declared_named_topology :: "intent \<Rightarrow> (string \<times> pv) list" where
  "declared_named_topology it =
     (let kind = name_of (dget ''kind'' (it_topology it)) in
      if kind \<in> set materializable_kinds \<and> kind \<notin> {''pipeline'', ''retrieve_then_answer''}
      then it_topology it else [])"

text \<open>\<open>a or b\<close> for dictionaries.\<close>

definition or_else :: "(string \<times> pv) list \<Rightarrow> (string \<times> pv) list \<Rightarrow> (string \<times> pv) list" where
  "or_else a b = (if a = [] then b else a)"

definition declared_materializable_topology :: "intent \<Rightarrow> (string \<times> pv) list" where
  "declared_materializable_topology it =
     or_else (or_else (declared_pipeline_topology it) (declared_retrieve_then_answer_topology it))
       (declared_named_topology it)"

section \<open>The words of the objective\<close>

definition reasoning_cues :: "string list" where
  "reasoning_cues =
     [''adjudicate'', ''analyse'', ''analyze'', ''assess'', ''compare'', ''critique'', ''derive'',
      ''diagnose'', ''evaluate'', ''explain'', ''infer'', ''judge'', ''multi-step'', ''plan'',
      ''rationale'', ''reason'', ''review'', ''strategy'', ''synthesize'']"

definition routing_cues :: "string list" where
  "routing_cues = [''classify'', ''dispatch'', ''route'', ''triage'']"

definition generation_cues :: "string list" where
  "generation_cues = [''answer'', ''draft'', ''recommend'', ''respond'', ''response'']"

definition extract_cues :: "string list" where
  "extract_cues = [''extract'', ''parse'', ''summarize'', ''summarise'']"

definition validate_cues :: "string list" where
  "validate_cues = [''check'', ''validate'', ''verify'']"

text \<open>\<open>re.findall(r"[a-z][a-z0-9_\-]*", text)\<close>; the first argument is the word being read.\<close>

fun find_words :: "string \<Rightarrow> string \<Rightarrow> string list" where
  "find_words w [] = (if w = [] then [] else [w])"
| "find_words w (c # s) =
     (if is_lower c \<or> w \<noteq> [] \<and> (is_digit c \<or> c = CHR ''_'' \<or> c = CHR ''-'') then find_words (w @ [c]) s
      else if w = [] then find_words [] s else w # find_words [] s)"

definition objective_tokens :: "intent \<Rightarrow> string list" where
  "objective_tokens it =
     (let content = lower (join '' '' [it_objective it, it_task_type it, join '' '' (it_constraints it)]);
          found = find_words [] content;
          found = found @ (if {''step'', ''by''} \<subseteq> set found then [''step-by-step''] else [])
      in found @ (if {''multi'', ''step''} \<subseteq> set found then [''multi-step''] else []))"

definition has_cue :: "string list \<Rightarrow> string list \<Rightarrow> bool" where
  "has_cue tokens cues = list_ex (\<lambda>t. t \<in> set cues) tokens"

definition module_inference_enabled :: "intent \<Rightarrow> bool" where
  "module_inference_enabled it =
     (let options = it_options it;
          raw = dget_or ''module_inference'' (dget_or ''prompt_module_inference'' (PBool True) options) options in
      if ''module_inference'' \<notin> set (dict_keys options) \<and>
         ''prompt_module_inference'' \<notin> set (dict_keys options) \<and>
         truthy (dget ''focused_json_bundle_runtime'' options) then False
      else case raw of PBool b \<Rightarrow> b
        | _ \<Rightarrow> lower (strip (py_str raw)) \<notin> {''0'', ''false'', ''no'', ''off'', ''none''})"

section \<open>Inferred topologies\<close>

text \<open>The parts between runs of characters that are no ASCII letter or digit.\<close>

fun alnum_parts :: "string \<Rightarrow> string \<Rightarrow> string list" where
  "alnum_parts w [] = (if w = [] then [] else [w])"
| "alnum_parts w (c # s) =
     (if is_letter c \<or> is_digit c then alnum_parts (w @ [c]) s
      else if w = [] then alnum_parts [] s else w # alnum_parts [] s)"

definition upper_char :: "char \<Rightarrow> char" where
  "upper_char c = (if is_lower c then char_of ((of_char c :: nat) - 32) else c)"

definition capitalized :: "string \<Rightarrow> string" where
  "capitalized part = (case part of [] \<Rightarrow> [] | c # s \<Rightarrow> upper_char c # s)"

definition pascal_name :: "string \<Rightarrow> string \<Rightarrow> string" where
  "pascal_name value fallback =
     (let parts = alnum_parts [] value in
      if parts = [] then fallback else sanitize_ident (concat (map capitalized parts)) fallback)"

definition signature_value :: "string \<Rightarrow> string list \<Rightarrow> string list \<Rightarrow> pv" where
  "signature_value name inputs outputs = PDict
     [(''name'', PStr name), (''inputs'', names_value inputs), (''outputs'', names_value outputs)]"

definition with_intermediate :: "string list \<Rightarrow> string \<Rightarrow> string list" where
  "with_intermediate inputs name = inputs @ (if name \<in> set inputs then [] else [name])"

definition inferred_module :: "string \<Rightarrow> string \<Rightarrow> pv \<Rightarrow> string \<Rightarrow> pv" where
  "inferred_module module_id primitive signature role = PDict
     [(''id'', PStr module_id), (''primitive'', PStr primitive), (''signature'', signature),
      (''role'', PStr role)]"

definition edge_value :: "string \<Rightarrow> string \<Rightarrow> pv" where
  "edge_value source target = PDict [(''from'', PStr source), (''to'', PStr target)]"

definition inference_notes :: "string \<Rightarrow> string list" where
  "inference_notes reason =
     [''No explicit topology was declared; program-gen inferred a bounded generated module topology from the objective/task wording.'',
      reason,
      ''Inference is deterministic, local, and limited to generated Predict/ChainOfThought modules; no custom Python imports, tools, external retrievers, ReAct, ranking, promotion, or external authority mutation are performed.'']"

definition inferred_topology :: "string \<Rightarrow> pv list \<Rightarrow> pv list \<Rightarrow> string \<Rightarrow> (string \<times> pv) list" where
  "inferred_topology reason modules edges note =
     [(''kind'', PStr ''pipeline''), (''execution_status'', PStr ''prompt_inferred_not_materialized''),
      (''origin'', PStr ''prompt_inferred''), (''inference_reason'', PStr reason),
      (''modules'', PList modules), (''edges'', PList edges), (''notes'', names_value (inference_notes note))]"

text \<open>Two stages: a Predict module with one intermediate output feeds the module of the outputs.\<close>

definition two_stages ::
    "string \<Rightarrow> string \<Rightarrow> string \<Rightarrow> string \<Rightarrow> string \<Rightarrow> string \<Rightarrow> string \<Rightarrow> string \<Rightarrow> string \<Rightarrow>
     string list \<Rightarrow> string list \<Rightarrow> (string \<times> pv) list" where
  "two_stages first_id first_name intermediate first_role final_id fallback final_role reason note
     inputs outputs =
     inferred_topology reason
       [inferred_module first_id ''Predict'' (signature_value first_name inputs [intermediate]) first_role,
        inferred_module final_id ''ChainOfThought''
          (signature_value (pascal_name final_id fallback) (with_intermediate inputs intermediate) outputs)
          final_role]
       [edge_value ''input'' first_id, edge_value first_id final_id, edge_value final_id ''output''] note"

definition or_default :: "string list \<Rightarrow> string \<Rightarrow> string list" where
  "or_default names dflt = (if names = [] then [dflt] else names)"

definition prompt_inferred_pipeline_topology :: "intent \<Rightarrow> (string \<times> pv) list" where
  "prompt_inferred_pipeline_topology it =
     (if it_topology it \<noteq> [] \<or> \<not> module_inference_enabled it then [] else
      let tokens = objective_tokens it; inputs = or_default (it_inputs it) ''context'';
          outputs = or_default (it_outputs it) ''output''; first_output = hd outputs in
      if has_cue tokens routing_cues \<and> has_cue tokens generation_cues then
        two_stages ''classify_route'' ''ClassifyRoute'' ''route''
          ''Classify the input into the most useful route before generating the final output.''
          (''produce_'' @ first_output) ''ProduceOutput''
          ''Use the route and original inputs to produce the requested output with reasoning.''
          ''routing/generation cues favor a generated classifier plus reasoned output module over a single Predict scaffold.''
          ''Detected routing plus generation cues in the prompt.'' inputs outputs
      else if has_cue tokens extract_cues \<and> has_cue tokens validate_cues then
        two_stages ''extract_evidence'' ''ExtractEvidence'' ''evidence''
          ''Extract the evidence needed by the final generated program output.''
          (''validate_'' @ first_output) ''ValidateOutput''
          ''Validate extracted evidence and produce the requested output.''
          ''extract/validate cues favor an extraction module plus a reasoned validation/output module over a single Predict scaffold.''
          ''Detected extraction plus validation cues in the prompt.'' inputs outputs
      else if has_cue tokens reasoning_cues then
        (let module_id = ''reason_'' @ first_output in
         inferred_topology
           ''reasoning/review cues favor a generated ChainOfThought module over a single Predict scaffold.''
           [inferred_module module_id ''ChainOfThought''
             (signature_value (pascal_name module_id ''ReasonedOutput'') inputs outputs)
             ''Reason over the supplied inputs before producing the requested output.'']
           [edge_value ''input'' module_id, edge_value module_id ''output'']
           ''Detected reasoning/review cues in the prompt.'')
      else [])"

section \<open>The effective topology\<close>

definition materialized_status_for_kind :: "string \<Rightarrow> string" where
  "materialized_status_for_kind kind =
     (if kind = ''pipeline'' then ''pipeline_materialized''
      else if kind = ''retrieve_then_answer'' then ''retrieve_then_answer_materialized''
      else kind @ ''_materialized'')"

definition renderer_for_kind :: "string \<Rightarrow> string" where
  "renderer_for_kind kind =
     (if kind = ''pipeline'' then ''pipeline_topology_renderer''
      else if kind = ''retrieve_then_answer'' then ''retrieve_then_answer_topology_renderer''
      else kind @ ''_topology_renderer'')"

definition dict_items :: "pv \<Rightarrow> (string \<times> pv) list list" where
  "dict_items v = map dict_of (filter is_mapping (list_of v))"

definition adapt_retrieve_then_answer_topology :: "intent \<Rightarrow> (string \<times> pv) list checked" where
  "adapt_retrieve_then_answer_topology it =
     (let topology = declared_retrieve_then_answer_topology it;
          retrieves = map (\<lambda>m. name_of (dget ''primitive'' m) = ''Retriever'')
            (dict_items (dget ''modules'' topology)) in
     if topology = [] then Inr [] else
     guardE (True \<notin> set retrieves)
       (Topology_error ''retrieve_then_answer topology materialization requires at least one bounded inline Retriever module'')
    (guardE (False \<notin> set retrieves)
       (Topology_error ''retrieve_then_answer topology materialization requires an answer module after retrieval'')
    (Inr (dict_merge topology
       [(''execution_status'', PStr ''retrieve_then_answer_materialized''),
        (''materialized_from_kind'', PStr ''retrieve_then_answer''),
        (''renderer'', PStr ''retrieve_then_answer_topology_renderer'')]))))"

definition adapt_named_topology :: "intent \<Rightarrow> (string \<times> pv) list" where
  "adapt_named_topology it =
     (let topology = declared_named_topology it; kind = name_of (dget ''kind'' topology) in
     if topology = [] then [] else
     dict_merge topology
       [(''execution_status'', PStr (materialized_status_for_kind kind)),
        (''materialized_from_kind'', PStr kind), (''renderer'', PStr (renderer_for_kind kind))])"

definition effective_pipeline_topology :: "intent \<Rightarrow> (string \<times> pv) list checked" where
  "effective_pipeline_topology it =
     (if declared_pipeline_topology it \<noteq> [] then Inr (declared_pipeline_topology it) else
      bindE (adapt_retrieve_then_answer_topology it) (\<lambda>adapted.
      Inr (or_else adapted (or_else (adapt_named_topology it) (prompt_inferred_pipeline_topology it)))))"

definition pipeline_topology_origin :: "intent \<Rightarrow> string option" where
  "pipeline_topology_origin it =
     (if declared_pipeline_topology it \<noteq> [] then Some ''declared''
      else if declared_retrieve_then_answer_topology it \<noteq> [] then Some ''declared_retrieve_then_answer''
      else if declared_named_topology it \<noteq> [] then
        Some (''declared_'' @ py_str (py_or (dget ''kind'' (declared_named_topology it)) (PStr ''named'')))
      else if prompt_inferred_pipeline_topology it \<noteq> [] then Some ''prompt_inferred''
      else None)"

definition has_materializable_pipeline_topology :: "intent \<Rightarrow> bool checked" where
  "has_materializable_pipeline_topology it =
     bindE (effective_pipeline_topology it) (\<lambda>t. Inr (t \<noteq> []))"

end
