(* ===== verification/Graph_Order.thy ===== *)
theory Graph_Order
  imports Graph_Search "HOL-Library.Multiset"
begin

text \<open>
  The ready-queue loops of \<open>services/program_topology.py\<close>: the check that a module graph is acyclic
  takes the ready modules first in, first out, the scheduler takes the one declared first.  Both
  remove a ready module, lower the in-degree of its targets and queue those that reach zero; the
  locale \<open>ready_queue\<close> holds what they share, for any rule that picks from the queue and any order
  of the targets.
\<close>

section \<open>In-degrees\<close>

type_synonym degrees = "(string \<times> int) list"

definition degree :: "string \<Rightarrow> degrees \<Rightarrow> int" where
  "degree v deg = (case map_of deg v of None \<Rightarrow> 0 | Some d \<Rightarrow> d)"

text \<open>\<open>indegree[target] -= 1\<close> for each target, and the ready list it extends.\<close>

fun relax :: "string list \<Rightarrow> degrees \<Rightarrow> string list \<Rightarrow> degrees \<times> string list" where
  "relax [] deg ready = (deg, ready)"
| "relax (t # ts) deg ready =
     relax ts (dict_set t (degree t deg - 1) deg) (if degree t deg = 1 then ready @ [t] else ready)"

lemma degree_dict_set [simp]: "degree w (dict_set v d deg) = (if w = v then d else degree w deg)"
  by (simp add: degree_def)

definition positives :: "degrees \<Rightarrow> nat" where
  "positives deg = length (filter (\<lambda>p. 0 < snd p) deg)"

lemma positives_set:
  "positives (dict_set v (degree v deg - 1) deg) + (if degree v deg = 1 then 1 else 0) \<le> positives deg"
proof (induction deg)
  case (Cons p deg)
  then show ?case
    by (cases p) (auto simp: positives_def degree_def)
qed (simp add: positives_def degree_def)

lemma relax_measure:
  "relax ts deg ready = (deg', ready') \<Longrightarrow> positives deg' + length ready' \<le> positives deg + length ready"
proof (induction ts arbitrary: deg ready)
  case (Cons t ts)
  then show ?case
    using positives_set [of t deg] by (fastforce split: if_splits)
qed simp

lemma relax_result:
  assumes "distinct ts" "relax ts deg ready = (deg', ready')"
  shows "degree w deg' = degree w deg - (if w \<in> set ts then 1 else 0) \<and>
    ready' = ready @ filter (\<lambda>t. degree t deg = 1) ts"
  using assms
proof (induction ts arbitrary: deg ready)
  case (Cons t ts)
  let ?deg = "dict_set t (degree t deg - 1) deg"
  have "filter (\<lambda>s. degree s ?deg = 1) ts = filter (\<lambda>s. degree s deg = 1) ts"
    using Cons.prems(1) by (auto intro: filter_cong)
  moreover have "relax ts ?deg (if degree t deg = 1 then ready @ [t] else ready) = (deg', ready')"
    using Cons.prems(2) by simp
  ultimately show ?case using Cons.IH Cons.prems(1) by fastforce
qed simp

section \<open>The invariant of a ready-queue loop\<close>

definition before :: "graph \<Rightarrow> string list \<Rightarrow> string \<Rightarrow> string list \<Rightarrow> nat" where
  "before g nodes w out = card {u \<in> set nodes. w \<in> set (succs g u) \<and> u \<notin> set out}"

definition in_order :: "graph \<Rightarrow> string list \<Rightarrow> string list \<Rightarrow> bool" where
  "in_order g nodes out \<longleftrightarrow>
     (\<forall>i < length out. \<forall>u \<in> set nodes. out ! i \<in> set (succs g u) \<longrightarrow> u \<in> set (take i out))"

definition graph_on :: "graph \<Rightarrow> string list \<Rightarrow> bool" where
  "graph_on g nodes \<longleftrightarrow> distinct nodes \<and>
     (\<forall>u. distinct (succs g u) \<and> set (succs g u) \<subseteq> set nodes \<and> (succs g u \<noteq> [] \<longrightarrow> u \<in> set nodes))"

definition queue_inv :: "graph \<Rightarrow> string list \<Rightarrow> string list \<Rightarrow> degrees \<Rightarrow> string list \<Rightarrow> bool" where
  "queue_inv g nodes ready deg out \<longleftrightarrow>
     distinct (out @ ready) \<and> set (out @ ready) \<subseteq> set nodes \<and> in_order g nodes out \<and>
     (\<forall>w \<in> set nodes. degree w deg = int (before g nodes w out) \<and>
        (w \<in> set (out @ ready) \<longleftrightarrow> degree w deg = 0))"

lemma before_zero: "before g nodes w out = 0 \<longleftrightarrow> (\<forall>u \<in> set nodes. w \<in> set (succs g u) \<longrightarrow> u \<in> set out)"
proof -
  let ?U = "{u \<in> set nodes. w \<in> set (succs g u) \<and> u \<notin> set out}"
  have "before g nodes w out = 0 \<longleftrightarrow> ?U = {}" by (simp add: before_def)
  then show ?thesis by blast
qed

lemma before_snoc:
  assumes "v \<in> set nodes" "v \<notin> set out"
  shows "int (before g nodes w (out @ [v])) = int (before g nodes w out) - (if w \<in> set (succs g v) then 1 else 0)"
proof -
  let ?U = "{u \<in> set nodes. w \<in> set (succs g u) \<and> u \<notin> set out}"
  have diff: "{u \<in> set nodes. w \<in> set (succs g u) \<and> u \<notin> set (out @ [v])} = ?U - {v}" by auto
  have fin: "finite ?U" by simp
  show ?thesis
  proof (cases "w \<in> set (succs g v)")
    case True
    with assms have v: "v \<in> ?U" by simp
    have "Suc (card (?U - {v})) = card ?U" by (rule card_Suc_Diff1 [OF fin v])
    then show ?thesis unfolding before_def diff using True by simp
  next
    case False
    then have "?U - {v} = ?U" by auto
    then show ?thesis unfolding before_def diff using False by simp
  qed
qed

locale ready_queue =
  fixes pick :: "string list \<Rightarrow> string list" and order :: "string list \<Rightarrow> string list"
  assumes pick: "mset (pick xs) = mset xs" and order: "mset (order xs) = mset xs"
begin

lemma queue_step:
  assumes "graph_on g nodes" "queue_inv g nodes ready deg out" "pick ready = v # rest"
    and "relax (order (succs g v)) deg rest = (deg', ready')"
  shows "queue_inv g nodes ready' deg' (out @ [v])"
proof -
  let ?ts = "order (succs g v)"
  have ts: "set ?ts = set (succs g v)" "distinct ?ts"
    using mset_eq_setD [OF order [of "succs g v"]] mset_eq_imp_distinct_iff [OF order [of "succs g v"]]
      assms(1) by (simp_all add: graph_on_def)
  have ready: "mset ready = mset (v # rest)" using pick [of ready] assms(3) by simp
  then have set_ready: "set ready = insert v (set rest)" using mset_eq_setD [OF ready] by simp
  have inv: "distinct (out @ ready)" "set (out @ ready) \<subseteq> set nodes" "in_order g nodes out"
    and deg: "\<And>w. w \<in> set nodes \<Longrightarrow> degree w deg = int (before g nodes w out)"
    and zero: "\<And>w. w \<in> set nodes \<Longrightarrow> w \<in> set (out @ ready) \<longleftrightarrow> degree w deg = 0"
    using assms(2) by (auto simp: queue_inv_def)
  have dist: "distinct (out @ v # rest)"
    using inv(1) ready mset_eq_imp_distinct_iff [of "out @ ready" "out @ v # rest"] by simp
  then have v: "v \<in> set nodes" "v \<notin> set out" using inv(2) set_ready by auto
  have pos: "0 < degree t deg" if "t \<in> set (succs g v)" for t
  proof -
    have "t \<in> set nodes" using assms(1) that by (auto simp: graph_on_def)
    moreover have "before g nodes t out \<noteq> 0" using that v by (auto simp: before_zero)
    ultimately show ?thesis using deg by simp
  qed
  have result: "ready' = rest @ filter (\<lambda>t. degree t deg = 1) ?ts"
    "\<And>w. degree w deg' = degree w deg - (if w \<in> set (succs g v) then 1 else 0)"
    using relax_result [OF ts(2) assms(4)] ts(1) by auto
  have fresh: "t \<notin> set (out @ v # rest)" if "t \<in> set (succs g v)" for t
  proof -
    have "t \<in> set nodes" using assms(1) that by (auto simp: graph_on_def)
    with pos [OF that] zero set_ready show ?thesis by fastforce
  qed
  have "degree v deg = 0" using zero [of v] v set_ready by simp
  then have "before g nodes v out = 0" using deg [of v] v by simp
  then have preds: "\<forall>u \<in> set nodes. v \<in> set (succs g u) \<longrightarrow> u \<in> set out" by (simp add: before_zero)
  have ordered: "in_order g nodes (out @ [v])"
    unfolding in_order_def
  proof (intro allI impI ballI)
    fix i u
    assume i: "i < length (out @ [v])" and u: "u \<in> set nodes" "(out @ [v]) ! i \<in> set (succs g u)"
    show "u \<in> set (take i (out @ [v]))"
    proof (cases "i = length out")
      case True
      with u preds show ?thesis by simp
    next
      case False
      with i u inv(3) show ?thesis by (simp add: in_order_def nth_append)
    qed
  qed
  show ?thesis
    unfolding queue_inv_def
  proof (intro conjI ballI)
    show "distinct ((out @ [v]) @ ready')"
      using dist fresh ts by (auto simp: result)
    show "set ((out @ [v]) @ ready') \<subseteq> set nodes"
      using inv(2) set_ready assms(1) ts by (auto simp: result graph_on_def)
    fix w assume w: "w \<in> set nodes"
    show "degree w deg' = int (before g nodes w (out @ [v]))"
      using deg [OF w] before_snoc [OF v] by (simp add: result)
    show "w \<in> set ((out @ [v]) @ ready') \<longleftrightarrow> degree w deg' = 0"
      using zero [OF w] fresh [of w] set_ready ts by (auto simp: result)
  qed (rule ordered)
qed

end

text \<open>What an exhausted queue means: the order is topological, and it is complete exactly when the
  graph has no cycle.\<close>

lemma queue_inv_start:
  assumes "\<And>w. w \<in> set nodes \<Longrightarrow> degree w deg = int (before g nodes w [])" "distinct nodes"
  shows "queue_inv g nodes (filter (\<lambda>v. degree v deg = 0) nodes) deg []"
  using assms by (auto simp: queue_inv_def in_order_def)

lemma acyclic_sources:
  assumes "acyclic r" "finite R" "R \<noteq> {}"
  shows "\<exists>w \<in> R. \<forall>u \<in> R. (u, w) \<notin> r"
proof -
  have "acyclic (r \<inter> R \<times> R)" using assms(1) by (rule acyclic_subset) simp
  moreover have "finite (r \<inter> R \<times> R)" using assms(2) by simp
  ultimately have "wf (r \<inter> R \<times> R)" by (intro finite_acyclic_wf)
  from wfE_min' [OF this assms(3)] obtain w where "w \<in> R" "\<And>u. (u, w) \<in> r \<inter> R \<times> R \<Longrightarrow> u \<notin> R" by blast
  then show ?thesis by blast
qed

lemma in_order_acyclic:
  assumes "in_order g nodes out" "set out = set nodes" "graph_on g nodes"
  shows "acyclic (arcs g)"
proof -
  let ?pos = "\<lambda>v. LEAST i. i < length out \<and> out ! i = v"
  have pos: "?pos v < length out \<and> out ! ?pos v = v" if "v \<in> set nodes" for v
    by (rule LeastI_ex) (use that assms(2) in \<open>metis in_set_conv_nth\<close>)
  have less: "?pos u < ?pos w" if "(u, w) \<in> arcs g" for u w
  proof -
    have w: "w \<in> set nodes" using that assms(3) by (auto simp: graph_on_def)
    have "succs g u \<noteq> []" using that by auto
    then have u: "u \<in> set nodes" using assms(3) by (simp add: graph_on_def)
    from pos [OF w] assms(1) u that have "u \<in> set (take (?pos w) out)" unfolding in_order_def by auto
    then obtain i where "i < ?pos w" "i < length out" "out ! i = u"
      by (auto simp: in_set_conv_nth)
    moreover from this have "?pos u \<le> i" by (intro Least_le) simp
    ultimately show ?thesis by simp
  qed
  then have "arcs g \<subseteq> measure ?pos" by auto
  then show ?thesis by (rule acyclic_subset [OF wf_acyclic [OF wf_measure]])
qed

lemma exhausted_complete:
  assumes "queue_inv g nodes [] deg out" "graph_on g nodes" "acyclic (arcs g)"
  shows "set out = set nodes"
proof (rule ccontr)
  assume "set out \<noteq> set nodes"
  then have "set nodes - set out \<noteq> {}" using assms(1) by (auto simp: queue_inv_def)
  from acyclic_sources [OF assms(3) _ this] obtain w
    where w: "w \<in> set nodes - set out" "\<forall>u \<in> set nodes - set out. (u, w) \<notin> arcs g" by blast
  then have "before g nodes w out = 0" by (auto simp: before_zero)
  with assms(1) w show False by (auto simp: queue_inv_def)
qed

section \<open>The two loops\<close>

text \<open>The check: \<open>ready.pop(0)\<close>, targets in sorted order.\<close>

function fifo_loop :: "graph \<Rightarrow> string list \<Rightarrow> degrees \<Rightarrow> string list \<Rightarrow> string list \<times> degrees" where
  "fifo_loop g [] deg out = (out, deg)"
| "fifo_loop g (v # rest) deg out =
     fifo_loop g (snd (relax (sort (succs g v)) deg rest)) (fst (relax (sort (succs g v)) deg rest))
       (out @ [v])"
  by pat_completeness auto

termination
proof (relation "measure (\<lambda>(g, ready, deg, out). positives deg + length ready)")
  fix g v rest deg out
  show "((g, snd (relax (sort (succs g v)) deg rest), fst (relax (sort (succs g v)) deg rest), out @ [v]),
      g, v # rest, deg, out) \<in> measure (\<lambda>(g, ready, deg, out). positives deg + length ready)"
    using relax_measure [OF prod.collapse [symmetric], of "sort (succs g v)" deg rest] by simp
qed simp

text \<open>The scheduler: \<open>ready.sort(key=index)\<close>, then \<open>ready.pop(0)\<close>, targets by the same key.\<close>

function ranked_loop ::
    "(string \<Rightarrow> nat) \<Rightarrow> graph \<Rightarrow> string list \<Rightarrow> degrees \<Rightarrow> string list \<Rightarrow> string list" where
  "ranked_loop rank g ready deg out =
     (case sort_key rank ready of
        [] \<Rightarrow> out
      | v # rest \<Rightarrow>
          ranked_loop rank g (snd (relax (sort_key rank (succs g v)) deg rest))
            (fst (relax (sort_key rank (succs g v)) deg rest)) (out @ [v]))"
  by pat_completeness auto

termination
proof (relation "measure (\<lambda>(rank, g, ready, deg, out). positives deg + length ready)")
  fix rank :: "string \<Rightarrow> nat" and g ready deg out v rest
  assume "sort_key rank ready = v # rest"
  then have "length ready = Suc (length rest)" by (metis length_Cons length_sort)
  then show "((rank, g, snd (relax (sort_key rank (succs g v)) deg rest),
      fst (relax (sort_key rank (succs g v)) deg rest), out @ [v]), rank, g, ready, deg, out)
      \<in> measure (\<lambda>(rank, g, ready, deg, out). positives deg + length ready)"
    using relax_measure [OF prod.collapse [symmetric], of "sort_key rank (succs g v)" deg rest] by simp
qed simp

declare ranked_loop.simps [simp del]

interpretation fifo: ready_queue "\<lambda>xs. xs" sort
  by unfold_locales simp_all

interpretation ranked: ready_queue "sort_key rank" "sort_key rank" for rank :: "string \<Rightarrow> nat"
  by unfold_locales simp_all

lemma fifo_inv:
  "graph_on g nodes \<Longrightarrow> queue_inv g nodes ready deg out \<Longrightarrow> fifo_loop g ready deg out = (out', deg') \<Longrightarrow>
     queue_inv g nodes [] deg' out'"
proof (induction g ready deg out rule: fifo_loop.induct)
  case (2 g v rest deg out)
  from fifo.queue_step [OF 2(2,3) refl prod.collapse [symmetric]] 2 show ?case by simp
qed simp

lemma ranked_inv:
  "graph_on g nodes \<Longrightarrow> queue_inv g nodes ready deg out \<Longrightarrow>
     \<exists>deg'. queue_inv g nodes [] deg' (ranked_loop rank g ready deg out)"
proof (induction rank g ready deg out rule: ranked_loop.induct)
  case (1 rank g ready deg out)
  show ?case
  proof (cases "sort_key rank ready")
    case Nil
    then have "ready = []" by (metis length_0_conv length_sort)
    with 1(3) show ?thesis by (auto simp: ranked_loop.simps)
  next
    case (Cons v rest)
    from ranked.queue_step [OF 1(2,3) Cons prod.collapse [symmetric]] 1(1) [OF Cons 1(2)] Cons
    show ?thesis by (simp add: ranked_loop.simps [of rank g ready])
  qed
qed

section \<open>Building the graph\<close>

text \<open>The loop over the edges: a repeated edge is added, and counted, once.\<close>

definition count_edge :: "string list \<Rightarrow> string \<times> string \<Rightarrow> graph \<times> degrees \<Rightarrow> graph \<times> degrees" where
  "count_edge module_ids = (\<lambda>(source, target) (g, deg).
     if source \<in> set module_ids \<and> target \<in> set module_ids \<and> target \<notin> set (succs g source)
     then (add_arc source target g, dict_set target (degree target deg + 1) deg) else (g, deg))"

definition module_degrees :: "string list \<Rightarrow> (string \<times> string) list \<Rightarrow> graph \<times> degrees" where
  "module_degrees module_ids edges =
     fold (count_edge module_ids) edges (empty_graph module_ids, map (\<lambda>v. (v, 0)) module_ids)"

definition counted :: "string list \<Rightarrow> graph \<times> degrees \<Rightarrow> bool" where
  "counted nodes = (\<lambda>(g, deg). graph_on g nodes \<and>
     (\<forall>w. degree w deg = int (before g nodes w [])))"

lemma count_edge_counted:
  assumes "counted nodes (g, deg)"
  shows "counted nodes (count_edge nodes (source, target) (g, deg))"
proof (cases "source \<in> set nodes \<and> target \<in> set nodes \<and> target \<notin> set (succs g source)")
  case True
  let ?g = "add_arc source target g"
  let ?U = "\<lambda>w. {u \<in> set nodes. w \<in> set (succs g u)}"
  have "{u \<in> set nodes. w \<in> set (succs ?g u)} = (if w = target then insert source (?U w) else ?U w)" for w
    using True by auto
  moreover have "source \<notin> ?U target" "finite (?U w)" for w using True by auto
  ultimately have before: "before ?g nodes w [] = before g nodes w [] + (if w = target then 1 else 0)" for w
    by (simp add: before_def)
  have "graph_on ?g nodes"
    using assms True by (auto simp: counted_def graph_on_def succs_add_arc split: if_splits)
  with assms before True show ?thesis by (simp add: counted_def count_edge_def)
next
  case False
  with assms show ?thesis by (auto simp: count_edge_def)
qed

lemma degrees_zero: "degree w (map (\<lambda>v. (v, 0)) nodes) = 0"
  by (induction nodes) (simp_all add: degree_def)

lemma module_degrees_counted:
  assumes "distinct nodes"
  shows "counted nodes (module_degrees nodes edges)"
proof -
  have "counted nodes (fold (count_edge nodes) edges s)" if "counted nodes s" for s
    using that
  proof (induction edges arbitrary: s)
    case (Cons e edges)
    then show ?case using count_edge_counted by (cases e; cases s) simp
  qed simp
  moreover have "counted nodes (empty_graph nodes, map (\<lambda>v. (v, 0)) nodes)"
    using assms by (simp add: counted_def graph_on_def before_def degrees_zero)
  ultimately show ?thesis by (simp add: module_degrees_def)
qed

lemma arcs_module_degrees:
  "arcs (fst (module_degrees nodes edges)) = set edges \<inter> (set nodes \<times> set nodes)"
proof -
  have "arcs (fst (fold (count_edge nodes) edges s)) = arcs (fst s) \<union> set edges \<inter> (set nodes \<times> set nodes)" for s
  proof (induction edges arbitrary: s)
    case (Cons e edges)
    obtain a b where e: "e = (a, b)" by fastforce
    obtain g deg where s: "s = (g, deg)" by fastforce
    have "arcs (fst (count_edge nodes e s)) = arcs g \<union> {e} \<inter> (set nodes \<times> set nodes)"
      unfolding e s count_edge_def by (auto simp: arcs_def split: if_splits)
    then show ?case using Cons.IH [of "count_edge nodes e s"] s by auto
  qed simp
  then show ?thesis by (simp add: module_degrees_def)
qed

lemma counted_start:
  assumes "counted nodes (g, deg)"
  shows "queue_inv g nodes (filter (\<lambda>v. degree v deg = 0) nodes) deg []"
  using assms by (intro queue_inv_start) (simp_all add: counted_def graph_on_def)

text \<open>What both loops give on the graph of a topology.\<close>

lemma fifo_complete_iff:
  assumes "distinct nodes" "module_degrees nodes edges = (g, deg)"
    and "fifo_loop g (filter (\<lambda>v. degree v deg = 0) nodes) deg [] = (out, deg')"
  shows "length out = length nodes \<longleftrightarrow> acyclic (set edges \<inter> (set nodes \<times> set nodes))"
proof -
  have counted: "counted nodes (g, deg)" using module_degrees_counted [OF assms(1), of edges] assms(2) by simp
  then have on: "graph_on g nodes" by (simp add: counted_def)
  from fifo_inv [OF this counted_start [OF counted] assms(3)] have inv: "queue_inv g nodes [] deg' out" .
  have arcs: "arcs g = set edges \<inter> (set nodes \<times> set nodes)"
    using arcs_module_degrees [of nodes edges] assms(2) by simp
  have out: "distinct out" "set out \<subseteq> set nodes" "in_order g nodes out" using inv by (simp_all add: queue_inv_def)
  have "length out = length nodes \<longleftrightarrow> set out = set nodes"
    using out(1,2) assms(1) by (metis card_subset_eq distinct_card finite_set)
  also have "\<dots> \<longleftrightarrow> acyclic (arcs g)"
    using exhausted_complete [OF inv on] in_order_acyclic [OF out(3) _ on] by blast
  finally show ?thesis by (simp only: arcs)
qed

lemma ranked_topological:
  assumes "distinct nodes" "module_degrees nodes edges = (g, deg)"
    and "out = ranked_loop rank g (filter (\<lambda>v. degree v deg = 0) nodes) deg []"
    and "acyclic (set edges \<inter> (set nodes \<times> set nodes))"
  shows "distinct out \<and> set out = set nodes \<and> in_order g nodes out"
proof -
  have counted: "counted nodes (g, deg)" using module_degrees_counted [OF assms(1), of edges] assms(2) by simp
  then have on: "graph_on g nodes" by (simp add: counted_def)
  from ranked_inv [OF this counted_start [OF counted], of rank] obtain deg'
    where inv: "queue_inv g nodes [] deg' out" using assms(3) by blast
  have "arcs g = set edges \<inter> (set nodes \<times> set nodes)"
    using arcs_module_degrees [of nodes edges] assms(2) by simp
  with exhausted_complete [OF inv on] inv assms(4) show ?thesis by (simp add: queue_inv_def)
qed

end
