(* ===== verification/Topology_Contract.thy ===== *)
theory Topology_Contract
  imports Topology_Inference Graph_Order
begin

text \<open>
  What a pipeline topology must satisfy before code is generated from it
  (\<open>services/program_topology.py\<close>): the module and signature checks, the graph contract, and the
  contracts of the named kinds.
\<close>

section \<open>Reading modules and edges\<close>

definition module_id_of :: "(string \<times> pv) list \<Rightarrow> string" where
  "module_id_of m = name_of (dget ''id'' m)"

definition module_signature :: "(string \<times> pv) list \<Rightarrow> (string \<times> pv) list" where
  "module_signature m = dict_of (dget ''signature'' m)"

definition signature_inputs :: "(string \<times> pv) list \<Rightarrow> string list" where
  "signature_inputs m = map py_str (list_of (dget ''inputs'' (module_signature m)))"

definition signature_outputs :: "(string \<times> pv) list \<Rightarrow> string list" where
  "signature_outputs m = map py_str (list_of (dget ''outputs'' (module_signature m)))"

definition signature_class_name :: "(string \<times> pv) list \<Rightarrow> string" where
  "signature_class_name m =
     sanitize_ident (py_str (py_or (dget ''name'' (module_signature m)) (dget ''id'' m))) ''IntentProgram''"

definition module_class_name :: "(string \<times> pv) list \<Rightarrow> string" where
  "module_class_name m = signature_class_name m @ ''Module''"

definition primitive_of :: "(string \<times> pv) list \<Rightarrow> string" where
  "primitive_of m = name_of (dget ''primitive'' m)"

definition role_of :: "(string \<times> pv) list \<Rightarrow> string" where
  "role_of m = text_of (dget ''role'' m)"

definition source_of :: "(string \<times> pv) list \<Rightarrow> string" where
  "source_of e = name_of (dget ''from'' e)"

definition target_of :: "(string \<times> pv) list \<Rightarrow> string" where
  "target_of e = name_of (dget ''to'' e)"

definition edge_exists :: "(string \<times> pv) list list \<Rightarrow> string \<times> string \<Rightarrow> bool" where
  "edge_exists edges = (\<lambda>(source, target). list_ex (\<lambda>e. source_of e = source \<and> target_of e = target) edges)"

text \<open>A dictionary \<open>{key(m): f(m) for m in modules}\<close>: the last module of a key wins.\<close>

definition last_of :: "('a \<Rightarrow> string) \<Rightarrow> string \<Rightarrow> 'a list \<Rightarrow> 'a option" where
  "last_of key k xs = find (\<lambda>x. key x = k) (rev xs)"

definition outputs_at :: "(string \<times> pv) list list \<Rightarrow> string \<Rightarrow> string list" where
  "outputs_at modules k = (case last_of module_id_of k modules of None \<Rightarrow> [] | Some m \<Rightarrow> signature_outputs m)"

definition inputs_at :: "(string \<times> pv) list list \<Rightarrow> string \<Rightarrow> string list" where
  "inputs_at modules k = (case last_of module_id_of k modules of None \<Rightarrow> [] | Some m \<Rightarrow> signature_inputs m)"

definition overlap :: "string list \<Rightarrow> string list \<Rightarrow> bool" where
  "overlap xs ys = list_ex (\<lambda>x. x \<in> set ys) xs"

definition pairs_text :: "(string \<times> string) list \<Rightarrow> string" where
  "pairs_text ps = ''['' @ join '', '' (map (\<lambda>(a, b). ''('' @ repr_str a @ '', '' @ repr_str b @ '')'') ps) @ '']''"

section \<open>The graph contract\<close>

definition check_when :: "(string \<times> pv) list list \<Rightarrow> string list \<Rightarrow> (string \<times> pv) list \<Rightarrow> unit \<Rightarrow> unit checked" where
  "check_when modules intent_inputs e = (\<lambda>_.
     let when = dget ''when'' e; field = name_of (dget ''field'' (dict_of when));
         available = intent_inputs @ outputs_at modules (source_of e) in
     guardE (is_mapping when \<and> field \<notin> set available)
       (Topology_error (''pipeline topology when.field must be available from program inputs or the source module outputs; edge='' @
          arrow ''->'' (source_of e) (target_of e) @ '' field='' @ repr_str field)) (Inr ()))"

definition edge_pairs :: "(string \<times> pv) list list \<Rightarrow> (string \<times> string) list" where
  "edge_pairs edges = map (\<lambda>e. (source_of e, target_of e)) edges"

definition inbound_sources :: "string list \<Rightarrow> (string \<times> pv) list list \<Rightarrow> string \<Rightarrow> string list" where
  "inbound_sources module_ids edges k =
     map source_of (filter (\<lambda>e. target_of e = k \<and> source_of e \<in> set module_ids) edges)"

definition missing_inputs ::
    "(string \<times> pv) list list \<Rightarrow> (string \<times> pv) list list \<Rightarrow> string list \<Rightarrow> string \<Rightarrow> string list" where
  "missing_inputs modules edges intent_inputs k =
     sorted_diff (inputs_at modules k)
       (intent_inputs @ concat (map (outputs_at modules)
          (inbound_sources (map module_id_of modules) edges k)))"

definition check_inputs ::
    "(string \<times> pv) list list \<Rightarrow> (string \<times> pv) list list \<Rightarrow> string list \<Rightarrow> string \<Rightarrow> unit \<Rightarrow> unit checked" where
  "check_inputs modules edges intent_inputs k = (\<lambda>_.
     guardE (missing_inputs modules edges intent_inputs k \<noteq> [])
       (Topology_error (''pipeline topology module inputs must be provided by program inputs or direct inbound module outputs; module='' @
          repr_str k @ '' missing='' @ names_text (missing_inputs modules edges intent_inputs k))) (Inr ()))"

definition check_acyclic :: "string list \<Rightarrow> (string \<times> string) list \<Rightarrow> unit checked" where
  "check_acyclic module_ids pairs =
     (let keys = first_seen module_ids; (g, deg) = module_degrees keys pairs;
          (visited, deg') = fifo_loop g (filter (\<lambda>v. degree v deg = 0) keys) deg [] in
     guardE (length visited \<noteq> length module_ids)
       (Topology_error (''pipeline topology module graph must be acyclic; cyclic modules: '' @
          names_text (sort (filter (\<lambda>v. 0 < degree v deg') keys)))) (Inr ()))"

definition validate_pipeline_graph_contract ::
    "(string \<times> pv) list list \<Rightarrow> (string \<times> pv) list list \<Rightarrow> string list \<Rightarrow> string list \<Rightarrow> unit checked" where
  "validate_pipeline_graph_contract modules edges intent_inputs intent_outputs =
     (let module_ids = map module_id_of modules; keys = first_seen module_ids;
          missing_outputs = sorted_diff intent_outputs (concat (map (outputs_at modules) keys));
          output_sources = inbound_sources module_ids edges ''output'';
          unreached = sorted_diff intent_outputs (concat (map (outputs_at modules) output_sources));
          no_inbound = sort (filter (\<lambda>k. k \<notin> set (map target_of edges)) keys) in
     guardE (missing_outputs \<noteq> [])
       (Topology_error (''pipeline topology declared outputs are not produced by any module: '' @
          names_text missing_outputs))
    (guardE (unreached \<noteq> [])
       (Topology_error (''pipeline topology declared outputs require an edge from a producing module to output; missing outputs: '' @
          names_text unreached))
    (bindE (foldE (check_when modules intent_inputs) edges ()) (\<lambda>_.
     guardE (no_inbound \<noteq> [])
       (Topology_error (''pipeline topology modules require at least one inbound edge: '' @ names_text no_inbound))
    (bindE (foldE (check_inputs modules edges intent_inputs) keys ()) (\<lambda>_.
     check_acyclic module_ids (edge_pairs edges)))))))"

section \<open>Contracts of the named kinds\<close>

definition with_role :: "(string \<times> pv) list list \<Rightarrow> string \<Rightarrow> (string \<times> pv) list option" where
  "with_role modules role = last_of role_of role modules"

definition staged :: "(string \<times> pv) list list \<Rightarrow> string \<Rightarrow> (string \<times> pv) list" where
  "staged modules role = (case with_role modules role of None \<Rightarrow> [] | Some m \<Rightarrow> m)"

definition stage_roles :: "string \<Rightarrow> (string \<times> pv) list list \<Rightarrow> string list \<Rightarrow> unit checked" where
  "stage_roles kind modules required =
     (let missing = filter (\<lambda>role. with_role modules role = None) required in
     guardE (missing \<noteq> [])
       (Topology_error (kind @ '' topology requires stage roles '' @ names_text required @
          ''; missing roles: '' @ names_text missing)) (Inr ()))"

definition stage_edges ::
    "string \<Rightarrow> (string \<times> pv) list list \<Rightarrow> (string \<times> string) list \<Rightarrow> unit checked" where
  "stage_edges label edges required =
     (let missing = filter (\<lambda>p. \<not> edge_exists edges p) required in
     guardE (missing \<noteq> [])
       (Topology_error (label @ '' edges; missing edges: '' @ pairs_text missing)) (Inr ()))"

definition stage_outputs :: "string \<Rightarrow> string list \<Rightarrow> string list \<Rightarrow> unit checked" where
  "stage_outputs label intent_outputs produced =
     (let missing = sorted_diff intent_outputs produced in
     guardE (missing \<noteq> [])
       (Topology_error (label @ '' to produce all declared outputs; missing outputs: '' @ names_text missing))
       (Inr ()))"

definition validate_generate_critique_revise ::
    "(string \<times> pv) list list \<Rightarrow> (string \<times> pv) list list \<Rightarrow> string list \<Rightarrow> unit checked" where
  "validate_generate_critique_revise modules edges intent_outputs =
     (let kind = ''generate_critique_revise''; draft = staged modules ''generate_draft'';
          critique = staged modules ''critique_draft''; revise = staged modules ''revise_final'';
          feeds = (\<lambda>a b. Topology_error (kind @ '' topology requires '' @ a @ '' outputs to feed '' @ b @
            '' inputs'')) in
     bindE (stage_roles kind modules [''generate_draft'', ''critique_draft'', ''revise_final'']) (\<lambda>_.
     guardE (\<not> overlap (signature_outputs draft) (signature_inputs critique))
       (feeds ''generate_draft'' ''critique_draft'')
    (guardE (\<not> overlap (signature_outputs draft) (signature_inputs revise))
       (feeds ''generate_draft'' ''revise_final'')
    (guardE (\<not> overlap (signature_outputs critique) (signature_inputs revise))
       (feeds ''critique_draft'' ''revise_final'')
    (bindE (stage_edges (kind @ '' topology requires explicit draft/critique/revise'') edges
       [(module_id_of draft, module_id_of critique), (module_id_of draft, module_id_of revise),
        (module_id_of critique, module_id_of revise), (module_id_of revise, ''output'')]) (\<lambda>_.
     stage_outputs (kind @ '' topology requires revise_final'') intent_outputs (signature_outputs revise)))))))"

definition validate_extract_transform_validate ::
    "(string \<times> pv) list list \<Rightarrow> (string \<times> pv) list list \<Rightarrow> string list \<Rightarrow> unit checked" where
  "validate_extract_transform_validate modules edges intent_outputs =
     (let kind = ''extract_transform_validate''; extract = staged modules ''extract'';
          transform = staged modules ''transform''; valid = staged modules ''validate'' in
     bindE (stage_roles kind modules [''extract'', ''transform'', ''validate'']) (\<lambda>_.
     guardE (\<not> overlap (signature_outputs extract) (signature_inputs transform))
       (Topology_error (kind @ '' topology requires extract outputs to feed transform inputs''))
    (guardE (\<not> overlap (signature_outputs transform) (signature_inputs valid))
       (Topology_error (kind @ '' topology requires transform outputs to feed validate inputs''))
    (bindE (stage_edges (kind @ '' topology requires explicit extract/transform/validate'') edges
       [(module_id_of extract, module_id_of transform), (module_id_of transform, module_id_of valid),
        (module_id_of valid, ''output'')]) (\<lambda>_.
     stage_outputs (kind @ '' topology requires validate stage'') intent_outputs
       (signature_outputs valid))))))"

lemma unseen_queue:
  assumes "current \<notin> set seen"
  shows "unseen g (pending @ sorted_diff (succs g current) (current # seen)) (current # seen)
    < unseen g (current # pending) seen"
  unfolding unseen_def by (rule psubset_card_mono) (use assms succs_in_graph [of g current] in auto)

text \<open>\<open>reaches_output\<close>: the pending modules are a queue.\<close>

function reaches_loop :: "graph \<Rightarrow> string list \<Rightarrow> string list \<Rightarrow> string list \<Rightarrow> bool" where
  "reaches_loop g sources [] seen = False"
| "reaches_loop g sources (current # pending) seen =
     (if current \<in> set seen then reaches_loop g sources pending seen
      else if current \<in> set sources then True
      else reaches_loop g sources (pending @ sorted_diff (succs g current) (current # seen))
             (current # seen))"
  by pat_completeness auto

termination
  by (relation "measures [\<lambda>(g, sources, pending, seen). unseen g pending seen,
       \<lambda>(g, sources, pending, seen). length pending]")
    (use unseen_queue unseen_skip in \<open>auto simp: le_less less_Suc_eq_le\<close>)

definition topology_graph :: "string list \<Rightarrow> (string \<times> string) list \<Rightarrow> graph" where
  "topology_graph module_ids pairs =
     fold (\<lambda>(source, target) g.
         if source \<in> set module_ids \<and> target \<in> set module_ids then add_arc source target g else g)
       pairs (empty_graph module_ids)"

definition retriever_ids :: "(string \<times> pv) list list \<Rightarrow> string list" where
  "retriever_ids modules = filter (\<lambda>k. case last_of module_id_of k modules of
       None \<Rightarrow> False | Some m \<Rightarrow> primitive_of m = ''Retriever'') (first_seen (map module_id_of modules))"

definition fed_answers :: "(string \<times> pv) list list \<Rightarrow> (string \<times> pv) list list \<Rightarrow> string \<Rightarrow> string list" where
  "fed_answers modules edges retriever_id =
     (let keys = first_seen (map module_id_of modules);
          answers = filter (\<lambda>k. k \<notin> set (retriever_ids modules)) keys;
          g = topology_graph keys (edge_pairs edges);
          sources = inbound_sources keys edges ''output'' in
     filter (\<lambda>k. overlap (outputs_at modules retriever_id) (inputs_at modules k) \<and>
         reaches_loop g sources [k] [])
       (sorted_set (filter (\<lambda>k. k \<in> set answers) (succs g retriever_id))))"

definition validate_retrieve_then_answer ::
    "(string \<times> pv) list list \<Rightarrow> (string \<times> pv) list list \<Rightarrow> unit checked" where
  "validate_retrieve_then_answer modules edges =
     (let disconnected = filter (\<lambda>k. fed_answers modules edges k = []) (sort (retriever_ids modules)) in
     guardE (disconnected \<noteq> [])
       (Topology_error (''retrieve_then_answer topology requires every Retriever output to feed a downstream answer module that reaches output; disconnected retrievers: '' @
          names_text disconnected)) (Inr ()))"

section \<open>What the graph contract accepts\<close>

lemma foldE_unit: "foldE f xs () = Inr () \<longleftrightarrow> (\<forall>x \<in> set xs. f x () = Inr ())"
  by (induction xs) (auto simp: res_simps)

lemma bind_unit_iff: "bindE m (\<lambda>_::unit. k) = Inr r \<longleftrightarrow> m = Inr () \<and> k = Inr r"
  by (cases m) auto

lemma first_seen_from_distinct: "distinct (acc @ xs) \<Longrightarrow> first_seen_from acc xs = acc @ xs"
  by (induction xs arbitrary: acc) auto

lemma first_seen_distinct: "distinct xs \<Longrightarrow> first_seen xs = xs"
  using first_seen_from_distinct [of "[]"] by (simp add: first_seen_def)

lemma length_first_seen: "length (first_seen xs) = card (set xs)"
  by (metis distinct_card distinct_first_seen set_first_seen)

lemma check_acyclic_iff:
  "check_acyclic module_ids pairs = Inr () \<longleftrightarrow>
     distinct module_ids \<and> acyclic (set pairs \<inter> (set module_ids \<times> set module_ids))"
proof -
  let ?keys = "first_seen module_ids"
  obtain g deg where start: "module_degrees ?keys pairs = (g, deg)" by fastforce
  obtain out deg' where run: "fifo_loop g (filter (\<lambda>v. degree v deg = 0) ?keys) deg [] = (out, deg')"
    by fastforce
  have counted: "counted ?keys (g, deg)"
    using module_degrees_counted [OF distinct_first_seen, of module_ids pairs] start by simp
  then have "graph_on g ?keys" by (simp add: counted_def)
  from fifo_inv [OF this counted_start [OF counted] run] have "distinct out" "set out \<subseteq> set ?keys"
    by (simp_all add: queue_inv_def)
  then have "length out \<le> card (set module_ids)"
    by (metis List.finite_set card_mono distinct_card set_first_seen)
  moreover have "card (set module_ids) \<le> length module_ids" by (rule card_length)
  ultimately have "length out = length module_ids \<longleftrightarrow>
      length out = length ?keys \<and> card (set module_ids) = length module_ids"
    unfolding length_first_seen by linarith
  moreover have "length out = length ?keys \<longleftrightarrow> acyclic (set pairs \<inter> (set module_ids \<times> set module_ids))"
    using fifo_complete_iff [OF distinct_first_seen start run] by simp
  moreover have "card (set module_ids) = length module_ids \<longleftrightarrow> distinct module_ids"
    using card_distinct distinct_card by metis
  moreover have "check_acyclic module_ids pairs = Inr () \<longleftrightarrow> length out = length module_ids"
    by (simp add: check_acyclic_def start run guardE_def)
  ultimately show ?thesis by blast
qed

text \<open>The contract in one formula.\<close>

definition contract_met ::
    "(string \<times> pv) list list \<Rightarrow> (string \<times> pv) list list \<Rightarrow> string list \<Rightarrow> string list \<Rightarrow> bool" where
  "contract_met modules edges ins outs \<longleftrightarrow>
     (let ids = map module_id_of modules; pairs = set (edge_pairs edges) in
      distinct ids \<and> acyclic (pairs \<inter> (set ids \<times> set ids)) \<and>
      (\<forall>x \<in> set outs. \<exists>k \<in> set ids. (k, ''output'') \<in> pairs \<and> x \<in> set (outputs_at modules k)) \<and>
      (\<forall>e \<in> set edges. is_mapping (dget ''when'' e) \<longrightarrow>
         name_of (dget ''field'' (dict_of (dget ''when'' e))) \<in> set ins \<union> set (outputs_at modules (source_of e))) \<and>
      (\<forall>k \<in> set ids. (\<exists>j. (j, k) \<in> pairs) \<and>
         (\<forall>x \<in> set (inputs_at modules k). x \<in> set ins \<or>
            (\<exists>j \<in> set ids. (j, k) \<in> pairs \<and> x \<in> set (outputs_at modules j)))))"

lemma edge_pairs_iff: "(a, b) \<in> set (edge_pairs edges) \<longleftrightarrow> (\<exists>e \<in> set edges. source_of e = a \<and> target_of e = b)"
  by (auto simp: edge_pairs_def)

lemma covered_iff: "sorted_diff xs (ys @ concat (map f ks)) = [] \<longleftrightarrow>
    (\<forall>x \<in> set xs. x \<in> set ys \<or> (\<exists>k \<in> set ks. x \<in> set (f k)))"
  by (simp add: subset_iff Ball_def Bex_def)

lemma in_inbound_sources:
  "j \<in> set (inbound_sources ids edges k) \<longleftrightarrow> j \<in> set ids \<and> (j, k) \<in> set (edge_pairs edges)"
  by (auto simp: inbound_sources_def edge_pairs_iff)

lemma missing_inputs_Nil:
  "missing_inputs modules edges ins k = [] \<longleftrightarrow>
     (\<forall>x \<in> set (inputs_at modules k). x \<in> set ins \<or>
        (\<exists>j \<in> set (map module_id_of modules). (j, k) \<in> set (edge_pairs edges) \<and> x \<in> set (outputs_at modules j)))"
  unfolding missing_inputs_def covered_iff Bex_def in_inbound_sources by blast

lemma sort_Nil_iff: "sort xs = [] \<longleftrightarrow> xs = []"
  by (metis length_0_conv length_sort)

lemma graph_contract_met:
  "validate_pipeline_graph_contract modules edges ins outs = Inr () \<longleftrightarrow> contract_met modules edges ins outs"
proof -
  let ?ids = "map module_id_of modules"
  let ?sources = "inbound_sources ?ids edges ''output''"
  have reached: "sorted_diff outs (concat (map (outputs_at modules) ?sources)) = [] \<longleftrightarrow>
      (\<forall>x \<in> set outs. \<exists>k \<in> set ?ids. (k, ''output'') \<in> set (edge_pairs edges) \<and> x \<in> set (outputs_at modules k))"
    using covered_iff [of outs "[]" "outputs_at modules" ?sources] unfolding Bex_def in_inbound_sources by simp
  have produced: "sorted_diff outs (concat (map (outputs_at modules) (first_seen ?ids))) = [] \<longleftrightarrow>
      (\<forall>x \<in> set outs. \<exists>k \<in> set ?ids. x \<in> set (outputs_at modules k))"
    using covered_iff [of outs "[]" "outputs_at modules" "first_seen ?ids"] by simp
  have inbound: "sort (filter (\<lambda>k. k \<notin> set (map target_of edges)) (first_seen ?ids)) = [] \<longleftrightarrow>
      (\<forall>k \<in> set ?ids. \<exists>j. (j, k) \<in> set (edge_pairs edges))"
  proof -
    have "k \<in> set (map target_of edges) \<longleftrightarrow> (\<exists>j. (j, k) \<in> set (edge_pairs edges))" for k
      by (auto simp: edge_pairs_def)
    then show ?thesis unfolding sort_Nil_iff filter_empty_conv by simp
  qed
  have whens: "foldE (check_when modules ins) edges () = Inr () \<longleftrightarrow>
      (\<forall>e \<in> set edges. is_mapping (dget ''when'' e) \<longrightarrow>
         name_of (dget ''field'' (dict_of (dget ''when'' e))) \<in> set ins \<union> set (outputs_at modules (source_of e)))"
    by (auto simp: foldE_unit check_when_def Let_def guardE_Inr_iff)
  have inputs: "foldE (check_inputs modules edges ins) (first_seen ?ids) () = Inr () \<longleftrightarrow>
      (\<forall>k \<in> set ?ids. missing_inputs modules edges ins k = [])"
    by (auto simp: foldE_unit check_inputs_def guardE_Inr_iff)
  have "contract_met modules edges ins outs \<longleftrightarrow> validate_pipeline_graph_contract modules edges ins outs = Inr ()"
    unfolding validate_pipeline_graph_contract_def contract_met_def Let_def guardE_Inr_iff bind_unit_iff
      not_not reached produced inbound check_acyclic_iff whens inputs missing_inputs_Nil ball_conj_distrib
    by (intro iffI conjI; elim conjE; (assumption | blast))
  then show ?thesis by simp
qed

section \<open>What the retrieval contract accepts\<close>

definition leads_to :: "graph \<Rightarrow> string list \<Rightarrow> string \<Rightarrow> bool" where
  "leads_to g sources v \<longleftrightarrow> (\<exists>s \<in> set sources. (v, s) \<in> (arcs g)\<^sup>*)"

lemma leads_to_succ: "leads_to g sources w \<Longrightarrow> w \<in> set (succs g v) \<Longrightarrow> leads_to g sources v"
  unfolding leads_to_def by (meson arcs_iff converse_rtrancl_into_rtrancl)

lemma leads_to_closed:
  assumes "\<forall>u \<in> A. u \<notin> set sources \<and> set (succs g u) \<subseteq> A" "v \<in> A"
  shows "\<not> leads_to g sources v"
proof
  assume "leads_to g sources v"
  then obtain s where s: "s \<in> set sources" "(v, s) \<in> (arcs g)\<^sup>*" by (auto simp: leads_to_def)
  from s(2) have "s \<in> A" by (induction rule: rtrancl_induct) (use assms in auto)
  with assms(1) s(1) show False by blast
qed

lemma reaches_loop_iff:
  "(\<forall>u \<in> set seen. u \<notin> set sources \<and> set (succs g u) \<subseteq> set seen \<union> set pending) \<Longrightarrow>
   reaches_loop g sources pending seen \<longleftrightarrow> (\<exists>v \<in> set pending \<union> set seen. leads_to g sources v)"
proof (induction g sources pending seen rule: reaches_loop.induct)
  case (1 g sources seen)
  then show ?case using leads_to_closed [of "set seen" sources g] by auto
next
  case (2 g sources current pending seen)
  show ?case
  proof (cases "current \<in> set seen")
    case True
    with 2(1) 2(3) show ?thesis by (auto simp: insert_absorb)
  next
    case False
    show ?thesis
    proof (cases "current \<in> set sources")
      case True
      then have "leads_to g sources current" by (auto simp: leads_to_def)
      with True False show ?thesis by simp
    next
      case fresh: False
      let ?pending = "pending @ sorted_diff (succs g current) (current # seen)"
      have "\<forall>u \<in> set (current # seen). u \<notin> set sources \<and> set (succs g u) \<subseteq> set (current # seen) \<union> set ?pending"
        using 2(3) fresh by auto
      from 2(2) [OF False fresh this]
      have "reaches_loop g sources (current # pending) seen \<longleftrightarrow>
          (\<exists>v \<in> set ?pending \<union> set (current # seen). leads_to g sources v)"
        using False fresh by simp
      also have "\<dots> \<longleftrightarrow> (\<exists>v \<in> set (current # pending) \<union> set seen. leads_to g sources v)"
        using leads_to_succ [of g sources _ current] by auto
      finally show ?thesis .
    qed
  qed
qed

lemma reaches_output: "reaches_loop g sources [v] [] \<longleftrightarrow> leads_to g sources v"
  by (subst reaches_loop_iff) simp_all

lemma arcs_topology_graph: "arcs (topology_graph ids pairs) = set pairs \<inter> (set ids \<times> set ids)"
proof -
  let ?step = "\<lambda>(source, target) g.
     if source \<in> set ids \<and> target \<in> set ids then add_arc source target g else g"
  have "arcs (fold ?step pairs g) = arcs g \<union> set pairs \<inter> (set ids \<times> set ids)" for g
  proof (induction pairs arbitrary: g)
    case (Cons p pairs)
    obtain a b where p: "p = (a, b)" by fastforce
    have "arcs (?step p g) = arcs g \<union> {p} \<inter> (set ids \<times> set ids)"
      unfolding p by (auto simp: arcs_def split: if_splits)
    then show ?case using Cons.IH [of "?step p g"] by auto
  qed simp
  then show ?thesis by (simp add: topology_graph_def)
qed

text \<open>A retriever is connected when an answer module takes one of its outputs directly from it and
  leads to the output.\<close>

definition retriever_connected :: "(string \<times> pv) list list \<Rightarrow> (string \<times> pv) list list \<Rightarrow> string \<Rightarrow> bool" where
  "retriever_connected modules edges r \<longleftrightarrow>
     (let ids = set (map module_id_of modules); pairs = set (edge_pairs edges) in
      \<exists>k \<in> ids - set (retriever_ids modules). (r, k) \<in> pairs \<and>
        set (outputs_at modules r) \<inter> set (inputs_at modules k) \<noteq> {} \<and>
        (\<exists>s \<in> ids. (k, s) \<in> (pairs \<inter> ids \<times> ids)\<^sup>* \<and> (s, ''output'') \<in> pairs))"

lemma overlap_iff: "overlap xs ys \<longleftrightarrow> set xs \<inter> set ys \<noteq> {}"
  by (auto simp: overlap_def list_ex_iff)

lemma fed_answers_iff:
  assumes "r \<in> set (map module_id_of modules)"
  shows "fed_answers modules edges r \<noteq> [] \<longleftrightarrow> retriever_connected modules edges r"
proof -
  let ?ids = "map module_id_of modules" and ?pairs = "set (edge_pairs edges)"
  let ?g = "topology_graph (first_seen ?ids) (edge_pairs edges)"
  let ?sources = "inbound_sources (first_seen ?ids) edges ''output''"
  have arcs: "arcs ?g = ?pairs \<inter> (set ?ids \<times> set ?ids)" by (simp add: arcs_topology_graph)
  have sources: "s \<in> set ?sources \<longleftrightarrow> s \<in> set ?ids \<and> (s, ''output'') \<in> ?pairs" for s
    by (simp only: in_inbound_sources set_first_seen)
  have succ: "k \<in> set (succs ?g r) \<longleftrightarrow> (r, k) \<in> ?pairs \<and> k \<in> set ?ids" for k
    using arcs assms unfolding arcs_iff [symmetric] by blast
  have "fed_answers modules edges r \<noteq> [] \<longleftrightarrow> (\<exists>k \<in> set (succs ?g r). k \<in> set ?ids \<and>
      k \<notin> set (retriever_ids modules) \<and> overlap (outputs_at modules r) (inputs_at modules k) \<and>
      leads_to ?g ?sources k)"
    unfolding fed_answers_def Let_def filter_empty_conv reaches_output by auto
  then show ?thesis
    unfolding retriever_connected_def Let_def leads_to_def arcs Bex_def sources succ overlap_iff by blast
qed

lemma retriever_ids_in: "r \<in> set (retriever_ids modules) \<Longrightarrow> r \<in> set (map module_id_of modules)"
  by (simp add: retriever_ids_def)

lemma retrieval_contract_iff:
  "validate_retrieve_then_answer modules edges = Inr () \<longleftrightarrow>
     (\<forall>r \<in> set (retriever_ids modules). retriever_connected modules edges r)"
proof -
  have "validate_retrieve_then_answer modules edges = Inr () \<longleftrightarrow>
      (\<forall>r \<in> set (retriever_ids modules). fed_answers modules edges r \<noteq> [])"
    by (simp add: validate_retrieve_then_answer_def guardE_Inr_iff filter_empty_conv)
  with fed_answers_iff retriever_ids_in show ?thesis by blast
qed

section \<open>The properties\<close>

text \<open>C21: the graph contract of a pipeline is exact: it accepts the modules and edges exactly when the module
  ids are distinct, the edges between modules have no cycle, every declared output is an output of some
  module with an edge to the output, every \<open>when\<close> field is available on its edge, and every module has an
  inbound edge and takes each of its inputs from the program inputs or from a direct predecessor.\<close>

theorem pipeline_contract_exact:
  "validate_pipeline_graph_contract modules edges ins outs = Inr () \<longleftrightarrow>
     contract_met modules edges ins outs"
  by (rule graph_contract_met)

text \<open>C22: the retrieval contract is exact: it accepts a topology exactly when each retriever has an edge to a
  module that is no retriever, takes one of the retriever's outputs, and has a path of modules to one with an
  edge to the output.  The search behind it always ends.\<close>

theorem retrieval_contract_exact:
  "validate_retrieve_then_answer modules edges = Inr () \<longleftrightarrow>
     list_all (retriever_connected modules edges) (retriever_ids modules)"
  unfolding list_all_iff by (rule retrieval_contract_iff)

end
