(* ===== verification/Pipeline_Schedule.thy ===== *)
theory Pipeline_Schedule
  imports Topology_Contract
begin

text \<open>
  Validation of a materializable pipeline and its schedule (\<open>services/program_topology.py\<close>):
  \<open>validate_materializable_pipeline_topology\<close>, \<open>_scheduler_plan_for_topology\<close> and
  \<open>materialized_pipeline_topology\<close>.
\<close>

section \<open>Validation\<close>

definition react_v2_modules :: "(string \<times> pv) list list \<Rightarrow> string list" where
  "react_v2_modules modules = map module_id_of (filter (\<lambda>m. primitive_of m = ''ReActV2'') modules)"

definition unsupported_primitives :: "(string \<times> pv) list list \<Rightarrow> string list checked" where
  "unsupported_primitives modules =
     bindE (mapE is_module_materializable modules) (\<lambda>oks.
     Inr (sorted_set (map (\<lambda>(m, ok). primitive_of m) (filter (\<lambda>(m, ok). \<not> ok) (zip modules oks)) @
        (if react_v2_modules modules = [] then [] else [''ReActV2'']))))"

definition supported_text :: string where
  "supported_text = join '', '' (sort (materializable_primitives @
     [''Retriever:inline_corpus'', ''ReAct:tools=[]'', ''ProgramOfThought:empty_sandbox'']))"

definition check_retriever :: "(string \<times> pv) list \<Rightarrow> unit \<Rightarrow> unit checked" where
  "check_retriever m = (\<lambda>_.
     if primitive_of m \<noteq> ''Retriever'' then Inr () else
     bindE (normalize_inline_retriever_config (dget ''retriever'' m) (module_id_of m)) (\<lambda>_.
     guardE (length (signature_outputs m) \<noteq> 1)
       (Topology_error ''pipeline Retriever modules must declare exactly one signature output'') (Inr ())))"

definition check_edge_when :: "(string \<times> pv) list \<Rightarrow> unit \<Rightarrow> unit checked" where
  "check_edge_when e = (\<lambda>_.
     let when = dget ''when'' e in
     if when = PNone then Inr () else
     guardE (\<not> is_mapping when \<or> extra_keys (dict_of when) [''field'', ''equals''] \<noteq> [])
       (Topology_error ''pipeline topology supports only simple when.field/equals routing clauses'') (Inr ()))"

text \<open>The contract of the declared kind.\<close>

definition check_kind ::
    "intent \<Rightarrow> (string \<times> pv) list list \<Rightarrow> (string \<times> pv) list list \<Rightarrow> unit checked" where
  "check_kind it modules edges =
     (let kind = name_of (dget ''kind'' (declared_materializable_topology it)) in
     bindE (if declared_retrieve_then_answer_topology it \<noteq> []
       then validate_retrieve_then_answer modules edges else Inr ()) (\<lambda>_.
     bindE (if kind = ''generate_critique_revise''
       then validate_generate_critique_revise modules edges (it_outputs it) else Inr ()) (\<lambda>_.
     if kind = ''extract_transform_validate''
       then validate_extract_transform_validate modules edges (it_outputs it) else Inr ())))"

definition signature_name :: "(string \<times> pv) list \<Rightarrow> string" where
  "signature_name m = name_of (dget ''name'' (module_signature m))"

definition validate_materializable_pipeline_topology :: "intent \<Rightarrow> (string \<times> pv) list checked" where
  "validate_materializable_pipeline_topology it =
     bindE (effective_pipeline_topology it) (\<lambda>effective.
     if effective = [] then Inr [] else
     let modules = dict_items (dget ''modules'' effective);
         topology = dict_set ''modules'' (PList (map PDict modules)) effective;
         edges = dict_items (dget ''edges'' topology) in
     guardE (modules = [])
       (Topology_error ''pipeline topology materialization requires at least one module'')
    (bindE (unsupported_primitives modules) (\<lambda>unsupported.
     guardE (unsupported \<noteq> [])
       (Topology_error (''pipeline topology materialization supports only module primitives '' @
          supported_text @ '' under the capability-registry materialization policy; unsupported primitives: '' @
          names_text unsupported))
    (bindE (foldE check_retriever modules ()) (\<lambda>_.
     guardE (\<not> distinct (map signature_name modules))
       (Topology_error ''pipeline topology materialization requires unique signature.name values'')
    (guardE (\<not> distinct (map module_class_name modules))
       (Topology_error ''pipeline topology materialization requires unique generated module class names'')
    (bindE (foldE check_edge_when edges ()) (\<lambda>_.
     bindE (validate_pipeline_graph_contract modules edges (it_inputs it) (it_outputs it)) (\<lambda>_.
     bindE (check_kind it modules edges) (\<lambda>_.
     Inr topology))))))))))"

definition materializes_pipeline_topology :: "intent \<Rightarrow> bool checked" where
  "materializes_pipeline_topology it =
     bindE (has_materializable_pipeline_topology it) (\<lambda>has.
     if \<not> has then Inr False
     else bindE (validate_materializable_pipeline_topology it) (\<lambda>_. Inr True))"

section \<open>The schedule\<close>

text \<open>\<open>{module_id: index for index, module_id in enumerate(module_ids)}\<close>.\<close>

definition declaration_index :: "string list \<Rightarrow> string \<Rightarrow> nat" where
  "declaration_index module_ids v =
     (case find (\<lambda>p. snd p = v) (rev (zip [0..<length module_ids] module_ids)) of
        None \<Rightarrow> 0 | Some p \<Rightarrow> fst p)"

definition module_order :: "string list \<Rightarrow> (string \<times> string) list \<Rightarrow> string list" where
  "module_order module_ids pairs =
     (case module_degrees (first_seen module_ids) pairs of (g, deg) \<Rightarrow>
        ranked_loop (declaration_index module_ids) g (filter (\<lambda>v. degree v deg = 0) module_ids) deg [])"

definition module_readiness ::
    "(string \<times> pv) list list \<Rightarrow> (string \<times> pv) list \<Rightarrow> string \<times> pv" where
  "module_readiness edges m =
     (module_id_of m, PDict
       [(''required_inputs'', names_value (signature_inputs m)),
        (''produced_outputs'', names_value (signature_outputs m)),
        (''inbound_edges'', PList (map PDict (filter (\<lambda>e. target_of e = module_id_of m) edges))),
        (''primitive'', PStr (py_str (py_or (dget ''primitive'' m) (PStr ''Predict''))))])"

definition scheduler_plan_for_topology :: "(string \<times> pv) list \<Rightarrow> (string \<times> pv) list" where
  "scheduler_plan_for_topology topology =
     (let modules = dict_items (dget ''modules'' topology); edges = dict_items (dget ''edges'' topology);
          module_ids = map module_id_of modules;
          producers = inbound_sources module_ids edges ''output'' in
     [(''schema_version'', PStr ''program-topology-scheduler-plan-v1''),
      (''status'', PStr ''deterministic_local_dag_schedule''), (''scheduler'', PStr ''bounded_ready_queue''),
      (''module_order'', names_value (module_order module_ids (edge_pairs edges))),
      (''declaration_order'', names_value module_ids), (''output_producers'', names_value producers),
      (''module_readiness'', PDict (fold (\<lambda>m. case module_readiness edges m of (k, v) \<Rightarrow> dict_set k v) modules [])),
      (''effect'', falses [''provider_called'', ''tool_called'', ''retriever_called'',
         ''custom_import_loaded'', ''authority_mutated''])])"

definition mark_materialized :: "string \<Rightarrow> (string \<times> pv) list \<Rightarrow> (string \<times> pv) list" where
  "mark_materialized kind topology =
     (if kind \<noteq> [] \<and> kind \<noteq> ''pipeline'' then dict_merge topology
        [(''execution_status'', PStr (materialized_status_for_kind kind)),
         (''materialized_from_kind'', PStr kind), (''renderer'', PStr (renderer_for_kind kind))]
      else dict_set ''execution_status'' (PStr ''pipeline_materialized'') topology)"

definition materialized_pipeline_topology :: "intent \<Rightarrow> (string \<times> pv) list checked" where
  "materialized_pipeline_topology it =
     bindE (validate_materializable_pipeline_topology it) (\<lambda>topology.
     if topology = [] then Inr [] else
     let marked = mark_materialized (name_of (dget ''kind'' (declared_materializable_topology it))) topology in
     Inr (dict_set ''scheduler_plan'' (PDict (scheduler_plan_for_topology marked)) marked))"

section \<open>The order of the modules\<close>

lemma find_rev_zip:
  "distinct xs \<Longrightarrow> i < length xs \<Longrightarrow> declaration_index xs (xs ! i) = i"
proof -
  assume *: "distinct xs" "i < length xs"
  let ?zs = "rev (zip [0..<length xs] xs)"
  have in_zs: "p \<in> set ?zs \<longleftrightarrow> fst p < length xs \<and> snd p = xs ! fst p" for p
    by (cases p) (auto simp: set_zip intro: exI [of _ "fst p"])
  have mem: "q \<in> set zs \<and> P q" if "find P zs = Some q" for P and q :: "nat \<times> string" and zs
    using that by (induction zs) (auto split: if_splits)
  obtain p where p: "find (\<lambda>p. snd p = xs ! i) ?zs = Some p"
  proof (cases "find (\<lambda>p. snd p = xs ! i) ?zs")
    case None
    with in_zs [of "(i, xs ! i)"] * show ?thesis by (auto simp: find_None_iff)
  qed
  from mem [OF p] have "p \<in> set ?zs" "snd p = xs ! i" by simp_all
  then have "fst p = i" using in_zs [of p] * nth_eq_iff_index_eq by metis
  then show ?thesis by (simp add: declaration_index_def p)
qed

lemma module_order_topological:
  assumes "distinct ids" "acyclic (set pairs \<inter> (set ids \<times> set ids))"
  shows "distinct (module_order ids pairs) \<and> set (module_order ids pairs) = set ids \<and>
    (\<forall>i < length (module_order ids pairs). \<forall>u \<in> set ids. (u, module_order ids pairs ! i) \<in> set pairs \<longrightarrow>
       u \<in> set (take i (module_order ids pairs)))"
proof -
  obtain g deg where start: "module_degrees ids pairs = (g, deg)" by fastforce
  let ?out = "ranked_loop (declaration_index ids) g (filter (\<lambda>v. degree v deg = 0) ids) deg []"
  have out: "module_order ids pairs = ?out"
    using start by (simp add: module_order_def first_seen_distinct [OF assms(1)])
  from ranked_topological [OF assms(1) start refl assms(2)]
  have topo: "distinct ?out" "set ?out = set ids" "in_order g ids ?out" by simp_all
  have arcs: "arcs g = set pairs \<inter> (set ids \<times> set ids)"
    using arcs_module_degrees [of ids pairs] start by simp
  have "u \<in> set (take i ?out)" if "i < length ?out" "u \<in> set ids" "(u, ?out ! i) \<in> set pairs" for i u
  proof -
    have "?out ! i \<in> set ids" using that(1) topo(2) nth_mem by metis
    then have "?out ! i \<in> set (succs g u)" using that arcs unfolding arcs_iff [symmetric] by blast
    with topo(3) that show ?thesis by (simp add: in_order_def)
  qed
  with topo out show ?thesis by simp
qed

text \<open>Every module finds its inputs among the program inputs and the outputs of the modules before it,
  and together the modules make every declared output.\<close>

definition runs_in_order ::
    "(string \<times> pv) list list \<Rightarrow> string list \<Rightarrow> string list \<Rightarrow> string list \<Rightarrow> bool" where
  "runs_in_order modules ins outs order \<longleftrightarrow>
     (\<forall>i < length order. set (inputs_at modules (order ! i)) \<subseteq>
        set ins \<union> set (concat (map (outputs_at modules) (take i order)))) \<and>
     set outs \<subseteq> set (concat (map (outputs_at modules) order))"

lemma contract_runs:
  assumes "contract_met modules edges ins outs"
  shows "distinct (module_order (map module_id_of modules) (edge_pairs edges)) \<and>
    set (module_order (map module_id_of modules) (edge_pairs edges)) = set (map module_id_of modules) \<and>
    runs_in_order modules ins outs (module_order (map module_id_of modules) (edge_pairs edges))"
proof -
  let ?ids = "map module_id_of modules" and ?order = "module_order (map module_id_of modules) (edge_pairs edges)"
  from assms have met: "distinct ?ids" "acyclic (set (edge_pairs edges) \<inter> (set ?ids \<times> set ?ids))"
    "\<forall>x \<in> set outs. \<exists>k \<in> set ?ids. x \<in> set (outputs_at modules k)"
    "\<And>k x. k \<in> set ?ids \<Longrightarrow> x \<in> set (inputs_at modules k) \<Longrightarrow> x \<in> set ins \<or>
       (\<exists>j \<in> set ?ids. (j, k) \<in> set (edge_pairs edges) \<and> x \<in> set (outputs_at modules j))"
    unfolding contract_met_def Let_def by blast+
  from module_order_topological [OF met(1,2)] have order: "distinct ?order" "set ?order = set ?ids"
    "\<And>i u. i < length ?order \<Longrightarrow> u \<in> set ?ids \<Longrightarrow> (u, ?order ! i) \<in> set (edge_pairs edges) \<Longrightarrow>
       u \<in> set (take i ?order)" by blast+
  have "set (inputs_at modules (?order ! i)) \<subseteq> set ins \<union> set (concat (map (outputs_at modules) (take i ?order)))"
    if "i < length ?order" for i
  proof
    fix x assume "x \<in> set (inputs_at modules (?order ! i))"
    moreover have "?order ! i \<in> set ?ids" using that order(2) nth_mem by metis
    ultimately have "x \<in> set ins \<or> (\<exists>j \<in> set ?ids. (j, ?order ! i) \<in> set (edge_pairs edges) \<and>
        x \<in> set (outputs_at modules j))" by (rule met(4) [rotated])
    with order(3) [OF that] show "x \<in> set ins \<union> set (concat (map (outputs_at modules) (take i ?order)))"
      by auto
  qed
  moreover have "set outs \<subseteq> set (concat (map (outputs_at modules) ?order))"
  proof
    fix x assume "x \<in> set outs"
    with met(3) order(2) obtain k where "k \<in> set ?order" "x \<in> set (outputs_at modules k)" by blast
    then show "x \<in> set (concat (map (outputs_at modules) ?order))" by auto
  qed
  ultimately show ?thesis using order(1,2) unfolding runs_in_order_def by blast
qed

section \<open>The materialized topology\<close>

lemma dget_dict_merge:
  "k \<notin> set (dict_keys new) \<Longrightarrow> dget k (dict_merge old new) = dget k old"
proof (induction new arbitrary: old)
  case (Cons p new)
  then show ?case by (cases p) (simp add: dict_merge_def)
qed (simp add: dict_merge_def)

lemma dict_items_dicts [simp]: "dict_items (PList (map PDict ms)) = ms"
  by (induction ms) (simp_all add: dict_items_def)

lemma validate_pipeline_Inr:
  assumes "validate_materializable_pipeline_topology it = Inr t" "t \<noteq> []"
  shows "dict_items (dget ''modules'' t) \<noteq> [] \<and>
    contract_met (dict_items (dget ''modules'' t)) (dict_items (dget ''edges'' t)) (it_inputs it) (it_outputs it) \<and>
    distinct (map module_class_name (dict_items (dget ''modules'' t)))"
proof -
  from assms obtain effective where
    t: "t = dict_set ''modules'' (PList (map PDict (dict_items (dget ''modules'' effective)))) effective" and
    some: "dict_items (dget ''modules'' effective) \<noteq> []" and
    met: "validate_pipeline_graph_contract (dict_items (dget ''modules'' effective)) (dict_items (dget ''edges'' t))
       (it_inputs it) (it_outputs it) = Inr ()" and
    classes: "distinct (map module_class_name (dict_items (dget ''modules'' effective)))"
    unfolding validate_materializable_pipeline_topology_def bindE_Inr_iff Let_def
    by (auto simp: guardE_Inr_iff bindE_Inr_iff split: if_splits)
  from t have "dict_items (dget ''modules'' t) = dict_items (dget ''modules'' effective)" by simp
  with some met classes graph_contract_met show ?thesis by simp
qed

lemma mark_materialized_graph:
  "dget ''modules'' (mark_materialized kind t) = dget ''modules'' t"
  "dget ''edges'' (mark_materialized kind t) = dget ''edges'' t"
  by (simp_all add: mark_materialized_def dget_dict_merge)

lemma materialized_Inr:
  assumes "materialized_pipeline_topology it = Inr t" "t \<noteq> []"
  obtains topology marked where
    "validate_materializable_pipeline_topology it = Inr topology" "topology \<noteq> []"
    "dget ''modules'' marked = dget ''modules'' topology" "dget ''edges'' marked = dget ''edges'' topology"
    "t = dict_set ''scheduler_plan'' (PDict (scheduler_plan_for_topology marked)) marked"
proof -
  from assms(1) obtain topology where v: "validate_materializable_pipeline_topology it = Inr topology"
    by (auto simp: materialized_pipeline_topology_def bindE_Inr_iff)
  moreover from this assms have "topology \<noteq> []" by (auto simp: materialized_pipeline_topology_def)
  moreover from this assms(1) v have "t = dict_set ''scheduler_plan''
      (PDict (scheduler_plan_for_topology (mark_materialized
         (name_of (dget ''kind'' (declared_materializable_topology it))) topology)))
      (mark_materialized (name_of (dget ''kind'' (declared_materializable_topology it))) topology)"
    by (simp add: materialized_pipeline_topology_def Let_def)
  ultimately show ?thesis using that mark_materialized_graph by blast
qed

section \<open>The properties\<close>

lemma materialized_runs:
  assumes "materialized_pipeline_topology it = Inr t" "t \<noteq> []"
  shows "\<exists>plan order. dget ''scheduler_plan'' t = PDict plan \<and> dget ''module_order'' plan = names_value order \<and>
    distinct order \<and> set order = set (map module_id_of (dict_items (dget ''modules'' t))) \<and>
    runs_in_order (dict_items (dget ''modules'' t)) (it_inputs it) (it_outputs it) order"
proof -
  from materialized_Inr [OF assms] obtain topology marked where
    v: "validate_materializable_pipeline_topology it = Inr topology" "topology \<noteq> []" and
    graph: "dget ''modules'' marked = dget ''modules'' topology" "dget ''edges'' marked = dget ''edges'' topology" and
    t: "t = dict_set ''scheduler_plan'' (PDict (scheduler_plan_for_topology marked)) marked" .
  let ?modules = "dict_items (dget ''modules'' topology)" and ?edges = "dict_items (dget ''edges'' topology)"
  let ?order = "module_order (map module_id_of ?modules) (edge_pairs ?edges)"
  have "contract_met ?modules ?edges (it_inputs it) (it_outputs it)"
    using validate_pipeline_Inr [OF v] by blast
  from contract_runs [OF this] have runs: "distinct ?order" "set ?order = set (map module_id_of ?modules)"
    "runs_in_order ?modules (it_inputs it) (it_outputs it) ?order" by blast+
  have "dget ''scheduler_plan'' t = PDict (scheduler_plan_for_topology marked)"
    "dget ''modules'' t = dget ''modules'' topology" using graph by (simp_all add: t)
  moreover have "dget ''module_order'' (scheduler_plan_for_topology marked) = names_value ?order"
    by (simp add: scheduler_plan_for_topology_def Let_def graph)
  ultimately show ?thesis using runs by metis
qed

lemma answer_materializes:
  "case materialized_pipeline_topology (answer_intent ''Answer it'' []) of Inl _ \<Rightarrow> False | Inr t \<Rightarrow> t \<noteq> []"
  by code_simp

text \<open>C17: a materialized pipeline can run in its scheduled order: the order lists every module once, each
  module finds its inputs among the program inputs and the outputs of modules before it, and the modules
  together make every declared output.\<close>

theorem pipeline_runs_in_order:
  assumes "materialized_pipeline_topology it = Inr t" "t \<noteq> []"
  shows "\<exists>plan order. dget ''scheduler_plan'' t = PDict plan \<and> dget ''module_order'' plan = names_value order \<and>
    distinct order \<and> set order = set (map module_id_of (dict_items (dget ''modules'' t))) \<and>
    runs_in_order (dict_items (dget ''modules'' t)) (it_inputs it) (it_outputs it) order"
  by (rule materialized_runs [OF assms])

theorem pipeline_runs_in_order_witness:
  "\<exists>t plan order. dget ''scheduler_plan'' t = PDict plan \<and> dget ''module_order'' plan = names_value order \<and>
     runs_in_order (dict_items (dget ''modules'' t)) [''context''] [''answer''] order"
proof -
  from answer_materializes obtain t where "materialized_pipeline_topology (answer_intent ''Answer it'' []) = Inr t" "t \<noteq> []"
    by (auto split: sum.splits)
  from pipeline_runs_in_order [OF this] show ?thesis by (auto simp: answer_intent_def)
qed

text \<open>C24: the schedule of an acyclic graph is a topological order: every module is scheduled once, after all
  modules with an edge to it; the ready-queue loop behind it always ends.\<close>

theorem schedule_topological:
  assumes "distinct ids" "acyclic (set pairs \<inter> (set ids \<times> set ids))"
  shows "distinct (module_order ids pairs) \<and> set (module_order ids pairs) = set ids \<and>
    (\<forall>i < length (module_order ids pairs). \<forall>u \<in> set ids. (u, module_order ids pairs ! i) \<in> set pairs \<longrightarrow>
       u \<in> set (take i (module_order ids pairs)))"
  by (rule module_order_topological [OF assms])

theorem schedule_topological_witness:
  "set (module_order [''b'', ''a''] [(''a'', ''b'')]) = {''a'', ''b''}"
proof -
  have "acyclic (set [(''a'', ''b'')] \<inter> (set [''b'', ''a''] \<times> set [''b'', ''a'']))"
    by (auto simp: acyclic_def trancl_insert)
  then show ?thesis using schedule_topological [of "[''b'', ''a'']" "[(''a'', ''b'')]"] by auto
qed

end
