(* ===== verification/Inference_Sound.thy ===== *)
theory Inference_Sound
  imports Pipeline_Schedule
begin

text \<open>
  The inferred topologies of \<open>services/program_topology.py\<close> against the checks of the same module:
  whatever the objective says, a topology inferred from it passes the validation and is scheduled.
  The names of the two generated classes differ because their first letters do.
\<close>

section \<open>First letters\<close>

lemma strip_letter: "\<not> is_space c \<Longrightarrow> \<exists>t. strip (c # s) = c # t"
proof -
  assume c: "\<not> is_space c"
  have "\<exists>t. rev (dropWhile is_space (u @ [c])) = c # t" for u
  proof (induction u)
    case (Cons a u)
    then show ?case by (cases "is_space a") simp_all
  qed (use c in simp)
  then show ?thesis using c by (simp add: strip_def)
qed

lemma sanitize_first:
  assumes "is_letter c"
  shows "\<exists>t. sanitize_ident (c # s) fallback = c # t"
proof -
  have space: "\<not> is_space c" using assms by (auto simp: is_letter_def is_space_def Let_def)
  have digit: "\<not> is_digit c" using assms by (auto simp: is_letter_def is_digit_def Let_def)
  obtain t where "strip (c # s) = c # t" using strip_letter [OF space] by blast
  then show ?thesis using assms digit by (simp add: sanitize_ident_def Let_def is_word_char_def)
qed

lemma alnum_parts_word:
  "list_all (\<lambda>c. is_letter c \<or> is_digit c) p \<Longrightarrow> alnum_parts w (p @ s) = alnum_parts (w @ p) s"
  by (induction p arbitrary: w) auto

lemma pascal_first:
  assumes "list_all (\<lambda>c. is_letter c \<or> is_digit c) (c # p)" "is_letter (upper_char c)"
  shows "\<exists>t. pascal_name ((c # p) @ CHR ''_'' # s) fallback = upper_char c # t"
proof -
  have "alnum_parts [] ((c # p) @ CHR ''_'' # s) = alnum_parts (c # p) (CHR ''_'' # s)"
    using alnum_parts_word [OF assms(1), of "[]"] by (simp del: append_Cons alnum_parts.simps)
  also have "\<dots> = (c # p) # alnum_parts [] s"
    by (simp add: is_letter_def is_digit_def)
  finally show ?thesis
    using sanitize_first [OF assms(2)] by (simp add: pascal_name_def Let_def capitalized_def)
qed

lemma class_first:
  assumes "is_letter c"
  shows "\<exists>t. module_class_name [(''id'', i), (''primitive'', pr), (''signature'', signature_value (c # s) ins outs),
     (''role'', r)] = c # t"
  using sanitize_first [OF assms, of s "''IntentProgram''"]
  by (auto simp: module_class_name_def signature_class_name_def module_signature_def signature_value_def py_or_def)

section \<open>The contract of an inferred topology\<close>

lemma two_stage_contract:
  assumes "ins \<noteq> []" "first_id \<noteq> final_id" "first_id \<noteq> ''output''" "final_id \<noteq> ''output''"
    "first_id \<noteq> ''input''" "final_id \<noteq> ''input''" "first_id \<noteq> []" "final_id \<noteq> []"
  shows "contract_met
    (map dict_of [inferred_module first_id p1 (signature_value n1 ins [mid]) r1,
       inferred_module final_id p2 (signature_value n2 (with_intermediate ins mid) outs) r2])
    (map dict_of [edge_value ''input'' first_id, edge_value first_id final_id, edge_value final_id ''output''])
    ins outs"
proof -
  have "acyclic {(first_id, final_id)}" using assms(2) by (auto simp: acyclic_def trancl_insert)
  moreover have "{(''input'', first_id), (first_id, final_id), (final_id, ''output'')} \<inter>
      {first_id, final_id} \<times> {first_id, final_id} = {(first_id, final_id)}"
    using assms by auto
  ultimately have "acyclic ({(''input'', first_id), (first_id, final_id), (final_id, ''output'')} \<inter>
      {first_id, final_id} \<times> {first_id, final_id})" by simp
  then show ?thesis using assms
    by (simp add: contract_met_def Let_def edge_pairs_def source_of_def target_of_def edge_value_def
       inferred_module_def module_id_of_def name_of_def py_or_def outputs_at_def inputs_at_def last_of_def
       signature_outputs_def signature_inputs_def module_signature_def signature_value_def names_value_def
       with_intermediate_def comp_def) (auto simp: image_image)
qed

lemma one_stage_contract:
  assumes "ins \<noteq> []" "module_id \<noteq> ''output''" "module_id \<noteq> ''input''" "module_id \<noteq> []"
  shows "contract_met (map dict_of [inferred_module module_id p1 (signature_value n1 ins outs) r1])
    (map dict_of [edge_value ''input'' module_id, edge_value module_id ''output'']) ins outs"
proof -
  have "{(''input'', module_id), (module_id, ''output'')} \<inter> {module_id} \<times> {module_id} = {}"
    using assms by auto
  then have "acyclic ({(''input'', module_id), (module_id, ''output'')} \<inter> {module_id} \<times> {module_id})"
    by (simp add: acyclic_def)
  then show ?thesis using assms
    by (simp add: contract_met_def Let_def edge_pairs_def source_of_def target_of_def edge_value_def
       inferred_module_def module_id_of_def name_of_def py_or_def outputs_at_def inputs_at_def last_of_def
       signature_outputs_def signature_inputs_def module_signature_def signature_value_def names_value_def
       comp_def) (auto simp: image_image)
qed

lemma plain_primitives:
  "canonical_primitive (py_or (PStr ''Predict'') (PStr ''Predict'')) = ''Predict''"
  "canonical_primitive (py_or (PStr ''ChainOfThought'') (PStr ''Predict'')) = ''ChainOfThought''"
  by code_simp+

lemma plain_module_materializable:
  "dget ''primitive'' m \<in> {PStr ''Predict'', PStr ''ChainOfThought''} \<Longrightarrow> is_module_materializable m = Inr True"
  by (auto simp: is_module_materializable_def Let_def plain_primitives)

lemma inferred_materializes:
  assumes "it_topology it = []"
    and "prompt_inferred_pipeline_topology it = inferred_topology reason (map PDict ms) (map PDict es) note"
    and "ms \<noteq> []" "\<forall>m \<in> set ms. dget ''primitive'' m \<in> {PStr ''Predict'', PStr ''ChainOfThought''}"
    and "distinct (map signature_name ms)" "distinct (map module_class_name ms)"
    and "\<forall>e \<in> set es. dget ''when'' e = PNone" "contract_met ms es (it_inputs it) (it_outputs it)"
  shows "\<exists>t. materialized_pipeline_topology it = Inr t \<and> t \<noteq> []"
proof -
  let ?t = "inferred_topology reason (map PDict ms) (map PDict es) note"
  have declared: "declared_pipeline_topology it = []" "declared_retrieve_then_answer_topology it = []"
    "declared_named_topology it = []" "declared_materializable_topology it = []"
    using assms(1) by (simp_all add: declared_pipeline_topology_def declared_retrieve_then_answer_topology_def
        declared_named_topology_def declared_materializable_topology_def or_else_def Let_def)
  then have effective: "effective_pipeline_topology it = Inr ?t"
    using assms(2) by (simp add: effective_pipeline_topology_def adapt_retrieve_then_answer_topology_def
        adapt_named_topology_def or_else_def Let_def)
  have graph: "dget ''modules'' ?t = PList (map PDict ms)" "dget ''edges'' ?t = PList (map PDict es)" "?t \<noteq> []"
    by (simp_all add: inferred_topology_def)
  have "mapE is_module_materializable ms = Inr (map (\<lambda>m. True) ms)"
    using assms(4) by (intro mapE_pure) (simp add: plain_module_materializable)
  moreover have "react_v2_modules ms = []"
    using assms(4) by (auto simp: react_v2_modules_def filter_empty_conv primitive_of_def name_of_def py_or_def)
  ultimately have supported: "unsupported_primitives ms = Inr []"
    by (auto simp: unsupported_primitives_def filter_empty_conv in_set_zip)
  have retrievers: "foldE check_retriever ms () = Inr ()"
    using assms(4) by (auto simp: foldE_unit check_retriever_def primitive_of_def name_of_def py_or_def)
  have whens: "foldE check_edge_when es () = Inr ()"
    using assms(7) by (simp add: foldE_unit check_edge_when_def)
  have kinds: "check_kind it ms es = Inr ()"
    by (simp add: check_kind_def declared Let_def name_of_def py_or_def)
  have "validate_materializable_pipeline_topology it =
      Inr (dict_set ''modules'' (PList (map PDict ms)) ?t)"
    using assms(3,5,6) iffD2 [OF graph_contract_met assms(8)] supported retrievers whens kinds graph
    by (simp add: validate_materializable_pipeline_topology_def effective Let_def)
  moreover have "dict_set k v xs \<noteq> []" for k :: string and v :: pv and xs by (cases xs) simp_all
  ultimately show ?thesis by (simp add: materialized_pipeline_topology_def Let_def)
qed

lemma contract_met_outputs: "contract_met ms es ins outs \<Longrightarrow> set outs' \<subseteq> set outs \<Longrightarrow> contract_met ms es ins outs'"
  unfolding contract_met_def Let_def by blast

lemma module_class_first:
  assumes "is_letter c"
  shows "\<exists>t. module_class_name (dict_of (inferred_module i p (signature_value (c # s) ins outs) r)) = c # t"
  using class_first [OF assms] by (simp add: inferred_module_def)

lemma module_signature_name:
  "n \<noteq> [] \<Longrightarrow> signature_name (dict_of (inferred_module i p (signature_value n ins outs) r)) = n"
  by (simp add: signature_name_def module_signature_def inferred_module_def signature_value_def name_of_def py_or_def)

lemma two_stages_materialize:
  assumes "it_topology it = []" "it_inputs it \<noteq> []" "set (it_outputs it) \<subseteq> set outs"
    and "prompt_inferred_pipeline_topology it =
      two_stages first_id (c # n1) mid r1 final_id fallback r2 reason note (it_inputs it) outs"
    and "first_id \<noteq> final_id" "first_id \<notin> {''input'', ''output'', []}" "final_id \<notin> {''input'', ''output'', []}"
    and "pascal_name final_id fallback = d # n2" "c \<noteq> d" "is_letter c" "is_letter d"
  shows "\<exists>t. materialized_pipeline_topology it = Inr t \<and> t \<noteq> []"
proof -
  define ms where "ms = map dict_of
    [inferred_module first_id ''Predict'' (signature_value (c # n1) (it_inputs it) [mid]) r1,
     inferred_module final_id ''ChainOfThought'' (signature_value (d # n2) (with_intermediate (it_inputs it) mid) outs) r2]"
  define es where "es = map dict_of
    [edge_value ''input'' first_id, edge_value first_id final_id, edge_value final_id ''output'']"
  have "prompt_inferred_pipeline_topology it = inferred_topology reason (map PDict ms) (map PDict es) note"
    unfolding assms(4) two_stages_def assms(8)
    by (simp add: ms_def es_def inferred_module_def edge_value_def)
  moreover have "contract_met ms es (it_inputs it) (it_outputs it)"
    unfolding ms_def es_def using assms
    by (intro contract_met_outputs [OF two_stage_contract]) simp_all
  moreover have "distinct (map module_class_name ms)"
  proof -
    obtain t u where "module_class_name (ms ! 0) = c # t" "module_class_name (ms ! 1) = d # u"
      using module_class_first [OF assms(10)] module_class_first [OF assms(11)] by (fastforce simp: ms_def)
    moreover have "map module_class_name ms = [module_class_name (ms ! 0), module_class_name (ms ! 1)]"
      by (simp add: ms_def)
    ultimately show ?thesis using assms(9) by simp
  qed
  moreover have "distinct (map signature_name ms)"
    using assms(9) by (simp add: ms_def module_signature_name)
  ultimately show ?thesis
    by (intro inferred_materializes [OF assms(1), where ms = ms and es = es])
      (auto simp: ms_def es_def inferred_module_def edge_value_def)
qed

lemma upper_initials: "upper_char CHR ''p'' = CHR ''P''" "upper_char CHR ''v'' = CHR ''V''"
  by code_simp+

lemma pascal_produce: "\<exists>t. pascal_name (''produce_'' @ s) fallback = CHR ''P'' # t"
  using pascal_first [of "CHR ''p''" "''roduce''" s fallback] unfolding upper_initials
  by (simp add: is_letter_def)

lemma pascal_validate: "\<exists>t. pascal_name (''validate_'' @ s) fallback = CHR ''V'' # t"
  using pascal_first [of "CHR ''v''" "''alidate''" s fallback] unfolding upper_initials
  by (simp add: is_letter_def)

lemma or_default_nonempty: "set xs \<subseteq> set (or_default xs d)" "xs \<noteq> [] \<Longrightarrow> or_default xs d = xs"
  by (simp_all add: or_default_def)

lemma inferred_always_materializes:
  assumes "it_inputs it \<noteq> []" "prompt_inferred_pipeline_topology it \<noteq> []"
  shows "\<exists>t. materialized_pipeline_topology it = Inr t \<and> t \<noteq> []"
proof -
  let ?outs = "or_default (it_outputs it) ''output''"
  note inferred = prompt_inferred_pipeline_topology_def [of it] or_default_nonempty(2) [OF assms(1)]
  from assms(2) have none: "it_topology it = []" "module_inference_enabled it"
    by (auto simp: prompt_inferred_pipeline_topology_def split: if_splits)
  let ?t = "objective_tokens it"
  consider (route) "has_cue ?t routing_cues \<and> has_cue ?t generation_cues"
    | (checked) "\<not> (has_cue ?t routing_cues \<and> has_cue ?t generation_cues)"
        "has_cue ?t extract_cues \<and> has_cue ?t validate_cues"
    | (reason) "\<not> (has_cue ?t routing_cues \<and> has_cue ?t generation_cues)"
        "\<not> (has_cue ?t extract_cues \<and> has_cue ?t validate_cues)" "has_cue ?t reasoning_cues"
    using assms(2) none by (auto simp: prompt_inferred_pipeline_topology_def Let_def split: if_splits)
  then show ?thesis
  proof cases
    case route
    obtain n where "pascal_name (''produce_'' @ hd ?outs) ''ProduceOutput'' = CHR ''P'' # n"
      using pascal_produce by blast
    then show ?thesis
      by (intro two_stages_materialize [where d = "CHR ''P''", OF none(1) assms(1) or_default_nonempty(1) [of _ "''output''"]])
        (simp add: inferred none route Let_def, simp_all add: is_letter_def Let_def)
  next
    case checked
    obtain n where "pascal_name (''validate_'' @ hd ?outs) ''ValidateOutput'' = CHR ''V'' # n"
      using pascal_validate by blast
    then show ?thesis
      by (intro two_stages_materialize [where d = "CHR ''V''", OF none(1) assms(1) or_default_nonempty(1) [of _ "''output''"]])
        (simp add: inferred none checked Let_def, simp_all add: is_letter_def Let_def)
  next
    case reason
    let ?id = "''reason_'' @ hd ?outs"
    define ms where "ms = map dict_of [inferred_module ?id ''ChainOfThought''
       (signature_value (pascal_name ?id ''ReasonedOutput'') (it_inputs it) ?outs)
       ''Reason over the supplied inputs before producing the requested output.'']"
    define es where "es = map dict_of [edge_value ''input'' ?id, edge_value ?id ''output'']"
    have "contract_met ms es (it_inputs it) (it_outputs it)"
      unfolding ms_def es_def using assms(1)
      by (intro contract_met_outputs [OF one_stage_contract or_default_nonempty(1)]) simp_all
    moreover have "prompt_inferred_pipeline_topology it = inferred_topology
       ''reasoning/review cues favor a generated ChainOfThought module over a single Predict scaffold.''
       (map PDict ms) (map PDict es) ''Detected reasoning/review cues in the prompt.''"
    proof -
      have "\<not> (it_topology it \<noteq> [] \<or> \<not> module_inference_enabled it)" using none by simp
      then show ?thesis
        unfolding prompt_inferred_pipeline_topology_def Let_def
        by (simp only: if_not_P [OF reason(1)] if_not_P [OF reason(2)] if_P [OF reason(3)] if_not_P
            or_default_nonempty(2) [OF assms(1)])
          (simp add: ms_def es_def inferred_module_def edge_value_def)
    qed
    ultimately show ?thesis
      by (intro inferred_materializes [OF none(1), where ms = ms and es = es])
        (auto simp: ms_def es_def inferred_module_def edge_value_def)
  qed
qed

section \<open>The property\<close>

text \<open>C23: inference never fails: for an intent with inputs, a topology inferred from the words of the objective
  is materialized, with every check passed.\<close>

theorem inferred_pipeline_materializes:
  assumes "it_inputs it \<noteq> []" "prompt_inferred_pipeline_topology it \<noteq> []"
  shows "\<exists>t. materialized_pipeline_topology it = Inr t \<and> t \<noteq> []"
  by (rule inferred_always_materializes [OF assms])

definition routed_intent :: intent where
  "routed_intent = (answer_intent ''Route and answer the question'' [])\<lparr>it_topology := []\<rparr>"

theorem inferred_pipeline_materializes_witness:
  "\<exists>t. materialized_pipeline_topology routed_intent = Inr t \<and> t \<noteq> []"
proof -
  have "prompt_inferred_pipeline_topology routed_intent \<noteq> []" by code_simp
  moreover have "it_inputs routed_intent \<noteq> []" by (simp add: routed_intent_def answer_intent_def)
  ultimately show ?thesis using inferred_pipeline_materializes by blast
qed

end
