(* ===== verification/Program_Jury.thy ===== *)
theory Program_Jury
  imports Topology_Inference
begin

text \<open>
  Planning of the program jury (\<open>services/program_jury.py\<close>): the pool of jurors an intent declares
  and implies, the deterministic selection from it, and the rubrics of the selected jurors.  No
  model is called.  The record adds the fields of the intent only these services read.
\<close>

record review_intent = intent +
  it_metric :: "string option"
  it_examples :: "pv list"
  it_jury :: "(string \<times> pv) list"
  it_promotion :: "(string \<times> pv) list"

type_synonym juror = "(string \<times> pv) list"

section \<open>Declared jurors\<close>

fun string_list :: "pv \<Rightarrow> string list" where
  "string_list (PStr s) = (if strip s = [] then [] else [strip s])"
| "string_list (PList xs) = filter (\<lambda>s. s \<noteq> []) (map (\<lambda>x. strip (py_str x)) xs)"
| "string_list v = (if \<not> truthy v \<or> strip (py_str v) = [] then [] else [strip (py_str v)])"

definition jury_options :: "review_intent \<Rightarrow> (string \<times> pv) list" where
  "jury_options it =
     (if it_jury it \<noteq> [] then it_jury it else dict_of (dget ''jury'' (it_options it)))"

definition juror_name :: "nat \<Rightarrow> string" where
  "juror_name index = ''juror_'' @ nat_text (index + 1)"

definition named_juror :: "nat \<Rightarrow> string \<Rightarrow> juror" where
  "named_juror index model =
     [(''id'', PStr (sanitize_ident model (juror_name index))), (''model'', PStr model),
      (''perspective'', PStr ''unspecified''), (''source'', PStr ''explicit_user'')]"

definition described_juror :: "nat \<Rightarrow> (string \<times> pv) list \<Rightarrow> juror" where
  "described_juror index item =
     (let model = text_of (py_or (dget ''model'' item) (dget ''name'' item));
          perspective = strip (py_str (py_or (py_or (dget ''perspective'' item) (dget ''role'' item))
            (PStr ''unspecified'')));
          juror_id = strip (py_str (py_or (dget ''id'' item)
            (PStr (sanitize_ident (if model = [] then perspective else model) (juror_name index)))));
          text_entry = (\<lambda>key. if dget key item = PNone then [] else [(key, PStr (py_str (dget key item)))])
      in [(''id'', PStr juror_id), (''model'', if model = [] then PNone else PStr model),
          (''perspective'', PStr (if perspective = [] then ''unspecified'' else perspective)),
          (''source'', PStr (py_str (py_or (dget ''source'' item) (PStr ''explicit_user''))))] @
         text_entry ''provider'' @
         (if dget ''weight'' item = PNone then [] else [(''weight'', dget ''weight'' item)]) @
         text_entry ''reason'')"

fun normalize_juror :: "nat \<times> pv \<Rightarrow> juror list" where
  "normalize_juror (index, PStr s) = (if strip s = [] then [] else [named_juror index (strip s)])"
| "normalize_juror (index, PDict item) = [described_juror index item]"
| "normalize_juror _ = []"

definition normalize_jurors :: "pv \<Rightarrow> juror list" where
  "normalize_jurors raw = concat (map normalize_juror (zip [0..<length (list_of raw)] (list_of raw)))"

section \<open>Inferred jurors\<close>

definition intent_text_for_jury :: "review_intent \<Rightarrow> string" where
  "intent_text_for_jury it = lower (join '' ''
     ([it_name it, it_objective it, it_task_type it, case it_metric it of None \<Rightarrow> [] | Some m \<Rightarrow> m] @
      it_constraints it @ it_inputs it @ it_outputs it))"

definition pool_juror :: "string \<Rightarrow> string \<Rightarrow> string \<Rightarrow> string \<Rightarrow> juror" where
  "pool_juror prefix source perspective reason =
     [(''id'', PStr (prefix @ lower (sanitize_ident perspective ''IntentProgram''))), (''model'', PNone),
      (''perspective'', PStr perspective), (''source'', PStr source), (''reason'', PStr reason)]"

definition inferred_juror :: "string \<Rightarrow> string \<Rightarrow> juror" where
  "inferred_juror = pool_juror ''inferred_'' ''inferred_from_intent''"

definition explicit_perspective_juror :: "string \<Rightarrow> juror" where
  "explicit_perspective_juror perspective = pool_juror ''explicit_'' ''explicit_perspective'' perspective
     ''declared in jury.perspectives without a bound juror model''"

definition baseline_jurors :: "juror list" where
  "baseline_jurors =
     [inferred_juror ''correctness'' ''baseline behavior correctness coverage'',
      inferred_juror ''robustness'' ''baseline edge-case and failure-mode coverage'',
      inferred_juror ''instruction_following'' ''baseline objective and instruction adherence coverage'']"

definition infer_program_jury_pool :: "review_intent \<Rightarrow> juror list" where
  "infer_program_jury_pool it =
     (let content = intent_text_for_jury it;
          metric = (case it_metric it of None \<Rightarrow> [] | Some m \<Rightarrow> lower m);
          juror_if = (\<lambda>b perspective reason. if b then [inferred_juror perspective reason] else []) in
      baseline_jurors @
      juror_if (it_examples it \<noteq> []) ''example_generalization''
        ''examples are present, so held-out/generalization behavior matters'' @
      juror_if (contains metric ''exact'') ''answer_equivalence''
        ''exact-match metrics need strict answer-equivalence critique'' @
      juror_if (contains metric ''accuracy'' \<or> contains metric ''class'') ''label_boundary''
        ''classification/accuracy metrics need boundary-case critique'' @
      juror_if (\<exists>name \<in> set [''confidence'', ''score'', ''probability'']. name \<in> set (it_outputs it))
        ''calibration'' ''confidence-like outputs require calibration critique'' @
      juror_if (\<exists>token \<in> set [''context'', ''cite'', ''citation'', ''source'', ''rag'']. contains content token)
        ''grounding'' ''context/source/citation cues require grounding critique'' @
      juror_if (it_constraints it \<noteq> []) ''constraint_adherence''
        ''declared constraints require adversarial checking'')"

section \<open>The plan\<close>

definition perspective_of :: "juror \<Rightarrow> string" where
  "perspective_of j = py_str (py_or (dget ''perspective'' j) (PStr ''unspecified''))"

definition merge_juror :: "juror \<Rightarrow> juror list \<Rightarrow> juror list" where
  "merge_juror j merged =
     (if perspective_of j \<in> set (map perspective_of merged) then merged else merged @ [j])"

definition merge_jury_pool :: "juror list \<Rightarrow> juror list \<Rightarrow> juror list" where
  "merge_jury_pool declared inferred = fold merge_juror (declared @ inferred) []"

definition minimum_jurors :: "(string \<times> pv) list \<Rightarrow> int checked" where
  "minimum_jurors options = py_int (py_or (dget ''minimum_jurors'' options) (PInt 3))"

definition jury_plan_defaults :: "review_intent \<Rightarrow> (string \<times> pv) list checked" where
  "jury_plan_defaults it =
     (let options = jury_options it; declared = normalize_jurors (dget ''jurors'' options);
          wanted = string_list (dget ''perspectives'' options);
          covered = filter (\<lambda>s. strip s \<noteq> []) (map (\<lambda>j. name_of (dget ''perspective'' j)) declared);
          added = map explicit_perspective_juror (filter (\<lambda>p. p \<notin> set covered) wanted);
          inferred = infer_program_jury_pool it; jurors = merge_jury_pool (declared @ added) inferred;
          found = map (\<lambda>j. py_str (dget ''perspective'' j)) (filter (\<lambda>j. truthy (dget ''perspective'' j) \<and>
             dget ''perspective'' j \<noteq> PStr ''unspecified'') jurors);
          constraints = dget ''selection_constraints'' options;
          count = (\<lambda>n. PInt (int n)) in
     bindE (minimum_jurors options) (\<lambda>minimum.
     Inr [(''schema_version'', PStr ''program-jury-v1''), (''mode'', PStr ''jury''),
          (''status'', PStr ''planned_not_executed''),
          (''selection_model'', PStr (py_str (py_or (dget ''selection_model'' options)
             (PStr ''perspective_balanced_explicit_pool'')))),
          (''minimum_jurors'', PInt minimum), (''jurors'', PList (map PDict jurors)),
          (''pool'', PDict [(''scope'', PStr ''program''), (''explicit_juror_count'', count (length declared)),
             (''explicit_perspective_count'', count (length wanted)),
             (''explicit_perspective_juror_count'', count (length added)),
             (''inferred_juror_count'', count (length inferred)), (''merged_juror_count'', count (length jurors)),
             (''inference_basis'', names_value [''intent.name'', ''intent.objective'', ''intent.task_type'',
                ''intent.metric'', ''intent.inputs'', ''intent.outputs'', ''intent.constraints'', ''intent.examples''])]),
          (''perspectives'', names_value (if wanted = [] then sorted_set found else wanted)),
          (''selection_constraints'', if is_mapping constraints then constraints
             else PDict [(''prefer_diverse_models'', PBool True), (''prefer_diverse_perspectives'', PBool True)]),
          (''aggregation'', PStr (py_str (py_or (dget ''aggregation'' options) (PStr ''deliberation_summary'')))),
          (''authority'', PStr ''advisory_evidence_only''),
          (''notes'', names_value [''ProgramPlan records the intended evaluation shape only.'',
             ''No juror model is called during deterministic materialization.'',
             ''Jury evidence cannot rank, prune, promote, or grant Oracle authority.''])]))"

section \<open>Selection\<close>

definition juror_id_of :: "juror \<Rightarrow> string" where
  "juror_id_of j = name_of (dget ''id'' j)"

text \<open>The first pass takes jurors of new perspectives, the second fills up with new ids; both stop when
  a juror they add reaches the minimum.\<close>

fun pick_diverse :: "int \<Rightarrow> juror list \<Rightarrow> juror list \<Rightarrow> juror list" where
  "pick_diverse minimum [] selected = selected"
| "pick_diverse minimum (j # js) selected =
     (if juror_id_of j \<in> set (map juror_id_of selected) \<or>
         perspective_of j \<in> set (map perspective_of selected)
      then pick_diverse minimum js selected
      else if minimum \<le> int (length (selected @ [j])) then selected @ [j]
      else pick_diverse minimum js (selected @ [j]))"

fun pick_rest :: "int \<Rightarrow> juror list \<Rightarrow> juror list \<Rightarrow> juror list" where
  "pick_rest minimum [] selected = selected"
| "pick_rest minimum (j # js) selected =
     (if juror_id_of j \<in> set (map juror_id_of selected) then pick_rest minimum js selected
      else if minimum \<le> int (length (selected @ [j])) then selected @ [j]
      else pick_rest minimum js (selected @ [j]))"

definition selected_jurors :: "int \<Rightarrow> juror list \<Rightarrow> juror list" where
  "selected_jurors minimum jurors =
     (let first = pick_diverse minimum jurors [] in
      if int (length first) < minimum then pick_rest minimum jurors first else first)"

definition build_jury_selection :: "(string \<times> pv) list \<Rightarrow> (string \<times> pv) list checked" where
  "build_jury_selection payload =
     (let jurors = dict_items (dget ''jurors'' payload);
          constraints = dget ''selection_constraints'' payload in
     bindE (minimum_jurors payload) (\<lambda>minimum.
     let selected = selected_jurors minimum jurors in
     Inr [(''schema_version'', PStr ''program-jury-selection-v1''),
          (''jury_schema_version'', dget_or ''schema_version'' (PStr ''program-jury-v1'') payload),
          (''selection_model'', dget ''selection_model'' payload),
          (''selection_constraints'', PDict (dict_of constraints)), (''minimum_jurors'', PInt minimum),
          (''eligible_juror_count'', PInt (int (length jurors))),
          (''selected_juror_count'', PInt (int (length selected))),
          (''selected_jurors'', PList (map PDict selected)),
          (''selected_perspectives'', names_value (map perspective_of selected)),
          (''status'', PStr (if minimum \<le> int (length selected) then ''selected'' else ''selection_incomplete'')),
          (''authority'', PStr ''selection_contract_only_non_authoritative''),
          (''notes'', names_value [''Selection is deterministic metadata for future jury execution binding.'',
             ''No juror model is called during deterministic materialization.'',
             ''Selected jurors cannot rank, prune, promote, or grant Oracle authority.''])]))"

section \<open>Rubrics\<close>

definition perspective_rubrics :: "(string \<times> string list \<times> string list) list" where
  "perspective_rubrics =
     [(''correctness'',
        [''answer_correctness'', ''objective_satisfaction''],
        [''Where could the produced answer be simply wrong?'',
         ''Does the output satisfy every declared output field?'']),
      (''robustness'',
        [''edge_case_resilience'', ''failure_mode_visibility''],
        [''Which edge case would break this program first?'',
         ''Are failure modes explicit enough to debug?'']),
      (''instruction_following'',
        [''objective_adherence'', ''format_and_field_adherence''],
        [''Does the output drift from the stated objective?'',
         ''Does the output honor the requested field contract?'']),
      (''answer_equivalence'',
        [''strict_equivalence'', ''acceptable_variant_handling''],
        [''Would semantically equivalent answers be scored incorrectly?'',
         ''Would near-miss answers pass when they should not?'']),
      (''label_boundary'',
        [''class_boundary_clarity'', ''ambiguous_case_handling''],
        [''Which inputs sit on the boundary between labels?'',
         ''Are ambiguous cases handled consistently?'']),
      (''example_generalization'',
        [''overfit_resistance'', ''held_out_behavior''],
        [''Does the program merely mimic examples?'',
         ''What held-out example would expose weak generalization?'']),
      (''calibration'',
        [''confidence_alignment'', ''uncertainty_expression''],
        [''Is confidence overstated for uncertain answers?'',
         ''Does the program know when evidence is insufficient?'']),
      (''grounding'',
        [''source_faithfulness'', ''citation_discipline''],
        [''Which claim is unsupported by the supplied context?'',
         ''Are citations or source references faithful?'']),
      (''source_grounding'',
        [''source_refs_preserved'', ''source_identity_not_invented''],
        [''Does every transition artifact preserve source references?'',
         ''Does the program invent Zotero, Marker, or source-package authority?'']),
      (''authority_boundaries'',
        [''canonical_mutation_forbidden'', ''review_authority_explicit''],
        [''Could this output be mistaken for an accepted Wiki or Atlas mutation?'',
         ''Are review-only boundaries and required human decisions explicit?'']),
      (''transition_artifact_quality'',
        [''artifact_family_clarity'', ''proposal_reviewability''],
        [''Are transition, proposal, review, and canonical artifact families distinct?'',
         ''Would a reviewer have enough provenance and uncertainty to act?'']),
      (''language_fidelity'',
        [''source_language_preserved'', ''review_text_language_consistent''],
        [''Does the generated draft switch languages without an explicit request?'',
         ''Are headings, labels, and review-facing note text in the source language?'']),
      (''zotero_footnote_linkage'',
        [''zotero_refs_preferred'', ''source_provenance_footnotes_only''],
        [''Does provenance prefer Zotero item/attachment refs when available?'',
         ''Did source/provenance material leak into a separate heading block instead of footnotes?'']),
      (''zotero_identity_derivation'',
        [''zotero_uris_derived_from_manifest_keys'', ''package_folder_not_renamed_to_zotero_key''],
        [''If explicit Zotero URIs are absent, did the draft derive review links from item_key and attachment_record_id without inventing source identity?'',
         ''Did the output preserve doc_id/hash-keyed package paths instead of treating Zotero keys or citekeys as package folders?'']),
      (''ontological_role_separation'',
        [''review_note_source_roles_separated'', ''source_material_type_not_confused_with_note_kind''],
        [''Did review artifact metadata, proposed note identity, and source/work identity stay in separate structures?'',
         ''Did the program choose note kind from content role instead of treating PDF/source material type as the note kind?'']),
      (''wiki_link_key_concepts'',
        [''durable_concepts_wikilinked'', ''source_authors_wikilinked_in_frontmatter'', ''ordinary_words_not_overlinked''],
        [''Are reusable concepts, methods, sibling candidates, and known source authors emitted as Obsidian wikilinks in the appropriate fields?'',
         ''Is the draft overlinking generic words or underlinking durable concepts/authors?'']),
      (''purpose_framing'',
        [''reading_purpose_explicit'', ''note_usefulness_purpose_clear''],
        [''Does each proposed note or section explain what reading/work purpose it serves?'',
         ''Could a reviewer tell why this artifact matters beyond summarizing text?'']),
      (''authorial_purpose_and_structure'',
        [''authorial_purpose_inferred'', ''argument_structure_preserved''],
        [''Does the output infer why the author wrote this section without overstating evidence?'',
         ''Does the artifact preserve the section's role in the source's argument or method?'']),
      (''metacognitive_uncertainty'',
        [''uncertainty_visible'', ''grounding_status_distinguished''],
        [''Are inferred interpretations distinguished from verified source-grounded claims?'',
         ''Does the review packet expose weak evidence and next review needs instead of hiding them?'']),
      (''how_to_read_concept_enrichment'',
        [''relevant_how_to_read_concepts_applied'', ''applied_and_weak_absent_sets_disjoint'', ''elements_of_thought_presence_consistent'', ''concept_absence_or_weak_fit_explained'', ''source_value_enriched_beyond_summary''],
        [''Did the artifact use the relevant How-to-Read concepts to extract more value from the source material?'',
         ''Are applied_concepts and weak_or_absent_concepts disjoint for every artifact and review packet?'',
         ''If an artifact exposes a populated elements_of_thought structure, is Elements of Thought classified as applied rather than weak or absent?'',
         ''Does it avoid forcing irrelevant concepts while explaining weak or absent concept fit as review uncertainty?'',
         ''Is the output more useful than a section summary because it exposes purpose, structure, action, or logic?'']),
      (''constraint_adherence'',
        [''constraint_satisfaction'', ''forbidden_behavior_detection''],
        [''Which declared constraint is easiest to violate?'',
         ''Does the program expose or hide constraint failures?'']),
      (''clarity'',
        [''readability'', ''user_actionability''],
        [''Would a user understand the answer without extra context?'',
         ''Is the response concise enough for the use case?''])]"

definition rubric_for_perspective :: "string \<Rightarrow> string list \<times> string list" where
  "rubric_for_perspective perspective =
     (case map_of perspective_rubrics perspective of
        Some rubric \<Rightarrow> rubric
      | None \<Rightarrow> ([perspective @ ''_review''],
          [''What would a '' @ perspective @ '' reviewer challenge first?'']))"

definition juror_rubric :: "juror \<Rightarrow> pv" where
  "juror_rubric j =
     (let rubric = rubric_for_perspective (perspective_of j) in
      PDict [(''juror_id'', dget ''id'' j), (''perspective'', PStr (perspective_of j)),
             (''criteria'', names_value (fst rubric)),
             (''adversarial_questions'', names_value (snd rubric))])"

definition build_jury_rubric :: "review_intent \<Rightarrow> (string \<times> pv) list \<Rightarrow> (string \<times> pv) list" where
  "build_jury_rubric it selection =
     [(''schema_version'', PStr ''program-jury-rubric-v1''), (''intent_name'', PStr (it_name it)),
      (''objective'', PStr (it_objective it)), (''selection_status'', dget ''status'' selection),
      (''selected_juror_count'', dget_or ''selected_juror_count'' (PInt 0) selection),
      (''juror_rubrics'', PList (map juror_rubric (dict_items (dget ''selected_jurors'' selection)))),
      (''constraints_under_review'', names_value (it_constraints it)),
      (''authority'', PStr ''rubric_contract_only_non_authoritative''),
      (''notes'', names_value [''Rubrics are deterministic prompts for future jury execution binding.'',
         ''No juror model is called during deterministic materialization.'',
         ''Rubric results cannot rank, prune, promote, or grant Oracle authority.''])]"

section \<open>What is selected\<close>

abbreviation ids_of :: "juror list \<Rightarrow> string list" where
  "ids_of js \<equiv> map juror_id_of js"

lemma pick_diverse_inv:
  assumes "distinct (ids_of selected)" "distinct (map perspective_of selected)"
  shows "distinct (ids_of (pick_diverse minimum js selected)) \<and>
    distinct (map perspective_of (pick_diverse minimum js selected)) \<and>
    set (pick_diverse minimum js selected) \<subseteq> set selected \<union> set js"
  using assms
proof (induction minimum js selected rule: pick_diverse.induct)
  case (2 minimum j js selected)
  then show ?case by (auto split: if_splits)
qed auto

lemma pick_rest_inv:
  assumes "distinct (ids_of selected)"
  shows "distinct (ids_of (pick_rest minimum js selected)) \<and>
    set selected \<subseteq> set (pick_rest minimum js selected) \<and>
    set (pick_rest minimum js selected) \<subseteq> set selected \<union> set js"
  using assms
proof (induction minimum js selected rule: pick_rest.induct)
  case (2 minimum j js selected)
  then show ?case by (auto split: if_splits)
qed auto

lemma pick_rest_covers:
  "int (length (pick_rest minimum js selected)) < minimum \<Longrightarrow>
     set (ids_of js) \<subseteq> set (ids_of (pick_rest minimum js selected)) \<and>
     set (ids_of selected) \<subseteq> set (ids_of (pick_rest minimum js selected))"
proof (induction minimum js selected rule: pick_rest.induct)
  case (2 minimum j js selected)
  then show ?case by (simp split: if_splits) blast+
qed simp

lemma pick_diverse_length: "int (length selected) < minimum \<Longrightarrow> int (length (pick_diverse minimum js selected)) \<le> minimum"
  by (induction minimum js selected rule: pick_diverse.induct) auto

lemma pick_rest_length: "int (length selected) < minimum \<Longrightarrow> int (length (pick_rest minimum js selected)) \<le> minimum"
  by (induction minimum js selected rule: pick_rest.induct) auto

lemma selected_jurors_inv:
  "distinct (ids_of (selected_jurors minimum js)) \<and> set (selected_jurors minimum js) \<subseteq> set js"
proof -
  have first: "distinct (ids_of (pick_diverse minimum js []))" "set (pick_diverse minimum js []) \<subseteq> set js"
    using pick_diverse_inv [of "[]" minimum js] by simp_all
  with pick_rest_inv [OF first(1), of minimum js] show ?thesis by (auto simp: selected_jurors_def Let_def)
qed

text \<open>Enough jurors are selected exactly when there are enough different ids.\<close>

lemma selection_complete:
  "minimum \<le> int (length (selected_jurors minimum js)) \<longleftrightarrow> minimum \<le> int (card (set (ids_of js)))"
proof
  have "length (selected_jurors minimum js) = card (set (ids_of (selected_jurors minimum js)))"
    using selected_jurors_inv [of minimum js] by (metis distinct_card length_map)
  also have "\<dots> \<le> card (set (ids_of js))"
    using selected_jurors_inv [of minimum js] by (intro card_mono) auto
  finally show "minimum \<le> int (length (selected_jurors minimum js)) \<Longrightarrow> minimum \<le> int (card (set (ids_of js)))"
    by linarith
next
  assume enough: "minimum \<le> int (card (set (ids_of js)))"
  show "minimum \<le> int (length (selected_jurors minimum js))"
  proof (rule ccontr)
    assume few: "\<not> ?thesis"
    then have "selected_jurors minimum js = pick_rest minimum js (pick_diverse minimum js [])"
      by (auto simp: selected_jurors_def Let_def split: if_splits)
    with few have "set (ids_of js) \<subseteq> set (ids_of (selected_jurors minimum js))"
      using pick_rest_covers [of minimum js "pick_diverse minimum js []"] by simp
    then have "card (set (ids_of js)) \<le> card (set (ids_of (selected_jurors minimum js)))"
      by (intro card_mono) auto
    also have "\<dots> \<le> length (selected_jurors minimum js)" using card_length by (metis length_map)
    finally show False using enough few by linarith
  qed
qed

lemma selected_jurors_length:
  assumes "0 < minimum"
  shows "int (length (selected_jurors minimum js)) \<le> minimum"
  using assms pick_diverse_length [of "[]" minimum js] pick_rest_length [of "pick_diverse minimum js []" minimum js]
  by (auto simp: selected_jurors_def Let_def)

lemma selected_perspectives_distinct:
  "minimum \<le> int (length (pick_diverse minimum js [])) \<Longrightarrow> distinct (map perspective_of (selected_jurors minimum js))"
  using pick_diverse_inv [of "[]" minimum js] by (simp add: selected_jurors_def Let_def)

text \<open>The pool keeps one juror per perspective: of several models named without a perspective, only the
  first stays.\<close>

lemma merge_juror_inv:
  "distinct (map perspective_of merged) \<Longrightarrow>
     distinct (map perspective_of (fold merge_juror js merged)) \<and>
     set (fold merge_juror js merged) \<subseteq> set merged \<union> set js"
proof (induction js arbitrary: merged)
  case (Cons j js)
  then have "distinct (map perspective_of (merge_juror j merged))" by (simp add: merge_juror_def)
  from Cons.IH [OF this] show ?case by (auto simp: merge_juror_def split: if_splits)
qed simp

lemma merge_jury_pool_distinct:
  "distinct (map perspective_of (merge_jury_pool declared inferred))"
  using merge_juror_inv [of "[]" "declared @ inferred"] by (simp add: merge_jury_pool_def)

lemma named_jurors_collapse:
  "length (filter (\<lambda>j. perspective_of j = ''unspecified'')
     (merge_jury_pool (normalize_jurors raw) inferred)) \<le> 1"
proof -
  have "length (filter (\<lambda>j. f j = p) js) \<le> 1" if "distinct (map f js)" for f :: "juror \<Rightarrow> string" and p js
    using that
  proof (induction js)
    case (Cons j js)
    then have "f j = p \<Longrightarrow> filter (\<lambda>j. f j = p) js = []" by (auto simp: filter_empty_conv image_iff)
    with Cons show ?case by auto
  qed simp
  with merge_jury_pool_distinct show ?thesis by blast
qed

section \<open>The property\<close>

definition sample_jury :: "(string \<times> pv) list" where
  "sample_jury = [(''minimum_jurors'', PInt 2), (''jurors'', PList
     [PDict [(''id'', PStr ''a''), (''perspective'', PStr ''correctness'')],
      PDict [(''id'', PStr ''b''), (''perspective'', PStr ''correctness'')],
      PDict [(''id'', PStr ''a''), (''perspective'', PStr ''robustness'')]])]"

lemma sample_jury_selection:
  "case build_jury_selection sample_jury of Inl _ \<Rightarrow> False | Inr sel \<Rightarrow> dget ''status'' sel = PStr ''selected''"
  by code_simp

text \<open>C28: the selected jurors are jurors of the pool with different ids, and the selection is complete
  exactly when the pool has as many different ids as the minimum asks for.\<close>

theorem jury_selection_exact:
  assumes "build_jury_selection payload = Inr sel"
  shows "\<exists>minimum chosen. minimum_jurors payload = Inr minimum \<and>
    dget ''selected_jurors'' sel = PList (map PDict chosen) \<and>
    set chosen \<subseteq> set (dict_items (dget ''jurors'' payload)) \<and> distinct (map juror_id_of chosen) \<and>
    (dget ''status'' sel = PStr ''selected'' \<longleftrightarrow>
       minimum \<le> int (card (set (map juror_id_of (dict_items (dget ''jurors'' payload))))))"
proof -
  let ?jurors = "dict_items (dget ''jurors'' payload)"
  from assms obtain minimum where minimum: "minimum_jurors payload = Inr minimum"
    by (auto simp: build_jury_selection_def Let_def bindE_Inr_iff)
  with assms have "dget ''selected_jurors'' sel = PList (map PDict (selected_jurors minimum ?jurors))"
    "dget ''status'' sel = PStr (if minimum \<le> int (length (selected_jurors minimum ?jurors))
       then ''selected'' else ''selection_incomplete'')"
    by (auto simp: build_jury_selection_def Let_def)
  with minimum selected_jurors_inv [of minimum ?jurors] selection_complete [of minimum ?jurors]
  show ?thesis by (intro exI [of _ minimum] exI [of _ "selected_jurors minimum ?jurors"]) simp
qed

theorem jury_selection_exact_witness:
  "\<exists>minimum chosen. minimum_jurors sample_jury = Inr minimum \<and> distinct (map juror_id_of chosen) \<and>
     set chosen \<subseteq> set (dict_items (dget ''jurors'' sample_jury))"
proof -
  from sample_jury_selection obtain sel where "build_jury_selection sample_jury = Inr sel"
    by (auto split: sum.splits)
  from jury_selection_exact [OF this] show ?thesis by blast
qed

end
