(* ===== verification/Program_Promotion.thy ===== *)
theory Program_Promotion
  imports Program_Jury Pipeline_Schedule
begin

text \<open>
  The promotion shell of a generated program (\<open>services/program_promotion.py\<close>): the adjudicator and
  the policy an intent declares, the review with the evidence that is missing, and the request put
  to the adjudicator.
\<close>

section \<open>The declared adjudicator\<close>

definition adjudicator_ids :: "(string \<times> string) list" where
  "adjudicator_ids =
     [(''human_operator'', ''local_operator''), (''ai_agent'', ''local_ai_agent''),
      (''ai_council'', ''local_ai_council''), (''hybrid'', ''ai_council_recommends_human_approves''),
      (''policy_gate'', ''local_policy_gate'')]"

definition reserved_keys :: "string list" where
  "reserved_keys = [''kind'', ''id'', ''authority'', ''status'', ''adapter'']"

definition promotion_adjudicator :: "review_intent \<Rightarrow> (string \<times> pv) list checked" where
  "promotion_adjudicator it =
     (let adjudicator = dict_of (dget ''adjudicator'' (it_promotion it));
          kind = py_str (py_or (py_or (dget ''kind'' adjudicator) (dget ''adjudicator_kind'' (it_promotion it)))
            (PStr ''human_operator''));
          extra = filter (\<lambda>(k, v). k \<notin> set reserved_keys \<and> v \<noteq> PNone) adjudicator in
     case map_of adjudicator_ids kind of
       None \<Rightarrow> Inl (Value_error (''program promotion adjudicator.kind must name a decision actor/process; allowed values: '' @
          names_text (sorted_set (map fst adjudicator_ids))))
     | Some dflt \<Rightarrow>
         Inr (dict_merge
           [(''kind'', PStr kind),
            (''id'', PStr (if truthy (dget ''id'' adjudicator) then py_str (dget ''id'' adjudicator) else dflt)),
            (''authority'', PStr (py_str (py_or (dget ''authority'' adjudicator) (PStr ''required_for_promotion'')))),
            (''status'', PStr ''pending'')] extra))"

section \<open>External authority\<close>

text \<open>\<open>ref.setdefault(k, v)\<close>.\<close>

definition set_default :: "string \<Rightarrow> pv \<Rightarrow> (string \<times> pv) list \<Rightarrow> (string \<times> pv) list" where
  "set_default k v ref = (if k \<in> set (dict_keys ref) then ref else ref @ [(k, v)])"

fun external_authority_ref :: "string \<Rightarrow> pv \<Rightarrow> pv list" where
  "external_authority_ref source (PStr s) =
     (if strip s = [] then [] else
      [PDict [(''ref'', PStr (strip s)), (''status'', PStr ''not_exported''), (''source'', PStr source)]])"
| "external_authority_ref source (PDict kvs) =
     (let ref = filter (\<lambda>kv. snd kv \<noteq> PNone) kvs in
      if ref = [] then [] else
      [PDict (set_default ''source'' (PStr source) (set_default ''status'' (PStr ''not_exported'') ref))])"
| "external_authority_ref source _ = []"

definition promotion_external_authority :: "review_intent \<Rightarrow> (string \<times> pv) list" where
  "promotion_external_authority it =
     (let declared = list_of (dget ''refs'' (dict_of (dget ''external_authority'' (it_promotion it))));
          more = list_of (dget ''external_refs'' (it_promotion it)) in
      [(''status'', PStr ''not_exported''),
       (''refs'', PList (concat (map (external_authority_ref ''promotion.external_authority.refs'') declared) @
          concat (map (external_authority_ref ''promotion.external_refs'') more))),
       (''notes'', names_value [''External authority references are preserved as opaque metadata.'',
          ''DSPx core does not validate, call, or mutate external authority systems.''])])"

section \<open>The policy\<close>

record promotion_policy =
  needs_evaluation :: bool
  needs_jury :: bool
  needs_decision :: bool

definition policy_label :: "string \<Rightarrow> string" where
  "policy_label key = ''program promotion policy.'' @ key"

definition promotion_policy_of :: "review_intent \<Rightarrow> promotion_policy checked" where
  "promotion_policy_of it =
     (let policy = dict_of (dget ''policy'' (it_promotion it));
          flag = (\<lambda>key dflt. contract_bool (dget key policy) dflt (policy_label key)) in
     bindE (flag ''automatic_promotion'' False) (\<lambda>automatic.
     guardE automatic (Value_error ''program-gen promotion policy cannot enable automatic_promotion'')
    (bindE (flag ''requires_behavioral_evaluation'' True) (\<lambda>evaluation.
     bindE (flag ''requires_jury_execution'' True) (\<lambda>jury.
     bindE (flag ''requires_adjudicator_decision'' True) (\<lambda>decision.
     Inr \<lparr>needs_evaluation = evaluation, needs_jury = jury, needs_decision = decision\<rparr>))))))"

definition policy_value :: "promotion_policy \<Rightarrow> pv" where
  "policy_value p = PDict
     [(''requires_behavioral_evaluation'', PBool (needs_evaluation p)),
      (''requires_jury_execution'', PBool (needs_jury p)),
      (''requires_adjudicator_decision'', PBool (needs_decision p)), (''automatic_promotion'', PBool False)]"

section \<open>The review\<close>

definition requirement :: "string \<Rightarrow> string \<Rightarrow> string list \<Rightarrow> (string \<times> pv) list" where
  "requirement name status refs =
     [(''name'', PStr name), (''status'', PStr status), (''artifact_refs'', names_value refs)]"

definition behavior_refs_of :: "bool \<Rightarrow> string list \<Rightarrow> string list" where
  "behavior_refs_of has_results refs =
     (if has_results \<and> refs = [] then [''behavior_results.json''] else refs)"

definition evidence_requirements ::
    "promotion_policy \<Rightarrow> pv \<Rightarrow> bool \<Rightarrow> bool \<Rightarrow> string list \<Rightarrow> (string \<times> pv) list list" where
  "evidence_requirements policy adjudicator_id has_examples has_results refs =
     (let now = ''satisfied_by_current_materialization'';
          pending = (\<lambda>b. if b then ''pending'' else ''not_required_by_policy'') in
     [requirement ''candidate_materialized'' now [''program.py'', ''manifest.json''],
      requirement ''smoke_validation'' now [''eval_smoke.py''],
      requirement ''jury_artifact_binding'' now [''jury.json'', ''jury_selection.json'', ''jury_rubric.json''],
      requirement ''examples_binding'' (if has_examples then now else ''not_applicable'')
        (if has_examples then [''examples.json'', ''eval_examples.py''] else []),
      requirement ''behavioral_evaluation_episode''
        (if has_results then ''satisfied_by_current_behavior_episode'' else pending (needs_evaluation policy))
        (if has_results then refs else []),
      requirement ''model_jury_execution_episode'' (pending (needs_jury policy)) [],
      requirement ''promotion_adjudicator_decision'' (pending (needs_decision policy)) [] @
        [(''adjudicator_ref'', adjudicator_id)]])"

definition blocking_conditions :: "promotion_policy \<Rightarrow> bool \<Rightarrow> string list" where
  "blocking_conditions policy has_results =
     (if needs_evaluation policy \<and> \<not> has_results then [''no_behavioral_evaluation_episode''] else []) @
     (if needs_jury policy then [''no_model_jury_execution_episode''] else []) @
     (if needs_decision policy then [''no_promotion_adjudicator_decision''] else [])"

definition build_promotion_review ::
    "review_intent \<Rightarrow> bool \<Rightarrow> (string \<times> pv) list \<Rightarrow> (string \<times> pv) list \<Rightarrow> bool \<Rightarrow> string list
      \<Rightarrow> (string \<times> pv) list checked" where
  "build_promotion_review it has_examples jury_selection jury_rubric has_results artifact_refs =
     (let refs = behavior_refs_of has_results artifact_refs in
     bindE (promotion_adjudicator it) (\<lambda>adjudicator.
     bindE (promotion_policy_of it) (\<lambda>policy.
     Inr [(''schema_version'', PStr ''program-promotion-review-v1''), (''intent_name'', PStr (it_name it)),
          (''objective'', PStr (it_objective it)), (''promotion_state'', PStr ''not_promoted''),
          (''candidate_status'', PStr ''exploratory''), (''review_required'', PBool True),
          (''adjudicator'', PDict adjudicator), (''decision_authority'', dget ''authority'' adjudicator),
          (''promotion_policy'', policy_value policy),
          (''external_authority'', PDict (promotion_external_authority it)),
          (''decision'', PDict [(''status'', PStr ''pending''), (''outcome'', PNone), (''decided_by'', PNone),
             (''decided_at'', PNone), (''evidence_refs'', PList [])]),
          (''evidence_requirements'', PList (map PDict
             (evidence_requirements policy (dget ''id'' adjudicator) has_examples has_results refs))),
          (''blocking_conditions'', names_value (blocking_conditions policy has_results)),
          (''available_local_evidence'', PDict [(''plan'', PStr ''plan.json''), (''jury'', PStr ''jury.json''),
             (''jury_selection_status'', dget ''status'' jury_selection),
             (''jury_rubric_status'', PStr (if truthy (dget ''juror_rubrics'' jury_rubric)
                then ''available'' else ''unavailable'')),
             (''smoke_harness'', PStr ''eval_smoke.py''), (''jury_harness'', PStr ''eval_jury.py''),
             (''examples_binding'', PBool has_examples),
             (''behavior_results'', case refs of [] \<Rightarrow> PNone | r # _ \<Rightarrow> PStr r),
             (''behavior_result_artifacts'', names_value refs)]),
          (''non_authority'', PDict [(''program_gen_materialization'', PStr ''evidence_only''),
             (''jury_artifacts'', PStr ''planned_contracts_only''),
             (''oracle_role'', PStr ''behavioral_interpreter_only''), (''automatic_promotion'', PBool False),
             (''ranking_pruning_promotion'', PBool False), (''external_authority_export'', PBool False)]),
          (''notes'', names_value [''This shell records what would be needed before local promotion review.'',
             ''It does not promote the generated program or activate any policy.'',
             ''The promotion adjudicator may be human, one AI agent, an AI council, a hybrid, or a policy gate.'',
             ''Jury artifacts are planning/binding evidence until a later model jury episode runs.''])])))"

section \<open>The request\<close>

definition evidence_packet :: "(string \<times> string) list" where
  "evidence_packet =
     [(''plan'', ''plan.json''), (''jury_pool'', ''jury.json''), (''jury_selection'', ''jury_selection.json''),
      (''jury_rubric'', ''jury_rubric.json''), (''promotion_review'', ''promotion_review.json''),
      (''smoke_harness'', ''eval_smoke.py''), (''jury_binding_harness'', ''eval_jury.py'')]"

definition build_promotion_adjudication_request :: "(string \<times> pv) list \<Rightarrow> (string \<times> pv) list" where
  "build_promotion_adjudication_request review =
     (let adjudicator = dict_of (dget ''adjudicator'' review);
          blocking = list_of (dget ''blocking_conditions'' review) in
     [(''schema_version'', PStr ''program-promotion-adjudication-request-v1''),
      (''status'', PStr (if blocking \<noteq> [] then ''not_ready_blocked'' else ''ready_for_adjudicator'')),
      (''adjudicator'', PDict adjudicator),
      (''external_authority'', PDict (dict_of (dget ''external_authority'' review))),
      (''decision_question'', PStr ''Should this exact program candidate be promoted, withheld, rejected, or returned for more evidence?''),
      (''allowed_outcomes'', names_value [''promote'', ''withhold'', ''reject'', ''request_more_evidence'']),
      (''candidate_refs'', PDict [(''manifest'', PStr ''manifest.json''), (''program'', PStr ''program.py''),
         (''intent'', PStr ''intent.json''), (''plan'', PStr ''plan.json'')]),
      (''evidence_packet'', PList (map (\<lambda>(k, p). PDict [(''kind'', PStr k), (''path'', PStr p)]) evidence_packet)),
      (''missing_required_evidence'', PList blocking),
      (''decision_record_template'', PDict [(''schema_version'', PStr ''program-promotion-decision-v1''),
         (''status'', PStr ''pending''), (''outcome'', PNone), (''decided_by'', PNone),
         (''adjudicator_ref'', dget ''id'' adjudicator), (''adjudicator_kind'', dget ''kind'' adjudicator),
         (''rationale'', PNone), (''evidence_refs'', PList [])]),
      (''authority'', PStr ''adjudication_request_only_non_authoritative''),
      (''notes'', names_value [''This packet prepares an explicit adjudicator decision; it is not a decision.'',
         ''Promotion remains blocked until required evidence and an adjudicator decision exist.'',
         ''No human, AI agent, council, policy gate, or Oracle is invoked during materialization.''])])"

section \<open>What a review says\<close>

lemma review_Inr:
  assumes "build_promotion_review it has_examples selection rubric has_results artifacts = Inr r"
  shows "\<exists>policy. promotion_policy_of it = Inr policy \<and> dget ''promotion_policy'' r = policy_value policy \<and>
    dget ''blocking_conditions'' r = names_value (blocking_conditions policy has_results) \<and>
    dget ''promotion_state'' r = PStr ''not_promoted'' \<and>
    dget ''evidence_requirements'' r = PList (map PDict (evidence_requirements policy
      (dget ''id'' (dict_of (dget ''adjudicator'' r))) has_examples has_results (behavior_refs_of has_results artifacts)))"
  using assms by (auto simp: build_promotion_review_def Let_def bindE_Inr_iff)

text \<open>The pending requirements of a review.\<close>

definition pending_requirements :: "(string \<times> pv) list \<Rightarrow> pv list" where
  "pending_requirements review =
     map (dget ''name'') (filter (\<lambda>r. dget ''status'' r = PStr ''pending'')
       (dict_items (dget ''evidence_requirements'' review)))"

text \<open>C29: a review never promotes: the state is not promoted, the policy in it has no automatic promotion,
  and the request to the adjudicator is ready exactly when no requirement of the review is pending, which
  an evaluation alone can never achieve while the policy asks for a jury or for the decision itself.\<close>

theorem promotion_request_ready:
  assumes "build_promotion_review it has_examples selection rubric has_results artifacts = Inr r"
  shows "dget ''promotion_state'' r = PStr ''not_promoted'' \<and>
    dget ''automatic_promotion'' (dict_of (dget ''promotion_policy'' r)) = PBool False \<and>
    (dget ''status'' (build_promotion_adjudication_request r) = PStr ''ready_for_adjudicator'' \<longleftrightarrow>
       pending_requirements r = []) \<and>
    (\<exists>policy. promotion_policy_of it = Inr policy \<and>
       (pending_requirements r = [] \<longleftrightarrow>
          (has_results \<or> \<not> needs_evaluation policy) \<and> \<not> needs_jury policy \<and> \<not> needs_decision policy))"
proof -
  from review_Inr [OF assms] obtain policy where policy: "promotion_policy_of it = Inr policy"
    "dget ''promotion_policy'' r = policy_value policy"
    "dget ''blocking_conditions'' r = names_value (blocking_conditions policy has_results)"
    "dget ''promotion_state'' r = PStr ''not_promoted''" and
    requirements: "dget ''evidence_requirements'' r = PList (map PDict (evidence_requirements policy
      (dget ''id'' (dict_of (dget ''adjudicator'' r))) has_examples has_results (behavior_refs_of has_results artifacts)))"
    by blast
  have pending: "pending_requirements r = [] \<longleftrightarrow>
      (has_results \<or> \<not> needs_evaluation policy) \<and> \<not> needs_jury policy \<and> \<not> needs_decision policy"
    unfolding pending_requirements_def requirements dict_items_dicts
    by (auto simp: evidence_requirements_def Let_def requirement_def)
  have "dget ''status'' (build_promotion_adjudication_request r) = PStr ''ready_for_adjudicator'' \<longleftrightarrow>
      blocking_conditions policy has_results = []"
    by (simp add: build_promotion_adjudication_request_def Let_def policy(3) names_value_def)
  also have "\<dots> \<longleftrightarrow> pending_requirements r = []"
    unfolding pending by (auto simp: blocking_conditions_def)
  finally show ?thesis using policy pending by (simp add: policy_value_def)
qed

definition reviewed_intent :: "(string \<times> pv) list \<Rightarrow> review_intent" where
  "reviewed_intent policy =
     \<lparr>it_schema_version = ''program-intent-v2'', it_name = ''Answer'', it_objective = ''Answer it'',
      it_inputs = [''context''], it_outputs = [''answer''], it_input_fields = [], it_output_fields = [],
      it_task_type = ''single_module'', it_topology = [], it_constraints = [],
      it_quality_criteria = [], it_options = [], it_capabilities = [], it_metric = None,
      it_examples = [], it_jury = [], it_promotion = [(''policy'', PDict policy)]\<rparr>"

lemma sample_adjudicator: "\<exists>a. promotion_adjudicator (reviewed_intent p) = Inr a"
  by (simp add: promotion_adjudicator_def reviewed_intent_def dget_def py_or_def
      adjudicator_ids_def)

lemma sample_policy:
  "promotion_policy_of (reviewed_intent [(''requires_jury_execution'', PBool False),
     (''requires_adjudicator_decision'', PStr ''no'')]) =
   Inr \<lparr>needs_evaluation = True, needs_jury = False, needs_decision = False\<rparr>"
  by code_simp

theorem promotion_request_ready_witness:
  "\<exists>r. pending_requirements r = [] \<and>
     dget ''status'' (build_promotion_adjudication_request r) = PStr ''ready_for_adjudicator''"
proof -
  let ?it = "reviewed_intent [(''requires_jury_execution'', PBool False),
     (''requires_adjudicator_decision'', PStr ''no'')]"
  obtain a where a: "promotion_adjudicator ?it = Inr a"
    using sample_adjudicator by blast
  obtain r where r: "build_promotion_review ?it False [] [] True [] = Inr r"
    using sample_policy a by (fastforce simp: build_promotion_review_def Let_def)
  from promotion_request_ready [OF r] sample_policy show ?thesis by auto
qed

end
