(* ===== verification/Provider_Evidence.thy ===== *)
theory Provider_Evidence
  imports Topology_Inference
begin

text \<open>
  Labels for what produced the evidence of a program run
  (\<open>services/program_foundry_provider_evidence.py\<close>): a provider may be recognized as a stub or an
  authored replay by its name, and the label of a lineage is that of its weakest link.  A missing
  label is \<open>None\<close>, which means unknown.
\<close>

section \<open>Labels\<close>

definition live :: string where "live = ''live''"
definition authored_replay :: string where "authored_replay = ''authored_fixture_replay''"
definition stub_echo :: string where "stub_echo = ''stub_echo''"

definition provider_evidence_kinds :: "string list" where
  "provider_evidence_kinds = [live, authored_replay, stub_echo]"

fun is_provider_evidence_kind :: "pv \<Rightarrow> bool" where
  "is_provider_evidence_kind (PStr s) = (s \<in> set provider_evidence_kinds)"
| "is_provider_evidence_kind _ = False"

fun kind_for_provider :: "pv \<Rightarrow> string option" where
  "kind_for_provider (PStr s) = (if lower (strip s) = ''stub'' then Some stub_echo else None)"
| "kind_for_provider _ = None"

fun kind_for_model :: "pv \<Rightarrow> string option" where
  "kind_for_model (PStr s) = (if strip s = ''stub/echo'' then Some stub_echo else None)"
| "kind_for_model _ = None"

text \<open>The first label that is known.\<close>

definition first_known :: "string option list \<Rightarrow> string option" where
  "first_known kinds = (case filter (\<lambda>k. k \<noteq> None) kinds of [] \<Rightarrow> None | k # _ \<Rightarrow> k)"

fun metadata_kinds :: "pv \<Rightarrow> string option list" where
  "metadata_kinds (PDict md) = [kind_for_provider (dget ''provider'' md), kind_for_model (dget ''model'' md)]"
| "metadata_kinds _ = []"

fun kind_of_provider_block :: "pv \<Rightarrow> string option" where
  "kind_of_provider_block (PDict provider) =
     (if dget ''status'' provider \<noteq> PStr ''configured'' then None
      else first_known (metadata_kinds (dget ''metadata'' provider) @
        [kind_for_provider (dget ''provider'' provider), kind_for_model (dget ''provider'' provider)]))"
| "kind_of_provider_block _ = None"

definition kind_from_behavior_results :: "(string \<times> pv) list option \<Rightarrow> string option" where
  "kind_from_behavior_results results =
     (case results of None \<Rightarrow> None | Some kvs \<Rightarrow> kind_of_provider_block (dget ''provider'' kvs))"

definition kind_from_oracle_result :: "(string \<times> pv) list option \<Rightarrow> string option" where
  "kind_from_oracle_result semantic =
     (case semantic of
        None \<Rightarrow> None
      | Some r \<Rightarrow>
          (if dget ''backend_kind'' r = PStr ''fixture-replay'' \<and>
              dget ''execution_status'' r = PStr ''replayed_fixture'' then Some authored_replay
           else if dget ''backend_kind'' r = PStr ''live'' \<and>
              dget ''execution_status'' r = PStr ''succeeded'' \<and>
              dget ''live_call_succeeded'' r = PBool True then kind_for_provider (dget ''executed_provider'' r)
           else None))"

section \<open>The weakest link\<close>

definition weakest_kind :: "string option list \<Rightarrow> string option checked" where
  "weakest_kind kinds =
     (let known = concat (map (\<lambda>k. case k of None \<Rightarrow> [] | Some s \<Rightarrow> [s]) kinds) in
      case find (\<lambda>s. s \<notin> set provider_evidence_kinds) known of
        Some s \<Rightarrow> Inl (Value_error (''unknown provider evidence kind '' @ py_repr (PStr s)))
      | None \<Rightarrow> Inr
          (if stub_echo \<in> set known then Some stub_echo
           else if authored_replay \<in> set known then Some authored_replay
           else if known \<noteq> [] \<and> length known = length kinds then Some live
           else None))"

definition kind_from_gepa_result :: "(string \<times> pv) list option \<Rightarrow> string option checked" where
  "kind_from_gepa_result result =
     (case result of
        None \<Rightarrow> Inr None
      | Some r \<Rightarrow>
          (case dget ''gepa'' r of
             PDict gepa \<Rightarrow>
               (if dget ''attempted'' gepa \<noteq> PBool True \<or> dget ''status'' gepa \<noteq> PStr ''completed'' then Inr None
                else weakest_kind [kind_for_provider (dget ''student_provider'' gepa),
                  kind_for_provider (dget ''reflection_provider'' gepa)])
           | _ \<Rightarrow> Inr None))"

definition kind_value :: "string option \<Rightarrow> pv" where
  "kind_value k = (case k of None \<Rightarrow> PNone | Some s \<Rightarrow> PStr s)"

definition lineage_evidence :: "(string \<times> string option) list \<Rightarrow> (string \<times> pv) list checked" where
  "lineage_evidence links =
     bindE (weakest_kind (map snd links)) (\<lambda>lineage.
     Inr [(''schema_version'', PStr ''dspx-provider-evidence-kind-v1''),
          (''links'', PDict (map (\<lambda>(n, k). (n, kind_value k)) links)), (''lineage'', kind_value lineage),
          (''closed_values'', names_value provider_evidence_kinds), (''absent_means'', PStr ''unknown'')])"

definition kind_from_interpretation :: "(string \<times> pv) list option \<Rightarrow> string option" where
  "kind_from_interpretation comparison =
     (case comparison of
        None \<Rightarrow> None
      | Some c \<Rightarrow>
          (let kind = dget ''provider_evidence_kind'' (dict_of (dget ''interpretation'' c)) in
           if is_provider_evidence_kind kind then Some (str_of kind) else None))"

definition validate_optional_kind :: "pv \<Rightarrow> string option checked" where
  "validate_optional_kind v =
     (if v = PNone then Inr None
      else guardE (\<not> is_provider_evidence_kind v)
        (Value_error (''provider_evidence_kind must be one of '' @ join '', '' provider_evidence_kinds))
        (Inr (Some (str_of v))))"

section \<open>The order of the labels\<close>

text \<open>The strength of a label; an unknown link is stronger than a replay and weaker than a live one.\<close>

datatype strength = Stub | Replay | Unknown | Live

instantiation strength :: linorder
begin

fun rank :: "strength \<Rightarrow> nat" where
  "rank Stub = 0" | "rank Replay = 1" | "rank Unknown = 2" | "rank Live = 3"

definition less_eq_strength :: "strength \<Rightarrow> strength \<Rightarrow> bool" where
  "less_eq_strength a b \<longleftrightarrow> rank a \<le> rank b"

definition less_strength :: "strength \<Rightarrow> strength \<Rightarrow> bool" where
  "less_strength a b \<longleftrightarrow> rank a < rank b"

instance
proof
  fix a b c :: strength
  have same: "rank a = rank b \<Longrightarrow> a = b" by (cases a; cases b) simp_all
  show "a < b \<longleftrightarrow> a \<le> b \<and> \<not> b \<le> a" unfolding less_eq_strength_def less_strength_def by linarith
  show "a \<le> a" unfolding less_eq_strength_def by simp
  show "a \<le> b \<Longrightarrow> b \<le> c \<Longrightarrow> a \<le> c" unfolding less_eq_strength_def by simp
  show "a \<le> b \<Longrightarrow> b \<le> a \<Longrightarrow> a = b" unfolding less_eq_strength_def using same by simp
  show "a \<le> b \<or> b \<le> a" unfolding less_eq_strength_def by linarith
qed

end

definition strength_of :: "string option \<Rightarrow> strength" where
  "strength_of k =
     (if k = Some stub_echo then Stub else if k = Some authored_replay then Replay
      else if k = Some live then Live else Unknown)"

definition valid_kind :: "string option \<Rightarrow> bool" where
  "valid_kind k = (case k of None \<Rightarrow> True | Some s \<Rightarrow> s \<in> set provider_evidence_kinds)"

lemma strength_cases:
  assumes "valid_kind k"
  shows "k \<in> {None, Some stub_echo, Some authored_replay, Some live}"
  using assms by (cases k) (auto simp: valid_kind_def provider_evidence_kinds_def)

lemma strength_of_labels [simp]:
  "strength_of None = Unknown" "strength_of (Some stub_echo) = Stub"
  "strength_of (Some authored_replay) = Replay" "strength_of (Some live) = Live"
  by (simp_all add: strength_of_def stub_echo_def authored_replay_def live_def)

lemma strength_inj:
  "valid_kind k \<Longrightarrow> valid_kind k' \<Longrightarrow> strength_of k = strength_of k' \<Longrightarrow> k = k'"
  using strength_cases [of k] strength_cases [of k'] by auto

lemma known_kinds:
  "concat (map (\<lambda>k. case k of None \<Rightarrow> [] | Some s \<Rightarrow> [s]) kinds) = map the (filter (\<lambda>k. k \<noteq> None) kinds)"
  by (induction kinds) (auto split: option.splits)

lemma weakest_kind_valid:
  assumes "\<forall>k \<in> set kinds. valid_kind k"
  shows "weakest_kind kinds = Inr
    (if Some stub_echo \<in> set kinds then Some stub_echo
     else if Some authored_replay \<in> set kinds then Some authored_replay
     else if kinds \<noteq> [] \<and> None \<notin> set kinds then Some live else None)"
proof -
  let ?known = "map the (filter (\<lambda>k. k \<noteq> None) kinds)"
  have known: "s \<in> set ?known \<longleftrightarrow> Some s \<in> set kinds" for s by force
  have all: "length ?known = length kinds \<longleftrightarrow> None \<notin> set kinds"
    by (metis (mono_tags) filter_True length_filter_less length_map less_irrefl)
  have empty: "?known = [] \<longleftrightarrow> set kinds \<subseteq> {None}" by (auto simp: filter_empty_conv)
  have "find (\<lambda>s. s \<notin> set provider_evidence_kinds) ?known = None"
    using assms known by (auto simp: find_None_iff valid_kind_def split: option.splits)
  then show ?thesis
    unfolding weakest_kind_def Let_def known_kinds using all empty known by (cases kinds) auto
qed

text \<open>C34: the label of a lineage is the weakest label of its links, in the order stub, replay, unknown,
  live, where an empty lineage is unknown.\<close>

theorem weakest_is_minimum:
  assumes "\<forall>k \<in> set kinds. valid_kind k" "kinds \<noteq> []"
  shows "\<exists>w. weakest_kind kinds = Inr w \<and> w \<in> set kinds \<and>
    (\<forall>k \<in> set kinds. strength_of w \<le> strength_of k)"
proof -
  let ?w = "if Some stub_echo \<in> set kinds then Some stub_echo
     else if Some authored_replay \<in> set kinds then Some authored_replay
     else if kinds \<noteq> [] \<and> None \<notin> set kinds then Some live else None"
  have cases: "set kinds \<subseteq> {None, Some stub_echo, Some authored_replay, Some live}"
    using assms(1) strength_cases by blast
  have "\<exists>k. k \<in> set kinds" using assms(2) by (cases kinds) auto
  with cases have "?w \<in> set kinds" using assms(2) by (auto split: if_splits)
  moreover have "strength_of ?w \<le> strength_of k" if "k \<in> set kinds" for k
  proof -
    from that cases consider "k = None" | "k = Some stub_echo" | "k = Some authored_replay" | "k = Some live" by blast
    then show ?thesis by cases (use that assms(2) in \<open>auto simp: less_eq_strength_def\<close>)
  qed
  ultimately show ?thesis using weakest_kind_valid [OF assms(1)] by blast
qed

theorem weakest_is_minimum_witness:
  "\<exists>w. weakest_kind [Some live, None, Some authored_replay] = Inr w \<and> w \<in> {Some live, None, Some authored_replay}"
  using weakest_is_minimum [of "[Some live, None, Some authored_replay]"]
  by (auto simp: valid_kind_def provider_evidence_kinds_def)

text \<open>A label read from results is never that of a live run.\<close>

lemma kind_for_provider_stub: "kind_for_provider v = None \<or> kind_for_provider v = Some stub_echo"
  by (cases v) simp_all

lemma kind_for_model_stub: "kind_for_model v = None \<or> kind_for_model v = Some stub_echo"
  by (cases v) simp_all

lemma first_known_stub:
  assumes "\<forall>k \<in> set kinds. k = None \<or> k = Some s"
  shows "first_known kinds = (if Some s \<in> set kinds then Some s else None)"
  using assms by (induction kinds) (auto simp: first_known_def)

lemma kind_from_behavior_results_stub:
  "kind_from_behavior_results r = None \<or> kind_from_behavior_results r = Some stub_echo"
proof -
  have "k = None \<or> k = Some stub_echo" if "k \<in> set (metadata_kinds m @
      [kind_for_provider v, kind_for_model v])" for k m v
    using that kind_for_provider_stub kind_for_model_stub by (cases m) auto
  then have "first_known (metadata_kinds m @ [kind_for_provider v, kind_for_model v]) \<in> {None, Some stub_echo}" for m v
    using first_known_stub [of "metadata_kinds m @ [kind_for_provider v, kind_for_model v]" stub_echo] by auto
  then have "kind_of_provider_block b \<in> {None, Some stub_echo}" for b
    by (cases b) auto
  then show ?thesis by (auto simp: kind_from_behavior_results_def split: option.splits)
qed

end
