(* ===== verification/Behavior_Comparison.thy ===== *)
theory Behavior_Comparison
  imports Provider_Evidence
begin

text \<open>
  Comparison of the behavior evidence of two program candidates: the reducers of
  \<open>services/program_foundry_closure_reducers.py\<close>, the comparison that
  \<open>services/program_refinement_comparison.py\<close> builds from them, and the reconstruction of a saved
  comparison in \<open>services/program_foundry_closure_comparison.py\<close>.  A summary is a record; generated and
  runtime summaries extend the fields the comparison reads.  The only exceptions of the reducers come
  from \<open>int(value)\<close> of a float that is no number or infinite.
\<close>

section \<open>Reading evidence\<close>

definition metric_is_exact :: "pv \<Rightarrow> bool" where
  "metric_is_exact metric = (lower (text_of metric) \<in> {[], ''exact'', ''exact_match''})"

definition string_items :: "pv \<Rightarrow> string list" where
  "string_items v = filter (\<lambda>s. strip s \<noteq> []) (map py_str (list_of v))"

definition first_text :: "pv list \<Rightarrow> string option" where
  "first_text values = find (\<lambda>s. s \<noteq> []) (map text_of values)"

fun safe_int :: "int \<Rightarrow> pv \<Rightarrow> int checked" where
  "safe_int dflt (PBool b) = Inr (if b then 1 else 0)"
| "safe_int dflt (PInt i) = Inr i"
| "safe_int dflt (PFloat f) = py_int (PFloat f)"
| "safe_int dflt (PStr s) =
     Inr (if strip s = [] then dflt else case int_of_text s of None \<Rightarrow> dflt | Some i \<Rightarrow> i)"
| "safe_int dflt _ = Inr dflt"

type_synonym evidence = "(string \<times> pv) list option"

definition field_of :: "string \<Rightarrow> evidence \<Rightarrow> pv" where
  "field_of key e = (case e of None \<Rightarrow> PNone | Some kvs \<Rightarrow> dget key kvs)"

definition identity_from_manifest :: "(string \<times> pv) list \<Rightarrow> (string \<times> string option) list" where
  "identity_from_manifest manifest =
     (let part = (\<lambda>name key. dget key (dict_of (dget name manifest)));
          read = (\<lambda>key. first_text (map (\<lambda>name. part name key)
            [''candidate_assembly'', ''execution_episode'', ''receipt_bundle''])) in
      [(''request_id'', first_text (map (\<lambda>name. part name ''request_id'')
          [''request'', ''candidate_assembly'', ''execution_episode'', ''receipt_bundle''])),
       (''candidate_id'', read ''candidate_id''), (''assembly_id'', read ''assembly_id''),
       (''episode_id'', first_text [part ''execution_episode'' ''episode_id'', part ''receipt_bundle'' ''episode_id'']),
       (''receipt_bundle_id'', first_text [part ''receipt_bundle'' ''receipt_bundle_id''])])"

definition output_fields_of :: "(string \<times> pv) list \<Rightarrow> evidence \<Rightarrow> string list" where
  "output_fields_of manifest behavior =
     (let declared = string_items (dget ''outputs'' (dict_of (dget ''intent'' manifest))) in
      if declared \<noteq> [] then declared else string_items (field_of ''output_fields'' behavior))"

definition behavior_examples :: "evidence \<Rightarrow> (string \<times> pv) list list" where
  "behavior_examples behavior = dict_items (field_of ''examples'' behavior)"

definition status_of :: "(string \<times> pv) list \<Rightarrow> string" where
  "status_of r = py_str (py_or (dget ''status'' r) (PStr ''unknown''))"

section \<open>Signals\<close>

definition field_signals ::
    "string \<Rightarrow> string \<Rightarrow> (string \<times> pv) list \<Rightarrow> (string \<times> pv) list \<Rightarrow> string \<Rightarrow> string list" where
  "field_signals signal status expected observed field =
     (if field \<in> set (dict_keys expected) \<and> field \<in> set (dict_keys observed) \<and>
         py_str (dget field expected) \<noteq> py_str (dget field observed)
      then [signal @ '':'' @ field] else []) @
     (if field \<notin> set (dict_keys observed) \<and> status \<noteq> ''error''
      then [''missing_observed:'' @ field] else [])"

definition record_signals :: "string \<Rightarrow> string list \<Rightarrow> (string \<times> pv) list \<Rightarrow> string list" where
  "record_signals signal output_fields r =
     (let status = status_of r; expected = dict_of (dget ''expected_outputs'' r);
          observed = dict_of (dget ''observed_outputs'' r);
          kind = py_str (py_or (dget ''type'' (dict_of (dget ''error'' r))) (PStr ''unknown'')) in
      (if status = ''error'' then [''error:'' @ kind] else []) @
      (if starts_with status ''degraded'' then [status] else []) @
      concat (map (field_signals signal status expected observed) output_fields) @
      concat (map (\<lambda>note. if contains note ''output mismatch''
          then map (\<lambda>field. signal @ '':'' @ field) (filter (contains note) output_fields) else [])
        (string_items (dget ''notes'' r))))"

definition failure_signals_from_behavior :: "evidence \<Rightarrow> string list \<Rightarrow> bool \<Rightarrow> string list" where
  "failure_signals_from_behavior behavior output_fields exact_metric =
     first_seen (concat (map (record_signals (if exact_metric then ''mismatch'' else ''differs'') output_fields)
       (behavior_examples behavior)))"

definition source_signals :: "(string \<times> pv) list \<Rightarrow> string list checked" where
  "source_signals source =
     (let label = the (first_text [dget ''split'' source, dget ''source_kind'' source, PStr ''source'']);
          summary = dict_of (dget ''summary'' source);
          status = first_text [dget ''behavior_status'' source];
          signal_if = (\<lambda>i name. if i \<noteq> 0 then [name @ '':'' @ label] else []) in
     bindE (safe_int 0 (dget ''failed'' summary)) (\<lambda>failed.
     bindE (safe_int 0 (dget ''error'' summary)) (\<lambda>error.
     bindE (safe_int 0 (dget ''degraded'' summary)) (\<lambda>degraded.
     Inr (signal_if failed ''failed'' @ signal_if error ''error'' @ signal_if degraded ''degraded'' @
       (case status of
          None \<Rightarrow> []
        | Some s \<Rightarrow> (if s \<in> {''failed'', ''error''} \<or> starts_with s ''degraded''
            then [''source_status:'' @ label @ '':'' @ s] else [])))))))"

definition failure_signals_from_episode :: "(string \<times> pv) list \<Rightarrow> string list checked" where
  "failure_signals_from_episode episode =
     bindE (mapE source_signals (dict_items (dget ''sources'' episode))) (\<lambda>signals.
     Inr (first_seen (concat signals)))"

section \<open>Counts\<close>

type_synonym counts = "(string \<times> int) list"

definition read_counts :: "(string \<times> pv) list \<Rightarrow> counts checked" where
  "read_counts raw =
     mapE (\<lambda>(k, v). bindE (safe_int 0 v) (\<lambda>i. Inr (k, i))) (sort_key fst raw)"

definition count_of :: "string \<Rightarrow> counts \<Rightarrow> int" where
  "count_of key counts = (case map_of counts key of None \<Rightarrow> 0 | Some i \<Rightarrow> i)"

definition count_statuses :: "string list \<Rightarrow> counts" where
  "count_statuses statuses = sort_key fst (fold (\<lambda>s counts. dict_set s (count_of s counts + 1) counts) statuses [])"

definition status_counts :: "evidence \<Rightarrow> counts checked" where
  "status_counts behavior =
     (case dget ''status_counts'' (dict_of (field_of ''summary'' behavior)) of
        PDict raw \<Rightarrow> read_counts raw
      | _ \<Rightarrow> Inr (count_statuses (map status_of (behavior_examples behavior))))"

definition episode_status_counts :: "(string \<times> pv) list \<Rightarrow> counts checked" where
  "episode_status_counts episode =
     (let summary = dict_of (dget ''summary'' episode) in
     bindE (mapE (\<lambda>key. bindE (safe_int 0 (dget key summary)) (\<lambda>i. Inr (key, i)))
       [''passed'', ''failed'', ''error'', ''degraded'']) (\<lambda>all_counts.
     let counts = filter (\<lambda>(k, i). i \<noteq> 0) all_counts in
     if counts \<noteq> [] then Inr (sort_key fst counts)
     else case dget ''status_counts'' summary of PDict raw \<Rightarrow> read_counts raw | _ \<Rightarrow> Inr []))"

section \<open>Summaries\<close>

record summary =
  sm_present :: bool
  sm_status :: pv
  sm_examples :: int
  sm_counts :: counts
  sm_signals :: "string list"

record generated_summary = summary +
  gs_results :: bool
  gs_episode :: bool
  gs_kind :: pv
  gs_sources :: int

definition behavior_summary ::
    "(string \<times> pv) list \<Rightarrow> evidence \<Rightarrow> evidence \<Rightarrow> bool \<Rightarrow> generated_summary checked" where
  "behavior_summary manifest behavior episode legacy_exact =
     (let episode_summary = dict_of (field_of ''summary'' episode) in
     case behavior of
       Some b \<Rightarrow>
         (let summary = dict_of (dget ''summary'' b);
              exact = legacy_exact \<or> metric_is_exact (dget ''metric'' (dict_of (dget ''intent'' manifest))) in
          bindE (safe_int (int (length (behavior_examples behavior))) (dget ''total'' summary)) (\<lambda>examples.
          bindE (safe_int 1 (dget ''source_count'' episode_summary)) (\<lambda>sources.
          bindE (status_counts behavior) (\<lambda>counts.
          Inr \<lparr>sm_present = True, sm_status = PStr (status_of summary), sm_examples = examples,
               sm_counts = counts,
               sm_signals = failure_signals_from_behavior behavior (output_fields_of manifest behavior) exact,
               gs_results = True, gs_episode = (episode \<noteq> None), gs_kind = PStr ''behavior_results'',
               gs_sources = sources\<rparr>))))
     | None \<Rightarrow>
         (case episode of
            None \<Rightarrow> Inr \<lparr>sm_present = False, sm_status = PStr ''insufficient_behavior_evidence'',
              sm_examples = 0, sm_counts = [], sm_signals = [], gs_results = False, gs_episode = False,
              gs_kind = PNone, gs_sources = 0\<rparr>
          | Some e \<Rightarrow>
              bindE (safe_int 0 (dget ''total'' episode_summary)) (\<lambda>examples.
              bindE (safe_int 0 (dget ''source_count'' episode_summary)) (\<lambda>sources.
              bindE (episode_status_counts e) (\<lambda>counts.
              bindE (failure_signals_from_episode e) (\<lambda>signals.
              Inr \<lparr>sm_present = True, sm_status = PStr (status_of episode_summary), sm_examples = examples,
                   sm_counts = counts, sm_signals = signals, gs_results = False, gs_episode = True,
                   gs_kind = PStr ''behavior_episode'', gs_sources = sources\<rparr>))))))"

record runtime_summary = summary +
  rs_present :: bool
  rs_kind :: pv
  rs_episode_id :: pv
  rs_status :: pv
  rs_contract :: pv
  rs_hashes :: "(string \<times> pv) list"

definition runtime_artifact_hashes :: "(string \<times> pv) list \<Rightarrow> (string \<times> pv) list" where
  "runtime_artifact_hashes runtime_episode =
     (let hashes = dict_of (dget ''artifact_hashes'' runtime_episode) in
      [(''runtime_inputs_hash'', dget ''runtime_inputs_sha256'' hashes),
       (''behavior_results_hash'', dget ''behavior_results_sha256'' hashes),
       (''program_runtime_traces_hash'', dget ''program_runtime_traces_sha256'' hashes),
       (''oracle_evidence_hash'', dget ''oracle_evidence_sha256'' hashes)])"

definition runtime_summary_of ::
    "(string \<times> pv) list \<Rightarrow> evidence \<Rightarrow> evidence \<Rightarrow> bool \<Rightarrow> runtime_summary checked" where
  "runtime_summary_of manifest runtime_episode runtime_behavior legacy_exact =
     (case runtime_episode of
        None \<Rightarrow> Inr \<lparr>sm_present = False, sm_status = PStr ''insufficient_runtime_evidence'', sm_examples = 0,
          sm_counts = [], sm_signals = [], rs_present = False, rs_kind = PNone, rs_episode_id = PNone,
          rs_status = PStr ''not_supplied'', rs_contract = PNone, rs_hashes = []\<rparr>
      | Some e \<Rightarrow>
          bindE (behavior_summary manifest runtime_behavior None legacy_exact) (\<lambda>s.
          Inr \<lparr>sm_present = True, sm_status = sm_status s, sm_examples = sm_examples s,
               sm_counts = sm_counts s, sm_signals = sm_signals s, rs_present = True,
               rs_kind = PStr ''runtime_episode'', rs_episode_id = dget ''runtime_episode_id'' e,
               rs_status = dget ''status'' e, rs_contract = dget ''contract_mode'' e,
               rs_hashes = runtime_artifact_hashes e\<rparr>))"

section \<open>Delta and interpretation\<close>

record delta =
  dl_failed :: "int \<times> int"
  dl_error :: "int \<times> int"
  dl_degraded :: "int \<times> int"
  dl_changed :: bool
  dl_removed :: "string list"
  dl_added :: "string list"
  dl_persisted :: "string list"

definition change :: "int \<times> int \<Rightarrow> int" where
  "change p = snd p - fst p"

definition degraded_count :: "counts \<Rightarrow> int" where
  "degraded_count counts = sum_list (map snd (filter (\<lambda>(k, i). starts_with k ''degraded'') counts))"

definition signals_of :: "'a summary_scheme \<Rightarrow> string list" where
  "signals_of s = filter (\<lambda>x. strip x \<noteq> []) (sm_signals s)"

definition behavior_delta :: "'a summary_scheme \<Rightarrow> 'a summary_scheme \<Rightarrow> delta" where
  "behavior_delta source candidate =
     (let before = signals_of source; after = signals_of candidate;
          both = (\<lambda>f. (f (sm_counts source), f (sm_counts candidate))) in
      \<lparr>dl_failed = both (count_of ''failed''), dl_error = both (count_of ''error''),
       dl_degraded = both degraded_count, dl_changed = (sm_status source \<noteq> sm_status candidate),
       dl_removed = sorted_diff before after, dl_added = sorted_diff after before,
       dl_persisted = sorted_set (filter (\<lambda>x. x \<in> set after) before)\<rparr>)"

definition limits :: "string list" where
  "limits =
     [''Comparison includes generated local behavior evidence: behavior_episode.json and, when present, example-backed behavior_results.json.'',
      ''Optional program-run runtime episodes may be compared only after final-consumer validation rebinds their manifest, inputs, behavior, runtime traces, and Oracle-readable evidence to current files.'',
      ''Dataset split evidence is summarized from the bounded eval_behavior.py orchestration; no extra dataset, model jury, topology, or custom-module execution is run by comparison.'',
      ''This comparison is not a promotion, ranking, winner-selection, or approval decision.'',
      ''interpretation.provider_evidence_kind labels what produced the compared behavior (live, authored_fixture_replay, stub_echo); absent or null means unknown, and stub_echo or authored_fixture_replay evidence cannot support a review recommendation.'']"

record verdict =
  in_summary :: string
  in_improved :: bool
  in_more :: bool
  in_limits :: "string list"

definition interpret_delta :: "'a summary_scheme \<Rightarrow> 'a summary_scheme \<Rightarrow> delta \<Rightarrow> verdict" where
  "interpret_delta source candidate d =
     (if \<not> sm_present source \<or> \<not> sm_present candidate then
        \<lparr>in_summary = ''Comparison has insufficient local behavior evidence for one or both candidates.'',
         in_improved = False, in_more = True, in_limits = limits\<rparr>
      else
        let removed = filter (\<lambda>x. strip x \<noteq> []) (dl_removed d);
            added = filter (\<lambda>x. strip x \<noteq> []) (dl_added d);
            persisted = filter (\<lambda>x. strip x \<noteq> []) (dl_persisted d);
            failed = change (dl_failed d); error = change (dl_error d); degraded = change (dl_degraded d);
            improved = (removed \<noteq> [] \<and> failed \<le> 0 \<and> error \<le> 0 \<or> failed < 0 \<or> error < 0 \<or> degraded < 0) in
        \<lparr>in_summary =
           (if improved then ''The second candidate removed or reduced at least one observed local behavior signal.''
            else if persisted \<noteq> [] then ''The second candidate did not remove the observed local behavior signal.''
            else if added \<noteq> [] then ''The second candidate introduced new local behavior signals without removing prior signals.''
            else ''The second candidate behavior status is unchanged on the available local evidence.''),
         in_improved = improved, in_more = (\<not> improved \<or> added \<noteq> []),
         in_limits = limits\<rparr>)"

section \<open>The comparison\<close>

text \<open>The evidence of one candidate: its manifest, the results and the episode of its generated behavior,
  and a validated runtime episode with its results, where they exist.\<close>

record candidate =
  cd_manifest :: "(string \<times> pv) list"
  cd_behavior :: evidence
  cd_episode :: evidence
  cd_runtime :: evidence
  cd_runtime_behavior :: evidence

type_synonym links = "(string \<times> string option) list"

text \<open>\<open>None\<close> in \<open>cp_links\<close>, \<open>cp_kind\<close> and \<open>cp_runtime_kind\<close> stands for an absent key.\<close>

record comparison =
  cp_source :: generated_summary
  cp_candidate :: generated_summary
  cp_delta :: delta
  cp_runtime_source :: runtime_summary
  cp_runtime_candidate :: runtime_summary
  cp_runtime_delta :: delta
  cp_runtime_compared :: bool
  cp_runtime_verdict :: verdict
  cp_runtime_kind :: "string option option"
  cp_verdict :: verdict
  cp_basis :: string
  cp_generated_compared :: bool
  cp_conflict :: bool
  cp_kind :: "string option option"
  cp_links :: "links option"

definition disagree :: "verdict \<Rightarrow> verdict \<Rightarrow> bool" where
  "disagree g r = (in_improved g \<noteq> in_improved r \<or> in_more g \<noteq> in_more r)"

definition conflict_summary :: string where
  "conflict_summary = ''Generated behavior and runtime episode comparison evidence disagree; inspect runtime_evidence_comparison before planning.''"

definition link_names :: "string list" where
  "link_names = [''source_generated_behavior'', ''candidate_generated_behavior'',
     ''source_runtime_behavior'', ''candidate_runtime_behavior'']"

definition combine_verdicts :: "bool \<Rightarrow> bool \<Rightarrow> verdict \<Rightarrow> verdict \<Rightarrow> verdict \<times> string" where
  "combine_verdicts generated_compared runtime_compared generated runtime =
     (if generated_compared \<and> runtime_compared \<and> disagree generated runtime then
        (generated\<lparr>in_summary := conflict_summary, in_improved := False, in_more := True\<rparr>,
         ''mixed_generated_and_runtime'')
      else if generated_compared \<or> \<not> runtime_compared then
        (generated, if generated_compared then ''generated_behavior'' else ''insufficient_behavior_evidence'')
      else (runtime, ''runtime_episode''))"

definition provider_links :: "candidate \<Rightarrow> candidate \<Rightarrow> links" where
  "provider_links source candidate = zip link_names
     (map kind_from_behavior_results [cd_behavior source, cd_behavior candidate,
        cd_runtime_behavior source, cd_runtime_behavior candidate])"

definition compared_kinds :: "bool \<Rightarrow> bool \<Rightarrow> links \<Rightarrow> string option list" where
  "compared_kinds generated_compared runtime_compared links =
     map snd (filter (\<lambda>(name, kind). ends_with name ''generated_behavior'' \<and> generated_compared \<or>
       ends_with name ''runtime_behavior'' \<and> runtime_compared) links)"

definition build_comparison :: "candidate \<Rightarrow> candidate \<Rightarrow> comparison checked" where
  "build_comparison source candidate =
     bindE (behavior_summary (cd_manifest source) (cd_behavior source) (cd_episode source) False) (\<lambda>gs.
     bindE (behavior_summary (cd_manifest candidate) (cd_behavior candidate) (cd_episode candidate) False) (\<lambda>gc.
     bindE (runtime_summary_of (cd_manifest source) (cd_runtime source) (cd_runtime_behavior source) False) (\<lambda>rs.
     bindE (runtime_summary_of (cd_manifest candidate) (cd_runtime candidate)
       (cd_runtime_behavior candidate) False) (\<lambda>rc.
     let delta = behavior_delta gs gc; runtime_delta = behavior_delta rs rc;
         runtime_compared = (rs_present rs \<and> rs_present rc);
         generated_compared = (sm_present gs \<and> sm_present gc);
         generated = interpret_delta gs gc delta; runtime = interpret_delta rs rc runtime_delta;
         verdict = combine_verdicts generated_compared runtime_compared generated runtime;
         links = provider_links source candidate;
         kinds = compared_kinds generated_compared runtime_compared links in
     bindE (if kinds = [] then Inr None else weakest_kind kinds) (\<lambda>kind.
     bindE (if runtime_compared then weakest_kind (map snd (drop 2 links)) else Inr None) (\<lambda>runtime_kind.
     Inr \<lparr>cp_source = gs, cp_candidate = gc, cp_delta = delta, cp_runtime_source = rs,
          cp_runtime_candidate = rc, cp_runtime_delta = runtime_delta,
          cp_runtime_compared = runtime_compared, cp_runtime_verdict = runtime,
          cp_runtime_kind = Some runtime_kind, cp_verdict = fst verdict, cp_basis = snd verdict,
          cp_generated_compared = generated_compared,
          cp_conflict = (generated_compared \<and> runtime_compared \<and> disagree generated runtime),
          cp_kind = Some kind, cp_links = Some links\<rparr>))))))"

definition comparison_status :: "comparison \<Rightarrow> string" where
  "comparison_status c =
     (if cp_generated_compared c \<or> cp_runtime_compared c then ''compared''
      else ''insufficient_behavior_evidence'')"

section \<open>Reconstruction of a saved comparison\<close>

datatype fault = Rejected string | Raised raised

definition lift_raised :: "'a checked \<Rightarrow> (fault, 'a) res" where
  "lift_raised r = (case r of Inl e \<Rightarrow> Inl (Raised e) | Inr a \<Rightarrow> Inr a)"

fun provider_label :: "bool \<Rightarrow> pv \<Rightarrow> string option" where
  "provider_label legacy (PStr name) =
     (if name \<in> {''stub'', ''stub/echo''} then Some stub_echo
      else if legacy \<and> (name = ''openai-compatible'' \<or> starts_with name ''local/'' \<or>
        starts_with name ''foundry-dspy-lm-auth'') then Some live
      else None)"
| "provider_label legacy _ = None"

definition link_label :: "bool \<Rightarrow> (string \<times> pv) list \<Rightarrow> (fault, string option) res" where
  "link_label legacy behavior =
     (case dget_or ''provider'' (PDict []) behavior of
        PDict provider \<Rightarrow>
          (let metadata = dict_of (dget ''metadata'' provider) in
           Inr (if dget ''status'' provider \<noteq> PStr ''configured'' then None
             else first_known (map (provider_label legacy)
               [dget ''provider'' metadata, dget ''model'' metadata, dget ''provider'' provider])))
      | _ \<Rightarrow> Inl (Rejected ''comparison_provider_shape''))"

definition weakest_label :: "string option list \<Rightarrow> string option" where
  "weakest_label kinds =
     (if Some stub_echo \<in> set kinds then Some stub_echo
      else if Some authored_replay \<in> set kinds then Some authored_replay
      else if kinds \<noteq> [] \<and> (\<forall>k \<in> set kinds. k = Some live) then Some live else None)"

datatype style = Unlabelled_exact | Legacy_labels | Conservative_labels

definition owner_styles :: "string \<Rightarrow> style list option" where
  "owner_styles owner = map_of
     [(''777388ad9c692b0657e6b6e1d4820b15fcb6641d'', [Unlabelled_exact]),
      (''80cc409da976028263da884ed633bef0806cd986'', [Legacy_labels]),
      (''6c3473ca17bf03325698e3e1a8419a8abc915938'', [Legacy_labels, Conservative_labels])] owner"

definition dated_limits :: "bool \<Rightarrow> verdict \<Rightarrow> verdict" where
  "dated_limits legacy_exact v = (if legacy_exact then v\<lparr>in_limits := take 4 (in_limits v)\<rparr> else v)"

definition view_links :: "style \<Rightarrow> candidate \<Rightarrow> candidate \<Rightarrow> (fault, links option) res" where
  "view_links style source candidate =
     (if style = Unlabelled_exact then Inr None
      else bindE (mapE (\<lambda>b. link_label (style = Legacy_labels) (case b of None \<Rightarrow> [] | Some kvs \<Rightarrow> kvs))
        [cd_behavior source, cd_behavior candidate, cd_runtime_behavior source, cd_runtime_behavior candidate])
        (\<lambda>labels. Inr (Some (zip link_names labels))))"

definition view :: "candidate \<Rightarrow> candidate \<Rightarrow> style \<Rightarrow> (fault, comparison) res" where
  "view source candidate style =
     (let exact = (style = Unlabelled_exact) in
     bindE (lift_raised (behavior_summary (cd_manifest source) (cd_behavior source) (cd_episode source) exact)) (\<lambda>gs.
     bindE (lift_raised (behavior_summary (cd_manifest candidate) (cd_behavior candidate)
       (cd_episode candidate) exact)) (\<lambda>gc.
     bindE (lift_raised (runtime_summary_of (cd_manifest source) (cd_runtime source)
       (cd_runtime_behavior source) exact)) (\<lambda>rs.
     bindE (lift_raised (runtime_summary_of (cd_manifest candidate) (cd_runtime candidate)
       (cd_runtime_behavior candidate) exact)) (\<lambda>rc.
     let delta = behavior_delta gs gc; runtime_delta = behavior_delta rs rc;
         generated = dated_limits exact (interpret_delta gs gc delta);
         runtime = dated_limits exact (interpret_delta rs rc runtime_delta);
         conflict = disagree generated runtime in
     bindE (view_links style source candidate) (\<lambda>links.
     Inr \<lparr>cp_source = gs, cp_candidate = gc, cp_delta = delta, cp_runtime_source = rs,
          cp_runtime_candidate = rc, cp_runtime_delta = runtime_delta, cp_runtime_compared = True,
          cp_runtime_verdict = runtime,
          cp_runtime_kind = (case links of None \<Rightarrow> None | Some ls \<Rightarrow> Some (weakest_label (map snd (drop 2 ls)))),
          cp_verdict = (if conflict then generated\<lparr>in_summary := conflict_summary, in_improved := False,
            in_more := True\<rparr> else generated),
          cp_basis = (if conflict then ''mixed_generated_and_runtime'' else ''generated_behavior''),
          cp_generated_compared = True, cp_conflict = conflict,
          cp_kind = (case links of None \<Rightarrow> None | Some ls \<Rightarrow> Some (weakest_label (map snd ls))),
          cp_links = links\<rparr>))))))"

section \<open>What an improvement is\<close>

text \<open>The evidence of the second candidate improves on that of the first: a signal is gone while failures
  and errors do not rise, or one of the three counts falls.\<close>

definition improves :: "'a summary_scheme \<Rightarrow> 'a summary_scheme \<Rightarrow> bool" where
  "improves s c =
     (let failed = (\<lambda>x. count_of ''failed'' (sm_counts x)); error = (\<lambda>x. count_of ''error'' (sm_counts x));
          degraded = (\<lambda>x. degraded_count (sm_counts x)) in
      sm_present s \<and> sm_present c \<and>
      (\<not> set (signals_of s) \<subseteq> set (signals_of c) \<and> failed c \<le> failed s \<and> error c \<le> error s \<or>
       failed c < failed s \<or> error c < error s \<or> degraded c < degraded s))"

lemma sorted_diff_strip:
  "filter (\<lambda>x. strip x \<noteq> []) (sorted_diff (signals_of s) ys) = sorted_diff (signals_of s) ys"
  by (rule filter_True) (auto simp: signals_of_def)

lemma sorted_diff_empty: "sorted_diff xs ys = [] \<longleftrightarrow> set xs \<subseteq> set ys"
  by (auto simp: sorted_diff_def filter_empty_conv)

lemma interpret_improved: "in_improved (interpret_delta s c (behavior_delta s c)) \<longleftrightarrow> improves s c"
  by (auto simp: interpret_delta_def behavior_delta_def improves_def Let_def change_def sorted_diff_strip
      sorted_diff_empty)

lemma interpret_absent:
  "\<not> sm_present s \<or> \<not> sm_present c \<Longrightarrow> \<not> in_improved (interpret_delta s c d)"
  by (auto simp: interpret_delta_def)

text \<open>Swapping the candidates swaps the signals and negates the changes.\<close>

lemma behavior_delta_swap:
  "dl_removed (behavior_delta c s) = dl_added (behavior_delta s c) \<and>
   dl_added (behavior_delta c s) = dl_removed (behavior_delta s c) \<and>
   dl_changed (behavior_delta c s) = dl_changed (behavior_delta s c) \<and>
   set (dl_persisted (behavior_delta c s)) = set (dl_persisted (behavior_delta s c)) \<and>
   change (dl_failed (behavior_delta c s)) = - change (dl_failed (behavior_delta s c)) \<and>
   change (dl_error (behavior_delta c s)) = - change (dl_error (behavior_delta s c)) \<and>
   change (dl_degraded (behavior_delta c s)) = - change (dl_degraded (behavior_delta s c))"
  by (auto simp: behavior_delta_def Let_def change_def)

lemma no_self_improvement: "\<not> improves s s"
  by (simp add: improves_def Let_def)

section \<open>The comparison that is built\<close>

lemma runtime_present:
  "runtime_summary_of m e b x = Inr s \<Longrightarrow> sm_present s \<longleftrightarrow> rs_present s"
  by (auto simp: runtime_summary_of_def bindE_Inr_iff split: option.splits)

lemma build_comparison_Inr:
  assumes "build_comparison source candidate = Inr c"
  shows "behavior_summary (cd_manifest source) (cd_behavior source) (cd_episode source) False = Inr (cp_source c)"
    "behavior_summary (cd_manifest candidate) (cd_behavior candidate) (cd_episode candidate) False =
      Inr (cp_candidate c)"
    "runtime_summary_of (cd_manifest source) (cd_runtime source) (cd_runtime_behavior source) False =
      Inr (cp_runtime_source c)"
    "runtime_summary_of (cd_manifest candidate) (cd_runtime candidate) (cd_runtime_behavior candidate) False =
      Inr (cp_runtime_candidate c)"
    "cp_generated_compared c \<longleftrightarrow> sm_present (cp_source c) \<and> sm_present (cp_candidate c)"
    "cp_runtime_compared c \<longleftrightarrow> rs_present (cp_runtime_source c) \<and> rs_present (cp_runtime_candidate c)"
    "cp_delta c = behavior_delta (cp_source c) (cp_candidate c)"
    "cp_runtime_delta c = behavior_delta (cp_runtime_source c) (cp_runtime_candidate c)"
    "cp_verdict c = fst (combine_verdicts (cp_generated_compared c) (cp_runtime_compared c)
      (interpret_delta (cp_source c) (cp_candidate c) (cp_delta c))
      (interpret_delta (cp_runtime_source c) (cp_runtime_candidate c) (cp_runtime_delta c)))"
    "cp_conflict c \<longleftrightarrow> cp_generated_compared c \<and> cp_runtime_compared c \<and>
      disagree (interpret_delta (cp_source c) (cp_candidate c) (cp_delta c))
      (interpret_delta (cp_runtime_source c) (cp_runtime_candidate c) (cp_runtime_delta c))"
  using assms unfolding build_comparison_def Let_def
  by (auto simp: bindE_Inr_iff simp del: split_paired_Ex)

lemma build_comparison_labels:
  assumes "build_comparison source candidate = Inr c"
  shows "cp_links c = Some (provider_links source candidate)"
    "cp_runtime_verdict c = interpret_delta (cp_runtime_source c) (cp_runtime_candidate c) (cp_runtime_delta c)"
    "cp_basis c = snd (combine_verdicts (cp_generated_compared c) (cp_runtime_compared c)
      (interpret_delta (cp_source c) (cp_candidate c) (cp_delta c))
      (interpret_delta (cp_runtime_source c) (cp_runtime_candidate c) (cp_runtime_delta c)))"
    "\<exists>k. (let kinds = compared_kinds (cp_generated_compared c) (cp_runtime_compared c) (provider_links source candidate)
      in if kinds = [] then Inr None else weakest_kind kinds) = Inr k \<and> cp_kind c = Some k"
    "\<exists>k. (if cp_runtime_compared c then weakest_kind (map snd (drop 2 (provider_links source candidate))) else Inr None) =
      Inr k \<and> cp_runtime_kind c = Some k"
  using assms unfolding build_comparison_def Let_def
  by (auto simp: bindE_Inr_iff simp del: split_paired_Ex)

text \<open>C32: a comparison reports an improvement exactly when some evidence was compared, the generated and
  the runtime evidence do not disagree, and whatever was compared improves.\<close>

theorem comparison_improvement_exact:
  assumes "build_comparison source candidate = Inr c"
  shows "in_improved (cp_verdict c) \<longleftrightarrow>
    \<not> cp_conflict c \<and> (cp_generated_compared c \<or> cp_runtime_compared c) \<and>
    (cp_generated_compared c \<longrightarrow> improves (cp_source c) (cp_candidate c)) \<and>
    (cp_runtime_compared c \<longrightarrow> improves (cp_runtime_source c) (cp_runtime_candidate c))"
proof -
  note b = build_comparison_Inr [OF assms]
  have generated: "in_improved (interpret_delta (cp_source c) (cp_candidate c) (cp_delta c)) \<longleftrightarrow>
      improves (cp_source c) (cp_candidate c)"
    unfolding b(7) by (rule interpret_improved)
  have runtime: "in_improved (interpret_delta (cp_runtime_source c) (cp_runtime_candidate c) (cp_runtime_delta c)) \<longleftrightarrow>
      improves (cp_runtime_source c) (cp_runtime_candidate c)"
    unfolding b(8) by (rule interpret_improved)
  have absent: "\<not> cp_generated_compared c \<Longrightarrow> \<not> improves (cp_source c) (cp_candidate c)"
    unfolding b(5) by (auto simp: improves_def)
  show ?thesis
    unfolding b(9) b(10) combine_verdicts_def using generated runtime absent by (auto simp: disagree_def)
qed

section \<open>Labels of a comparison\<close>

lemma compared_kinds_links:
  "compared_kinds g r (provider_links s c) =
     (if g then [kind_from_behavior_results (cd_behavior s), kind_from_behavior_results (cd_behavior c)] else []) @
     (if r then [kind_from_behavior_results (cd_runtime_behavior s),
       kind_from_behavior_results (cd_runtime_behavior c)] else [])"
  by (simp add: compared_kinds_def provider_links_def link_names_def ends_with_def)

lemma runtime_links:
  "map snd (drop 2 (provider_links s c)) =
     [kind_from_behavior_results (cd_runtime_behavior s), kind_from_behavior_results (cd_runtime_behavior c)]"
  by (simp add: provider_links_def link_names_def)

lemma all_links: "compared_kinds True True (provider_links s c) = map snd (provider_links s c)"
  unfolding compared_kinds_links by (simp add: provider_links_def link_names_def)

lemma last_links: "compared_kinds False True (provider_links s c) = map snd (drop 2 (provider_links s c))"
  unfolding compared_kinds_links runtime_links by simp

lemma behavior_kind_valid: "valid_kind (kind_from_behavior_results r)"
  using kind_from_behavior_results_stub [of r] by (auto simp: valid_kind_def provider_evidence_kinds_def)

lemma weakest_stub:
  assumes "\<forall>k \<in> set kinds. k = None \<or> k = Some stub_echo"
  shows "weakest_kind kinds = Inr (if Some stub_echo \<in> set kinds then Some stub_echo else None)"
proof -
  have "\<forall>k \<in> set kinds. valid_kind k"
    using assms by (auto simp: valid_kind_def provider_evidence_kinds_def)
  moreover have "kinds = [] \<or> None \<in> set kinds \<or> Some stub_echo \<in> set kinds"
    using assms by (cases kinds) auto
  moreover have "Some authored_replay \<notin> set kinds"
    using assms by (auto simp: stub_echo_def authored_replay_def)
  ultimately show ?thesis using weakest_kind_valid [of kinds] by auto
qed

lemma compared_kinds_stub:
  "\<forall>k \<in> set (compared_kinds g r (provider_links s c)). k = None \<or> k = Some stub_echo"
  unfolding compared_kinds_links using kind_from_behavior_results_stub by auto

text \<open>The label of a comparison is that of a stub when some compared link comes from a stub and
  absent otherwise: a comparison never calls its evidence live.\<close>

theorem comparison_label_exact:
  assumes "build_comparison source candidate = Inr c"
  shows "cp_kind c = Some (if Some stub_echo \<in> set (compared_kinds (cp_generated_compared c)
    (cp_runtime_compared c) (provider_links source candidate)) then Some stub_echo else None)"
proof -
  show ?thesis using build_comparison_labels(4) [OF assms] weakest_stub [OF compared_kinds_stub]
    by (auto simp: Let_def split: if_splits)
qed

section \<open>The reconstruction\<close>

lemma weakest_label_valid:
  assumes "\<forall>k \<in> set kinds. k = None \<or> k = Some stub_echo"
  shows "weakest_kind kinds = Inr (weakest_label kinds)"
proof -
  have "Some authored_replay \<notin> set kinds" "Some live \<notin> set kinds"
    using assms by (auto simp: stub_echo_def authored_replay_def live_def)
  moreover from this have "kinds = [] \<or> \<not> (\<forall>k \<in> set kinds. k = Some live)" by (cases kinds) auto
  ultimately show ?thesis using weakest_stub [OF assms] by (auto simp: weakest_label_def)
qed

definition all_evidence :: "candidate \<Rightarrow> bool" where
  "all_evidence c = (cd_behavior c \<noteq> None \<and> cd_runtime c \<noteq> None \<and> cd_runtime_behavior c \<noteq> None)"

definition labels_agree :: "candidate \<Rightarrow> bool" where
  "labels_agree c = (\<forall>b \<in> set [cd_behavior c, cd_runtime_behavior c].
     link_label False (case b of None \<Rightarrow> [] | Some kvs \<Rightarrow> kvs) = Inr (kind_from_behavior_results b))"

lemma view_links_agree:
  assumes "labels_agree s" "labels_agree c"
  shows "view_links Conservative_labels s c = Inr (Some (provider_links s c))"
  using assms by (simp add: view_links_def labels_agree_def provider_links_def)

lemma present_summary:
  "behavior_summary m b e x = Inr s \<Longrightarrow> b \<noteq> None \<Longrightarrow> sm_present s"
  by (auto simp: behavior_summary_def Let_def bindE_Inr_iff)

lemma present_runtime:
  "runtime_summary_of m e b x = Inr s \<Longrightarrow> e \<noteq> None \<Longrightarrow> rs_present s"
  by (auto simp: runtime_summary_of_def bindE_Inr_iff)


section \<open>A sample\<close>

definition sample_results :: "string \<Rightarrow> (string \<times> pv) list" where
  "sample_results status = [(''summary'', PDict [(''status'', PStr status), (''total'', PInt 1),
     (''status_counts'', PDict [(status, PInt 1)])]), (''examples'', PList [])]"

definition sample_candidate :: "string \<Rightarrow> candidate" where
  "sample_candidate status =
     \<lparr>cd_manifest = [], cd_behavior = Some (sample_results status), cd_episode = None,
      cd_runtime = Some [], cd_runtime_behavior = Some (sample_results status)\<rparr>"

lemma sample_comparison:
  "case build_comparison (sample_candidate ''failed'') (sample_candidate ''passed'') of
     Inl _ \<Rightarrow> False
   | Inr c \<Rightarrow> in_improved (cp_verdict c) \<and> cp_generated_compared c \<and> cp_runtime_compared c"
  by code_simp

lemma sample_labels: "labels_agree (sample_candidate ''failed'')" "labels_agree (sample_candidate ''passed'')"
  by code_simp+

lemma sample_built:
  obtains c where "build_comparison (sample_candidate ''failed'') (sample_candidate ''passed'') = Inr c"
    "in_improved (cp_verdict c)" "cp_generated_compared c" "cp_runtime_compared c"
  using sample_comparison by (auto split: sum.splits)

theorem comparison_improvement_exact_witness:
  "\<exists>c. build_comparison (sample_candidate ''failed'') (sample_candidate ''passed'') = Inr c \<and>
     \<not> cp_conflict c \<and> improves (cp_source c) (cp_candidate c) \<and>
     improves (cp_runtime_source c) (cp_runtime_candidate c)"
proof -
  obtain c where c: "build_comparison (sample_candidate ''failed'') (sample_candidate ''passed'') = Inr c"
    "in_improved (cp_verdict c)" "cp_generated_compared c" "cp_runtime_compared c" by (rule sample_built)
  from comparison_improvement_exact [OF c(1)] c show ?thesis by blast
qed

theorem comparison_label_exact_witness:
  "\<exists>c. build_comparison (sample_candidate ''failed'') (sample_candidate ''passed'') = Inr c \<and> cp_kind c \<noteq> Some (Some live)"
proof -
  obtain c where c: "build_comparison (sample_candidate ''failed'') (sample_candidate ''passed'') = Inr c"
    by (rule sample_built)
  from comparison_label_exact [OF c] c show ?thesis by (auto simp: stub_echo_def live_def)
qed


end
