(* ===== verification/Promotion_Decision.thy ===== *)
theory Promotion_Decision
  imports Behavior_Comparison Canonical_Json Sha_256
begin

text \<open>
  Local promotion decisions (\<open>services/program_promotion_decision.py\<close>): the records built from a refined
  review, a comparison or a delegated adjudication, and the validator a consumer applies to a record.
  Files, the clock, the contract of a refined review and the manifest loader, which belong to other
  modules, are a record the builders take.
\<close>

section \<open>Errors and files\<close>

text \<open>\<open>Decision_error\<close> is \<open>ProgramPromotionDecisionError\<close>; \<open>Escaped\<close> is any other exception.\<close>

datatype decision_error = Decision_error string | Escaped

type_synonym 'a decided = "decision_error + 'a"

text \<open>What the module reads: the bytes of files by resolved path, the contract of a refined review, the
  manifest loader with the text of its \<open>ValueError\<close>, and the clock.\<close>

record world =
  wd_read :: "string \<Rightarrow> string option"
  wd_review_contract :: "string \<Rightarrow> (string \<times> pv) list \<Rightarrow> unit decided"
  wd_manifest :: "string \<Rightarrow> string + (string \<times> pv) list"
  wd_now :: string

definition load_json_object :: "world \<Rightarrow> string \<Rightarrow> string \<Rightarrow> (string \<times> pv) list decided" where
  "load_json_object w label path =
     (case wd_read w path of
        None \<Rightarrow> Inl (Decision_error (label @ '' not found: '' @ path))
      | Some raw \<Rightarrow>
          (if \<not> utf8_ok raw \<or> has_surrogate raw then Inl Escaped
           else case json_loads raw of
             Inl Bad_json \<Rightarrow> Inl (Decision_error (label @ '' must be valid JSON: '' @ path))
           | Inl Int_too_long \<Rightarrow> Inl Escaped
           | Inr (PDict kvs) \<Rightarrow> Inr kvs
           | Inr _ \<Rightarrow> Inl (Decision_error (label @ '' must contain a JSON object: '' @ path))))"

section \<open>Constants\<close>

definition record_schema :: string where "record_schema = ''program-promotion-decision-record-v1''"

definition decision_outcomes :: "string list" where
  "decision_outcomes = [''withhold'', ''reject'', ''request_more_evidence'', ''promote'']"

definition comparison_outcomes :: "string list" where
  "comparison_outcomes = [''withhold'', ''reject'', ''request_more_evidence'']"

definition comparison_false_flags :: "string list" where
  "comparison_false_flags =
     [''oracle_ranking'', ''oracle_pruning'', ''oracle_promotion'', ''winner_selection'', ''automatic_promotion'',
      ''program_mutation'', ''new_candidate_generation'', ''governance_authority'', ''external_mutation'']"

definition record_non_authority :: "(string \<times> pv) list" where
  "record_non_authority =
     [(''local_decision_record_only'', PBool True), (''automatic_promotion'', PBool False),
      (''oracle_ranking'', PBool False), (''oracle_pruning'', PBool False), (''oracle_promotion'', PBool False),
      (''program_mutation'', PBool False), (''refined_review_mutation'', PBool False),
      (''new_candidate_generation'', PBool False), (''governance_authority'', PBool False),
      (''external_mutation'', PBool False)]"

definition record_effect :: "(string \<times> pv) list" where
  "record_effect =
     [(''local_decision_record_only'', PBool True), (''program_files_mutated'', PBool False),
      (''refined_review_mutated'', PBool False), (''new_candidate_generated'', PBool False),
      (''external_authority_mutated'', PBool False), (''governance_mutated'', PBool False)]"

text \<open>The keys whose value is false.\<close>

definition false_keys :: "(string \<times> pv) list \<Rightarrow> string list" where
  "false_keys kvs = map fst (filter (\<lambda>kv. snd kv = PBool False) kvs)"

definition optional_false_flags :: "string list" where
  "optional_false_flags = [''promotion_authority'', ''winner_selection'']"

definition authority_keys :: "string list" where
  "authority_keys = [''activation_authority'', ''governance_authority'', ''oracle_authority'', ''promotion_authority'']"

section \<open>Identity\<close>

definition identity_exactly_matches :: "(string \<times> pv) list \<Rightarrow> (string \<times> pv) list \<Rightarrow> bool" where
  "identity_exactly_matches actual expected =
     (actual \<noteq> [] \<and> expected \<noteq> [] \<and>
      list_all (\<lambda>(k, v). v = PNone \<or> py_eq (dget k actual) v) expected)"

definition identity_boundary_keys :: "string list" where
  "identity_boundary_keys = [''receipt_bundle_id'', ''episode_id'', ''assembly_id'', ''candidate_id'', ''request_id'']"

definition normalize_identity_value :: "pv \<Rightarrow> string option" where
  "normalize_identity_value v = (if text_of v = [] then None else Some (text_of v))"

definition identity_mismatch_keys :: "(string \<times> pv) list \<Rightarrow> (string \<times> pv) list \<Rightarrow> string list" where
  "identity_mismatch_keys actual expected =
     filter (\<lambda>k. normalize_identity_value (dget k expected) \<noteq> None \<and>
       normalize_identity_value (dget k actual) \<noteq> normalize_identity_value (dget k expected))
       identity_boundary_keys"

definition manifest_identity :: "(string \<times> pv) list \<Rightarrow> (string \<times> pv) list" where
  "manifest_identity manifest =
     (let part = (\<lambda>key name. dget key (dict_of (dget name manifest)));
          read = (\<lambda>key names. kind_value (first_text (map (part key) names))) in
      [(''request_id'', read ''request_id''
          [''request'', ''candidate_assembly'', ''execution_episode'', ''receipt_bundle'']),
       (''candidate_id'', read ''candidate_id'' [''candidate_assembly'', ''execution_episode'', ''receipt_bundle'']),
       (''assembly_id'', read ''assembly_id'' [''candidate_assembly'', ''execution_episode'']),
       (''episode_id'', read ''episode_id'' [''execution_episode'', ''receipt_bundle'']),
       (''receipt_bundle_id'', read ''receipt_bundle_id'' [''receipt_bundle''])])"

section \<open>The validator of a record\<close>

definition assert_false_flags :: "(string \<times> pv) list \<Rightarrow> string list \<Rightarrow> string \<Rightarrow> unit decided" where
  "assert_false_flags payload required label =
     (let invalid = filter (\<lambda>k. dget k payload \<noteq> PBool False) required in
      guardE (invalid \<noteq> []) (Decision_error (label @ '' widens non-authority flags or effect flags: '' @
        join '', '' invalid)) (Inr ()))"

definition state_after_decision :: "string \<Rightarrow> string" where
  "state_after_decision outcome =
     (if outcome = ''promote'' then ''local_promotion_decision_recorded'' else ''not_promoted'')"

definition record_label :: string where "record_label = ''program promotion decision record''"

definition check_identity :: "(string \<times> pv) list \<Rightarrow> (string \<times> pv) list list \<Rightarrow> unit decided" where
  "check_identity identity expected_identities =
     (let options = filter (\<lambda>e. e \<noteq> []) expected_identities;
          keys = sorted_set (concat (map (\<lambda>expected. map fst (filter (\<lambda>(k, v). v \<noteq> PNone \<and>
            \<not> py_eq (dget k identity) v) expected)) options)) in
      guardE (options \<noteq> [] \<and> \<not> list_ex (identity_exactly_matches identity) options)
        (Decision_error (record_label @ '' identity does not match expected identity'' @
          (if keys = [] then [] else '': '' @ join '', '' keys)))
        (Inr ()))"

definition check_optional_flags :: "(string \<times> pv) list \<Rightarrow> unit decided" where
  "check_optional_flags rights =
     (case find (\<lambda>k. k \<in> set (dict_keys rights) \<and> dget k rights \<noteq> PBool False)
        optional_false_flags of
        None \<Rightarrow> Inr ()
      | Some k \<Rightarrow> Inl (Decision_error (record_label @ '' widens non-authority flags or effect flags: '' @ k)))"

definition validate_record ::
    "(string \<times> pv) list \<Rightarrow> (string \<times> pv) list list \<Rightarrow> bool \<Rightarrow> unit decided" where
  "validate_record rec expected_identities require_non_promoting =
     (let outcome = text_of (dget ''outcome'' rec);
          expected_state = (if require_non_promoting then ''not_promoted'' else state_after_decision outcome);
          effect = dict_of (dget ''effect'' rec); rights = dict_of (dget ''non_authority'' rec) in
     guardE (dget ''schema_version'' rec \<noteq> PStr record_schema)
       (Decision_error (record_label @ '' schema_version must be '' @ record_schema))
    (guardE (dget ''status'' rec \<noteq> PStr ''recorded'')
       (Decision_error (record_label @ '' must have status recorded''))
    (guardE (outcome \<notin> set decision_outcomes)
       (Decision_error (record_label @ '' outcome must be one of: '' @ join '', '' decision_outcomes))
    (guardE (require_non_promoting \<and> outcome \<notin> set comparison_outcomes)
       (Decision_error (record_label @ '' outcome must be non-promoting''))
    (guardE (dget ''promotion_state_after_decision'' rec \<noteq> PStr expected_state)
       (Decision_error (record_label @ '' promotion_state_after_decision must be '' @ expected_state))
    (bindE (check_identity (dict_of (dget ''identity'' rec)) expected_identities) (\<lambda>_.
     guardE (dget ''local_decision_record_only'' effect \<noteq> PBool True)
       (Decision_error (record_label @ '' effect must be local_decision_record_only''))
    (bindE (assert_false_flags effect (false_keys record_effect) record_label) (\<lambda>_.
     guardE (dget ''local_decision_record_only'' rights \<noteq> PBool True)
       (Decision_error (record_label @ '' must be local-only''))
    (bindE (assert_false_flags rights (false_keys record_non_authority) record_label) (\<lambda>_.
     check_optional_flags rights)))))))))))"

section \<open>Evidence a decision is built from\<close>

definition adjudication_label :: string where "adjudication_label = ''program evidence adjudication''"

text \<open>The first key of the list that is not recorded as false.\<close>

definition require_false :: "(string \<times> pv) list \<Rightarrow> string list \<Rightarrow> (string \<Rightarrow> string) \<Rightarrow> unit decided" where
  "require_false rights keys message =
     (case find (\<lambda>k. dget k rights \<noteq> PBool False) keys of
        None \<Rightarrow> Inr ()
      | Some k \<Rightarrow> Inl (Decision_error (message k)))"

definition load_evidence_adjudication :: "world \<Rightarrow> string \<Rightarrow> (string \<times> pv) list decided" where
  "load_evidence_adjudication w path =
     bindE (load_json_object w adjudication_label path) (\<lambda>adjudication.
     let rights = dict_of (dget ''non_authority'' adjudication) in
     guardE (dget ''schema_version'' adjudication \<noteq> PStr ''program-evidence-adjudication-v1'')
       (Decision_error (adjudication_label @ '' schema_version must be program-evidence-adjudication-v1''))
    (guardE (dget ''status'' adjudication \<noteq> PStr ''evidence_adjudicated'')
       (Decision_error (adjudication_label @ '' must have status evidence_adjudicated''))
    (bindE (require_false rights authority_keys (\<lambda>k. adjudication_label @ '' must record non_authority.'' @ k @ ''=false''))
      (\<lambda>_. bindE (require_false rights
         (filter (\<lambda>k. k \<in> set (dict_keys rights)) [''automatic_promotion'', ''winner_selection''])
         (\<lambda>k. adjudication_label @ '' must not widen non_authority.'' @ k)) (\<lambda>_. Inr adjudication)))))"

definition delegation_label :: string where "delegation_label = ''program adjudicator delegation''"

definition load_delegation :: "world \<Rightarrow> string \<Rightarrow> (string \<times> pv) list decided" where
  "load_delegation w path =
     bindE (load_json_object w delegation_label path) (\<lambda>delegation.
     let adjudicator = dict_of (dget ''generated_program_adjudicator'' delegation) in
     guardE (dget ''schema_version'' delegation \<noteq> PStr ''program-adjudicator-delegation-v1'')
       (Decision_error (delegation_label @ '' schema_version must be program-adjudicator-delegation-v1''))
    (guardE (dget ''status'' delegation \<noteq> PStr ''delegated'')
       (Decision_error (delegation_label @ '' must have status delegated''))
    (guardE (dget ''approved_to_decide'' adjudicator \<noteq> PBool True)
       (Decision_error ''generated program adjudicator must be approved_to_decide'')
    (guardE (text_of (dget ''id'' adjudicator) = [])
       (Decision_error (delegation_label @ '' must name generated_program_adjudicator.id''))
    (bindE (require_false (dict_of (dget ''non_authority'' delegation)) authority_keys
       (\<lambda>k. delegation_label @ '' must record non_authority.'' @ k @ ''=false'')) (\<lambda>_. Inr delegation))))))"

definition bind_delegation :: "world \<Rightarrow> (string \<times> pv) list \<Rightarrow> (string \<times> pv) list \<Rightarrow> unit decided" where
  "bind_delegation w delegation adjudication =
     (let ref = dict_of (dget ''manifest'' delegation) in
     case first_text [dget ''path'' ref] of
       None \<Rightarrow> Inl (Decision_error (delegation_label @ '' must include manifest.path for identity binding''))
     | Some path \<Rightarrow>
         (case first_text [dget ''sha256'' ref] of
            None \<Rightarrow> Inl (Decision_error (delegation_label @ '' must include manifest.sha256 for identity binding''))
          | Some expected_hash \<Rightarrow>
              (case wd_read w path of
                 None \<Rightarrow> Inl Escaped
               | Some raw \<Rightarrow>
                   guardE (sha256 raw \<noteq> expected_hash)
                     (Decision_error (delegation_label @ '' manifest hash does not match referenced manifest''))
                  (case wd_manifest w path of
                     Inl message \<Rightarrow> Inl (Decision_error message)
                   | Inr manifest \<Rightarrow>
                       (let mismatches = identity_mismatch_keys (dict_of (dget ''identity'' adjudication))
                          (manifest_identity manifest) in
                        guardE (mismatches \<noteq> []) (Decision_error (delegation_label @
                          '' manifest identity does not match evidence adjudication identity: '' @
                          join '', '' (sort mismatches))) (Inr ()))))))"

definition adjudicator_outcome :: "(string \<times> pv) list \<Rightarrow> string" where
  "adjudicator_outcome aggregate =
     (if dget ''ready_for_domain_decision'' aggregate = PBool True then ''withhold''
      else if text_of (dget ''recommendation'' aggregate) = ''revise_or_collect_missing_evidence''
      then ''request_more_evidence'' else ''withhold'')"

definition adjudicator_rationale :: "(string \<times> pv) list \<Rightarrow> string \<Rightarrow> string" where
  "adjudicator_rationale adjudication outcome =
     (let aggregate = dict_of (dget ''aggregate'' adjudication);
          missing = string_items (dget ''missing_evidence'' aggregate);
          counts = dict_of (dget ''judgment_counts'' aggregate) in
      join '' '' (
        [''DSPx adjudicator recorded a local generated-program decision from verified meta-adjudication evidence.'',
         ''Outcome is '' @ outcome @ ''; activation_approved remains false.''] @
        (if missing \<noteq> [] then [''Missing evidence: '' @ join '', '' missing @ ''.''] else []) @
        (if counts \<noteq> [] then [''Role judgments: '' @
           join '', '' (map (\<lambda>(k, v). k @ ''='' @ py_str v) (sort_key fst counts)) @ ''.''] else []) @
        [''This is evidence-only and does not mutate AK, governance, Oracle authority, or production activation.'']))"

definition comparison_label :: string where "comparison_label = ''program candidate comparison''"

definition load_candidate_comparison :: "world \<Rightarrow> string \<Rightarrow> (string \<times> pv) list decided" where
  "load_candidate_comparison w path =
     bindE (load_json_object w comparison_label path) (\<lambda>comparison.
     let rights = dict_of (dget ''non_authority'' comparison);
         invalid = filter (\<lambda>k. dget k rights \<noteq> PBool False) comparison_false_flags;
         unnamed = (\<lambda>key. list_all (\<lambda>(k, v). text_of v = []) (dict_of (dget key comparison))) in
     guardE (dget ''schema_version'' comparison \<noteq> PStr ''program-refinement-candidate-comparison-v1'')
       (Decision_error (comparison_label @ '' schema_version must be program-refinement-candidate-comparison-v1''))
    (guardE (dget ''local_comparison_only'' rights \<noteq> PBool True)
       (Decision_error (comparison_label @ '' must be local-only''))
    (guardE (invalid \<noteq> [])
       (Decision_error (comparison_label @ '' widens non-authority flags: '' @ join '', '' invalid))
    (guardE (unnamed ''source_identity'')
       (Decision_error (comparison_label @ '' must include source_identity''))
    (guardE (unnamed ''candidate_identity'')
       (Decision_error (comparison_label @ '' must include candidate_identity'')) (Inr comparison))))))"

section \<open>Snapshots\<close>

definition ready_review :: "(string \<times> pv) list \<Rightarrow> bool" where
  "ready_review review =
     (dget ''ready_for_adjudicator_review'' (dict_of (dget ''review_readiness'' review)) = PBool True)"

definition missing_evidence :: "(string \<times> pv) list \<Rightarrow> string list" where
  "missing_evidence review =
     string_items (dget ''missing_required_evidence'' (dict_of (dget ''review_readiness'' review)))"

definition review_snapshot :: "(string \<times> pv) list \<Rightarrow> (string \<times> pv) list" where
  "review_snapshot review =
     [(''review_status'', dget ''status'' review), (''promotion_state'', dget ''promotion_state'' review),
      (''candidate_status'', dget ''candidate_status'' review),
      (''ready_for_adjudicator_review'', PBool (ready_review review)),
      (''missing_required_evidence'', names_value (missing_evidence review))]"

definition comparison_snapshot :: "(string \<times> pv) list \<Rightarrow> (string \<times> pv) list" where
  "comparison_snapshot comparison =
     (let reading = dict_of (dget ''interpretation'' comparison) in
      [(''comparison_status'', dget ''status'' comparison),
       (''source_identity'', PDict (dict_of (dget ''source_identity'' comparison))),
       (''candidate_identity'', PDict (dict_of (dget ''candidate_identity'' comparison))),
       (''behavior_delta'', PDict (dict_of (dget ''delta'' (dict_of (dget ''behavior_comparison'' comparison))))),
       (''interpretation'', PDict (map (\<lambda>k. (k, dget k reading)) (filter (\<lambda>k. k \<in> set (dict_keys reading))
          [''summary'', ''improvement_observed'', ''needs_more_evidence''])))])"

section \<open>The records\<close>

definition decision_time :: "world \<Rightarrow> string option \<Rightarrow> pv" where
  "decision_time w decided_at = PStr (case decided_at of None \<Rightarrow> wd_now w | Some t \<Rightarrow> if t = [] then wd_now w else t)"

definition record_head :: "string \<Rightarrow> string \<Rightarrow> pv \<Rightarrow> string \<Rightarrow> pv \<Rightarrow> (string \<times> pv) list" where
  "record_head outcome decided_by time rationale identity =
     [(''schema_version'', PStr record_schema), (''status'', PStr ''recorded''), (''outcome'', PStr outcome),
      (''promotion_state_after_decision'', PStr (state_after_decision outcome)), (''decided_by'', PStr decided_by),
      (''decided_at'', time), (''rationale'', PStr rationale), (''identity'', PDict (dict_of identity))]"

definition record_tail :: "(string \<times> pv) list \<Rightarrow> string list \<Rightarrow> (string \<times> pv) list" where
  "record_tail rights notes =
     [(''effect'', PDict record_effect), (''non_authority'', PDict (record_non_authority @ rights)),
      (''notes'', names_value notes)]"

definition build_comparison_record ::
    "world \<Rightarrow> string \<Rightarrow> string \<Rightarrow> string \<Rightarrow> string \<Rightarrow> string option \<Rightarrow> (string \<times> pv) list decided" where
  "build_comparison_record w path outcome decided_by rationale decided_at =
     bindE (load_candidate_comparison w path) (\<lambda>comparison.
     guardE (strip outcome \<notin> set comparison_outcomes)
       (Decision_error (''program comparison decision outcome must be one of: '' @ join '', '' comparison_outcomes))
    (guardE (strip decided_by = []) (Decision_error ''program comparison decision requires decided_by'')
    (guardE (strip rationale = []) (Decision_error ''program comparison decision requires rationale'')
    (Inr (record_head (strip outcome) (strip decided_by) (decision_time w decided_at) (strip rationale)
         (dget ''source_identity'' comparison) @
       [(''created_from'', PDict [(''comparison_path'', PStr path),
           (''comparison_schema_version'', dget ''schema_version'' comparison),
           (''comparison_hash'', PStr (sha256 (case wd_read w path of None \<Rightarrow> [] | Some raw \<Rightarrow> raw)))]),
        (''review_snapshot'', PDict
           [(''review_status'', PStr ''comparison_decision_recorded_from_local_candidate_comparison''),
            (''promotion_state'', PStr ''not_promoted''),
            (''candidate_status'', py_or (dget ''status'' comparison) (PStr ''unknown'')),
            (''ready_for_adjudicator_review'', PBool False),
            (''missing_required_evidence'', names_value [''no_refined_promotion_review'',
               ''no_model_jury_execution_episode'', ''no_external_authority_contract''])]),
        (''comparison_snapshot'', PDict (comparison_snapshot comparison)),
        (''decision_constraints'', PDict [(''allowed_outcomes'', names_value comparison_outcomes),
           (''promote_requires_ready_review'', PBool True), (''promote_allowed_by_review'', PBool False),
           (''external_authority_exported'', PBool False),
           (''source'', PStr ''program_refinement_candidate_comparison'')])] @
       record_tail [(''comparison_decision_only'', PBool True), (''promotion_authority'', PBool False),
           (''winner_selection'', PBool False)]
         [''This is a local decision record over comparison evidence only.'',
          ''It does not choose a winner, promote, export external authority, update governance, or make Oracle authoritative.'',
          ''Use program-promote plan for a separate local non-applying planning sidecar.''])))))"

definition validate_decision_input ::
    "(string \<times> pv) list \<Rightarrow> string \<Rightarrow> string \<Rightarrow> string \<Rightarrow> unit decided" where
  "validate_decision_input review outcome decided_by rationale =
     guardE (strip outcome \<notin> set decision_outcomes)
       (Decision_error (''program promotion decision outcome must be one of: '' @ join '', '' decision_outcomes))
    (guardE (strip decided_by = []) (Decision_error ''program promotion decision requires decided_by'')
    (guardE (strip rationale = []) (Decision_error ''program promotion decision requires rationale'')
    (guardE (strip outcome = ''promote'' \<and> \<not> ready_review review)
       (Decision_error (''promote outcome is not allowed unless review_readiness.ready_for_adjudicator_review is true'' @
         (if missing_evidence review = [] then []
          else ''; missing required evidence: '' @ join '', '' (missing_evidence review))))
       (Inr ()))))"

definition load_refined_review :: "world \<Rightarrow> string \<Rightarrow> (string \<times> pv) list decided" where
  "load_refined_review w path =
     bindE (load_json_object w ''refined promotion review'' path) (\<lambda>review.
     bindE (wd_review_contract w path review) (\<lambda>_. Inr review))"

definition build_promotion_record ::
    "world \<Rightarrow> string \<Rightarrow> string \<Rightarrow> string \<Rightarrow> string \<Rightarrow> string option \<Rightarrow> (string \<times> pv) list decided" where
  "build_promotion_record w path outcome decided_by rationale decided_at =
     bindE (load_refined_review w path) (\<lambda>review.
     bindE (validate_decision_input review (strip outcome) (strip decided_by) (strip rationale)) (\<lambda>_.
     Inr (record_head (strip outcome) (strip decided_by) (decision_time w decided_at) (strip rationale)
         (dget ''identity'' review) @
       [(''created_from'', PDict [(''refined_review_path'', PStr path),
           (''refined_review_schema_version'', dget ''schema_version'' review)]),
        (''review_snapshot'', PDict (review_snapshot review)),
        (''decision_constraints'', PDict [(''allowed_outcomes'', names_value decision_outcomes),
           (''promote_requires_ready_review'', PBool True),
           (''promote_allowed_by_review'', PBool (ready_review review)),
           (''external_authority_exported'', PBool False)])] @
       record_tail []
         [''This is a local adjudicator decision record sidecar only.'',
          ''It does not mutate generated program artifacts or the refined review packet.'',
          ''It does not export external authority, update governance, or make Oracle authoritative.''])))"

definition adjudicated_constraints :: "string \<Rightarrow> pv" where
  "adjudicated_constraints source = PDict
     [(''allowed_outcomes'', names_value comparison_outcomes), (''promote_requires_ready_review'', PBool True),
      (''promote_allowed_by_review'', PBool False), (''external_authority_exported'', PBool False),
      (''source'', PStr source)]"

definition adjudicated_snapshot :: "string \<Rightarrow> (string \<times> pv) list \<Rightarrow> pv" where
  "adjudicated_snapshot status aggregate = PDict
     [(''review_status'', PStr status), (''promotion_state'', PStr ''not_promoted''),
      (''candidate_status'', PStr ''exploratory''),
      (''ready_for_adjudicator_review'', PBool (dget ''ready_for_domain_decision'' aggregate = PBool True)),
      (''missing_required_evidence'', names_value (string_items (dget ''missing_evidence'' aggregate)))]"

definition build_delegated_record ::
    "world \<Rightarrow> string \<Rightarrow> string \<Rightarrow> string option \<Rightarrow> (string \<times> pv) list decided" where
  "build_delegated_record w adjudication_path delegation_path decided_at =
     bindE (load_evidence_adjudication w adjudication_path) (\<lambda>adjudication.
     bindE (load_delegation w delegation_path) (\<lambda>delegation.
     bindE (bind_delegation w delegation adjudication) (\<lambda>_.
     let adjudicator = dict_of (dget ''generated_program_adjudicator'' delegation);
         aggregate = dict_of (dget ''aggregate'' adjudication); outcome = adjudicator_outcome aggregate in
     Inr (record_head outcome (text_of (dget ''id'' adjudicator)) (decision_time w decided_at)
         (adjudicator_rationale adjudication outcome) (dget ''identity'' adjudication) @
       [(''created_from'', PDict [(''program_evidence_adjudication_path'', PStr adjudication_path),
           (''program_evidence_adjudication_schema_version'', dget ''schema_version'' adjudication),
           (''program_adjudicator_delegation_path'', PStr delegation_path),
           (''program_adjudicator_delegation_schema_version'', dget ''schema_version'' delegation)]),
        (''adjudicator_delegation'', PDict
           [(''decided_by'', dget ''id'' (dict_of (dget ''dspx_meta_adjudicator'' delegation))),
            (''generated_program_adjudicator'', PDict adjudicator),
            (''delegation_status'', dget ''status'' delegation)]),
        (''review_snapshot'', adjudicated_snapshot
           ''generated_program_adjudicator_decided_from_delegated_dspx_evidence'' aggregate),
        (''decision_constraints'', adjudicated_constraints
           ''program_adjudicator_delegation_and_program_evidence_adjudication'')] @
       record_tail [(''dspx_adjudicator_evidence_only'', PBool True),
           (''delegated_generated_program_adjudicator_only'', PBool True), (''promotion_authority'', PBool False)]
         [''The DSPx/meta adjudicator delegated local decision scope to the generated-program adjudicator.'',
          ''This record is the generated-program adjudicator decision, not the DSPx/meta delegation decision.'',
          ''It does not export external authority, update governance, or activate production.'']))))"

definition build_adjudicated_record ::
    "world \<Rightarrow> string \<Rightarrow> string \<Rightarrow> string option \<Rightarrow> (string \<times> pv) list decided" where
  "build_adjudicated_record w adjudication_path decided_by decided_at =
     bindE (load_evidence_adjudication w adjudication_path) (\<lambda>adjudication.
     let aggregate = dict_of (dget ''aggregate'' adjudication); outcome = adjudicator_outcome aggregate in
     guardE (strip decided_by = []) (Decision_error ''DSPx adjudicator decision requires decided_by'')
    (Inr (record_head outcome (strip decided_by) (decision_time w decided_at)
         (adjudicator_rationale adjudication outcome) (dget ''identity'' adjudication) @
       [(''created_from'', PDict [(''program_evidence_adjudication_path'', PStr adjudication_path),
           (''program_evidence_adjudication_schema_version'', dget ''schema_version'' adjudication)]),
        (''review_snapshot'', adjudicated_snapshot ''dspx_adjudicated_from_program_evidence'' aggregate),
        (''decision_constraints'', adjudicated_constraints ''dspx_program_evidence_adjudication'')] @
       record_tail [(''dspx_adjudicator_evidence_only'', PBool True), (''promotion_authority'', PBool False)]
         [''This is a legacy direct DSPx adjudicator decision record sidecar only.'',
          ''Prefer generated-program-adjudicator-decision with a program-adjudicator-delegation sidecar when modeling both adjudicator layers.'',
          ''It does not export external authority, update governance, or activate production.''])))"

text \<open>The four ways to a decision.\<close>

datatype decision_request =
    Compared string string string string
  | Reviewed string string string string
  | Delegated string string
  | Adjudicated string string

fun build_record :: "world \<Rightarrow> string option \<Rightarrow> decision_request \<Rightarrow> (string \<times> pv) list decided" where
  "build_record w at_time (Compared path outcome by_whom why) = build_comparison_record w path outcome by_whom why at_time"
| "build_record w at_time (Reviewed path outcome by_whom why) = build_promotion_record w path outcome by_whom why at_time"
| "build_record w at_time (Delegated adjudication delegation) = build_delegated_record w adjudication delegation at_time"
| "build_record w at_time (Adjudicated adjudication by_whom) = build_adjudicated_record w adjudication by_whom at_time"

section \<open>Built records are valid\<close>

text \<open>What the validator reads of a record with an outcome.\<close>

definition recorded_as :: "(string \<times> pv) list \<Rightarrow> string \<Rightarrow> bool" where
  "recorded_as rec outcome =
     (dget ''schema_version'' rec = PStr record_schema \<and> dget ''status'' rec = PStr ''recorded'' \<and>
      dget ''outcome'' rec = PStr outcome \<and>
      dget ''promotion_state_after_decision'' rec = PStr (state_after_decision outcome) \<and>
      dget ''effect'' rec = PDict record_effect \<and>
      (\<exists>rights. dget ''non_authority'' rec = PDict (record_non_authority @ rights) \<and>
         (\<forall>k \<in> set optional_false_flags. k \<in> set (dict_keys rights) \<longrightarrow> dget k rights = PBool False)))"

lemma recorded_as_shape:
  assumes "map_of mid ''effect'' = None" "map_of mid ''non_authority'' = None"
    and "\<forall>k \<in> set optional_false_flags. k \<in> set (dict_keys rights) \<longrightarrow> dget k rights = PBool False"
  shows "recorded_as (record_head outcome decided_by time rationale identity @ mid @ record_tail rights notes) outcome"
  using assms by (simp add: recorded_as_def record_head_def record_tail_def dget_def map_add_def)

lemma adjudicator_outcome_comparison: "adjudicator_outcome aggregate \<in> set comparison_outcomes"
  by (simp add: adjudicator_outcome_def comparison_outcomes_def)

lemma compared_record:
  assumes "build_comparison_record w path outcome decided_by rationale decided_at = Inr rec"
  shows "recorded_as rec (strip outcome) \<and> strip outcome \<in> set comparison_outcomes"
  using assms unfolding build_comparison_record_def Let_def bindE_Inr_iff guardE_Inr_iff sum.inject
  by (elim exE conjE) (hypsubst, intro conjI recorded_as_shape,
      simp_all add: optional_false_flags_def dget_def)

lemma reviewed_record:
  assumes "build_promotion_record w path outcome decided_by rationale decided_at = Inr rec"
  shows "recorded_as rec (strip outcome) \<and> strip outcome \<in> set decision_outcomes \<and>
    (strip outcome = ''promote'' \<longrightarrow> (\<exists>review. load_refined_review w path = Inr review \<and> ready_review review))"
  using assms unfolding build_promotion_record_def validate_decision_input_def Let_def bindE_Inr_iff
    guardE_Inr_iff sum.inject
  by (elim exE conjE) (hypsubst, intro conjI recorded_as_shape,
      auto simp: optional_false_flags_def dget_def)

lemma delegated_record:
  assumes "build_delegated_record w adjudication_path delegation_path decided_at = Inr rec"
  shows "\<exists>outcome. recorded_as rec outcome \<and> outcome \<in> set comparison_outcomes"
  using assms unfolding build_delegated_record_def Let_def bindE_Inr_iff sum.inject
  by (elim exE conjE) (hypsubst, rule exI, rule conjI, rule recorded_as_shape,
      simp_all add: optional_false_flags_def dget_def adjudicator_outcome_comparison)

lemma adjudicated_record:
  assumes "build_adjudicated_record w adjudication_path decided_by decided_at = Inr rec"
  shows "\<exists>outcome. recorded_as rec outcome \<and> outcome \<in> set comparison_outcomes"
  using assms unfolding build_adjudicated_record_def Let_def bindE_Inr_iff guardE_Inr_iff sum.inject
  by (elim exE conjE) (hypsubst, rule exI, rule conjI, rule recorded_as_shape,
      simp_all add: optional_false_flags_def dget_def adjudicator_outcome_comparison)

lemma outcome_sets: "set decision_outcomes = insert ''promote'' (set comparison_outcomes)"
  "''promote'' \<notin> set comparison_outcomes"
  by (auto simp: comparison_outcomes_def decision_outcomes_def)

lemma built_record:
  assumes "build_record w at_time req = Inr rec"
  shows "\<exists>outcome. recorded_as rec outcome \<and> outcome \<in> set decision_outcomes \<and>
    (outcome = ''promote'' \<longrightarrow> (\<exists>path o' by_whom why review. req = Reviewed path o' by_whom why \<and>
       load_refined_review w path = Inr review \<and> ready_review review))"
proof -
  have wider: "outcome \<in> set decision_outcomes \<and> outcome \<noteq> ''promote''" if "outcome \<in> set comparison_outcomes" for outcome
    using that outcome_sets by auto
  show ?thesis
  proof (cases req)
    case (Compared path o' by_whom why)
    with assms compared_record wider show ?thesis by (metis build_record.simps(1))
  next
    case (Reviewed path o' by_whom why)
    with assms reviewed_record show ?thesis by (metis build_record.simps(2))
  next
    case (Delegated x y)
    with assms delegated_record wider show ?thesis by (metis build_record.simps(3))
  next
    case (Adjudicated x y)
    with assms adjudicated_record wider show ?thesis by (metis build_record.simps(4))
  qed
qed

lemma false_keys_distinct:
  assumes "distinct (map fst kvs)" "k \<in> set (false_keys kvs)"
  shows "dget k (kvs @ rest) = PBool False"
proof -
  from assms(2) have "(k, PBool False) \<in> set kvs" by (auto simp: false_keys_def)
  with assms(1) have "map_of kvs k = Some (PBool False)" by (rule map_of_is_SomeI)
  then show ?thesis by (simp add: dget_def map_add_def)
qed

lemma record_flags_distinct: "distinct (map fst record_effect)" "distinct (map fst record_non_authority)"
  by (simp_all add: record_effect_def record_non_authority_def)

lemma record_flags_pass:
  "assert_false_flags (record_effect @ rest) (false_keys record_effect) label = Inr ()"
  "assert_false_flags (record_non_authority @ rest) (false_keys record_non_authority) label = Inr ()"
  using false_keys_distinct [OF record_flags_distinct(1)] false_keys_distinct [OF record_flags_distinct(2)]
  by (auto simp: assert_false_flags_def Let_def guardE_def filter_empty_conv)

lemma local_only: "dget ''local_decision_record_only'' record_effect = PBool True"
  "dget ''local_decision_record_only'' (record_non_authority @ rest) = PBool True"
  by (simp_all add: record_effect_def record_non_authority_def dget_def)

lemma decision_outcomes_strip: "outcome \<in> set decision_outcomes \<Longrightarrow> strip outcome = outcome"
  by (rule strip_fixed) (auto simp: decision_outcomes_def is_space_def)

lemma optional_flags_new:
  "list_all (\<lambda>k. map_of record_non_authority k = None \<and> k \<notin> set (dict_keys record_non_authority))
     optional_false_flags"
  by code_simp

lemma optional_flags_pass:
  assumes "\<forall>k \<in> set optional_false_flags. k \<in> set (dict_keys rights) \<longrightarrow> dget k rights = PBool False"
  shows "check_optional_flags (record_non_authority @ rights) = Inr ()"
proof -
  have flag: "\<not> (k \<in> set (dict_keys (record_non_authority @ rights)) \<and>
      dget k (record_non_authority @ rights) \<noteq> PBool False)" if "k \<in> set optional_false_flags" for k
  proof -
    from that have "map_of record_non_authority k = None" "k \<notin> set (dict_keys record_non_authority)"
      using optional_flags_new by (auto simp: list_all_iff)
    then have "dget k (record_non_authority @ rights) = dget k rights"
      "k \<in> set (dict_keys (record_non_authority @ rights)) \<longleftrightarrow> k \<in> set (dict_keys rights)"
      by (simp_all only: dget_def map_of_append map_add_def option.case map_append set_append Un_iff simp_thms)
    with assms that show ?thesis by metis
  qed
  then have "find (\<lambda>k. k \<in> set (dict_keys (record_non_authority @ rights)) \<and>
      dget k (record_non_authority @ rights) \<noteq> PBool False) optional_false_flags = None"
    unfolding find_None_iff by blast
  then show ?thesis unfolding check_optional_flags_def by simp
qed

text \<open>The expected identities a record meets: none of them says anything, or one of them matches.\<close>

definition identity_expected :: "(string \<times> pv) list list \<Rightarrow> (string \<times> pv) list \<Rightarrow> bool" where
  "identity_expected expected rec \<longleftrightarrow>
     (\<forall>e \<in> set expected. e = []) \<or> (\<exists>e \<in> set expected. identity_exactly_matches (dict_of (dget ''identity'' rec)) e)"

lemma check_identity_iff:
  "check_identity (dict_of (dget ''identity'' rec)) expected = Inr () \<longleftrightarrow> identity_expected expected rec"
  by (auto simp: check_identity_def Let_def guardE_def identity_expected_def filter_empty_conv list_ex_iff
      identity_exactly_matches_def)

text \<open>C30: a record any of the four builders makes passes the validator of its consumers under every
  identity it meets and, where a consumer takes no promotion, unless its outcome is a promotion.\<close>

theorem built_record_accepted:
  assumes "build_record w at_time req = Inr rec"
  shows "validate_record rec expected require_non_promoting = Inr () \<longleftrightarrow>
    identity_expected expected rec \<and> (require_non_promoting \<longrightarrow> dget ''outcome'' rec \<noteq> PStr ''promote'')"
proof -
  from built_record [OF assms] obtain outcome rights where shape:
    "dget ''schema_version'' rec = PStr record_schema" "dget ''status'' rec = PStr ''recorded''"
    "dget ''outcome'' rec = PStr outcome"
    "dget ''promotion_state_after_decision'' rec = PStr (state_after_decision outcome)"
    "dget ''effect'' rec = PDict record_effect" "dget ''non_authority'' rec = PDict (record_non_authority @ rights)"
    "\<forall>k \<in> set optional_false_flags. k \<in> set (dict_keys rights) \<longrightarrow> dget k rights = PBool False"
    and outcome: "outcome \<in> set decision_outcomes"
    unfolding recorded_as_def by blast
  have allowed: "outcome \<in> set comparison_outcomes \<longleftrightarrow> outcome \<noteq> ''promote''"
    using outcome outcome_sets by auto
  have state: "state_after_decision outcome = ''not_promoted'' \<longleftrightarrow> outcome \<noteq> ''promote''"
    by (simp add: state_after_decision_def)
  have flags: "assert_false_flags record_effect (false_keys record_effect) record_label = Inr ()"
    using record_flags_pass(1) [of "[]"] by simp
  show ?thesis
    unfolding validate_record_def Let_def bindE_Inr_iff guardE_Inr_iff shape(1-6) dict_of.simps
      text_of_PStr decision_outcomes_strip [OF outcome] local_only flags record_flags_pass(2)
      optional_flags_pass [OF shape(7)] check_identity_iff allowed
    using outcome state by (auto simp: check_identity_iff)
qed

text \<open>C31: a promotion is only recorded from a refined review that meets its contract and is ready for
  the adjudicator.\<close>

theorem promotion_needs_ready_review:
  assumes "build_record w at_time req = Inr rec" "dget ''outcome'' rec = PStr ''promote''"
  shows "\<exists>path outcome by_whom why review. req = Reviewed path outcome by_whom why \<and>
    load_json_object w ''refined promotion review'' path = Inr review \<and>
    wd_review_contract w path review = Inr () \<and> ready_review review"
proof -
  from built_record [OF assms(1)] obtain outcome where "recorded_as rec outcome"
    "outcome = ''promote'' \<longrightarrow> (\<exists>path o' by_whom why review. req = Reviewed path o' by_whom why \<and>
       load_refined_review w path = Inr review \<and> ready_review review)" by blast
  with assms(2) show ?thesis by (fastforce simp: recorded_as_def load_refined_review_def bindE_Inr_iff)
qed

section \<open>A sample\<close>

definition ready_text :: string where
  "ready_text = json_text (PDict [(''review_readiness'', PDict [(''ready_for_adjudicator_review'', PBool True)])])"

definition sample_world :: world where
  "sample_world = \<lparr>wd_read = (\<lambda>_. Some ready_text), wd_review_contract = (\<lambda>_ _. Inr ()),
     wd_manifest = (\<lambda>_. Inl []), wd_now = ''2026-01-01''\<rparr>"

lemma sample_decision:
  "case build_record sample_world None (Reviewed ''review.json'' ''promote'' ''operator'' ''sound'') of
     Inl _ \<Rightarrow> False | Inr rec \<Rightarrow> dget ''outcome'' rec = PStr ''promote''"
  by code_simp

lemma sample_recorded:
  obtains rec where
    "build_record sample_world None (Reviewed ''review.json'' ''promote'' ''operator'' ''sound'') = Inr rec"
    "dget ''outcome'' rec = PStr ''promote''"
  using sample_decision by (auto split: sum.splits)

theorem built_record_accepted_witness:
  "\<exists>rec. build_record sample_world None (Reviewed ''review.json'' ''promote'' ''operator'' ''sound'') = Inr rec \<and>
     validate_record rec [] False = Inr () \<and> validate_record rec [] True \<noteq> Inr ()"
proof -
  obtain rec where rec: "build_record sample_world None
      (Reviewed ''review.json'' ''promote'' ''operator'' ''sound'') = Inr rec"
    "dget ''outcome'' rec = PStr ''promote''" by (rule sample_recorded)
  from built_record_accepted [OF rec(1)] rec show ?thesis by (auto simp: identity_expected_def)
qed

theorem promotion_needs_ready_review_witness:
  "\<exists>review. load_json_object sample_world ''refined promotion review'' ''review.json'' = Inr review \<and> ready_review review"
proof -
  obtain rec where rec: "build_record sample_world None
      (Reviewed ''review.json'' ''promote'' ''operator'' ''sound'') = Inr rec"
    "dget ''outcome'' rec = PStr ''promote''" by (rule sample_recorded)
  from promotion_needs_ready_review [OF rec] show ?thesis by auto
qed

end
