(* ===== verification/Generation_Contract.thy ===== *)
theory Generation_Contract
  imports Program_Jury Behavior_Comparison Canonical_Json Sha_256
begin

text \<open>
  Target contracts and fitness suites (\<open>services/program_generation_contract.py\<close>, first part): what a
  target contract and an adversarial suite must declare before a program is generated, and their
  builders.  A validation collects the reasons to block; it never raises.
\<close>

named_theorems payload \<open>evaluation of lookups in literal payloads\<close>

section \<open>Values without special floats\<close>

text \<open>\<open>_json_safe\<close>; on values from JSON only special floats change.  \<open>_safe_mapping\<close> applies it.\<close>

fun json_safe :: "pv \<Rightarrow> pv" and json_safe_list :: "pv list \<Rightarrow> pv list"
  and json_safe_items :: "(string \<times> pv) list \<Rightarrow> (string \<times> pv) list" where
  "json_safe (PFloat f) = (case f of Dec c e \<Rightarrow> PFloat (Dec c e) | _ \<Rightarrow> PStr (py_str (PFloat f)))"
| "json_safe (PList xs) = PList (json_safe_list xs)"
| "json_safe (PDict kvs) = PDict (json_safe_items kvs)"
| "json_safe v = v"
| "json_safe_list [] = []"
| "json_safe_list (x # xs) = json_safe x # json_safe_list xs"
| "json_safe_items [] = []"
| "json_safe_items ((k, v) # kvs) = (k, json_safe v) # json_safe_items kvs"

definition safe_mapping :: "pv \<Rightarrow> (string \<times> pv) list" where
  "safe_mapping v = json_safe_items (dict_of v)"

section \<open>Content digests\<close>

text \<open>
  \<open>json.dumps\<close> with its default \<open>ensure_ascii=True\<close>, sorted keys and compact separators: a code point
  outside \<open>' '..'~'\<close> is written as one or two escapes.  \<open>utf8_points\<close> are the code points of a string.
\<close>

definition byte :: "char \<Rightarrow> nat" where "byte c = of_char c"

fun utf8_points :: "string \<Rightarrow> nat list" where
  "utf8_points [] = []"
| "utf8_points [a] = [byte a]"
| "utf8_points [a, b] =
     (if byte a < 128 then [byte a, byte b] else [(byte a mod 32) * 64 + byte b mod 64])"
| "utf8_points [a, b, c] =
     (if byte a < 128 then byte a # utf8_points [b, c]
      else if byte a < 224 then ((byte a mod 32) * 64 + byte b mod 64) # utf8_points [c]
      else [((byte a mod 16) * 64 + byte b mod 64) * 64 + byte c mod 64])"
| "utf8_points (a # b # c # d # s) =
     (if byte a < 128 then byte a # utf8_points (b # c # d # s)
      else if byte a < 224 then ((byte a mod 32) * 64 + byte b mod 64) # utf8_points (c # d # s)
      else if byte a < 240 then
        (((byte a mod 16) * 64 + byte b mod 64) * 64 + byte c mod 64) # utf8_points (d # s)
      else ((((byte a mod 8) * 64 + byte b mod 64) * 64 + byte c mod 64) * 64 + byte d mod 64) # utf8_points s)"

definition hex_escape :: "nat \<Rightarrow> string" where
  "hex_escape n = [CHR 0x5C, CHR ''u''] @
     map hex_digit [n div 4096 mod 16, n div 256 mod 16, n div 16 mod 16, n mod 16]"

definition ascii_char :: "nat \<Rightarrow> string" where
  "ascii_char n =
     (if 32 \<le> n \<and> n < 127 \<or> n \<in> {8, 9, 10, 12, 13} then json_char (char_of n)
      else if n < 65536 then hex_escape n
      else hex_escape (55296 + (n - 65536) div 1024) @ hex_escape (56320 + (n - 65536) mod 1024))"

definition ascii_string :: "string \<Rightarrow> string" where
  "ascii_string s = CHR 0x22 # concat (map ascii_char (utf8_points s)) @ [CHR 0x22]"

fun ascii_json :: "pv \<Rightarrow> string" and ascii_jsons :: "pv list \<Rightarrow> string list"
  and ascii_items :: "(string \<times> pv) list \<Rightarrow> string list" where
  "ascii_json (PStr s) = ascii_string s"
| "ascii_json (PList xs) = ''['' @ join '','' (ascii_jsons xs) @ '']''"
| "ascii_json (PDict kvs) = ''{'' @ join '','' (ascii_items kvs) @ ''}''"
| "ascii_json v = json_text v"
| "ascii_jsons [] = []"
| "ascii_jsons (x # xs) = ascii_json x # ascii_jsons xs"
| "ascii_items [] = []"
| "ascii_items ((k, v) # kvs) = (ascii_string k @ '':'' @ ascii_json v) # ascii_items kvs"

definition sha256_payload :: "(string \<times> pv) list \<Rightarrow> string" where
  "sha256_payload payload = sha256 (ascii_json (sort_keys (json_safe (PDict payload))))"

text \<open>The digest of a payload is taken with its own entry empty.\<close>

definition with_identity_hash :: "(string \<times> pv) list \<Rightarrow> string \<Rightarrow> (string \<times> pv) list" where
  "with_identity_hash payload key =
     (let data = json_safe_items payload;
          identity = dict_set key (PStr []) (safe_mapping (dget ''identity'' data));
          digest = sha256_payload (dict_set ''identity'' (PDict identity) data) in
      dict_set ''identity'' (PDict (dict_set key (PStr digest) (dict_of (dget ''identity'' payload)))) payload)"

section \<open>Names\<close>

fun slug_chars :: "bool \<Rightarrow> string \<Rightarrow> string" where
  "slug_chars gap [] = []"
| "slug_chars gap (c # s) =
     (if is_letter c \<or> is_digit c \<or> c \<in> set ''_.-'' then c # slug_chars False s
      else if gap then slug_chars True s else CHR ''-'' # slug_chars True s)"

definition strip_of :: "string \<Rightarrow> string \<Rightarrow> string" where
  "strip_of cs s = rev (dropWhile (\<lambda>c. c \<in> set cs) (rev (dropWhile (\<lambda>c. c \<in> set cs) s)))"

definition slug :: "pv \<Rightarrow> string \<Rightarrow> string" where
  "slug v dflt =
     (let s = strip_of ''.-_'' (slug_chars False (lower (text_of v))) in if s = [] then dflt else s)"

definition case_id :: "pv \<Rightarrow> nat \<Rightarrow> string" where
  "case_id v index = ''case-'' @ nat_text (index + 1) @ ''-'' @ slug v ''adversarial''"

definition normalise_refs :: "pv list \<Rightarrow> string list" where
  "normalise_refs xs = first_seen (filter (\<lambda>s. s \<noteq> []) (map text_of xs))"

definition owner_of_ref :: "string \<Rightarrow> string option" where
  "owner_of_ref ref =
     (if contains ref ''/Obsidian/_System/'' \<or> ends_with ref ''/Obsidian/_System'' then Some ''obsidian/_System''
      else if contains ref ''_System/'' then Some ''owner/_System'' else None)"

definition owner_from_refs :: "string list \<Rightarrow> string \<Rightarrow> string" where
  "owner_from_refs refs fallback =
     (case find (\<lambda>r. owner_of_ref r \<noteq> None) refs of None \<Rightarrow> fallback | Some r \<Rightarrow> the (owner_of_ref r))"

definition stages_of_key :: "string \<Rightarrow> string list" where
  "stages_of_key key =
     (let n = replace_char (CHR ''-'') (CHR ''_'') (lower (strip key)) in
      if n = ''source'' then [''source_package'']
      else if n = ''transition'' then [''section_units'', ''distillation_frames'', ''evidence_cards'']
      else if n = ''proposal'' then [''merge_before_create'']
      else if n = ''canonical'' then [''canonical_notes_after_acceptance'']
      else [n])"

definition authority_model_stages :: "(string \<times> pv) list \<Rightarrow> string list" where
  "authority_model_stages model =
     first_seen (filter (\<lambda>s. s \<noteq> []) (concat (map stages_of_key (dict_keys model))))"

section \<open>Guardrail flags\<close>

definition non_authority_keys :: "string list" where
  "non_authority_keys = [''activation_authority'', ''promotion_authority'', ''oracle_authority'',
     ''governance_authority'', ''external_mutation'']"

definition effect_keys :: "string list" where
  "effect_keys = [''candidate_files_mutated'', ''canonical_target_mutated'', ''ak_mutated'', ''governance_mutated'']"

definition all_effect_keys :: "string list" where
  "all_effect_keys = effect_keys @ [''provider_called'', ''shared_oracle_mutated'']"

definition false_fields_missing :: "pv \<Rightarrow> string list \<Rightarrow> string list" where
  "false_fields_missing payload required =
     sorted_set (filter (\<lambda>k. dget k (safe_mapping payload) \<noteq> PBool False) required)"

definition guardrails :: "(string \<times> pv) list" where
  "guardrails = [(''non_authority'', falses non_authority_keys), (''effect'', falses all_effect_keys)]"

record validation =
  vl_schema :: string
  vl_reasons :: "string list"

definition vl_valid :: "validation \<Rightarrow> bool" where
  "vl_valid v = (vl_reasons v = [])"

definition validation_payload :: "validation \<Rightarrow> (string \<times> pv) list" where
  "validation_payload v =
     [(''schema_version'', PStr (vl_schema v)), (''status'', PStr (if vl_valid v then ''valid'' else ''blocked'')),
      (''valid'', PBool (vl_valid v)), (''fail_closed_reasons'', names_value (vl_reasons v))] @ guardrails"

definition reason_if :: "bool \<Rightarrow> string \<Rightarrow> string list" where
  "reason_if b reason = (if b then [reason] else [])"

section \<open>The target contract\<close>

definition contract_schema :: string where "contract_schema = ''gen-target-contract-v1''"
definition suite_schema :: string where "suite_schema = ''gen-fitness-suite-v1''"

definition bound_tiers :: "string list" where
  "bound_tiers = [''protocol_bound'', ''authority_adjacent'', ''external_mutation_capable'']"

definition tutorial_tier :: string where "tutorial_tier = ''tutorial_local''"

definition tutorial_families :: "string list" where
  "tutorial_families = [''proposal'', ''review'', ''canonical'']"

definition sub :: "string \<Rightarrow> (string \<times> pv) list \<Rightarrow> (string \<times> pv) list" where
  "sub key payload = safe_mapping (dget key payload)"

definition names_at :: "string \<Rightarrow> (string \<times> pv) list \<Rightarrow> string list" where
  "names_at key payload = string_items (dget key payload)"

definition identity_reasons :: "(string \<times> pv) list \<Rightarrow> string list" where
  "identity_reasons contract =
     (let identity = sub ''identity'' contract in
      reason_if (dget ''schema_version'' contract \<noteq> PStr contract_schema) ''invalid_schema_version'' @
      reason_if (text_of (dget ''intent_sha256'' identity) = []) ''missing_intent_sha256'' @
      reason_if (text_of (dget ''contract_sha256'' identity) = []) ''missing_contract_sha256'' @
      reason_if (first_text [dget ''validator_version'' identity, dget ''validator'' identity] = None)
        ''missing_validator_version'')"

definition tutorial_reasons :: "(string \<times> pv) list \<Rightarrow> string list" where
  "tutorial_reasons contract =
     (let target = sub ''target'' contract; requests = sub ''requests'' contract in
      reason_if (names_at ''owner_refs'' target \<noteq> []) ''tutorial_profile_disallows_owner_refs'' @
      reason_if (dget ''adapter_materialization'' requests = PBool True)
        ''tutorial_profile_disallows_adapter_materialization'' @
      reason_if (list_of (dget ''authority_refs'' requests) \<noteq> [] \<or> list_of (dget ''authority_refs'' target) \<noteq> [])
        ''tutorial_profile_disallows_authority_refs'' @
      reason_if (dget ''shared_oracle_publication'' requests = PBool True) ''tutorial_profile_disallows_publication'' @
      reason_if (list_ex (\<lambda>k. dget k requests = PBool True)
          [''promotion_evidence'', ''export_evidence'', ''activation_evidence''])
        ''tutorial_profile_disallows_promotion_export_activation'' @
      reason_if (list_ex (\<lambda>f. f \<in> set tutorial_families) (names_at ''artifact_families'' (sub ''protocol'' contract)))
        ''tutorial_profile_disallows_target_artifact_families'')"

definition bound_reasons :: "(string \<times> pv) list \<Rightarrow> string list" where
  "bound_reasons contract =
     (let target = sub ''target'' contract; protocol = sub ''protocol'' contract;
          policy = sub ''source_policy'' contract; source = text_of (dget ''contract_source'' contract) in
      reason_if (text_of (dget ''owner'' target) = []) ''missing_target_owner'' @
      reason_if (names_at ''owner_refs'' target = []) ''missing_target_owner_ref'' @
      reason_if (names_at ''required_stages'' protocol = []) ''missing_required_protocol_stage'' @
      reason_if (names_at ''artifact_families'' protocol = []) ''missing_artifact_family_boundary'' @
      reason_if (names_at ''forbidden_shortcuts'' protocol = []) ''missing_forbidden_shortcut_list'' @
      reason_if (dget ''provenance_required'' policy \<noteq> PBool True) ''missing_source_provenance_policy'' @
      reason_if (text_of (dget ''language_policy'' policy) = []) ''missing_source_language_policy'' @
      reason_if (source \<in> {[], ''objective_only'', ''inferred_from_objective''}) ''insufficient_target_contract'' @
      reason_if (source = ''generated_from_docs'' \<and> text_of (dget ''confirmation_status'' contract) \<notin>
          {''operator_confirmed_for_generation_gate'', ''domain_confirmed_for_generation_gate''})
        ''generated_from_docs_requires_confirmation'' @
      reason_if (names_at ''required_adversarial_cases'' (sub ''fitness'' contract) = [])
        ''missing_adversarial_fitness_case'')"

definition flag_reasons :: "(string \<times> pv) list \<Rightarrow> string list" where
  "flag_reasons contract =
     (let missing = false_fields_missing (dget ''non_authority'' contract) non_authority_keys;
          effects = false_fields_missing (dget ''effect'' contract) effect_keys in
      reason_if (missing \<noteq> []) (''missing_non_authority_flags:'' @ join '','' missing) @
      reason_if (effects \<noteq> []) (''missing_effect_flags:'' @ join '','' effects))"

definition risk_tier_of :: "(string \<times> pv) list \<Rightarrow> string" where
  "risk_tier_of contract = text_of (dget ''risk_tier'' contract)"

definition target_contract_reasons :: "(string \<times> pv) list \<Rightarrow> string list" where
  "target_contract_reasons contract =
     (let tier = risk_tier_of contract in
      identity_reasons contract @
      reason_if (tier \<notin> set (tutorial_tier # bound_tiers)) ''ambiguous_risk_tier'' @
      (if tier = tutorial_tier then tutorial_reasons contract
       else if tier \<in> set bound_tiers then bound_reasons contract else []) @
      flag_reasons contract)"

definition validate_target_contract :: "(string \<times> pv) list \<Rightarrow> validation" where
  "validate_target_contract contract =
     \<lparr>vl_schema = ''gen-target-contract-validation-v1'', vl_reasons = sorted_set (target_contract_reasons contract)\<rparr>"

definition target_contract_validation :: "(string \<times> pv) list \<Rightarrow> (string \<times> pv) list" where
  "target_contract_validation contract =
     (let v = validate_target_contract contract; tier = risk_tier_of contract;
          bound = (vl_valid v \<and> tier \<noteq> tutorial_tier) in
      validation_payload v @
      [(''risk_tier'', if tier = [] then PNone else PStr tier),
       (''tutorial_contract_profile_used'', PBool (tier = tutorial_tier)),
       (''target_protocol_fidelity_claimed'', PBool bound), (''adapter_materialization_allowed'', PBool bound),
       (''verifier_guarantee'', PStr ''declared_contract_sufficiency_only''),
       (''verifier_non_guarantee'', PStr ''semantic_truth_of_target_protocol'')])"

section \<open>The fitness suite\<close>

definition case_reasons :: "nat \<Rightarrow> pv \<Rightarrow> string list" where
  "case_reasons index raw =
     (let c = safe_mapping raw; at = (\<lambda>s. ''case_'' @ nat_text index @ '':'' @ s) in
      reason_if (first_text [dget ''input_fixture'' c, dget ''fixture_ref'' c] = None) (at ''missing_fixture_ref'') @
      reason_if (names_at ''allowed_artifact_families'' c = []) (at ''missing_allowed_artifact_families'') @
      reason_if (names_at ''forbidden_outputs_or_effects'' c = []) (at ''missing_forbidden_outputs_or_effects'') @
      reason_if (list_of (dget ''source_provenance_assertions'' c) = []) (at ''missing_source_provenance_assertions'') @
      reason_if (list_of (dget ''target_stage_assertions'' c) = []) (at ''missing_target_stage_assertions'') @
      reason_if (first_text [dget ''expected_failure_label'' c, dget ''expected_status'' c] = None)
        (at ''missing_expected_failure_label'') @
      reason_if (first_text [dget ''command'' c, dget ''validator'' c] = None)
        (at ''missing_executable_or_mechanical_check''))"

definition indexed :: "(nat \<Rightarrow> 'a \<Rightarrow> 'b list) \<Rightarrow> 'a list \<Rightarrow> 'b list" where
  "indexed f xs = concat (map (\<lambda>(i, x). f i x) (zip [0..<length xs] xs))"

definition fitness_suite_reasons ::
    "(string \<times> pv) list \<Rightarrow> (string \<times> pv) list option \<Rightarrow> string list" where
  "fitness_suite_reasons suite target_contract =
     (let identity = sub ''identity'' suite; sha = text_of (dget ''target_contract_sha256'' identity);
          contract_sha = (case target_contract of None \<Rightarrow> []
            | Some c \<Rightarrow> text_of (dget ''contract_sha256'' (sub ''identity'' c)));
          cases = list_of (dget ''cases'' suite) in
      reason_if (dget ''schema_version'' suite \<noteq> PStr suite_schema) ''invalid_schema_version'' @
      reason_if (sha = []) ''missing_target_contract_sha256'' @
      reason_if (text_of (dget ''suite_sha256'' identity) = []) ''missing_suite_sha256'' @
      reason_if (contract_sha \<noteq> [] \<and> sha \<noteq> [] \<and> contract_sha \<noteq> sha) ''target_contract_sha256_mismatch'' @
      reason_if (cases = []) ''missing_adversarial_fitness_case'' @ indexed case_reasons cases)"

definition validate_fitness_suite ::
    "(string \<times> pv) list \<Rightarrow> (string \<times> pv) list option \<Rightarrow> validation" where
  "validate_fitness_suite suite target_contract =
     \<lparr>vl_schema = ''gen-fitness-suite-validation-v1'',
      vl_reasons = sorted_set (fitness_suite_reasons suite target_contract)\<rparr>"

definition or_names :: "string list \<Rightarrow> string list \<Rightarrow> string list" where
  "or_names xs ys = (if xs = [] then ys else xs)"

definition suite_case :: "(string \<times> pv) list \<Rightarrow> nat \<Rightarrow> string \<Rightarrow> pv" where
  "suite_case protocol index name = PDict
     [(''case_id'', PStr (case_id (PStr name) index)),
      (''fixture_ref'', PStr (''declared://'' @ slug (PStr name) ''target-protocol-regression'')),
      (''allowed_artifact_families'', names_value (or_names (names_at ''artifact_families'' protocol) [''local_example''])),
      (''forbidden_outputs_or_effects'', names_value
         (or_names (names_at ''forbidden_shortcuts'' protocol) [''skip_declared_target_protocol''])),
      (''source_provenance_assertions'', names_value [''source_refs_present'']),
      (''target_stage_assertions'', names_value
         (or_names (names_at ''required_stages'' protocol) [''target_protocol_stage_declared''])),
      (''expected_failure_label'', PStr ''withheld_for_target_protocol_failure''),
      (''validator'', PStr ''dspx.gen_fitness_suite.declared_mechanical_check.v1'')]"

definition build_fitness_suite :: "(string \<times> pv) list \<Rightarrow> (string \<times> pv) list" where
  "build_fitness_suite contract =
     (let sha = text_of (dget ''contract_sha256'' (sub ''identity'' contract));
          names = or_names (names_at ''required_adversarial_cases'' (sub ''fitness'' contract))
            [''target_protocol_regression''] in
      with_identity_hash
        ([(''schema_version'', PStr suite_schema),
          (''identity'', PDict [(''target_contract_sha256'', PStr sha), (''suite_sha256'', PStr []),
             (''validator'', PStr ''dspx.gen_fitness_suite.v1''), (''validator_version'', PStr ''v1'')]),
          (''cases'', PList (indexed (\<lambda>i name. [suite_case (sub ''protocol'' contract) i name]) names))] @ guardrails)
        ''suite_sha256'')"

section \<open>The contract of an intent\<close>

definition options_of :: "review_intent \<Rightarrow> (string \<times> pv) list" where
  "options_of it = json_safe_items (it_options it)"

definition owner_refs_of :: "review_intent \<Rightarrow> string list" where
  "owner_refs_of it =
     (let options = options_of it in
      normalise_refs (dget ''primary_architecture'' options # list_of (dget ''related_architectures'' options) @
        list_of (dget ''owner_refs'' options) @ list_of (dget ''target_owner_refs'' options)))"

definition authority_refs_of :: "review_intent \<Rightarrow> pv list" where
  "authority_refs_of it =
     list_of (dget ''refs'' (sub ''external_authority'' (json_safe_items (it_promotion it)))) @
     list_of (dget ''authority_refs'' (options_of it))"

definition target_bound :: "review_intent \<Rightarrow> bool" where
  "target_bound it = (owner_refs_of it \<noteq> [] \<or> authority_refs_of it \<noteq> [])"

definition artifact_families_of :: "review_intent \<Rightarrow> string list" where
  "artifact_families_of it =
     first_seen (dict_keys (sub ''authority_model'' (options_of it)) @
       names_at ''expected_artifact_family'' (options_of it))"

definition shortcuts_of :: "review_intent \<Rightarrow> string list" where
  "shortcuts_of it =
     first_seen (names_at ''forbidden_effects'' (options_of it) @
       filter (\<lambda>item. contains (lower item) ''forbidden'') (it_constraints it))"

definition stages_of :: "review_intent \<Rightarrow> string list" where
  "stages_of it =
     (let declared = or_names (names_at ''required_stages'' (sub ''target_protocol'' (options_of it)))
        (authority_model_stages (sub ''authority_model'' (options_of it))) in
      if declared = [] \<and> target_bound it then [''target_protocol_review''] else declared)"

definition review_requested :: "review_intent \<Rightarrow> bool" where
  "review_requested it =
     (list_ex (\<lambda>f. contains (lower f) ''review'' \<or> contains (lower f) ''proposal'') (artifact_families_of it) \<or>
      list_ex (\<lambda>output. contains (lower output) ''review'') (it_outputs it))"

definition promotion_requested :: "review_intent \<Rightarrow> bool" where
  "promotion_requested it = (authority_refs_of it \<noteq> [] \<or> it_promotion it \<noteq> [])"

definition tier_of :: "review_intent \<Rightarrow> string" where
  "tier_of it =
     (let declared = text_of (dget ''risk_tier'' (options_of it)) in
      if declared \<in> set (tutorial_tier # bound_tiers) then declared
      else if promotion_requested it \<or> review_requested it then ''authority_adjacent''
      else if target_bound it then ''protocol_bound'' else tutorial_tier)"

definition cases_of :: "review_intent \<Rightarrow> string list" where
  "cases_of it =
     (let declared = or_names (names_at ''required_adversarial_cases'' (sub ''fitness'' (options_of it)))
        (shortcuts_of it) in
      if declared = [] \<and> target_bound it then [''target_protocol_shortcut_regression''] else declared)"

definition target_owner_of :: "review_intent \<Rightarrow> string" where
  "target_owner_of it =
     (let declared = text_of (dget ''target_owner'' (options_of it)) in
      if declared \<noteq> [] then declared
      else owner_from_refs (owner_refs_of it)
        (case authority_refs_of it of
           PDict ref # _ \<Rightarrow> py_str (dget ''system'' (json_safe_items ref))
         | _ \<Rightarrow> ''local''))"

definition build_target_contract :: "review_intent \<Rightarrow> string \<Rightarrow> (string \<times> pv) list" where
  "build_target_contract it source =
     (let options = options_of it; bound = target_bound it in
      with_identity_hash
        ([(''schema_version'', PStr contract_schema),
          (''identity'', PDict [(''intent_sha256'', PStr (sha256 source)), (''contract_sha256'', PStr []),
             (''validator'', PStr ''dspx.gen_target_contract.v1''), (''validator_version'', PStr ''v1'')]),
          (''target'', PDict
            [(''id'', PStr (py_str (py_or (dget ''scenario_name'' options) (PStr (it_name it))))),
             (''owner'', PStr (target_owner_of it)), (''owner_refs'', names_value (owner_refs_of it)),
             (''owner_ref_custody'', PStr (if owner_refs_of it = [] then ''none''
                else ''local_path_reference_not_publishable_without_redaction'')),
             (''authority_refs'', PList (authority_refs_of it))]),
          (''contract_source'', PStr (if bound then ''generated_from_structured_intent''
             else ''tutorial_local_embedded_profile'')),
          (''confirmation_status'', PStr (if bound then ''structured_intent_fields_declared''
             else ''not_required_for_tutorial_local'')),
          (''risk_tier'', PStr (tier_of it)),
          (''protocol'', PDict
            [(''required_stages'', names_value (stages_of it)),
             (''artifact_families'', names_value (or_names (artifact_families_of it) [''local_example''])),
             (''forbidden_shortcuts'', names_value (or_names (shortcuts_of it)
                (if bound then [''skip_declared_target_protocol''] else [])))]),
          (''source_policy'', PDict
            [(''provenance_required'', PBool bound),
             (''language_policy'', PStr (py_str (py_or (dget ''language_policy'' options)
                (PStr ''preserve_source_language''))))]),
          (''fitness'', PDict [(''required_adversarial_cases'', names_value (cases_of it))]),
          (''requests'', PDict
            [(''adapter_materialization'', PBool (review_requested it)), (''shared_oracle_publication'', PBool False),
             (''promotion_evidence'', PBool (promotion_requested it)), (''export_evidence'', PBool False),
             (''activation_evidence'', PBool False)])] @ guardrails @
         [(''profile_extension'', PDict [(''intent_name'', PStr (it_name it)), (''task_type'', PStr (it_task_type it)),
             (''inputs'', names_value (it_inputs it)), (''outputs'', names_value (it_outputs it))])])
        ''contract_sha256'')"

section \<open>Reading payloads\<close>

lemma json_safe_items_map: "json_safe_items kvs = map (\<lambda>(k, v). (k, json_safe v)) kvs"
  by (induction kvs) auto

lemma json_safe_list_map: "json_safe_list xs = map json_safe xs"
  by (induction xs) auto

lemma dget_safe_items [simp]: "dget k (json_safe_items kvs) = json_safe (dget k kvs)"
  by (induction kvs) (auto simp: dget_def)

lemma dget_sub [simp]: "dget k (sub key payload) = json_safe (dget k (dict_of (dget key payload)))"
  by (simp add: sub_def safe_mapping_def)

lemma json_safe_names [simp]: "json_safe (names_value xs) = names_value xs"
  by (simp add: names_value_def json_safe_list_map)

lemma list_of_safe [simp]: "list_of (json_safe v) = map json_safe (list_of v)"
  by (cases v) (auto simp: json_safe_list_map split: pyfloat.splits)

lemma list_of_names [simp]: "list_of (names_value xs) = map PStr xs"
  by (simp add: names_value_def)

lemma string_items_names: "string_items (names_value xs) = filter (\<lambda>s. strip s \<noteq> []) xs"
  by (simp add: string_items_def comp_def)

lemma names_at_nonblank: "s \<in> set (names_at key payload) \<Longrightarrow> strip s \<noteq> []"
  by (simp add: names_at_def string_items_def)

lemma string_items_nonblank: "\<forall>s \<in> set xs. strip s \<noteq> [] \<Longrightarrow> string_items (names_value xs) = xs"
  by (simp add: string_items_names)

lemma or_names_nonblank:
  "\<forall>s \<in> set xs. strip s \<noteq> [] \<Longrightarrow> \<forall>s \<in> set ys. strip s \<noteq> [] \<Longrightarrow> ys \<noteq> [] \<Longrightarrow>
     string_items (names_value (or_names xs ys)) = or_names xs ys \<and> or_names xs ys \<noteq> []"
  by (simp add: or_names_def string_items_nonblank)

lemma strip_literal [payload]: "strip (c # s) = [] \<longleftrightarrow> is_space c \<and> strip s = []"
  by (simp add: strip_Nil_iff)

lemmas space_literal [payload] = is_space_def

lemma or_names_at:
  assumes "strip y \<noteq> []"
  shows "string_items (names_value (or_names (names_at key payload) [y])) = or_names (names_at key payload) [y]"
    "or_names (names_at key payload) [y] \<noteq> []"
proof -
  have "\<forall>s \<in> set (names_at key payload). strip s \<noteq> []" using names_at_nonblank by blast
  from or_names_nonblank [OF this, of "[y]"] assms
  show "string_items (names_value (or_names (names_at key payload) [y])) = or_names (names_at key payload) [y]"
    "or_names (names_at key payload) [y] \<noteq> []" by simp_all
qed

lemma first_text_None: "first_text vs = None \<longleftrightarrow> (\<forall>v \<in> set vs. text_of v = [])"
  by (auto simp: first_text_def find_None_iff)

lemma text_of_False [simp]: "text_of (PBool False) = []"
  by (simp add: text_of_def py_or_def strip_def)

lemma reason_if_Nil [simp]: "reason_if b r = [] \<longleftrightarrow> \<not> b"
  by (simp add: reason_if_def)

lemma indexed_Nil: "indexed f xs = [] \<longleftrightarrow> (\<forall>i < length xs. f i (xs ! i) = [])"
  by (auto simp: indexed_def set_zip) force

lemma indexed_single:
  "length (indexed (\<lambda>i x. [g i x]) xs) = length xs \<and>
   (\<forall>i < length xs. indexed (\<lambda>i x. [g i x]) xs ! i = g i (xs ! i))"
proof -
  have "concat (map (\<lambda>(i, x). [g i x]) zs) = map (\<lambda>(i, x). g i x) zs" for zs
    by (induction zs) auto
  then show ?thesis by (simp add: indexed_def)
qed

lemma false_fields_falses: "set keys \<subseteq> set names \<Longrightarrow> false_fields_missing (falses names) keys = []"
proof -
  have "map_of (map (\<lambda>n. (n, PBool False)) names) k = (if k \<in> set names then Some (PBool False) else None)" for k
    by (induction names) auto
  then show "set keys \<subseteq> set names \<Longrightarrow> ?thesis"
    by (auto simp: false_fields_missing_def filter_empty_conv falses_def safe_mapping_def dget_def
        json_safe_items_map map_of_map comp_def)
qed

lemma flags_of_guardrails:
  "dget ''non_authority'' guardrails = falses non_authority_keys" "dget ''effect'' guardrails = falses all_effect_keys"
  by (simp_all add: guardrails_def dget_def)

lemma guardrail_keys [simp]:
  "false_fields_missing (falses non_authority_keys) non_authority_keys = []"
  "false_fields_missing (falses all_effect_keys) effect_keys = []"
  "false_fields_missing (falses all_effect_keys) all_effect_keys = []"
  by (rule false_fields_falses, auto simp: all_effect_keys_def)+

section \<open>Digests\<close>

lemma strip_sha256 [simp]: "strip (sha256 s) = sha256 s"
proof -
  have "\<not> is_space c" if "c \<in> set (sha256 s)" for c
    using sha256_hex [OF that] by (auto simp: is_space_def)
  then show ?thesis by (intro strip_fixed) auto
qed

lemma strip_payload_sha [simp]: "strip (sha256_payload p) = sha256_payload p" "sha256_payload p \<noteq> []"
  by (simp_all add: sha256_payload_def)

lemma dget_identity_hash:
  "dget k (with_identity_hash payload key) =
     (if k = ''identity'' then PDict (dict_set key (dget key (dict_of (dget ''identity'' (with_identity_hash payload key))))
        (dict_of (dget ''identity'' payload)))
      else dget k payload)"
  by (simp add: with_identity_hash_def Let_def)

lemma identity_hash_digest:
  "\<exists>p. dget key (dict_of (dget ''identity'' (with_identity_hash payload key))) = PStr (sha256_payload p)"
  by (simp add: with_identity_hash_def Let_def) blast

lemma identity_hash_other:
  "k \<noteq> key \<Longrightarrow> dget k (dict_of (dget ''identity'' (with_identity_hash payload key))) =
     dget k (dict_of (dget ''identity'' payload))"
  by (simp add: with_identity_hash_def Let_def)

lemma identity_hash_rest: "k \<noteq> ''identity'' \<Longrightarrow> dget k (with_identity_hash payload key) = dget k payload"
  by (simp add: with_identity_hash_def Let_def)

section \<open>The suite of a contract\<close>

lemma reading_case [simp]:
  "dget k (safe_mapping (PDict kvs)) = json_safe (dget k kvs)"
  by (simp add: safe_mapping_def)

lemma suite_case_ok: "case_reasons i (suite_case (sub key contract) j name) = []"
proof -
  have "or_names xs [y] \<noteq> []" for xs and y :: string by (simp add: or_names_def)
  then show ?thesis
    by (simp add: case_reasons_def Let_def first_text_None suite_case_def or_names_at
        names_at_def [of "''allowed_artifact_families''"] names_at_def [of "''forbidden_outputs_or_effects''"] payload)
qed

lemma build_fitness_suite_parts:
  "dget ''schema_version'' (build_fitness_suite c) = PStr suite_schema"
  "dget ''target_contract_sha256'' (dict_of (dget ''identity'' (build_fitness_suite c))) =
     PStr (text_of (dget ''contract_sha256'' (sub ''identity'' c)))"
  "\<exists>p. dget ''suite_sha256'' (dict_of (dget ''identity'' (build_fitness_suite c))) = PStr (sha256_payload p)"
  "\<exists>xs. xs \<noteq> [] \<and> list_of (dget ''cases'' (build_fitness_suite c)) =
     indexed (\<lambda>i name. [suite_case (sub ''protocol'' c) i name]) xs"
proof -
  show "dget ''schema_version'' (build_fitness_suite c) = PStr suite_schema"
    by (simp add: build_fitness_suite_def Let_def identity_hash_rest payload)
  show "dget ''target_contract_sha256'' (dict_of (dget ''identity'' (build_fitness_suite c))) =
      PStr (text_of (dget ''contract_sha256'' (sub ''identity'' c)))"
    unfolding build_fitness_suite_def Let_def by (subst identity_hash_other) (simp_all add: payload)
  show "\<exists>p. dget ''suite_sha256'' (dict_of (dget ''identity'' (build_fitness_suite c))) = PStr (sha256_payload p)"
    unfolding build_fitness_suite_def Let_def by (rule identity_hash_digest)
  show "\<exists>xs. xs \<noteq> [] \<and> list_of (dget ''cases'' (build_fitness_suite c)) =
      indexed (\<lambda>i name. [suite_case (sub ''protocol'' c) i name]) xs"
    by (rule exI [of _ "or_names (names_at ''required_adversarial_cases'' (sub ''fitness'' c))
        [''target_protocol_regression'']"])
      (simp add: build_fitness_suite_def Let_def identity_hash_rest or_names_def payload)
qed

lemma built_suite_reasons:
  "fitness_suite_reasons (build_fitness_suite c) (Some c) = [] \<longleftrightarrow>
     text_of (dget ''contract_sha256'' (sub ''identity'' c)) \<noteq> []"
proof -
  from build_fitness_suite_parts(3) obtain p where digest:
    "dget ''suite_sha256'' (dict_of (dget ''identity'' (build_fitness_suite c))) = PStr (sha256_payload p)" by blast
  from build_fitness_suite_parts(4) obtain xs where cases: "xs \<noteq> []"
    "list_of (dget ''cases'' (build_fitness_suite c)) = indexed (\<lambda>i name. [suite_case (sub ''protocol'' c) i name]) xs"
    by blast
  have "indexed case_reasons (list_of (dget ''cases'' (build_fitness_suite c))) = []"
    unfolding cases(2) indexed_Nil using indexed_single [of "suite_case (sub ''protocol'' c)" xs] suite_case_ok by simp
  moreover have "list_of (dget ''cases'' (build_fitness_suite c)) \<noteq> []"
    using cases indexed_single [of "suite_case (sub ''protocol'' c)" xs] by (metis list.size(3) length_0_conv)
  ultimately show ?thesis
    by (simp add: fitness_suite_reasons_def Let_def build_fitness_suite_parts(1,2) digest)
qed
section \<open>The contract of an intent\<close>

lemma first_seen_Nil [simp]: "first_seen xs = [] \<longleftrightarrow> xs = []"
  using set_first_seen [of xs] by (metis set_empty)

definition nonblank :: "string list \<Rightarrow> bool" where
  "nonblank xs \<longleftrightarrow> (\<forall>s \<in> set xs. strip s \<noteq> [])"

lemma string_items_of_nonblank: "nonblank xs \<Longrightarrow> string_items (names_value xs) = xs"
  by (simp add: nonblank_def string_items_nonblank)

lemma nonblank_intros:
  "nonblank (names_at key payload)" "nonblank xs \<Longrightarrow> nonblank (first_seen xs)"
  "nonblank xs \<Longrightarrow> nonblank ys \<Longrightarrow> nonblank (or_names xs ys)"
  "nonblank xs \<Longrightarrow> nonblank ys \<Longrightarrow> nonblank (xs @ ys)" "strip y \<noteq> [] \<Longrightarrow> nonblank [y]" "nonblank []"
  using names_at_nonblank by (auto simp: nonblank_def or_names_def)

lemma owner_refs_nonblank: "nonblank (owner_refs_of it)"
  by (auto simp: owner_refs_of_def normalise_refs_def nonblank_def Let_def)

lemma lower_space: "is_space (lower_char c) \<longleftrightarrow> is_space c"
proof -
  have "of_char (char_of (n + 32) :: char) = (n + 32 :: nat)" if "n \<le> 90" for n :: nat
    using that by (simp add: of_char_of)
  then show ?thesis by (auto simp: lower_char_def Let_def is_space_def)
qed

lemma forbidden_nonblank: "contains (lower item) ''forbidden'' \<Longrightarrow> strip item \<noteq> []"
proof
  assume "contains (lower item) ''forbidden''" "strip item = []"
  then obtain u v where "lower item = u @ ''forbidden'' @ v" "\<forall>c \<in> set item. is_space c"
    by (auto simp: contains_iff strip_Nil_iff)
  moreover have "\<forall>c \<in> set (lower item). is_space c" using calculation(2) by (auto simp: lower_def lower_space)
  ultimately have "is_space (CHR ''f'')" by auto
  then show False by (simp add: is_space_def)
qed

lemma shortcuts_nonblank: "nonblank (shortcuts_of it)"
  unfolding shortcuts_of_def
  by (intro nonblank_intros) (auto simp: nonblank_def forbidden_nonblank)

lemma cases_nonblank: "nonblank (cases_of it)"
  using shortcuts_nonblank [of it] nonblank_intros(1)
  by (auto simp: cases_of_def Let_def payload intro!: nonblank_intros)

lemma stages_of_key_nonblank: "nonblank (filter (\<lambda>s. s \<noteq> []) (stages_of_key key))"
proof -
  let ?n = "replace_char (CHR ''-'') (CHR ''_'') (lower (strip key))"
  have "strip ?n \<noteq> []" if "?n \<noteq> []"
  proof -
    from that have "strip key \<noteq> []" by (auto simp: replace_char_def lower_def)
    then have "\<not> is_space (hd (strip key))" "strip key \<noteq> []" using strip_ends by blast+
    then obtain c t where "strip key = c # t" "\<not> is_space c" by (cases "strip key") auto
    then show ?thesis by (auto simp: strip_Nil_iff replace_char_def lower_def lower_space is_space_def [of "CHR ''_''"])
  qed
  then show ?thesis by (auto simp: stages_of_key_def Let_def nonblank_def payload)
qed

lemma stages_nonblank: "nonblank (stages_of it)"
proof -
  have "nonblank (authority_model_stages m)" for m
    unfolding authority_model_stages_def
    by (rule nonblank_intros(2)) (use stages_of_key_nonblank in \<open>fastforce simp: nonblank_def\<close>)
  then show ?thesis using nonblank_intros(1)
    by (auto simp: stages_of_def Let_def payload intro!: nonblank_intros)
qed

definition families_of :: "review_intent \<Rightarrow> string list" where
  "families_of it = or_names (artifact_families_of it) [''local_example'']"

definition language_of :: "review_intent \<Rightarrow> string" where
  "language_of it = py_str (py_or (dget ''language_policy'' (options_of it)) (PStr ''preserve_source_language''))"

lemma build_target_contract_parts:
  "dget ''schema_version'' (build_target_contract it src) = PStr contract_schema"
  "dget ''intent_sha256'' (dict_of (dget ''identity'' (build_target_contract it src))) = PStr (sha256 src)"
  "dget ''validator_version'' (dict_of (dget ''identity'' (build_target_contract it src))) = PStr ''v1''"
  "\<exists>p. dget ''contract_sha256'' (dict_of (dget ''identity'' (build_target_contract it src))) = PStr (sha256_payload p)"
  unfolding build_target_contract_def Let_def
  by (simp_all add: identity_hash_rest identity_hash_other identity_hash_digest)

lemma build_target_contract_fields:
  "dget ''owner'' (dict_of (dget ''target'' (build_target_contract it src))) = PStr (target_owner_of it)"
  "dget ''owner_refs'' (dict_of (dget ''target'' (build_target_contract it src))) = names_value (owner_refs_of it)"
  "dget ''authority_refs'' (dict_of (dget ''target'' (build_target_contract it src))) = PList (authority_refs_of it)"
  "dget ''contract_source'' (build_target_contract it src) =
     PStr (if target_bound it then ''generated_from_structured_intent'' else ''tutorial_local_embedded_profile'')"
  "dget ''risk_tier'' (build_target_contract it src) = PStr (tier_of it)"
  "dget ''required_stages'' (dict_of (dget ''protocol'' (build_target_contract it src))) = names_value (stages_of it)"
  "dget ''artifact_families'' (dict_of (dget ''protocol'' (build_target_contract it src))) = names_value (families_of it)"
  "dget ''forbidden_shortcuts'' (dict_of (dget ''protocol'' (build_target_contract it src))) =
     names_value (or_names (shortcuts_of it) (if target_bound it then [''skip_declared_target_protocol''] else []))"
  "dget ''provenance_required'' (dict_of (dget ''source_policy'' (build_target_contract it src))) = PBool (target_bound it)"
  "dget ''language_policy'' (dict_of (dget ''source_policy'' (build_target_contract it src))) = PStr (language_of it)"
  "dget ''required_adversarial_cases'' (dict_of (dget ''fitness'' (build_target_contract it src))) = names_value (cases_of it)"
  "dict_of (dget ''requests'' (build_target_contract it src)) =
     [(''adapter_materialization'', PBool (review_requested it)), (''shared_oracle_publication'', PBool False),
      (''promotion_evidence'', PBool (promotion_requested it)), (''export_evidence'', PBool False),
      (''activation_evidence'', PBool False)]"
  "dget ''non_authority'' (build_target_contract it src) = falses non_authority_keys"
  "dget ''effect'' (build_target_contract it src) = falses all_effect_keys"
  unfolding build_target_contract_def Let_def families_of_def language_of_def
  by (simp_all add: identity_hash_rest guardrails_def)

lemma built_identity_reasons: "identity_reasons (build_target_contract it src) = []"
  using build_target_contract_parts(4) [of it src]
  by (auto simp: identity_reasons_def Let_def build_target_contract_parts(1-3) first_text_None payload)

lemma built_flag_reasons: "flag_reasons (build_target_contract it src) = []"
  by (simp add: flag_reasons_def Let_def build_target_contract_fields)

lemma built_tier: "risk_tier_of (build_target_contract it src) = tier_of it \<and> tier_of it \<in> set (tutorial_tier # bound_tiers)"
proof -
  have "tier_of it \<in> set (tutorial_tier # bound_tiers)"
    by (auto simp: tier_of_def Let_def tutorial_tier_def bound_tiers_def)
  moreover from this have "strip (tier_of it) = tier_of it"
    by (intro strip_fixed) (auto simp: tutorial_tier_def bound_tiers_def is_space_def)
  ultimately show ?thesis by (simp add: risk_tier_of_def build_target_contract_fields)
qed

lemma names_at_sub: "names_at k (sub key payload) = string_items (json_safe (dget k (dict_of (dget key payload))))"
  by (simp add: names_at_def)

lemma tutorial_families_nonblank: "f \<in> set tutorial_families \<Longrightarrow> strip f \<noteq> []"
  by (auto simp: tutorial_families_def payload)

lemma built_tutorial_reasons:
  "tutorial_reasons (build_target_contract it src) = [] \<longleftrightarrow>
     \<not> target_bound it \<and> \<not> review_requested it \<and> it_promotion it = [] \<and>
     \<not> list_ex (\<lambda>f. f \<in> set tutorial_families) (families_of it)"
proof -
  have "list_ex (\<lambda>f. f \<in> set tutorial_families) (string_items (names_value (families_of it))) \<longleftrightarrow>
      list_ex (\<lambda>f. f \<in> set tutorial_families) (families_of it)"
    using tutorial_families_nonblank by (auto simp: list_ex_iff string_items_names)
  then show ?thesis
    by (auto simp: tutorial_reasons_def Let_def names_at_sub build_target_contract_fields
        string_items_of_nonblank [OF owner_refs_nonblank] target_bound_def promotion_requested_def)
qed

lemma built_bound_reasons:
  "bound_reasons (build_target_contract it src) = [] \<longleftrightarrow>
     owner_refs_of it \<noteq> [] \<and> strip (target_owner_of it) \<noteq> [] \<and> strip (language_of it) \<noteq> [] \<and>
     list_ex (\<lambda>f. strip f \<noteq> []) (families_of it)"
proof -
  have families: "string_items (names_value (families_of it)) = [] \<longleftrightarrow> \<not> list_ex (\<lambda>f. strip f \<noteq> []) (families_of it)"
    by (auto simp: string_items_names filter_empty_conv list_ex_iff)
  have "nonblank (or_names (shortcuts_of it) [''skip_declared_target_protocol''])"
    by (intro nonblank_intros shortcuts_nonblank) (simp add: payload)
  then have shortcuts: "string_items (names_value (or_names (shortcuts_of it) [''skip_declared_target_protocol''])) \<noteq> []"
    by (simp add: string_items_of_nonblank) (simp add: or_names_def)
  have bound: "stages_of it \<noteq> []" "cases_of it \<noteq> []" if "target_bound it"
    using that by (auto simp: stages_of_def cases_of_def Let_def)
  have source: "strip ''generated_from_structured_intent'' = ''generated_from_structured_intent''"
    by (rule strip_fixed) (simp add: is_space_def)
  have refs: "owner_refs_of it \<noteq> [] \<Longrightarrow> target_bound it" by (simp add: target_bound_def)
  show ?thesis
    using bound refs shortcuts
    by (auto simp: bound_reasons_def Let_def names_at_sub build_target_contract_fields families source
        string_items_of_nonblank [OF owner_refs_nonblank] string_items_of_nonblank [OF stages_nonblank]
        string_items_of_nonblank [OF cases_nonblank])
qed

text \<open>C35: the contract built from an intent is valid in the tutorial tier exactly when the intent asks for
  nothing beyond a local example, and in a target-bound tier exactly when it names owner references, an
  owner, a language policy and an artifact family; everything else the validator asks for is there.\<close>

theorem built_contract_exact:
  "vl_valid (validate_target_contract (build_target_contract it src)) \<longleftrightarrow>
    (if tier_of it = tutorial_tier
     then \<not> target_bound it \<and> \<not> review_requested it \<and> it_promotion it = [] \<and>
       \<not> list_ex (\<lambda>f. f \<in> set tutorial_families) (families_of it)
     else owner_refs_of it \<noteq> [] \<and> strip (target_owner_of it) \<noteq> [] \<and> strip (language_of it) \<noteq> [] \<and>
       list_ex (\<lambda>f. strip f \<noteq> []) (families_of it))"
proof -
  have "tutorial_tier \<notin> set bound_tiers" by (simp add: tutorial_tier_def bound_tiers_def)
  then show ?thesis
    using built_tier [of it src]
    by (auto simp: vl_valid_def validate_target_contract_def target_contract_reasons_def Let_def
        built_identity_reasons built_flag_reasons built_tutorial_reasons built_bound_reasons reason_if_def)
qed

end
