(* ===== verification/Generation_Gate.thy ===== *)
theory Generation_Gate
  imports Generation_Contract
begin

text \<open>
  The gates around program generation (\<open>services/program_generation_contract.py\<close>, second part): the
  preflight packet and its consumer, the traceability and fitness results after generation, and the
  intake of an external requirements packet.
\<close>

section \<open>Preflight\<close>

definition preflight_schema :: string where "preflight_schema = ''gen-generation-gate-preflight-v1''"

definition text_value :: "pv \<Rightarrow> pv" where
  "text_value v = kind_value (first_text [v])"

definition preflight_reasons ::
    "(string \<times> pv) list \<Rightarrow> (string \<times> pv) list \<Rightarrow> string list" where
  "preflight_reasons contract suite =
     sorted_set (vl_reasons (validate_target_contract contract) @
       vl_reasons (validate_fitness_suite suite (Some contract)))"

definition build_gate_preflight ::
    "(string \<times> pv) list \<Rightarrow> (string \<times> pv) list \<Rightarrow> (string \<times> pv) list" where
  "build_gate_preflight contract suite =
     (let reasons = preflight_reasons contract suite; allowed = (reasons = []) in
      [(''schema_version'', PStr preflight_schema),
       (''status'', PStr (if allowed then ''generation_allowed'' else ''generation_blocked'')),
       (''generation_allowed'', PBool allowed), (''fail_closed_reasons'', names_value reasons),
       (''target_contract_validation'', PDict (target_contract_validation contract)),
       (''fitness_suite_validation'', PDict (validation_payload (validate_fitness_suite suite (Some contract)))),
       (''identity'', PDict
         [(''intent_sha256'', text_value (dget ''intent_sha256'' (sub ''identity'' contract))),
          (''target_contract_sha256'', text_value (dget ''contract_sha256'' (sub ''identity'' contract))),
          (''fitness_suite_sha256'', text_value (dget ''suite_sha256'' (sub ''identity'' suite))),
          (''preflight_sha256'', PStr (sha256_payload
             [(''target_contract'', PDict contract), (''fitness_suite'', PDict suite)]))])] @
      guardrails @
      [(''verifier_guarantee'', PStr ''declared_contract_and_suite_sufficiency_only''),
       (''verifier_non_guarantee'', PStr ''semantic_truth_of_target_protocol'')])"

definition is_sha256 :: "string \<Rightarrow> bool" where
  "is_sha256 s = (length s = 64 \<and> list_all (\<lambda>c. c \<in> set ''0123456789abcdef'') s)"

definition nested_reasons :: "(string \<times> pv) list \<Rightarrow> string \<Rightarrow> string \<Rightarrow> string \<Rightarrow> string list" where
  "nested_reasons payload key schema name =
     (let v = sub key payload in
      reason_if (dget ''schema_version'' v \<noteq> PStr schema) (''missing_valid_'' @ name @ ''_validation'') @
      reason_if (dget ''status'' v \<noteq> PStr ''valid'' \<or> dget ''valid'' v \<noteq> PBool True) (name @ ''_validation_not_valid'') @
      reason_if (dget ''fail_closed_reasons'' v \<noteq> PList []) (name @ ''_validation_has_fail_closed_reasons''))"

definition digest_reasons :: "(string \<times> pv) list \<Rightarrow> string \<Rightarrow> string list" where
  "digest_reasons identity key =
     (let s = text_of (dget key identity) in
      if s = [] then [''missing_'' @ key] else reason_if (\<not> is_sha256 s) (''invalid_'' @ key))"

definition preflight_digests :: "string list" where
  "preflight_digests = [''intent_sha256'', ''target_contract_sha256'', ''fitness_suite_sha256'', ''preflight_sha256'']"

definition preflight_payload_reasons :: "(string \<times> pv) list \<Rightarrow> string option \<Rightarrow> string list" where
  "preflight_payload_reasons payload intent_sha =
     (let identity = sub ''identity'' payload in
      reason_if (dget ''schema_version'' payload \<noteq> PStr preflight_schema) ''invalid_schema_version'' @
      reason_if (dget ''status'' payload \<noteq> PStr ''generation_allowed'') ''status_not_generation_allowed'' @
      reason_if (dget ''generation_allowed'' payload \<noteq> PBool True) ''generation_allowed_not_true'' @
      reason_if (dget ''fail_closed_reasons'' payload \<noteq> PList []) ''fail_closed_reasons_not_empty'' @
      nested_reasons payload ''target_contract_validation'' ''gen-target-contract-validation-v1'' ''target_contract'' @
      nested_reasons payload ''fitness_suite_validation'' ''gen-fitness-suite-validation-v1'' ''fitness_suite'' @
      concat (map (digest_reasons identity) preflight_digests) @
      reason_if (case intent_sha of None \<Rightarrow> False
        | Some sha \<Rightarrow> first_text [dget ''intent_sha256'' identity] \<noteq> Some sha) ''intent_sha256_mismatch'' @
      map (\<lambda>k. ''non_authority_'' @ k @ ''_not_false'')
        (false_fields_missing (dget ''non_authority'' payload) non_authority_keys) @
      map (\<lambda>k. ''effect_'' @ k @ ''_not_false'') (false_fields_missing (dget ''effect'' payload) all_effect_keys))"

definition validate_preflight_payload :: "(string \<times> pv) list \<Rightarrow> string option \<Rightarrow> unit checked" where
  "validate_preflight_payload payload intent_sha =
     (let reasons = preflight_payload_reasons payload intent_sha in
      guardE (reasons \<noteq> []) (Value_error (''generation gate preflight is not a complete allowed preflight: '' @
        join '', '' (sorted_set reasons))) (Inr ()))"

section \<open>Traceability\<close>

definition trace_schema :: string where "trace_schema = ''gen-traceability-v1''"

definition candidate_surface_paths :: "(string \<times> pv) list \<Rightarrow> string list" where
  "candidate_surface_paths manifest =
     (let surfaces = list_of (dget ''surfaces'' (sub ''candidate_assembly'' manifest)) in
      first_seen (filter (\<lambda>p. p \<noteq> []) (map (\<lambda>s. text_of (dget ''path'' (safe_mapping s))) surfaces) @
        [''program.py'', ''module.py'', ''signature.py'', ''manifest.json'']))"

definition candidate_jury_coverage :: "(string \<times> pv) list \<Rightarrow> string list" where
  "candidate_jury_coverage manifest =
     (let jurors = list_of (dget ''jurors'' (sub ''evaluation_strategy'' (sub ''program_plan'' manifest))) in
      first_seen (filter (\<lambda>p. p \<noteq> []) (map (\<lambda>j. text_of (dget ''perspective'' (safe_mapping j))) jurors)))"

definition requirement_id :: "string \<Rightarrow> nat \<Rightarrow> string" where
  "requirement_id name index = ''req-'' @ nat_text (index + 1) @ ''-'' @ slug (PStr name) ''target-stage''"

definition trace_requirement :: "string list \<Rightarrow> string list \<Rightarrow> nat \<Rightarrow> string \<Rightarrow> pv" where
  "trace_requirement surfaces coverage index stage = PDict
     [(''requirement_id'', PStr (requirement_id stage index)), (''target_stage'', PStr stage),
      (''generated_surfaces'', names_value surfaces),
      (''evidence_refs'', names_value [''manifest.json'', ''generation_fitness_results.json'']),
      (''juror_adjudicator_coverage'', names_value coverage),
      (''status'', PStr (if surfaces = [] then ''uncovered'' else ''covered''))]"

definition contract_sha_of :: "(string \<times> pv) list \<Rightarrow> string" where
  "contract_sha_of contract = text_of (dget ''contract_sha256'' (sub ''identity'' contract))"

definition build_traceability ::
    "(string \<times> pv) list \<Rightarrow> (string \<times> pv) list \<Rightarrow> (string \<times> pv) list" where
  "build_traceability contract manifest =
     (let stages = or_names (names_at ''required_stages'' (sub ''protocol'' contract)) [''target_protocol_declared''];
          surfaces = candidate_surface_paths manifest; coverage = candidate_jury_coverage manifest in
      [(''schema_version'', PStr trace_schema),
       (''identity'', PDict [(''candidate_manifest_sha256'', PStr (sha256_payload manifest)),
          (''target_contract_sha256'', PStr (contract_sha_of contract)),
          (''validator'', PStr ''dspx.gen_traceability.v1''), (''validator_version'', PStr ''v1'')]),
       (''requirements'', PList (indexed (\<lambda>i stage. [trace_requirement surfaces coverage i stage]) stages))] @
      guardrails @
      [(''verifier_guarantee'', PStr ''traceability_shape_and_declared_surface_coverage_only''),
       (''verifier_non_guarantee'', PStr ''semantic_truth_of_target_protocol'')])"

definition trace_entry_reasons :: "nat \<Rightarrow> pv \<Rightarrow> string list" where
  "trace_entry_reasons index raw =
     (let e = safe_mapping raw; at = (\<lambda>s. ''requirement_'' @ nat_text index @ '':'' @ s) in
      reason_if (text_of (dget ''requirement_id'' e) = []) (at ''missing_requirement_id'') @
      reason_if (names_at ''generated_surfaces'' e = []) (at ''missing_generated_surface'') @
      reason_if (names_at ''evidence_refs'' e = []) (at ''missing_evidence_ref'') @
      reason_if (text_of (dget ''status'' e) = []) (at ''missing_status''))"

definition traceability_reasons :: "(string \<times> pv) list \<Rightarrow> string list" where
  "traceability_reasons payload =
     (let identity = sub ''identity'' payload; entries = list_of (dget ''requirements'' payload) in
      reason_if (dget ''schema_version'' payload \<noteq> PStr trace_schema) ''invalid_schema_version'' @
      reason_if (text_of (dget ''candidate_manifest_sha256'' identity) = []) ''missing_candidate_manifest_sha256'' @
      reason_if (text_of (dget ''target_contract_sha256'' identity) = []) ''missing_target_contract_sha256'' @
      reason_if (entries = []) ''missing_requirement_traceability'' @ indexed trace_entry_reasons entries)"

definition validate_traceability :: "(string \<times> pv) list \<Rightarrow> validation" where
  "validate_traceability payload =
     \<lparr>vl_schema = ''gen-traceability-validation-v1'', vl_reasons = sorted_set (traceability_reasons payload)\<rparr>"

definition traceability_status :: "(string \<times> pv) list \<Rightarrow> string" where
  "traceability_status trace =
     (let requirements = map safe_mapping (list_of (dget ''requirements'' trace)) in
      if \<not> vl_valid (validate_traceability trace) \<or> requirements = [] then ''target_fidelity_unknown''
      else if list_ex (\<lambda>r. text_of (dget ''status'' r) \<noteq> ''covered'') requirements then ''fitness_failed''
      else ''fitness_passed'')"

section \<open>Fitness results\<close>

definition results_schema :: string where "results_schema = ''gen-fitness-results-v1''"

definition rendered_state :: "string \<Rightarrow> string" where
  "rendered_state status =
     (if status = ''fitness_passed'' then ''eligible_for_downstream_evidence_review''
      else if status = ''fitness_failed'' then ''withheld_for_target_protocol_failure''
      else ''target_fidelity_unknown'')"

definition case_status :: "string \<Rightarrow> string" where
  "case_status status =
     (if status = ''target_fidelity_unknown'' then ''unknown''
      else if status = ''fitness_passed'' then ''passed'' else ''failed'')"

definition case_result :: "string \<Rightarrow> pv \<Rightarrow> pv" where
  "case_result status raw =
     (let c = safe_mapping raw; name = text_of (dget ''case_id'' c) in
      PDict [(''case_id'', PStr (if name = [] then ''target-fitness-case'' else name)),
        (''status'', PStr (case_status status)),
        (''evidence_refs'', names_value [''generation_traceability.json'', ''manifest.json'']),
        (''mechanical_check'', kind_value (first_text [dget ''validator'' c, dget ''command'' c])),
        (''expected_failure_label'', kind_value
           (first_text [dget ''expected_failure_label'' c, dget ''expected_status'' c]))])"

definition measured_status ::
    "(string \<times> pv) list \<Rightarrow> (string \<times> pv) list \<Rightarrow> (string \<times> pv) list option \<Rightarrow> string" where
  "measured_status contract suite trace =
     (if \<not> vl_valid (validate_fitness_suite suite (Some contract)) then ''fitness_failed''
      else case trace of None \<Rightarrow> ''target_fidelity_unknown'' | Some t \<Rightarrow> traceability_status t)"

definition build_fitness_results ::
    "(string \<times> pv) list \<Rightarrow> (string \<times> pv) list \<Rightarrow> (string \<times> pv) list \<Rightarrow> (string \<times> pv) list option
      \<Rightarrow> (string \<times> pv) list" where
  "build_fitness_results manifest contract suite trace =
     (let measured = measured_status contract suite trace; raw = list_of (dget ''cases'' suite);
          status = (if raw = [] then ''fitness_failed'' else measured);
          cases = (if raw = [] then [PDict [(''case_id'', PStr ''missing-fitness-suite-case''),
            (''status'', PStr ''failed''), (''evidence_refs'', names_value [''generation_fitness_suite.json''])]]
            else map (case_result measured) raw) in
      [(''schema_version'', PStr results_schema),
       (''identity'', PDict [(''candidate_manifest_sha256'', PStr (sha256_payload manifest)),
          (''target_contract_sha256'', PStr (contract_sha_of contract)),
          (''fitness_suite_sha256'', PStr (text_of (dget ''suite_sha256'' (sub ''identity'' suite)))),
          (''validator'', PStr ''dspx.gen_fitness_results.v1''), (''validator_version'', PStr ''v1'')]),
       (''status'', PStr status), (''rendered_state'', PStr (rendered_state status)), (''cases'', PList cases)] @
      guardrails @
      [(''verifier_guarantee'', PStr ''mechanical_traceability_and_suite_result_shape_only''),
       (''verifier_non_guarantee'', PStr ''semantic_truth_domain_acceptance_or_activation'')])"

definition result_case_reasons :: "nat \<Rightarrow> pv \<Rightarrow> string list" where
  "result_case_reasons index raw =
     (let c = safe_mapping raw; at = (\<lambda>s. ''case_'' @ nat_text index @ '':'' @ s) in
      reason_if (text_of (dget ''case_id'' c) = []) (at ''missing_case_id'') @
      reason_if (text_of (dget ''status'' c) = []) (at ''missing_status'') @
      reason_if (names_at ''evidence_refs'' c = []) (at ''missing_evidence_ref''))"

definition fitness_results_reasons :: "(string \<times> pv) list \<Rightarrow> string list" where
  "fitness_results_reasons payload =
     (let identity = sub ''identity'' payload; status = text_of (dget ''status'' payload);
          cases = list_of (dget ''cases'' payload) in
      reason_if (dget ''schema_version'' payload \<noteq> PStr results_schema) ''invalid_schema_version'' @
      concat (map (\<lambda>k. reason_if (text_of (dget k identity) = []) (''missing_'' @ k))
        [''candidate_manifest_sha256'', ''target_contract_sha256'', ''fitness_suite_sha256'']) @
      reason_if (status \<notin> {''fitness_passed'', ''fitness_failed'', ''target_fidelity_unknown''})
        ''invalid_fitness_status'' @
      reason_if (status = ''fitness_passed'' \<and>
          dget ''rendered_state'' payload \<noteq> PStr ''eligible_for_downstream_evidence_review'')
        ''fitness_passed_requires_command_safe_rendering'' @
      reason_if (cases = []) ''missing_fitness_case_results'' @ indexed result_case_reasons cases)"

definition validate_fitness_results :: "(string \<times> pv) list \<Rightarrow> validation" where
  "validate_fitness_results payload =
     \<lparr>vl_schema = ''gen-fitness-results-validation-v1'', vl_reasons = sorted_set (fitness_results_reasons payload)\<rparr>"

section \<open>The gate\<close>

lemma is_sha256_digest [simp]: "is_sha256 (sha256 s)" "is_sha256 (sha256_payload p)"
  using sha256_hex by (auto simp: is_sha256_def list_all_iff sha256_payload_def)

lemma not_is_sha256_Nil [simp]: "\<not> is_sha256 []"
  by (simp add: is_sha256_def)

lemma digest_reasons_Nil: "digest_reasons identity key = [] \<longleftrightarrow> is_sha256 (text_of (dget key identity))"
  by (auto simp: digest_reasons_def Let_def)

lemma text_of_text_value [simp]: "text_of (text_value v) = text_of v"
  by (auto simp: text_value_def first_text_def kind_value_def split: option.splits)

lemma validation_payload_fields:
  "dget ''schema_version'' (validation_payload v @ xs) = PStr (vl_schema v)"
  "dget ''status'' (validation_payload v @ xs) = PStr (if vl_valid v then ''valid'' else ''blocked'')"
  "dget ''valid'' (validation_payload v @ xs) = PBool (vl_valid v)"
  "dget ''fail_closed_reasons'' (validation_payload v @ xs) = names_value (vl_reasons v)"
  by (simp_all add: validation_payload_def)

lemma json_safe_text_value [simp]: "json_safe (text_value v) = text_value v"
  by (auto simp: text_value_def kind_value_def split: option.splits)

definition gate_digests :: "(string \<times> pv) list \<Rightarrow> (string \<times> pv) list \<Rightarrow> string list" where
  "gate_digests contract suite =
     [text_of (dget ''intent_sha256'' (sub ''identity'' contract)),
      text_of (dget ''contract_sha256'' (sub ''identity'' contract)),
      text_of (dget ''suite_sha256'' (sub ''identity'' suite))]"

text \<open>What the consumer accepts of a packet the builder made.\<close>

lemma gate_preflight_fields:
  fixes contract suite
  defines "packet \<equiv> build_gate_preflight contract suite"
  shows "dget ''schema_version'' packet = PStr preflight_schema"
    "dget ''status'' packet = PStr (if preflight_reasons contract suite = [] then ''generation_allowed'' else ''generation_blocked'')"
    "dget ''generation_allowed'' packet = PBool (preflight_reasons contract suite = [])"
    "dget ''fail_closed_reasons'' packet = names_value (preflight_reasons contract suite)"
    "dget ''target_contract_validation'' packet = PDict (target_contract_validation contract)"
    "dget ''fitness_suite_validation'' packet = PDict (validation_payload (validate_fitness_suite suite (Some contract)))"
    "dget ''non_authority'' packet = falses non_authority_keys" "dget ''effect'' packet = falses all_effect_keys"
    "map (\<lambda>k. text_of (dget k (sub ''identity'' packet))) preflight_digests =
       gate_digests contract suite @ [sha256_payload [(''target_contract'', PDict contract), (''fitness_suite'', PDict suite)]]"
  unfolding packet_def build_gate_preflight_def Let_def gate_digests_def preflight_digests_def
  by (simp_all add: guardrails_def)

lemma preflight_reasons_Nil:
  "preflight_reasons contract suite = [] \<longleftrightarrow>
     vl_valid (validate_target_contract contract) \<and> vl_valid (validate_fitness_suite suite (Some contract))"
  by (simp add: preflight_reasons_def vl_valid_def)

lemma names_value_Nil [simp]: "names_value xs = PList [] \<longleftrightarrow> xs = []"
  by (simp add: names_value_def)

lemma nested_contract_reasons:
  "nested_reasons (build_gate_preflight contract suite) ''target_contract_validation''
     ''gen-target-contract-validation-v1'' ''target_contract'' = [] \<longleftrightarrow> vl_valid (validate_target_contract contract)"
  by (auto simp: nested_reasons_def Let_def gate_preflight_fields target_contract_validation_def
      validation_payload_fields) (auto simp: vl_valid_def validate_target_contract_def)

lemma nested_suite_reasons:
  "nested_reasons (build_gate_preflight contract suite) ''fitness_suite_validation''
     ''gen-fitness-suite-validation-v1'' ''fitness_suite'' = [] \<longleftrightarrow>
   vl_valid (validate_fitness_suite suite (Some contract))"
  using validation_payload_fields [of "validate_fitness_suite suite (Some contract)" "[]"]
  by (auto simp: nested_reasons_def Let_def gate_preflight_fields)
    (auto simp: vl_valid_def validate_fitness_suite_def)

lemma digests_ok:
  "concat (map (digest_reasons (sub ''identity'' (build_gate_preflight contract suite))) preflight_digests) = [] \<longleftrightarrow>
     list_all is_sha256 (gate_digests contract suite)"
proof -
  have "concat (map (digest_reasons (sub ''identity'' packet)) preflight_digests) = [] \<longleftrightarrow>
      list_all is_sha256 (map (\<lambda>k. text_of (dget k (sub ''identity'' packet))) preflight_digests)" for packet
    unfolding concat_eq_Nil_conv using digest_reasons_Nil by (auto simp: list_all_iff)
  from this [of "build_gate_preflight contract suite"] show ?thesis unfolding gate_preflight_fields(9) by simp
qed

lemma intent_digest:
  "text_of (dget ''intent_sha256'' (sub ''identity'' (build_gate_preflight contract suite))) = hd (gate_digests contract suite)"
  using gate_preflight_fields(9) [of contract suite] by (simp add: preflight_digests_def gate_digests_def)

lemma built_preflight_reasons:
  "preflight_payload_reasons (build_gate_preflight contract suite) intent_sha = [] \<longleftrightarrow>
     preflight_reasons contract suite = [] \<and> list_all is_sha256 (gate_digests contract suite) \<and>
     (case intent_sha of None \<Rightarrow> True | Some sha \<Rightarrow> hd (gate_digests contract suite) = sha)"
proof -
  have first: "first_text [v] \<noteq> Some sha \<longleftrightarrow> text_of v = [] \<or> text_of v \<noteq> sha" for v and sha :: string
    by (auto simp: first_text_def)
  have "list_all is_sha256 (gate_digests contract suite) \<Longrightarrow> hd (gate_digests contract suite) \<noteq> []"
    by (auto simp: gate_digests_def)
  then show ?thesis
    unfolding preflight_payload_reasons_def Let_def append_is_Nil_conv nested_contract_reasons nested_suite_reasons
      digests_ok first intent_digest
    by (auto simp: gate_preflight_fields preflight_reasons_Nil split: option.splits)
qed

text \<open>A preflight packet is accepted by its consumer exactly when neither the contract nor the suite has
  a reason to block, the digests they carry are SHA-256 digests and the intent is the expected one.\<close>

theorem gate_preflight_exact:
  "validate_preflight_payload (build_gate_preflight contract suite) (Some sha) = Inr () \<longleftrightarrow>
     vl_valid (validate_target_contract contract) \<and> vl_valid (validate_fitness_suite suite (Some contract)) \<and>
     list_all is_sha256 (gate_digests contract suite) \<and> hd (gate_digests contract suite) = sha"
  by (simp add: validate_preflight_payload_def Let_def guardE_def built_preflight_reasons preflight_reasons_Nil)

section \<open>Gates of built artifacts\<close>

lemma built_suite_valid:
  "vl_valid (validate_fitness_suite (build_fitness_suite c) (Some c)) \<longleftrightarrow>
     text_of (dget ''contract_sha256'' (sub ''identity'' c)) \<noteq> []"
  by (simp add: vl_valid_def validate_fitness_suite_def built_suite_reasons)

lemma built_gate:
  assumes "dget ''intent_sha256'' (dict_of (dget ''identity'' c)) = PStr sha" "is_sha256 sha" "strip sha = sha"
    and "dget ''contract_sha256'' (dict_of (dget ''identity'' c)) = PStr (sha256_payload p)"
  shows "validate_preflight_payload (build_gate_preflight c (build_fitness_suite c)) (Some sha) = Inr () \<longleftrightarrow>
    vl_valid (validate_target_contract c)"
proof -
  from build_fitness_suite_parts(3) obtain q where
    "dget ''suite_sha256'' (dict_of (dget ''identity'' (build_fitness_suite c))) = PStr (sha256_payload q)" by blast
  with assms show ?thesis by (simp add: validate_preflight_payload_def Let_def guardE_def built_preflight_reasons
      preflight_reasons_Nil built_suite_valid gate_digests_def)
qed

text \<open>C36: the contract and the suite built from an intent open the gate for that intent exactly when the
  contract is valid; no other check of the consumer can fail.\<close>

theorem intent_gate_exact:
  "validate_preflight_payload (build_gate_preflight (build_target_contract it src)
      (build_fitness_suite (build_target_contract it src))) (Some (sha256 src)) = Inr () \<longleftrightarrow>
    vl_valid (validate_target_contract (build_target_contract it src))"
proof -
  from build_target_contract_parts(4) obtain p where
    "dget ''contract_sha256'' (dict_of (dget ''identity'' (build_target_contract it src))) = PStr (sha256_payload p)"
    by blast
  from built_gate [OF build_target_contract_parts(2) _ _ this] show ?thesis by simp
qed

section \<open>Traceability of a candidate\<close>

lemma surfaces_nonblank: "nonblank (candidate_surface_paths m)" "candidate_surface_paths m \<noteq> []"
proof -
  have "nonblank (filter (\<lambda>p. p \<noteq> []) (map (\<lambda>x. text_of (f x)) xs))" for f :: "pv \<Rightarrow> pv" and xs
    by (auto simp: nonblank_def)
  moreover have "nonblank [''program.py'', ''module.py'', ''signature.py'', ''manifest.json'']"
    by (simp add: nonblank_def payload)
  ultimately show "nonblank (candidate_surface_paths m)"
    unfolding candidate_surface_paths_def Let_def by (intro nonblank_intros)
  show "candidate_surface_paths m \<noteq> []" by (simp add: candidate_surface_paths_def Let_def)
qed

lemma nonblank_filter: "nonblank xs \<Longrightarrow> filter (\<lambda>s. strip s \<noteq> []) xs = xs"
  by (simp add: nonblank_def)

lemma requirement_ok:
  "trace_entry_reasons i (trace_requirement (candidate_surface_paths m) coverage j stage) = []"
proof -
  have "strip (requirement_id stage j) \<noteq> []" by (simp add: requirement_id_def payload)
  then show ?thesis
    using surfaces_nonblank [of m]
    by (simp add: trace_entry_reasons_def Let_def trace_requirement_def string_items_of_nonblank
        names_at_def payload string_items_names nonblank_filter)
qed

lemma build_traceability_fields:
  "dget ''schema_version'' (build_traceability c m) = PStr trace_schema"
  "dget ''candidate_manifest_sha256'' (dict_of (dget ''identity'' (build_traceability c m))) = PStr (sha256_payload m)"
  "dget ''target_contract_sha256'' (dict_of (dget ''identity'' (build_traceability c m))) = PStr (contract_sha_of c)"
  "\<exists>xs. xs \<noteq> [] \<and> list_of (dget ''requirements'' (build_traceability c m)) = indexed (\<lambda>i stage.
     [trace_requirement (candidate_surface_paths m) (candidate_jury_coverage m) i stage]) xs"
proof -
  show "\<exists>xs. xs \<noteq> [] \<and> list_of (dget ''requirements'' (build_traceability c m)) = indexed (\<lambda>i stage.
      [trace_requirement (candidate_surface_paths m) (candidate_jury_coverage m) i stage]) xs"
    by (rule exI [of _ "or_names (names_at ''required_stages'' (sub ''protocol'' c)) [''target_protocol_declared'']"])
      (simp add: build_traceability_def Let_def or_names_def)
qed (simp_all add: build_traceability_def Let_def)

lemma built_traceability:
  "vl_valid (validate_traceability (build_traceability c m)) \<longleftrightarrow> contract_sha_of c \<noteq> []"
  "list_of (dget ''requirements'' (build_traceability c m)) \<noteq> []"
  "list_all (\<lambda>r. text_of (dget ''status'' (safe_mapping r)) = ''covered'')
     (list_of (dget ''requirements'' (build_traceability c m)))"
proof -
  from build_traceability_fields(4) obtain xs where xs: "xs \<noteq> []"
    "list_of (dget ''requirements'' (build_traceability c m)) = indexed (\<lambda>i stage.
      [trace_requirement (candidate_surface_paths m) (candidate_jury_coverage m) i stage]) xs" by blast
  note single = indexed_single [of "trace_requirement (candidate_surface_paths m) (candidate_jury_coverage m)" xs]
  show requirements: "list_of (dget ''requirements'' (build_traceability c m)) \<noteq> []"
    unfolding xs(2) using single xs(1) by (metis list.size(3) length_0_conv)
  have "indexed trace_entry_reasons (list_of (dget ''requirements'' (build_traceability c m))) = []"
    unfolding xs(2) indexed_Nil using single requirement_ok by simp
  moreover have "strip (contract_sha_of c) = contract_sha_of c" by (simp add: contract_sha_of_def)
  ultimately show "vl_valid (validate_traceability (build_traceability c m)) \<longleftrightarrow> contract_sha_of c \<noteq> []"
    using requirements
    by (auto simp: vl_valid_def validate_traceability_def traceability_reasons_def Let_def build_traceability_fields(1-3))
  have "strip ''covered'' = ''covered''" by (rule strip_fixed) (simp add: is_space_def)
  then have "text_of (dget ''status'' (safe_mapping
      (trace_requirement (candidate_surface_paths m) (candidate_jury_coverage m) i stage))) = ''covered''" for i stage
    using surfaces_nonblank(2) [of m] by (simp add: trace_requirement_def)
  then show "list_all (\<lambda>r. text_of (dget ''status'' (safe_mapping r)) = ''covered'')
      (list_of (dget ''requirements'' (build_traceability c m)))"
    unfolding xs(2) using single by (simp add: list_all_length)
qed

text \<open>C40: the traceability built for a candidate always passes when the contract has a digest, whatever
  surfaces the manifest declares: four fallback surfaces stand in for missing ones.\<close>

theorem traceability_always_covers:
  "traceability_status (build_traceability c m) =
     (if contract_sha_of c = [] then ''target_fidelity_unknown'' else ''fitness_passed'')"
  using built_traceability [where c = c and m = m]
  by (auto simp: traceability_status_def Let_def list_ex_iff list_all_iff)

section \<open>Passed results\<close>

lemma result_status:
  "dget ''status'' (build_fitness_results m c s t) =
     PStr (if list_of (dget ''cases'' s) = [] then ''fitness_failed'' else measured_status c s t)"
  by (simp add: build_fitness_results_def Let_def)

text \<open>Results pass exactly when the suite is valid for the contract and a valid traceability covers
  every one of its requirements; they are then rendered as eligible for review only.\<close>

theorem fitness_passed_exact:
  "dget ''status'' (build_fitness_results m c s t) = PStr ''fitness_passed'' \<longleftrightarrow>
     vl_valid (validate_fitness_suite s (Some c)) \<and>
     (\<exists>tr. t = Some tr \<and> vl_valid (validate_traceability tr) \<and>
       list_all (\<lambda>r. text_of (dget ''status'' (safe_mapping r)) = ''covered'') (list_of (dget ''requirements'' tr)))"
proof -
  have cases: "vl_valid (validate_fitness_suite s (Some c)) \<Longrightarrow> list_of (dget ''cases'' s) \<noteq> []"
    by (auto simp: vl_valid_def validate_fitness_suite_def fitness_suite_reasons_def Let_def)
  have requirements: "vl_valid (validate_traceability tr) \<Longrightarrow> list_of (dget ''requirements'' tr) \<noteq> []" for tr
    by (auto simp: vl_valid_def validate_traceability_def traceability_reasons_def Let_def)
  show ?thesis
    using cases requirements
    by (auto simp: result_status measured_status_def traceability_status_def Let_def list_ex_iff list_all_iff
        split: option.splits)
qed

end
