(* ===== verification/Generation_Intake.thy ===== *)
theory Generation_Intake
  imports Generation_Gate
begin

text \<open>
  Intake of the requirements of a visual dossier (\<open>services/program_generation_contract.py\<close>, third part):
  the validation of the packet, the target contract and the program intent made from it.
\<close>

section \<open>The requirements packet\<close>

definition packet_schema :: string where "packet_schema = ''designmd.dspx-visual-dossier-requirements.v1''"

definition required_lists :: "(string \<times> string) list" where
  "required_lists =
     [(''requiredTargetProtocolContent'', ''missing_target_protocol_requirements''),
      (''requiredOutputSchemas'', ''missing_required_output_schemas''),
      (''roleCoverage'', ''missing_role_coverage''), (''fixtureRequirements'', ''missing_fixture_requirements''),
      (''fitnessGates'', ''missing_fitness_gates''), (''failClosedBlockers'', ''missing_fail_closed_blockers''),
      (''forbiddenClaims'', ''missing_forbidden_claims'')]"

definition freshness_reasons :: "(string \<times> pv) list \<Rightarrow> string list" where
  "freshness_reasons freshness =
     (if freshness = [] then [''missing_freshness'']
      else reason_if (dget ''freshAgainstSource'' freshness = PBool False) ''stale_source_index'' @
        reason_if (dget ''freshAgainstDesign'' freshness = PBool False) ''stale_design_md'' @
        reason_if (list_of (dget ''staleReasons'' freshness) \<noteq> []) ''stale_input_refs'')"

text \<open>\<open>json.dumps\<close> with its default separators.\<close>

fun spaced_json :: "pv \<Rightarrow> string" and spaced_jsons :: "pv list \<Rightarrow> string list"
  and spaced_items :: "(string \<times> pv) list \<Rightarrow> string list" where
  "spaced_json (PList xs) = ''['' @ join '', '' (spaced_jsons xs) @ '']''"
| "spaced_json (PDict kvs) = ''{'' @ join '', '' (spaced_items kvs) @ ''}''"
| "spaced_json v = ascii_json v"
| "spaced_jsons [] = []"
| "spaced_jsons (x # xs) = spaced_json x # spaced_jsons xs"
| "spaced_items [] = []"
| "spaced_items ((k, v) # kvs) = (ascii_string k @ '': '' @ spaced_json v) # spaced_items kvs"

definition authority_text :: "(string \<times> pv) list \<Rightarrow> string" where
  "authority_text packet =
     lower (spaced_json (sort_keys (json_safe (dget_or ''authority'' (PDict []) packet))))"

definition packet_reasons :: "(string \<times> pv) list \<Rightarrow> string list" where
  "packet_reasons packet =
     (let boundary = sub ''ownerBoundary'' packet; refs = sub ''inputRefs'' packet;
          posture = names_at ''acceptedOutputPosture'' packet; claims = names_at ''forbiddenClaims'' packet;
          missing = (\<lambda>payload k. reason_if (text_of (dget k payload) = []) (''missing_'' @ k)) in
      reason_if (dget ''schemaVersion'' packet \<noteq> PStr packet_schema) ''invalid_schema_version'' @
      concat (map (missing packet) [''id'', ''projectId'', ''sourceId'', ''analysisRunId'', ''dossierDraftId'']) @
      reason_if (dget ''dspxOwnsTargetProtocol'' boundary \<noteq> PBool True) ''missing_dspx_owner_boundary'' @
      reason_if (dget ''noProgramGenExecution'' boundary \<noteq> PBool True) ''missing_no_program_gen_execution_boundary'' @
      concat (map (missing refs) [''sourceIndexSha256'', ''designMdSha256'', ''designMdCurrentSha256'']) @
      reason_if (dget ''sourceIndexSchema'' refs \<noteq> PStr ''designmd.visual-source-index.v1'')
        ''missing_visual_source_index_schema'' @
      reason_if (dget ''dossierDraftSchema'' refs \<noteq> PStr ''designmd.dossier-draft.v1'') ''missing_dossier_draft_schema'' @
      freshness_reasons (sub ''freshness'' refs) @
      concat (map (\<lambda>(k, reason). reason_if (names_at k packet = []) reason) required_lists) @
      reason_if (set posture \<noteq> set [''proposal_context'', ''review_evidence'']) ''invalid_accepted_output_posture'' @
      concat (map (\<lambda>claim. reason_if (claim \<notin> set claims) (''missing_forbidden_claim:'' @ claim))
        [''accepted_contract_truth'', ''reviewed_dossier_guidance'']) @
      reason_if (\<not> contains (authority_text packet) ''mutate design.md'' \<and>
          \<not> contains (authority_text packet) ''mutates design.md'')
        ''missing_designmd_non_mutation_authority_statement'')"

definition validate_packet :: "(string \<times> pv) list \<Rightarrow> validation" where
  "validate_packet packet =
     \<lparr>vl_schema = ''designmd-visual-dossier-requirements-validation-v1'',
      vl_reasons = sorted_set (packet_reasons packet)\<rparr>"

section \<open>The target contract of a packet\<close>

definition packet_cases :: "(string \<times> pv) list \<Rightarrow> string list" where
  "packet_cases packet =
     or_names (or_names (names_at ''fixtureRequirements'' packet) (names_at ''failClosedBlockers'' packet))
       [''designmd_visual_dossier_target_protocol_regression'']"

definition packet_contract :: "(string \<times> pv) list \<Rightarrow> (string \<times> pv) list" where
  "packet_contract packet =
     (let sha = sha256_payload packet; refs = sub ''inputRefs'' packet in
      with_identity_hash
        ([(''schema_version'', PStr contract_schema),
          (''identity'', PDict [(''intent_sha256'', PStr sha), (''contract_sha256'', PStr []),
             (''validator'', PStr ''dspx.gen_target_contract.v1''), (''validator_version'', PStr ''v1''),
             (''requirements_packet_schema'', dget ''schemaVersion'' packet),
             (''requirements_packet_sha256'', PStr sha)]),
          (''target'', PDict [(''id'', PStr ''designmd_visual_dossier''), (''owner'', PStr ''designmd-foundry''),
             (''owner_refs'', names_value
               [''designmd-foundry/docs/decisions/ADR-0006-dspx-visual-dossier-target-protocol-handoff-boundary.md'',
                ''designmd-foundry/docs/design-core/dspx-visual-dossier-requirements-packet.md'',
                ''dspx/docs/project/designmd-visual-dossier-target-protocol-contract.md'']),
             (''owner_ref_custody'', PStr ''cross_repo_reference_not_publishable_without_redaction''),
             (''authority_refs'', PList [])]),
          (''contract_source'', PStr ''structured_requirements_packet''),
          (''confirmation_status'', PStr ''domain_confirmed_for_generation_gate''),
          (''risk_tier'', PStr ''authority_adjacent''),
          (''protocol'', PDict
            [(''required_stages'', names_value [''validated_visual_source_packet'', ''role_findings'',
                ''component_inventory'', ''synthesis_and_coverage_gaps'', ''dossier_builder_traceability'',
                ''review_evidence_only'']),
             (''artifact_families'', names_value (names_at ''requiredOutputSchemas'' packet @
                [''traceability_matrix'', ''receipt_bundle'', ''review_evidence''])),
             (''forbidden_shortcuts'', names_value (names_at ''forbiddenClaims'' packet @
                names_at ''failClosedBlockers'' packet @ [''skip_designmd_review_record'', ''mutate_designmd_contract'']))]),
          (''source_policy'', PDict [(''provenance_required'', PBool True),
             (''language_policy'', PStr ''preserve_designmd_packet_labels_and_uncertainty''),
             (''source_index_sha256'', dget ''sourceIndexSha256'' refs), (''design_md_sha256'', dget ''designMdSha256'' refs),
             (''design_md_current_sha256'', dget ''designMdCurrentSha256'' refs)]),
          (''fitness'', PDict [(''required_adversarial_cases'', names_value (packet_cases packet)),
             (''role_coverage'', names_value (names_at ''roleCoverage'' packet)),
             (''requirements'', names_value (names_at ''requiredTargetProtocolContent'' packet))]),
          (''requests'', PDict [(''adapter_materialization'', PBool True), (''shared_oracle_publication'', PBool False),
             (''promotion_evidence'', PBool False), (''export_evidence'', PBool False),
             (''activation_evidence'', PBool False)])] @ guardrails @
         [(''profile_extension'', PDict [(''profile'', PStr ''designmd-visual-dossier''),
             (''project_id'', dget ''projectId'' packet), (''source_id'', dget ''sourceId'' packet),
             (''analysis_run_id'', dget ''analysisRunId'' packet), (''dossier_draft_id'', dget ''dossierDraftId'' packet),
             (''accepted_output_posture'', names_value (names_at ''acceptedOutputPosture'' packet))])])
        ''contract_sha256'')"

section \<open>The program intent of a packet\<close>

fun word_chars :: "bool \<Rightarrow> string \<Rightarrow> string" where
  "word_chars gap [] = []"
| "word_chars gap (c # s) =
     (if is_letter c \<or> is_digit c \<or> c = CHR ''_'' then c # word_chars False s
      else if gap then word_chars True s else CHR ''_'' # word_chars True s)"

definition identifier_part :: "string \<Rightarrow> string \<Rightarrow> string" where
  "identifier_part v dflt =
     (let s = strip_of ''_'' (word_chars False (strip v)); t = (if s = [] then dflt else s) in
      if is_digit (hd t) then CHR ''_'' # t else t)"

definition text_field :: "string \<times> string \<Rightarrow> pv" where
  "text_field nd = PDict [(''name'', PStr (fst nd)), (''type'', PStr ''str''), (''desc'', PStr (snd nd))]"

definition packet_inputs :: "(string \<times> string) list" where
  "packet_inputs =
     [(''visual_source_packet_json'', ''JSON packet for the DesignMD visual source, source index, image inventory, provenance, and static-image labels.''),
      (''dossier_requirements_json'', ''JSON DesignMD dspx visual-dossier requirements packet used as requirements intake only.''),
      (''designmd_context_json'', ''Read-only current DESIGN.md hash/context, sourceIndexSha256, dossier id, and review boundary metadata.''),
      (''visual_image_blocks'', ''Optional serialized DSPy image markers for source screenshots/reference images, materialized from explicit program-run image descriptors. Empty string means no pixel-level image blocks supplied.'')]"

definition packet_outputs :: "(string \<times> string) list" where
  "packet_outputs =
     [(''role_findings_json'', ''JSON role-specific findings preserving Design Core role coverage and uncertainty labels.''),
      (''component_inventory_json'', ''JSON component inventory with source-image traceability and observed/inferred/unverified labels.''),
      (''synthesis_coverage_gaps_json'', ''JSON synthesis and coverage-gap packet grounded in role findings and component inventory.''),
      (''prompt_packs_json'', ''JSON image-generation prompt guidance when applicable, including copy-risk checks and transformation-only wording.''),
      (''dossier_markdown_json'', ''JSON representation of dossier markdown-builder output for review evidence only.''),
      (''traceability_matrix_json'', ''JSON matrix connecting source images, role findings, components, synthesis, prompts, and dossier sections.''),
      (''receipt_bundle_json'', ''JSON execution receipt bundle with non-authority statement and output hashes.'')]"

definition packet_constraints :: "(string \<times> pv) list \<Rightarrow> string list" where
  "packet_constraints packet =
     [''Consume DesignMD visual-dossier requirements as requirements intake only.'',
      ''Emit review evidence and proposal context only; never approve dossier guidance.'',
      ''Do not mutate DESIGN.md, docs/design, DesignMD source/dossier records, AK, governance state, or production programs.'',
      ''Bind outputs to supplied sourceIndexSha256 and designMdCurrentSha256.'',
      ''Preserve static-image inference labels: observed, inferred, and unverified.'',
      ''Every component, role finding, synthesis claim, prompt-pack recommendation, and dossier section must carry traceability to source observations or explicit uncertainty.'',
      ''Block direct style-copy instructions and flag external-reference imitation risks.''] @
     map (\<lambda>item. ''Required target-protocol content: '' @ item) (names_at ''requiredTargetProtocolContent'' packet) @
     map (\<lambda>item. ''Forbidden claim: '' @ item) (names_at ''forbiddenClaims'' packet) @
     map (\<lambda>item. ''Fail-closed blocker: '' @ item) (names_at ''failClosedBlockers'' packet)"

definition packet_objective :: string where
  "packet_objective = ''Generate a bounded DSPx candidate assembly for DesignMD visual-source dossier analysis that consumes visual-source/dossier packets, emits role findings, component inventory, synthesis, optional prompt-pack guidance, dossier markdown, traceability, and receipt evidence without mutating DesignMD or claiming domain acceptance.''"

definition text_default :: "pv \<Rightarrow> string \<Rightarrow> string" where
  "text_default v dflt = (if text_of v = [] then dflt else text_of v)"

definition packet_name :: "(string \<times> pv) list \<Rightarrow> string" where
  "packet_name packet =
     ''DesignmdVisualDossier'' @
       identifier_part (text_default (dget ''sourceId'' packet) ''designmd_visual_source'') ''Source'' @ ''Program''"

definition packet_intent :: "(string \<times> pv) list \<Rightarrow> (string \<times> pv) list" where
  "packet_intent packet =
     (let refs = sub ''inputRefs'' packet in
      [(''schema_version'', PStr ''program-intent-v2''), (''name'', PStr (packet_name packet)),
       (''objective'', PStr packet_objective), (''task_type'', PStr ''single_module''),
       (''inputs'', names_value (map fst packet_inputs)), (''outputs'', names_value (map fst packet_outputs)),
       (''input_fields'', PList (map text_field packet_inputs)),
       (''output_fields'', PList (map text_field packet_outputs)),
       (''constraints'', names_value (packet_constraints packet)), (''metric'', PStr ''exact_match''),
       (''jury'', PDict [(''selection_model'', PStr ''perspective_balanced_explicit_pool''),
          (''minimum_jurors'', PInt 8),
          (''perspectives'', names_value [''source_traceability'', ''role_coverage'', ''component_inventory_fidelity'',
             ''static_image_uncertainty'', ''copy_risk_safety'', ''authority_boundaries'',
             ''dossier_markdown_completeness'', ''review_evidence_readiness''])]),
       (''promotion'', PDict [(''external_authority'', PDict [(''refs'', PList [PDict
          [(''system'', PStr ''designmd-foundry''), (''ref'', PStr ''review_evidence_only_no_designmd_mutation''),
           (''role'', PStr ''proposal_context_not_acceptance'')]])])]),
       (''options'', PDict
         [(''scenario_name'', PStr ''designmd-visual-dossier-program-gen''),
          (''requirements_profile'', PStr ''designmd-visual-dossier''),
          (''requirements_packet_schema'', dget ''schemaVersion'' packet),
          (''requirements_packet_sha256'', PStr (sha256_payload packet)), (''project_id'', dget ''projectId'' packet),
          (''source_id'', PStr (text_default (dget ''sourceId'' packet) ''designmd_visual_source'')),
          (''dossier_draft_id'', PStr (text_default (dget ''dossierDraftId'' packet) ''designmd_dossier'')),
          (''analysis_run_id'', dget ''analysisRunId'' packet),
          (''source_index_sha256'', dget ''sourceIndexSha256'' refs), (''design_md_sha256'', dget ''designMdSha256'' refs),
          (''design_md_current_sha256'', dget ''designMdCurrentSha256'' refs),
          (''required_output_schemas'', names_value (names_at ''requiredOutputSchemas'' packet)),
          (''role_coverage'', names_value (names_at ''roleCoverage'' packet)),
          (''fixture_requirements'', names_value (names_at ''fixtureRequirements'' packet)),
          (''accepted_output_posture'', names_value (names_at ''acceptedOutputPosture'' packet)),
          (''non_authority_statement'', PStr ''DSPx outputs are proposal_context or review_evidence only; they do not mutate DESIGN.md, approve docs/design, create AK/society authority, or activate production programs.'')])])"

section \<open>The intake\<close>

definition intake_preflight :: "(string \<times> pv) list \<Rightarrow> (string \<times> pv) list" where
  "intake_preflight packet =
     (let contract = packet_contract packet; suite = build_fitness_suite contract;
          preflight = build_gate_preflight contract suite in
      if vl_valid (validate_packet packet) then preflight
      else dict_set ''fail_closed_reasons'' (names_value (sorted_set (preflight_reasons contract suite @
             vl_reasons (validate_packet packet))))
          (dict_set ''generation_allowed'' (PBool False)
            (dict_set ''status'' (PStr ''generation_blocked'') preflight)))"

definition intake_artifacts :: "string \<Rightarrow> (string \<times> pv) list \<Rightarrow> bool \<Rightarrow> (string \<times> pv) list checked" where
  "intake_artifacts profile packet include_intent =
     guardE (profile \<noteq> ''designmd-visual-dossier'')
       (Value_error (''unsupported requirements profile: '' @ profile))
    (let contract = packet_contract packet; valid = vl_valid (validate_packet packet) in
     Inr ([(''schema_version'', PStr ''gen-requirements-intake-v1''), (''profile'', PStr profile),
         (''requirements_validation'', PDict (validation_payload (validate_packet packet))),
         (''target_contract'', PDict contract), (''fitness_suite'', PDict (build_fitness_suite contract)),
         (''generation_gate_preflight'', PDict (intake_preflight packet)),
         (''verifier_guarantee'', PStr ''requirements_normalized_to_dspx_native_generation_gate_artifacts''),
         (''verifier_non_guarantee'', PStr ''semantic_truth_domain_acceptance_or_production_activation'')] @
       (if include_intent \<and> valid then [(''program_intent'', PDict (packet_intent packet))] else [])))"

section \<open>The contract of a packet is valid\<close>

lemma packet_contract_fields:
  "dget ''schema_version'' (packet_contract p) = PStr contract_schema"
  "dget ''intent_sha256'' (dict_of (dget ''identity'' (packet_contract p))) = PStr (sha256_payload p)"
  "dget ''validator_version'' (dict_of (dget ''identity'' (packet_contract p))) = PStr ''v1''"
  "\<exists>q. dget ''contract_sha256'' (dict_of (dget ''identity'' (packet_contract p))) = PStr (sha256_payload q)"
  "dget ''risk_tier'' (packet_contract p) = PStr ''authority_adjacent''"
  "dget ''contract_source'' (packet_contract p) = PStr ''structured_requirements_packet''"
  "dget ''non_authority'' (packet_contract p) = falses non_authority_keys"
  "dget ''effect'' (packet_contract p) = falses all_effect_keys"
  "dget ''provenance_required'' (dict_of (dget ''source_policy'' (packet_contract p))) = PBool True"
  "dget ''language_policy'' (dict_of (dget ''source_policy'' (packet_contract p))) =
     PStr ''preserve_designmd_packet_labels_and_uncertainty''"
  "dget ''owner'' (dict_of (dget ''target'' (packet_contract p))) = PStr ''designmd-foundry''"
  unfolding packet_contract_def Let_def
  by (simp_all add: identity_hash_rest identity_hash_other identity_hash_digest guardrails_def)

lemma packet_cases_nonblank: "nonblank (packet_cases p)" "packet_cases p \<noteq> []"
  unfolding packet_cases_def
  by (intro nonblank_intros; simp add: payload) (simp add: or_names_def)

lemma packet_contract_lists:
  "names_at ''owner_refs'' (sub ''target'' (packet_contract p)) \<noteq> []"
  "names_at ''required_stages'' (sub ''protocol'' (packet_contract p)) \<noteq> []"
  "names_at ''artifact_families'' (sub ''protocol'' (packet_contract p)) \<noteq> []"
  "names_at ''forbidden_shortcuts'' (sub ''protocol'' (packet_contract p)) \<noteq> []"
  "names_at ''required_adversarial_cases'' (sub ''fitness'' (packet_contract p)) \<noteq> []"
  unfolding packet_contract_def Let_def names_at_sub
  by (simp_all add: identity_hash_rest string_items_names payload nonblank_filter [OF packet_cases_nonblank(1)]
      packet_cases_nonblank(2))

lemma packet_contract_valid: "vl_valid (validate_target_contract (packet_contract p))"
proof -
  from packet_contract_fields(4) obtain q where digest:
    "dget ''contract_sha256'' (dict_of (dget ''identity'' (packet_contract p))) = PStr (sha256_payload q)" by blast
  have tier: "risk_tier_of (packet_contract p) = ''authority_adjacent''"
    unfolding risk_tier_of_def packet_contract_fields text_of_PStr by (rule strip_fixed) (simp add: is_space_def)
  have source: "strip ''structured_requirements_packet'' = ''structured_requirements_packet''"
    by (rule strip_fixed) (simp add: is_space_def)
  have "identity_reasons (packet_contract p) = []"
    by (simp add: identity_reasons_def Let_def packet_contract_fields(1-3) digest first_text_None payload)
  moreover have "flag_reasons (packet_contract p) = []"
    by (simp add: flag_reasons_def Let_def packet_contract_fields)
  moreover have "bound_reasons (packet_contract p) = []"
    using packet_contract_lists [of p]
    by (simp add: bound_reasons_def Let_def packet_contract_fields source payload)
  ultimately show ?thesis
    by (simp add: vl_valid_def validate_target_contract_def target_contract_reasons_def Let_def tier
        tutorial_tier_def bound_tiers_def reason_if_def)
qed

lemma packet_gate:
  "validate_preflight_payload (build_gate_preflight (packet_contract p) (build_fitness_suite (packet_contract p)))
     (Some (sha256_payload p)) = Inr ()"
proof -
  from packet_contract_fields(4) obtain q where
    "dget ''contract_sha256'' (dict_of (dget ''identity'' (packet_contract p))) = PStr (sha256_payload q)" by blast
  from built_gate [OF packet_contract_fields(2) _ _ this] packet_contract_valid show ?thesis by simp
qed

text \<open>C37: the gate packet of an intake is accepted for the intent of its requirements exactly when the
  requirements packet is valid: everything else the consumer asks for is in the artifacts made from it.\<close>

theorem intake_gate_exact:
  "validate_preflight_payload (intake_preflight packet) (Some (sha256_payload packet)) = Inr () \<longleftrightarrow>
     vl_valid (validate_packet packet)"
proof (cases "vl_valid (validate_packet packet)")
  case True
  then show ?thesis using packet_gate by (simp add: intake_preflight_def Let_def)
next
  case False
  then have "dget ''generation_allowed'' (intake_preflight packet) = PBool False"
    by (simp add: intake_preflight_def Let_def)
  with False show ?thesis
    by (simp add: validate_preflight_payload_def Let_def guardE_def preflight_payload_reasons_def)
qed

section \<open>The intent of a packet is valid\<close>

text \<open>The fields \<open>ProgramIntent\<close> reads of a payload whose values have the types it declares.\<close>

definition texts_at :: "string \<Rightarrow> string \<Rightarrow> (string \<times> pv) list \<Rightarrow> string list" where
  "texts_at key dflt payload = map str_of (list_of (dget_or key (names_value [dflt]) payload))"

definition intent_of_payload :: "(string \<times> pv) list \<Rightarrow> intent" where
  "intent_of_payload payload =
     \<lparr>it_schema_version = str_of (dget_or ''schema_version'' (PStr ''program-intent-v2'') payload),
      it_name = str_of (dget_or ''name'' (PStr ''IntentProgram'') payload),
      it_objective = str_of (dget ''objective'' payload),
      it_inputs = texts_at ''inputs'' ''context'' payload, it_outputs = texts_at ''outputs'' ''output'' payload,
      it_input_fields = map dict_of (list_of (dget ''input_fields'' payload)),
      it_output_fields = map dict_of (list_of (dget ''output_fields'' payload)),
      it_task_type = str_of (dget_or ''task_type'' (PStr ''single_module'') payload),
      it_topology = dict_of (dget ''topology'' payload),
      it_constraints = map str_of (list_of (dget ''constraints'' payload)),
      it_quality_criteria = list_of (dget ''quality_criteria'' payload),
      it_options = dict_of (dget ''options'' payload), it_capabilities = dict_of (dget ''capabilities'' payload)\<rparr>"

lemma packet_fields_ok:
  "check_field_names (map fst packet_inputs) = Inr (map fst packet_inputs)"
  "check_field_names (map fst packet_outputs) = Inr (map fst packet_outputs)"
  "check_field_specs (map (dict_of \<circ> text_field) packet_inputs) = Inr (map (dict_of \<circ> text_field) packet_inputs)"
  "check_field_specs (map (dict_of \<circ> text_field) packet_outputs) = Inr (map (dict_of \<circ> text_field) packet_outputs)"
  "filter (\<lambda>s. s \<in> set (map fst packet_outputs)) (map fst packet_inputs) = []"
  by code_simp+

lemma packet_io_names:
  "io_names xs (map (dict_of \<circ> text_field) packet_inputs) = map fst packet_inputs"
  "io_names xs (map (dict_of \<circ> text_field) packet_outputs) = map fst packet_outputs"
  by (simp_all add: io_names_def text_field_def packet_inputs_def packet_outputs_def)

lemma packet_no_overlap: "[s\<leftarrow>map fst packet_inputs. s \<in> fst ` set packet_outputs] = []"
  using packet_fields_ok(5) by (simp only: set_map)

lemma empty_sections_ok:
  "normalize_program_topology (PDict []) = Inr []" "normalize_program_capabilities (PDict []) = Inr []"
  "normalize_quality_criteria (PList []) outputs = Inr []"
  by code_simp+

lemma str_of_names [simp]: "map str_of (list_of (names_value xs)) = xs"
  by (simp add: comp_def)

lemma packet_intent_fields:
  "it_schema_version (intent_of_payload (packet_intent p)) = ''program-intent-v2''"
  "it_name (intent_of_payload (packet_intent p)) = packet_name p"
  "it_objective (intent_of_payload (packet_intent p)) = packet_objective"
  "it_inputs (intent_of_payload (packet_intent p)) = map fst packet_inputs"
  "it_outputs (intent_of_payload (packet_intent p)) = map fst packet_outputs"
  "it_input_fields (intent_of_payload (packet_intent p)) = map (dict_of \<circ> text_field) packet_inputs"
  "it_output_fields (intent_of_payload (packet_intent p)) = map (dict_of \<circ> text_field) packet_outputs"
  "it_task_type (intent_of_payload (packet_intent p)) = ''single_module''"
  "it_topology (intent_of_payload (packet_intent p)) = []"
  "it_quality_criteria (intent_of_payload (packet_intent p)) = []"
  "it_capabilities (intent_of_payload (packet_intent p)) = []"
  by (simp_all add: intent_of_payload_def packet_intent_def Let_def texts_at_def dget_or_def)

text \<open>The program intent made from any requirements packet, valid or not, passes the validation of
  program intents.\<close>

theorem intake_intent_valid:
  "\<exists>r. validate_intent (intent_of_payload (packet_intent packet)) = Inr r"
proof -
  let ?it = "intent_of_payload (packet_intent packet)"
  have name: "\<exists>s. check_text ''name'' [] (packet_name packet) = Inr s"
    by (auto simp: check_text_Inr packet_name_def payload)
  have objective: "\<exists>s. check_text ''objective'' [] packet_objective = Inr s"
    "\<exists>s. check_text ''task_type'' ''single_module'' ''single_module'' = Inr s"
    by (auto simp: check_text_Inr packet_objective_def payload)
  from name objective obtain name' objective' task' where
    texts: "check_text ''name'' [] (packet_name packet) = Inr name'"
      "check_text ''objective'' [] packet_objective = Inr objective'"
      "check_text ''task_type'' ''single_module'' ''single_module'' = Inr task'" by blast
  obtain it' where checked: "checked_fields ?it = Inr it'" and same:
      "it_topology it' = []" "it_capabilities it' = []" "it_quality_criteria it' = []"
      "it_input_fields it' = map (dict_of \<circ> text_field) packet_inputs"
      "it_output_fields it' = map (dict_of \<circ> text_field) packet_outputs"
    using texts by (simp add: checked_fields_def check_schema_version_def packet_intent_fields packet_fields_ok)
  have "check_roles it' = Inr (it'\<lparr>it_inputs := map fst packet_inputs, it_outputs := map fst packet_outputs,
      it_topology := [], it_capabilities := [], it_quality_criteria := []\<rparr>, [])"
    by (simp add: check_roles_def Let_def same packet_io_names packet_no_overlap empty_sections_ok)
  with checked show ?thesis by (simp add: validate_intent_def)
qed

end
