(* ===== verification/Layer12_Import.thy ===== *)
theory Layer12_Import
  imports Generation_Gate
begin

text \<open>
  Reconstruction of the owner-local imports of fixed families
  (\<open>services/program_layer12_fixed_family_publication.py\<close>, \<open>reconstruct_fixed_family_imports\<close>): a history
  of imports and withdrawals, kept as the retained imports and one epoch mark per family, is checked
  against the sealed order of families and extended by at most one import and one withdrawal.
\<close>

section \<open>The closed families\<close>

text \<open>Every error is \<open>Layer12FixedFamilyPublicationError\<close>, given by its message.\<close>

datatype publication_error = Publication_error string

type_synonym 'a published = "publication_error + 'a"

definition dspx_owner :: string where "dspx_owner = ''softwareco/owned/dspx''"
definition b6_token :: string where "b6_token = ''record_adr''"
definition b6_family :: string where "b6_family = ''dspx.layer12.record-adr.v1''"
definition owner_local_scope :: string where "owner_local_scope = ''owner_local_artifact_only''"

definition token_family_ids :: "(string \<times> string) list" where
  "token_family_ids =
     [(''continue_current_execution_task'', ''dspx.layer12.continue-current-execution-task.v1''),
      (''request_owner_route'', ''dspx.layer12.request-owner-route.v1''),
      (''inspect_status_before_proceeding'', ''dspx.layer12.inspect-status-before-proceeding.v1''),
      (''open_decision'', ''dspx.layer12.open-decision.v1''),
      (''record_review_outcome'', ''dspx.layer12.record-review-outcome.v1''),
      (''record_adr'', ''dspx.layer12.record-adr.v1''),
      (''close_implementation_wave'', ''dspx.layer12.close-implementation-wave.v1''),
      (''activate_guidance'', ''dspx.layer12.activate-guidance.v1''),
      (''default_residual_adoption_hardening'', ''dspx.layer12.default-residual-adoption-hardening.v1'')]"

text \<open>The digest of the specification, the publication and the epoch of each family.\<close>

definition fixed_import_facts :: "(string \<times> string \<times> string \<times> int) list" where
  "fixed_import_facts =
     [(''continue_current_execution_task'',
       ''sha256:7c4686dcdf26b085a595d1b381660a3191d650c8d26be1bb22a8adaa533142cc'',
       ''dspx-iw14b-continue-current-execution-task-owner-local-v1'', 1),
      (''request_owner_route'',
       ''sha256:9c7fdfa7b13d13b803fecef1b57ed080a2b8462658f82b7f169521b84a4a893f'',
       ''dspx-iw14b-request-owner-route-owner-local-test-v1'', 1),
      (''close_implementation_wave'',
       ''sha256:ebd3b5f19be87179911029e552aa5bc00c4de774bd9264efd5fac397435ac06f'',
       ''dspx-iw14b-close-implementation-wave-owner-local-test-v1'', 1),
      (''activate_guidance'',
       ''sha256:e58fb94f75ccd9cbf3a63216d779e0bf45791b37f128dc0a43e741858e9fb374'',
       ''dspx-iw14b-activate-guidance-owner-local-test-v1'', 1),
      (''default_residual_adoption_hardening'',
       ''sha256:eb4f1d7634fbade45cc80fcf2c753611ea41672603dcf04d42e595fa7258f86d'',
       ''dspx-iw14b-default-residual-adoption-hardening-owner-local-test-v1'', 1),
      (''inspect_status_before_proceeding'',
       ''sha256:cf7c6722cb780d7c1f8bb2c4242e77f5e2c77950d379cfb453b62fbc8c48dd30'',
       ''dspx-iw14b-inspect-status-before-proceeding-owner-local-test-v1'', 1),
      (''open_decision'',
       ''sha256:0ffa7021f4cb5caaba9dc9c383ac9608a53bdc531b59dceeeb735fa354cd1922'',
       ''dspx-iw14b-open-decision-owner-local-test-v1'', 1),
      (''record_review_outcome'',
       ''sha256:de0679063ac72ed585c95621eb91be742cc8ae770a7ba0fd2a3334af1c30fdec'',
       ''dspx-iw14b-record-review-outcome-owner-local-test-v1'', 1),
      (''record_adr'',
       ''sha256:7ac06ea8b555896d1c610080541284f0e5ed4f21e0bc40328d03db9316b25f61'',
       ''dspx-iw14b-record-adr-owner-local-test-v1'', 1)]"

definition fixed_import_order :: "string list" where
  "fixed_import_order =
     [''continue_current_execution_task'', ''request_owner_route'', ''close_implementation_wave'',
      ''activate_guidance'', ''default_residual_adoption_hardening'', ''inspect_status_before_proceeding'',
      ''open_decision'', ''record_review_outcome'', ''record_adr'']"

section \<open>Reading a value\<close>

definition fail :: "string \<Rightarrow> 'a published" where
  "fail message = Inl (Publication_error message)"

definition the_object :: "pv \<Rightarrow> string \<Rightarrow> (string \<times> pv) list published" where
  "the_object v label =
     (case v of PDict kvs \<Rightarrow> Inr kvs | _ \<Rightarrow> fail (label @ '' must be an object''))"

definition closed_item :: "(string \<times> pv) list \<Rightarrow> string list \<Rightarrow> string \<Rightarrow> unit published" where
  "closed_item item required label =
     (let missing = sorted_diff required (dict_keys item); extra = sorted_diff (dict_keys item) required in
      if missing \<noteq> [] \<or> extra \<noteq> []
      then fail (label @ '' fields mismatch; missing='' @ names_text missing @ '' extra='' @
        names_text extra)
      else Inr ())"

definition the_text :: "pv \<Rightarrow> string \<Rightarrow> string published" where
  "the_text v label =
     (case v of PStr s \<Rightarrow> (if s = [] then fail (label @ '' must be non-empty text'') else Inr s)
      | _ \<Rightarrow> fail (label @ '' must be non-empty text''))"

definition is_content_digest :: "string \<Rightarrow> bool" where
  "is_content_digest s = (take 7 s = ''sha256:'' \<and> is_sha256 (drop 7 s))"

definition the_digest :: "pv \<Rightarrow> string \<Rightarrow> string published" where
  "the_digest v label =
     bindE (the_text v label) (\<lambda>s.
       if is_content_digest s then Inr s else fail (label @ '' must be a sha256 digest''))"

definition positive_int :: "pv \<Rightarrow> string \<Rightarrow> int published" where
  "positive_int v label =
     (case v of PInt i \<Rightarrow> (if i < 1 then fail (label @ '' must be a positive integer'') else Inr i)
      | _ \<Rightarrow> fail (label @ '' must be a positive integer''))"

definition refuse :: "bool \<Rightarrow> string \<Rightarrow> 'a published \<Rightarrow> 'a published" where
  "refuse b message m = guardE b (Publication_error message) m"

definition fixed_import_fact :: "string \<Rightarrow> string \<Rightarrow> string \<Rightarrow> string \<Rightarrow> (string \<times> string \<times> int) published" where
  "fixed_import_fact owner family token label =
     refuse (owner \<noteq> dspx_owner \<or> map_of token_family_ids token \<noteq> Some family)
       (label @ '' is outside the closed supported owner/token/family map'')
       (Inr (the (map_of fixed_import_facts token)))"

section \<open>Imports\<close>

record import_item =
  im_owner :: string
  im_family :: string
  im_publication :: string
  im_epoch :: int
  im_digest :: string
  im_token :: string

definition import_value :: "import_item \<Rightarrow> pv" where
  "import_value i = PDict
     [(''schema_version'', PStr ''layer12-fixed-family-import-v1''), (''owner'', PStr (im_owner i)),
      (''family_id'', PStr (im_family i)), (''publication_id'', PStr (im_publication i)),
      (''epoch'', PInt (im_epoch i)), (''spec_digest'', PStr (im_digest i)),
      (''transition_token'', PStr (im_token i)), (''publication_scope'', PStr owner_local_scope),
      (''authority_granted'', PBool False)]"

definition import_fields :: "string list" where
  "import_fields = [''schema_version'', ''owner'', ''family_id'', ''publication_id'', ''epoch'', ''spec_digest'',
     ''transition_token'', ''publication_scope'', ''authority_granted'']"

definition canonical_import :: "pv \<Rightarrow> string \<Rightarrow> import_item published" where
  "canonical_import v label =
     bindE (the_object v label) (\<lambda>item.
     bindE (closed_item item import_fields label) (\<lambda>_.
     bindE (the_text (dget ''schema_version'' item) (label @ ''.schema_version'')) (\<lambda>schema.
     bindE (the_text (dget ''owner'' item) (label @ ''.owner'')) (\<lambda>owner.
     bindE (the_text (dget ''family_id'' item) (label @ ''.family_id'')) (\<lambda>family.
     bindE (the_text (dget ''publication_id'' item) (label @ ''.publication_id'')) (\<lambda>publication.
     bindE (positive_int (dget ''epoch'' item) (label @ ''.epoch'')) (\<lambda>epoch.
     bindE (the_digest (dget ''spec_digest'' item) (label @ ''.spec_digest'')) (\<lambda>digest.
     bindE (the_text (dget ''transition_token'' item) (label @ ''.transition_token'')) (\<lambda>token.
     refuse (schema \<noteq> ''layer12-fixed-family-import-v1'') (label @ '' schema drift'')
     (bindE (fixed_import_fact owner family token label) (\<lambda>(fact_digest, fact_publication, fact_epoch).
     refuse (digest \<noteq> fact_digest) (label @ ''.spec_digest conflicts with immutable DSPx-owner fact'')
     (refuse (publication \<noteq> fact_publication)
       (label @ ''.publication_id conflicts with immutable DSPx-owner fact'')
     (refuse (epoch \<noteq> fact_epoch) (label @ ''.epoch conflicts with immutable DSPx-owner fact'')
     (refuse (dget ''publication_scope'' item \<noteq> PStr owner_local_scope) (label @ '' publication scope drift'')
     (refuse (dget ''authority_granted'' item \<noteq> PBool False) (label @ '' authority widening'')
       (Inr \<lparr>im_owner = owner, im_family = family, im_publication = publication, im_epoch = epoch,
         im_digest = digest, im_token = token\<rparr>))))))))))))))))"

section \<open>The state of a reconstruction\<close>

type_synonym family = "string \<times> string"

record rebuild =
  rb_imports :: "import_item list"
  rb_coordinates :: "(string \<times> string \<times> int) list"
  rb_publications :: "string list"
  rb_last :: "(family \<times> int) list"
  rb_contracts :: "(family \<times> string \<times> string) list"
  rb_order :: "family list"
  rb_high :: "(family \<times> int) list"
  rb_used :: "(family \<times> string list) list"
  rb_withdrawn :: "(family \<times> string list) list"
  rb_durable :: "string list"
  rb_tokens :: "string list"

definition rebuild_start :: rebuild where
  "rebuild_start = \<lparr>rb_imports = [], rb_coordinates = [], rb_publications = [], rb_last = [], rb_contracts = [],
     rb_order = [], rb_high = [], rb_used = [], rb_withdrawn = [], rb_durable = [], rb_tokens = []\<rparr>"

definition family_key :: "import_item \<Rightarrow> family" where
  "family_key i = (im_owner i, im_family i)"

definition contract_of :: "import_item \<Rightarrow> string \<times> string" where
  "contract_of i = (im_token i, im_digest i)"

definition known :: "'a option \<Rightarrow> ('a \<Rightarrow> bool) \<Rightarrow> bool" where
  "known x P = (case x of None \<Rightarrow> False | Some a \<Rightarrow> P a)"

definition remember :: "'a \<Rightarrow> 'a list \<Rightarrow> 'a list" where
  "remember x xs = (if x \<in> set xs then xs else xs @ [x])"

definition append_import :: "bool \<Rightarrow> pv \<Rightarrow> string \<Rightarrow> rebuild \<Rightarrow> rebuild published" where
  "append_import current v label st =
     bindE (canonical_import v label) (\<lambda>i.
     let key = family_key i; coordinate = (im_owner i, im_family i, im_epoch i) in
     refuse (known (map_of (rb_contracts st) key) (\<lambda>c. contract_of i \<noteq> c))
       (label @ '' conflicts with the existing owner/family contract'')
     (refuse (coordinate \<in> set (rb_coordinates st))
       (label @ '' duplicates or conflicts with an existing family epoch'')
     (refuse (im_publication i \<in> set (rb_publications st))
       (label @ '' duplicates or conflicts with an existing publication_id'')
     (refuse (current \<and> im_publication i \<in> set (rb_durable st))
       (label @ '' reuses a durable used or withdrawn publication_id'')
     (refuse (known (map_of (rb_last st) key) (\<lambda>e. im_epoch i \<le> e))
       (label @ '' is not strictly monotonic for owner/family'')
     (refuse (current \<and> known (map_of (rb_high st) key) (\<lambda>e. im_epoch i \<le> e))
       (label @ '' reuses or regresses the owner/family epoch high-water mark'')
       (Inr (st\<lparr>rb_imports := rb_imports st @ [i], rb_coordinates := rb_coordinates st @ [coordinate],
          rb_publications := rb_publications st @ [im_publication i],
          rb_last := dict_set key (im_epoch i) (rb_last st),
          rb_contracts := dict_set key (contract_of i) (rb_contracts st),
          rb_order := remember key (rb_order st)\<rparr>))))))))"

section \<open>Epoch marks\<close>

record epoch_mark =
  em_owner :: string
  em_family :: string
  em_epoch :: int
  em_digest :: string
  em_token :: string
  em_used :: "string list"
  em_withdrawn :: "string list"

definition mark_schema :: string where "mark_schema = ''layer12-fixed-family-epoch-high-watermark-v1''"

definition mark_value :: "epoch_mark \<Rightarrow> pv" where
  "mark_value m = PDict
     [(''schema_version'', PStr mark_schema), (''owner'', PStr (em_owner m)), (''family_id'', PStr (em_family m)),
      (''epoch'', PInt (em_epoch m)), (''transition_token'', PStr (em_token m)),
      (''spec_digest'', PStr (em_digest m)), (''used_publication_ids'', names_value (em_used m)),
      (''withdrawn_publication_ids'', names_value (em_withdrawn m))]"

definition mark_fields :: "string list" where
  "mark_fields = [''schema_version'', ''owner'', ''family_id'', ''epoch'', ''spec_digest'', ''transition_token'',
     ''used_publication_ids'', ''withdrawn_publication_ids'']"

definition texts :: "pv \<Rightarrow> string \<Rightarrow> string list published" where
  "texts v label = mapE (\<lambda>x. the_text x label) (list_of v)"

text \<open>The part of the loop over marks that looks at the mark alone.\<close>

definition canonical_mark :: "pv \<Rightarrow> string \<Rightarrow> epoch_mark published" where
  "canonical_mark v label =
     bindE (the_object v label) (\<lambda>mark.
     bindE (closed_item mark mark_fields label) (\<lambda>_.
     refuse (dget ''schema_version'' mark \<noteq> PStr mark_schema) (label @ '' schema drift'')
     (bindE (the_text (dget ''owner'' mark) (label @ ''.owner'')) (\<lambda>owner.
     bindE (the_text (dget ''family_id'' mark) (label @ ''.family_id'')) (\<lambda>family.
     bindE (positive_int (dget ''epoch'' mark) (label @ ''.epoch'')) (\<lambda>epoch.
     bindE (the_text (dget ''transition_token'' mark) (label @ ''.transition_token'')) (\<lambda>token.
     bindE (fixed_import_fact owner family token label) (\<lambda>(fact_digest, fact_publication, fact_epoch).
     bindE (the_digest (dget ''spec_digest'' mark) (label @ ''.spec_digest'')) (\<lambda>digest.
     refuse (digest \<noteq> fact_digest) (label @ ''.spec_digest conflicts with immutable DSPx-owner fact'')
     (refuse (epoch \<noteq> fact_epoch) (label @ ''.epoch conflicts with immutable DSPx-owner high-water fact'')
     (refuse (list_of (dget ''used_publication_ids'' mark) = [])
       (label @ ''.used_publication_ids must be a non-empty list'')
     (bindE (texts (dget ''used_publication_ids'' mark) (label @ ''.used_publication_ids'')) (\<lambda>used.
     refuse (\<not> distinct used) (label @ ''.used_publication_ids contains duplicates'')
     (refuse (used \<noteq> [fact_publication])
       (label @ ''.used_publication_ids conflicts with immutable DSPx-owner history'')
     (refuse (\<not> is_list (dget ''withdrawn_publication_ids'' mark))
       (label @ ''.withdrawn_publication_ids must be a list'')
     (bindE (texts (dget ''withdrawn_publication_ids'' mark) (label @ ''.withdrawn_publication_ids'')) (\<lambda>withdrawn.
     refuse (\<not> distinct withdrawn) (label @ ''.withdrawn_publication_ids contains duplicates'')
     (refuse (withdrawn \<noteq> [] \<and> withdrawn \<noteq> [fact_publication])
       (label @ ''.withdrawn_publication_ids conflicts with immutable DSPx-owner history'')
       (Inr \<lparr>em_owner = owner, em_family = family, em_epoch = epoch, em_digest = digest, em_token = token,
         em_used = used, em_withdrawn = withdrawn\<rparr>)))))))))))))))))))"

text \<open>The rest of the loop, which compares the mark with the imports and the marks before it.\<close>

definition record_mark :: "pv \<Rightarrow> string \<Rightarrow> rebuild \<Rightarrow> rebuild published" where
  "record_mark v label st =
     bindE (canonical_mark v label) (\<lambda>m.
     let key = (em_owner m, em_family m); contract = (em_token m, em_digest m);
         imported = map im_publication (filter (\<lambda>i. family_key i = key) (rb_imports st));
         expected = (if imported = [] then em_used m else []) in
     refuse (key \<in> set (dict_keys (rb_high st)))
       (label @ '' duplicates or conflicts with an existing family watermark'')
     (refuse (known (map_of (rb_contracts st) key) (\<lambda>c. c \<noteq> contract))
       (label @ '' conflicts with imported owner/family contract'')
     (refuse (known (map_of (rb_last st) key) (\<lambda>e. em_epoch m < e))
       (label @ '' regresses below imported family history'')
     (refuse (\<not> set imported \<subseteq> set (em_used m))
       (label @ '' omits publication ids from imported family history'')
     (refuse (em_withdrawn m \<noteq> expected)
       (label @ ''.withdrawn_publication_ids does not match the '' @
         (if imported = [] then ''historically imported but absent'' else ''retained active'') @ '' family state'')
     (refuse (filter (\<lambda>p. p \<in> set (rb_durable st)) (em_used m) \<noteq> [])
       (label @ '' conflicts with durable publication ids from another family'')
       (Inr (st\<lparr>rb_order := remember key (rb_order st), rb_high := dict_set key (em_epoch m) (rb_high st),
          rb_contracts := dict_set key contract (rb_contracts st), rb_used := dict_set key (em_used m) (rb_used st),
          rb_withdrawn := dict_set key (em_withdrawn m) (rb_withdrawn st),
          rb_durable := rb_durable st @ em_used m, rb_tokens := rb_tokens st @ [em_token m]\<rparr>))))))))"

section \<open>The reconstruction\<close>

definition labelled :: "string \<Rightarrow> 'a list \<Rightarrow> (string \<times> 'a) list" where
  "labelled name xs = zip (map (\<lambda>i. name @ ''['' @ nat_text i @ '']'') [0..<length xs]) xs"

definition read_history :: "pv list \<Rightarrow> pv list \<Rightarrow> rebuild published" where
  "read_history imports marks =
     bindE (foldE (\<lambda>(label, v). append_import False v label) (labelled ''prior_imports'' imports) rebuild_start) (\<lambda>st.
     foldE (\<lambda>(label, v). record_mark v label) (labelled ''prior_epoch_high_watermarks'' marks) st)"

text \<open>The checks between the loops and the current import; the order of families becomes that of the marks.\<close>

definition check_history :: "rebuild \<Rightarrow> rebuild published" where
  "check_history st =
     (let imported = map im_token (rb_imports st) in
     refuse (rb_tokens st \<noteq> take (length (rb_tokens st)) fixed_import_order)
       (''prior epoch high-watermark history must be an exact ordered prefix of the sealed fixed-family history'')
     (refuse (\<not> set (dict_keys (rb_last st)) \<subseteq> set (dict_keys (rb_high st)))
       (''prior imports require an epoch high-water mark for every owner/family'')
     (refuse (imported \<noteq> filter (\<lambda>t. t \<in> set imported) (rb_tokens st))
       (''prior imports are not a lawful ordered sequence under the sealed fixed-family history'')
       (Inr (st\<lparr>rb_order := dict_keys (rb_high st)\<rparr>)))))"

definition predecessors :: "string \<Rightarrow> string list" where
  "predecessors token = takeWhile (\<lambda>t. t \<noteq> token) fixed_import_order"

definition add_current :: "import_item \<Rightarrow> rebuild \<Rightarrow> rebuild published" where
  "add_current i st =
     refuse (rb_tokens st \<noteq> predecessors (im_token i) \<or> map im_token (rb_imports st) \<noteq> predecessors (im_token i))
       (''current_import does not follow the exact ordered sealed fixed-family predecessor history of imports'')
     (bindE (append_import True (import_value i) ''current_import'' st) (\<lambda>st'.
      Inr (st'\<lparr>rb_high := dict_set (family_key i) (im_epoch i) (rb_high st'),
         rb_used := dict_set (family_key i)
           ((case map_of (rb_used st') (family_key i) of None \<Rightarrow> [] | Some ids \<Rightarrow> ids) @ [im_publication i]) (rb_used st'),
         rb_withdrawn := dict_set (family_key i) [] (rb_withdrawn st'),
         rb_durable := rb_durable st' @ [im_publication i]\<rparr>)))"

record withdrawal =
  wi_owner :: string
  wi_family :: string
  wi_epoch :: int
  wi_publication :: string
  wi_ref :: string

definition withdrawal_fields :: "string list" where
  "withdrawal_fields = [''schema_version'', ''owner'', ''family_id'', ''publication_id'', ''epoch'',
     ''withdrawal_ref'', ''owner_local_only'', ''authority_granted'']"

definition withdrawal_ref_of :: "string \<Rightarrow> int \<Rightarrow> string" where
  "withdrawal_ref_of fam epoch = ''withdrawal:'' @ dspx_owner @ '':'' @ fam @ '':'' @ int_text epoch"

definition canonical_withdrawal :: "bool \<Rightarrow> pv \<Rightarrow> withdrawal published" where
  "canonical_withdrawal b6_present v =
     bindE (the_object v ''current_withdrawal'') (\<lambda>w.
     bindE (closed_item w withdrawal_fields ''current_withdrawal'') (\<lambda>_.
     refuse (dget ''schema_version'' w \<noteq> PStr ''layer12-fixed-family-withdrawal-v1'') ''withdrawal schema drift''
     (bindE (the_text (dget ''owner'' w) ''current_withdrawal.owner'') (\<lambda>owner.
     bindE (the_text (dget ''family_id'' w) ''current_withdrawal.family_id'') (\<lambda>fam.
     refuse (b6_present \<and> fam \<noteq> b6_family) ''complete B6 history permits only exact B6-family withdrawal''
     (bindE (the_text (dget ''publication_id'' w) ''current_withdrawal.publication_id'') (\<lambda>publication.
     bindE (positive_int (dget ''epoch'' w) ''current_withdrawal.epoch'') (\<lambda>epoch.
     bindE (the_text (dget ''withdrawal_ref'' w) ''current_withdrawal.withdrawal_ref'') (\<lambda>ref.
     refuse (ref \<noteq> withdrawal_ref_of fam epoch)
       ''current_withdrawal.withdrawal_ref conflicts with exact owner/family/epoch identity''
     (refuse (dget ''owner_local_only'' w \<noteq> PBool True) ''withdrawal scope widening''
     (refuse (dget ''authority_granted'' w \<noteq> PBool False) ''withdrawal authority widening''
       (Inr \<lparr>wi_owner = owner, wi_family = fam, wi_epoch = epoch, wi_publication = publication,
         wi_ref = ref\<rparr>)))))))))))) "

definition withdraw :: "withdrawal \<Rightarrow> rebuild \<Rightarrow> rebuild published" where
  "withdraw w st =
     (let hit = (\<lambda>i. im_owner i = wi_owner w \<and> im_family i = wi_family w \<and> im_epoch i = wi_epoch w);
          matches = filter hit (rb_imports st) in
     refuse (length matches \<noteq> 1) ''withdrawal does not match exactly one imported owner/family/epoch''
     (refuse (im_publication (hd matches) \<noteq> wi_publication w)
       ''withdrawal publication_id conflicts with matching family epoch''
       (Inr (st\<lparr>rb_imports := filter (\<lambda>i. \<not> hit i) (rb_imports st),
          rb_withdrawn := dict_set (wi_owner w, wi_family w) [wi_publication w] (rb_withdrawn st)\<rparr>))))"

definition marks_of :: "rebuild \<Rightarrow> epoch_mark list" where
  "marks_of st =
     map (\<lambda>key. \<lparr>em_owner = fst key, em_family = snd key, em_epoch = the (map_of (rb_high st) key),
        em_digest = snd (the (map_of (rb_contracts st) key)), em_token = fst (the (map_of (rb_contracts st) key)),
        em_used = the (map_of (rb_used st) key), em_withdrawn = the (map_of (rb_withdrawn st) key)\<rparr>) (rb_order st)"

definition withdrawal_value :: "withdrawal option \<Rightarrow> pv" where
  "withdrawal_value x =
     (case x of None \<Rightarrow> PNone
      | Some w \<Rightarrow> PDict [(''owner'', PStr (wi_owner w)), (''family_id'', PStr (wi_family w)),
          (''epoch'', PInt (wi_epoch w)), (''publication_id'', PStr (wi_publication w)),
          (''withdrawal_ref'', PStr (wi_ref w))])"

definition rebuild_result :: "withdrawal option \<Rightarrow> rebuild \<Rightarrow> (string \<times> pv) list" where
  "rebuild_result x st =
     [(''schema_version'', PStr ''layer12-fixed-family-reconstruction-v1''),
      (''mode'', PStr ''cumulative_owner_local_family_epochs''),
      (''imports'', PList (map import_value (rb_imports st))),
      (''family_epoch_high_watermarks'', PList (map mark_value (marks_of st))),
      (''withdrawal_applied'', PBool (x \<noteq> None)), (''withdrawn_identity'', withdrawal_value x),
      (''preserve_unrelated_imports'', PBool True), (''authority_granted'', PBool False)]"

definition reconstruct_imports :: "pv list \<Rightarrow> pv list \<Rightarrow> pv \<Rightarrow> pv \<Rightarrow> (string \<times> pv) list published" where
  "reconstruct_imports imports marks current withdrawn =
     bindE (read_history imports marks) (\<lambda>st.
     bindE (if current = PNone then Inr None
            else bindE (canonical_import current ''current_import'') (\<lambda>i. Inr (Some i))) (\<lambda>candidate.
     bindE (check_history st) (\<lambda>st.
     bindE (case candidate of None \<Rightarrow> Inr st | Some i \<Rightarrow> add_current i st) (\<lambda>st'.
     if withdrawn = PNone then Inr (rebuild_result None st')
     else bindE (canonical_withdrawal (b6_token \<in> set (rb_tokens st) \<or>
            known candidate (\<lambda>i. im_token i = b6_token)) withdrawn) (\<lambda>w.
          bindE (withdraw w st') (\<lambda>su. Inr (rebuild_result (Some w) su)))))))"

section \<open>Items and marks of the closed families\<close>

text \<open>A checked import or mark says no more than which family it belongs to.\<close>

definition item_of :: "string \<Rightarrow> import_item" where
  "item_of t = (case the (map_of fixed_import_facts t) of (digest, publication, epoch) \<Rightarrow>
     \<lparr>im_owner = dspx_owner, im_family = the (map_of token_family_ids t), im_publication = publication,
      im_epoch = epoch, im_digest = digest, im_token = t\<rparr>)"

definition mark_of :: "string \<times> bool \<Rightarrow> epoch_mark" where
  "mark_of tw = (let i = item_of (fst tw) in
     \<lparr>em_owner = im_owner i, em_family = im_family i, em_epoch = im_epoch i, em_digest = im_digest i,
      em_token = fst tw, em_used = [im_publication i], em_withdrawn = (if snd tw then [im_publication i] else [])\<rparr>)"

lemma families_distinct:
  "distinct fixed_import_order" "distinct (map (im_family \<circ> item_of) fixed_import_order)"
  "distinct (map (im_publication \<circ> item_of) fixed_import_order)"
  "map (im_token \<circ> item_of) fixed_import_order = fixed_import_order"
  "map (im_epoch \<circ> item_of) fixed_import_order = replicate 9 1"
  "map (im_owner \<circ> item_of) fixed_import_order = replicate 9 dspx_owner"
  "set (dict_keys token_family_ids) = set fixed_import_order"
  by code_simp+

lemma length_order [simp]: "length fixed_import_order = 9"
  by (simp add: fixed_import_order_def)

lemma im_owner_item [simp]: "im_owner (item_of t) = dspx_owner"
  by (simp add: item_of_def split: prod.splits)

lemma im_token_item [simp]: "im_token (item_of t) = t"
  by (simp add: item_of_def split: prod.splits)

lemma im_epoch_item [simp]: "t \<in> set fixed_import_order \<Longrightarrow> im_epoch (item_of t) = 1"
  using families_distinct(5) by (metis comp_apply in_set_replicate length_map list.set_map rev_image_eqI)

lemma item_inj:
  assumes "t \<in> set fixed_import_order" "u \<in> set fixed_import_order"
  shows "im_family (item_of t) = im_family (item_of u) \<longleftrightarrow> t = u"
    "im_publication (item_of t) = im_publication (item_of u) \<longleftrightarrow> t = u"
    "family_key (item_of t) = family_key (item_of u) \<longleftrightarrow> t = u"
  using families_distinct(2,3) assms by (auto simp: distinct_map inj_on_def family_key_def)

lemma refuse_Inr [simp]: "refuse b e m = Inr r \<longleftrightarrow> \<not> b \<and> m = Inr r"
  by (simp add: refuse_def guardE_Inr_iff)

lemma fail_Inr [simp]: "fail e \<noteq> Inr r"
  by (simp add: fail_def)

lemma known_token: "map_of token_family_ids t = Some fam \<Longrightarrow> t \<in> set fixed_import_order"
  using families_distinct(7) by (metis (no_types) fst_conv image_eqI list.set_map map_of_SomeD)

lemma fixed_import_fact_Inr:
  "fixed_import_fact owner fam token label = Inr r \<longleftrightarrow>
     owner = dspx_owner \<and> map_of token_family_ids token = Some fam \<and> r = the (map_of fixed_import_facts token)"
  by (auto simp: fixed_import_fact_def)

lemma canonical_import_item:
  assumes "canonical_import v label = Inr i"
  shows "\<exists>t \<in> set fixed_import_order. i = item_of t"
proof -
  from assms obtain owner fam publication epoch digest token d p e where
    fact: "fixed_import_fact owner fam token label = Inr (d, p, e)" and
    i: "i = \<lparr>im_owner = owner, im_family = fam, im_publication = publication, im_epoch = epoch,
      im_digest = digest, im_token = token\<rparr>" "digest = d" "publication = p" "epoch = e"
    unfolding canonical_import_def by (auto simp: bindE_Inr_iff)
  then have "i = item_of token"
    by (auto simp: fixed_import_fact_Inr item_of_def split: prod.splits)
  moreover from fact have "token \<in> set fixed_import_order"
    by (auto simp: fixed_import_fact_Inr known_token)
  ultimately show ?thesis by blast
qed

lemma canonical_mark_of:
  assumes "canonical_mark v label = Inr m"
  shows "\<exists>t \<in> set fixed_import_order. \<exists>w. m = mark_of (t, w)"
proof -
  from assms obtain owner fam epoch digest token d p e used wd where
    fact: "fixed_import_fact owner fam token label = Inr (d, p, e)" and
    m: "m = \<lparr>em_owner = owner, em_family = fam, em_epoch = epoch, em_digest = digest, em_token = token,
         em_used = used, em_withdrawn = wd\<rparr>" "digest = d" "epoch = e" "used = [p]" "wd = [] \<or> wd = [p]"
    unfolding canonical_mark_def by (auto simp: bindE_Inr_iff)
  then have "m = mark_of (token, wd \<noteq> [])"
    by (auto simp: fixed_import_fact_Inr item_of_def mark_of_def split: prod.splits)
  moreover from fact have "token \<in> set fixed_import_order"
    by (auto simp: fixed_import_fact_Inr known_token)
  ultimately show ?thesis by blast
qed

lemma family_facts:
  assumes "t \<in> set fixed_import_order"
  shows "t \<noteq> []" "im_family (item_of t) \<noteq> []" "im_publication (item_of t) \<noteq> []" "im_digest (item_of t) \<noteq> []"
    "is_content_digest (im_digest (item_of t))" "map_of token_family_ids t = Some (im_family (item_of t))"
    "the (map_of fixed_import_facts t) = (im_digest (item_of t), im_publication (item_of t), 1)"
proof -
  have "list_all (\<lambda>t. t \<noteq> [] \<and> im_family (item_of t) \<noteq> [] \<and> im_publication (item_of t) \<noteq> [] \<and>
      im_digest (item_of t) \<noteq> [] \<and> is_content_digest (im_digest (item_of t)) \<and>
      map_of token_family_ids t = Some (im_family (item_of t)) \<and>
      the (map_of fixed_import_facts t) = (im_digest (item_of t), im_publication (item_of t), 1)) fixed_import_order"
    by code_simp
  with assms show "t \<noteq> []" "im_family (item_of t) \<noteq> []" "im_publication (item_of t) \<noteq> []"
    "im_digest (item_of t) \<noteq> []" "is_content_digest (im_digest (item_of t))"
    "map_of token_family_ids t = Some (im_family (item_of t))"
    "the (map_of fixed_import_facts t) = (im_digest (item_of t), im_publication (item_of t), 1)"
    by (auto simp: list_all_iff)
qed

lemma closed_item_ok: "set (dict_keys item) = set required \<Longrightarrow> closed_item item required label = Inr ()"
  by (simp add: closed_item_def)

lemma the_text_PStr [simp]: "s \<noteq> [] \<Longrightarrow> the_text (PStr s) label = Inr s"
  by (simp add: the_text_def)

lemma the_digest_PStr [simp]: "s \<noteq> [] \<Longrightarrow> is_content_digest s \<Longrightarrow> the_digest (PStr s) label = Inr s"
  by (simp add: the_digest_def)

lemma positive_one [simp]: "positive_int (PInt 1) label = Inr 1"
  by (simp add: positive_int_def)

lemma the_object_PDict [simp]: "the_object (PDict kvs) label = Inr kvs"
  by (simp add: the_object_def)

lemma refuse_False [simp]: "refuse False e m = m"
  by (simp add: refuse_def)

lemma owner_nonempty [simp]: "dspx_owner \<noteq> []"
  by (simp add: dspx_owner_def)

lemma canonical_item [simp]:
  assumes t: "t \<in> set fixed_import_order"
  shows "canonical_import (import_value (item_of t)) label = Inr (item_of t)"
proof -
  have "fixed_import_fact dspx_owner (im_family (item_of t)) t label =
      Inr (im_digest (item_of t), im_publication (item_of t), 1)"
    using family_facts [OF t] by (simp add: fixed_import_fact_def)
  then show ?thesis
    using family_facts [OF t] t
    by (simp add: canonical_import_def import_value_def closed_item_ok import_fields_def)
qed

lemma canonical_mark_value [simp]:
  assumes t: "t \<in> set fixed_import_order"
  shows "canonical_mark (mark_value (mark_of (t, w))) label = Inr (mark_of (t, w))"
proof -
  have "fixed_import_fact dspx_owner (im_family (item_of t)) t label =
      Inr (im_digest (item_of t), im_publication (item_of t), 1)"
    using family_facts [OF t] by (simp add: fixed_import_fact_def)
  moreover have "texts (PList [PStr (im_publication (item_of t))]) l = Inr [im_publication (item_of t)]"
    "texts (PList []) l = Inr []" for l
    using family_facts [OF t] by (simp_all add: texts_def)
  ultimately show ?thesis
    using family_facts [OF t] t
    by (cases w; simp add: canonical_mark_def mark_value_def mark_of_def Let_def closed_item_def mark_fields_def names_value_def)
qed

section \<open>States of a reconstruction\<close>

text \<open>
  The state in which \<open>ts\<close> are imported, \<open>cs\<close> have a contract and \<open>ds\<close> have a mark; a family with a mark
  but no import has been withdrawn.
\<close>

definition key_of :: "string \<Rightarrow> family" where "key_of t = family_key (item_of t)"
definition publication_of :: "string \<Rightarrow> string" where "publication_of t = im_publication (item_of t)"

definition by_family :: "(string \<Rightarrow> 'a) \<Rightarrow> string list \<Rightarrow> (family \<times> 'a) list" where
  "by_family f ts = map (\<lambda>t. (key_of t, f t)) ts"

definition state_of :: "string list \<Rightarrow> string list \<Rightarrow> string list \<Rightarrow> rebuild" where
  "state_of ts cs ds =
     \<lparr>rb_imports = map item_of ts,
      rb_coordinates = map (\<lambda>t. (dspx_owner, im_family (item_of t), 1)) ts,
      rb_publications = map publication_of ts, rb_last = by_family (\<lambda>_. 1) ts,
      rb_contracts = by_family (contract_of \<circ> item_of) cs, rb_order = map key_of cs,
      rb_high = by_family (\<lambda>_. 1) ds, rb_used = by_family (\<lambda>t. [publication_of t]) ds,
      rb_withdrawn = by_family (\<lambda>t. if t \<in> set ts then [] else [publication_of t]) ds,
      rb_durable = map publication_of ds, rb_tokens = ds\<rparr>"

lemma key_of_eq [simp]:
  "t \<in> set fixed_import_order \<Longrightarrow> u \<in> set fixed_import_order \<Longrightarrow> key_of t = key_of u \<longleftrightarrow> t = u"
  by (simp add: key_of_def item_inj)

lemma publication_of_eq [simp]:
  "t \<in> set fixed_import_order \<Longrightarrow> u \<in> set fixed_import_order \<Longrightarrow> publication_of t = publication_of u \<longleftrightarrow> t = u"
  by (simp add: publication_of_def item_inj)

lemma image_family_eq:
  assumes "u \<in> set fixed_import_order" "set ts \<subseteq> set fixed_import_order"
  shows "key_of u \<in> key_of ` set ts \<longleftrightarrow> u \<in> set ts"
    "publication_of u \<in> publication_of ` set ts \<longleftrightarrow> u \<in> set ts"
    "(dspx_owner, im_family (item_of u), 1 :: int) \<in> (\<lambda>t. (dspx_owner, im_family (item_of t), 1)) ` set ts
       \<longleftrightarrow> u \<in> set ts"
  using assms item_inj by (auto simp: subset_iff)

lemma keys_by_family [simp]: "dict_keys (by_family f ts) = map key_of ts"
  by (simp add: by_family_def)

lemma map_of_by_family:
  assumes "u \<in> set fixed_import_order" "set ts \<subseteq> set fixed_import_order"
  shows "map_of (by_family f ts) (key_of u) = (if u \<in> set ts then Some (f u) else None)"
  using assms by (induction ts) (auto simp: by_family_def)

lemma dict_set_by_family:
  assumes "u \<in> set fixed_import_order" "set ts \<subseteq> set fixed_import_order"
  shows "dict_set (key_of u) (f u) (by_family f ts) = by_family f (remember u ts)"
  using assms by (induction ts) (auto simp: by_family_def remember_def)

lemma dict_set_new_family:
  assumes "u \<in> set fixed_import_order" "set ts \<subseteq> set fixed_import_order" "u \<notin> set ts"
  shows "dict_set (key_of u) x (by_family f ts) = by_family f ts @ [(key_of u, x)]"
  using assms by (induction ts) (auto simp: by_family_def)

lemma remember_keys:
  assumes "u \<in> set fixed_import_order" "set ts \<subseteq> set fixed_import_order"
  shows "remember (key_of u) (map key_of ts) = map key_of (remember u ts)"
  using assms by (simp add: remember_def image_family_eq)

lemma remember_new [simp]: "u \<notin> set ts \<Longrightarrow> remember u ts = ts @ [u]"
  by (simp add: remember_def)

lemma set_remember [simp]: "set (remember u ts) = insert u (set ts)"
  by (auto simp: remember_def)

lemma known_simps [simp]: "known None P \<longleftrightarrow> False" "known (Some x) P \<longleftrightarrow> P x"
  by (simp_all add: known_def)

text \<open>One import, without and with the checks of the current one.\<close>

lemma append_item:
  assumes u: "u \<in> set fixed_import_order" and sub: "set ts \<subseteq> set fixed_import_order"
      "set cs \<subseteq> set fixed_import_order" "set ds \<subseteq> set fixed_import_order"
      "set os \<subseteq> set fixed_import_order"
    and v: "canonical_import v label = Inr (item_of u)"
  shows "append_import current v label ((state_of ts cs ds)\<lparr>rb_order := map key_of os\<rparr>) = Inr st \<longleftrightarrow>
    u \<notin> set ts \<and> \<not> (current \<and> u \<in> set ds) \<and>
    st = (state_of ts cs ds)\<lparr>rb_imports := map item_of (ts @ [u]),
      rb_coordinates := map (\<lambda>t. (dspx_owner, im_family (item_of t), 1)) (ts @ [u]),
      rb_publications := map publication_of (ts @ [u]), rb_last := by_family (\<lambda>_. 1) (ts @ [u]),
      rb_contracts := by_family (contract_of \<circ> item_of) (remember u cs), rb_order := map key_of (remember u os)\<rparr>"
proof -
  have u1: "im_epoch (item_of u) = 1" using u by simp
  have c: "dict_set (key_of u) (contract_of (item_of u)) (by_family (contract_of \<circ> item_of) cs) =
      by_family (contract_of \<circ> item_of) (remember u cs)"
    using dict_set_by_family [OF u sub(2), of "contract_of \<circ> item_of"] by simp
  have l: "u \<notin> set ts \<Longrightarrow> dict_set (key_of u) 1 (by_family (\<lambda>_. 1) ts) = by_family (\<lambda>_. 1 :: int) (ts @ [u])"
    using dict_set_by_family [OF u sub(1), of "\<lambda>_. 1 :: int"] by simp
  show ?thesis
    unfolding append_import_def v bindE_simps Let_def refuse_Inr key_of_def [symmetric]
      publication_of_def [symmetric] im_owner_item u1
    using u sub l
    by (auto simp: state_of_def map_of_by_family image_family_eq remember_keys c split: if_splits)
qed

lemma import_step:
  assumes sub: "set ts \<subseteq> set fixed_import_order"
  shows "append_import False v label (state_of ts ts []) = Inr st \<longleftrightarrow>
    (\<exists>u \<in> set fixed_import_order. canonical_import v label = Inr (item_of u) \<and> u \<notin> set ts \<and>
      st = state_of (ts @ [u]) (ts @ [u]) [])" (is "?l \<longleftrightarrow> ?r")
proof -
  have "\<exists>u \<in> set fixed_import_order. canonical_import v label = Inr (item_of u)" if ?l
    using that canonical_import_item by (fastforce simp: append_import_def bindE_Inr_iff)
  moreover have "?l \<longleftrightarrow> u \<notin> set ts \<and> st = state_of (ts @ [u]) (ts @ [u]) []"
    if "u \<in> set fixed_import_order" "canonical_import v label = Inr (item_of u)" for u
    using append_item [OF that(1) sub sub _ sub that(2), of "[]" False st]
    by (auto simp: state_of_def by_family_def)
  ultimately show ?thesis by blast
qed

lemma mark_step:
  assumes sub: "set ts \<subseteq> set fixed_import_order" "set cs \<subseteq> set fixed_import_order"
    "set ds \<subseteq> set fixed_import_order" and ts: "set ts \<subseteq> set cs"
  shows "record_mark v label (state_of ts cs ds) = Inr st \<longleftrightarrow>
    (\<exists>u \<in> set fixed_import_order. canonical_mark v label = Inr (mark_of (u, u \<notin> set ts)) \<and> u \<notin> set ds \<and>
      st = state_of ts (remember u cs) (ds @ [u]))" (is "?l \<longleftrightarrow> ?r")
proof -
  have ex: "\<exists>u \<in> set fixed_import_order. \<exists>w. canonical_mark v label = Inr (mark_of (u, w))" if ?l
    using that canonical_mark_of by (fastforce simp: record_mark_def bindE_Inr_iff)
  have eq: "?l \<longleftrightarrow> (w \<longleftrightarrow> u \<notin> set ts) \<and> u \<notin> set ds \<and> st = state_of ts (remember u cs) (ds @ [u])"
    if u: "u \<in> set fixed_import_order" and m: "canonical_mark v label = Inr (mark_of (u, w))" for u w
  proof -
    let ?imported = "map im_publication (filter (\<lambda>i. family_key i = key_of u) (map item_of ts))"
    have "filter (\<lambda>t. key_of t = key_of u) ts = filter (\<lambda>t. t = u) ts"
      using u sub(1) by (intro filter_cong) auto
    then have imported: "?imported = map publication_of (filter (\<lambda>t. t = u) ts)"
      by (simp add: filter_map comp_def key_of_def publication_of_def)
    have none: "filter (\<lambda>t. t = u) ts = [] \<longleftrightarrow> u \<notin> set ts" by (auto simp: filter_empty_conv)
    have c: "dict_set (key_of u) (contract_of (item_of u)) (by_family (contract_of \<circ> item_of) cs) =
        by_family (contract_of \<circ> item_of) (remember u cs)"
      using dict_set_by_family [OF u sub(2), of "contract_of \<circ> item_of"] by simp
    have key: "(em_owner (mark_of (u, w)), em_family (mark_of (u, w))) = key_of u"
      and mark: "(u, im_digest (item_of u)) = contract_of (item_of u)" "em_digest (mark_of (u, w)) = im_digest (item_of u)"
        "em_epoch (mark_of (u, w)) = 1" "em_used (mark_of (u, w)) = [publication_of u]" "em_token (mark_of (u, w)) = u"
        "em_withdrawn (mark_of (u, w)) = (if w then [publication_of u] else [])"
      using u by (simp_all add: mark_of_def Let_def key_of_def family_key_def contract_of_def publication_of_def)
    let ?S = "state_of ts cs ds"
    have high: "key_of u \<in> set (dict_keys (rb_high ?S)) \<longleftrightarrow> u \<in> set ds"
      using u sub by (simp add: state_of_def image_family_eq)
    have contracts: "\<not> known (map_of (rb_contracts ?S) (key_of u)) (\<lambda>c. c \<noteq> contract_of (item_of u))"
      and last: "\<not> known (map_of (rb_last ?S) (key_of u)) (\<lambda>e. 1 < e)"
      using u sub by (simp_all add: state_of_def map_of_by_family)
    have imported': "map im_publication (filter (\<lambda>i. family_key i = key_of u) (rb_imports ?S)) =
        map publication_of (filter (\<lambda>t. t = u) ts)"
      using imported by (simp add: state_of_def)
    have durable: "filter (\<lambda>p. p \<in> set (rb_durable ?S)) [publication_of u] \<noteq> [] \<longleftrightarrow> u \<in> set ds"
      using u sub by (simp add: state_of_def image_family_eq)
    have empty: "map publication_of (filter (\<lambda>t. t = u) ts) = [] \<longleftrightarrow> u \<notin> set ts"
      "set (map publication_of (filter (\<lambda>t. t = u) ts)) \<subseteq> set [publication_of u]"
      using none by auto
    have new: "?S\<lparr>rb_order := remember (key_of u) (rb_order ?S), rb_high := dict_set (key_of u) 1 (rb_high ?S),
        rb_contracts := dict_set (key_of u) (contract_of (item_of u)) (rb_contracts ?S),
        rb_used := dict_set (key_of u) [publication_of u] (rb_used ?S),
        rb_withdrawn := dict_set (key_of u) (if w then [publication_of u] else []) (rb_withdrawn ?S),
        rb_durable := rb_durable ?S @ [publication_of u], rb_tokens := rb_tokens ?S @ [u]\<rparr> =
      state_of ts (remember u cs) (ds @ [u])" if "u \<notin> set ds" "w \<longleftrightarrow> u \<notin> set ts"
      using that u sub c by (simp add: state_of_def remember_keys dict_set_new_family) (simp add: by_family_def)
    show ?thesis
      unfolding record_mark_def m bindE_simps Let_def refuse_Inr key mark high imported' durable empty(1)
      using contracts last empty(2) new by (auto split: if_splits)
  qed
  show ?thesis
  proof
    assume l: ?l
    with ex obtain u w where u: "u \<in> set fixed_import_order" "canonical_mark v label = Inr (mark_of (u, w))" by blast
    from eq [OF this] l have "w \<longleftrightarrow> u \<notin> set ts" "u \<notin> set ds" "st = state_of ts (remember u cs) (ds @ [u])"
      by simp_all
    with u show ?r by (intro bexI [of _ u]) auto
  next
    assume ?r
    then show ?l using eq by blast
  qed
qed

text \<open>The two loops: a loop whose steps append what they read to the state it stands for.\<close>

lemma foldE_exact:
  assumes step: "\<And>x us st. I us \<Longrightarrow> f x (S us) = Inr st \<longleftrightarrow> (\<exists>u. P x u \<and> I (us @ [u]) \<and> st = S (us @ [u]))"
    and prefix: "\<And>us vs. I (us @ vs) \<Longrightarrow> I us"
  shows "I us \<Longrightarrow> foldE f xs (S us) = Inr st \<longleftrightarrow> (\<exists>vs. list_all2 P xs vs \<and> I (us @ vs) \<and> st = S (us @ vs))"
proof (induction xs arbitrary: us)
  case (Cons x xs)
  have "foldE f (x # xs) (S us) = Inr st \<longleftrightarrow> (\<exists>u. P x u \<and> I (us @ [u]) \<and> foldE f xs (S (us @ [u])) = Inr st)"
    using step [OF Cons.prems] by (auto simp: bindE_Inr_iff)
  also have "\<dots> \<longleftrightarrow> (\<exists>u. P x u \<and> I (us @ [u]) \<and>
      (\<exists>vs. list_all2 P xs vs \<and> I (us @ u # vs) \<and> st = S (us @ u # vs)))"
    using Cons.IH [of "us @ [u]" for u] by auto
  also have "\<dots> \<longleftrightarrow> (\<exists>vs. list_all2 P (x # xs) vs \<and> I (us @ vs) \<and> st = S (us @ vs))"
    using prefix [of "us @ [u]" vs for u vs] by (auto simp: list_all2_Cons1)
  finally show ?case .
qed auto

definition families :: "string list \<Rightarrow> bool" where
  "families us = (distinct us \<and> set us \<subseteq> set fixed_import_order)"

lemma families_prefix: "families (us @ vs) \<Longrightarrow> families us"
  by (simp add: families_def)

lemma import_loop:
  "foldE (\<lambda>(label, v). append_import False v label) xs rebuild_start = Inr st \<longleftrightarrow>
    (\<exists>ts. list_all2 (\<lambda>(label, v) u. canonical_import v label = Inr (item_of u)) xs ts \<and> families ts \<and>
      st = state_of ts ts [])"
proof -
  have start: "rebuild_start = state_of [] [] []"
    by (simp add: rebuild_start_def state_of_def by_family_def)
  have step: "(\<lambda>(label, v). append_import False v label) x (state_of us us []) = Inr st \<longleftrightarrow>
      (\<exists>u. (\<lambda>(label, v) u. canonical_import v label = Inr (item_of u)) x u \<and> families (us @ [u]) \<and>
        st = state_of (us @ [u]) (us @ [u]) [])" if "families us" for x us st
    using that by (cases x) (auto simp: families_def import_step)
  have "families us \<Longrightarrow> foldE (\<lambda>(label, v). append_import False v label) xs (state_of us us []) = Inr st \<longleftrightarrow>
      (\<exists>vs. list_all2 (\<lambda>(label, v) u. canonical_import v label = Inr (item_of u)) xs vs \<and> families (us @ vs) \<and>
        st = state_of (us @ vs) (us @ vs) [])" for us
    by (rule foldE_exact [where S = "\<lambda>us. state_of us us []" and I = families]) (erule step families_prefix | assumption)+
  from this [of "[]"] show ?thesis by (simp add: start families_def)
qed

lemma set_fold_remember [simp]: "set (fold remember us cs) = set cs \<union> set us"
  by (induction us arbitrary: cs) auto

lemma mark_loop:
  assumes ts: "set ts \<subseteq> set fixed_import_order"
  shows "foldE (\<lambda>(label, v). record_mark v label) xs (state_of ts ts []) = Inr st \<longleftrightarrow>
    (\<exists>us. list_all2 (\<lambda>(label, v) u. canonical_mark v label = Inr (mark_of (u, u \<notin> set ts))) xs us \<and>
      families us \<and> st = state_of ts (fold remember us ts) us)"
proof -
  have step: "(\<lambda>(label, v). record_mark v label) x (state_of ts (fold remember us ts) us) = Inr st \<longleftrightarrow>
      (\<exists>u. (\<lambda>(label, v) u. canonical_mark v label = Inr (mark_of (u, u \<notin> set ts))) x u \<and> families (us @ [u]) \<and>
        st = state_of ts (fold remember (us @ [u]) ts) (us @ [u]))" if "families us" for x us st
    using that ts by (cases x) (auto simp: families_def mark_step)
  have "families us \<Longrightarrow> foldE (\<lambda>(label, v). record_mark v label) xs (state_of ts (fold remember us ts) us) = Inr st \<longleftrightarrow>
      (\<exists>vs. list_all2 (\<lambda>(label, v) u. canonical_mark v label = Inr (mark_of (u, u \<notin> set ts))) xs vs \<and>
        families (us @ vs) \<and> st = state_of ts (fold remember (us @ vs) ts) (us @ vs))" for us
    by (rule foldE_exact [where S = "\<lambda>us. state_of ts (fold remember us ts) us" and I = families])
      (erule step families_prefix | assumption)+
  from this [of "[]"] show ?thesis by (simp add: families_def)
qed

section \<open>Histories\<close>

text \<open>
  What a reconstruction keeps, abstractly: for each family imported so far, in the sealed order, whether it
  was withdrawn.
\<close>

definition marked :: "bool list \<Rightarrow> string list" where
  "marked h = take (length h) fixed_import_order"

definition retained :: "bool list \<Rightarrow> string list" where
  "retained h = map fst (filter (\<lambda>tw. \<not> snd tw) (zip fixed_import_order h))"

definition history_state :: "bool list \<Rightarrow> string list \<Rightarrow> rebuild" where
  "history_state h cs = (state_of (retained h) cs (marked h))\<lparr>rb_order := map key_of (marked h)\<rparr>"

lemma zip_marked: "zip fixed_import_order h = zip (marked h) h"
  using take_zip [of "length h" fixed_import_order h] by (simp add: marked_def)

lemma length_marked [simp]: "length h \<le> 9 \<Longrightarrow> length (marked h) = length h"
  by (simp add: marked_def)

lemma marked_sub [simp]: "set (marked h) \<subseteq> set fixed_import_order" "distinct (marked h)" "families (marked h)"
  using families_distinct(1) set_take_subset by (auto simp: marked_def families_def intro: distinct_take dest: in_set_takeD)

lemma in_retained: "length h \<le> 9 \<Longrightarrow> t \<in> set (retained h) \<longleftrightarrow> (\<exists>k < length h. t = fixed_import_order ! k \<and> \<not> h ! k)"
proof -
  assume "length h \<le> 9"
  moreover have "t \<in> set (retained h) \<longleftrightarrow> (t, False) \<in> set (zip fixed_import_order h)"
    by (force simp: retained_def)
  ultimately show ?thesis by (auto simp: in_set_zip)
qed

lemma in_marked: "length h \<le> 9 \<Longrightarrow> t \<in> set (marked h) \<longleftrightarrow> (\<exists>k < length h. t = fixed_import_order ! k)"
  by (auto simp: marked_def in_set_conv_nth)

lemma order_inj: "i < 9 \<Longrightarrow> j < 9 \<Longrightarrow> fixed_import_order ! i = fixed_import_order ! j \<longleftrightarrow> i = j"
  using families_distinct(1) by (simp add: nth_eq_iff_index_eq)

lemma order_nth [simp]: "k < 9 \<Longrightarrow> fixed_import_order ! k \<in> set fixed_import_order"
  by simp

lemma nth_retained:
  "length h \<le> 9 \<Longrightarrow> k < length h \<Longrightarrow> fixed_import_order ! k \<in> set (retained h) \<longleftrightarrow> \<not> h ! k"
  by (auto simp: in_retained order_inj)

lemma retained_sub: "length h \<le> 9 \<Longrightarrow> set (retained h) \<subseteq> set (marked h)"
  by (auto simp: in_retained in_marked)

lemma retained_filter: "length h \<le> 9 \<Longrightarrow> retained h = filter (\<lambda>t. t \<in> set (retained h)) (marked h)"
proof -
  assume h: "length h \<le> 9"
  have "retained h = map fst (filter (\<lambda>tw. \<not> snd tw) (zip (marked h) h))"
    by (simp add: retained_def zip_marked)
  also have "\<dots> = map fst (filter (\<lambda>tw. fst tw \<in> set (retained h)) (zip (marked h) h))"
    using h by (intro arg_cong [where f = "map fst"] filter_cong) (auto simp: in_set_zip marked_def nth_retained)
  also have "\<dots> = filter (\<lambda>t. t \<in> set (retained h)) (map fst (zip (marked h) h))"
    by (simp add: filter_map comp_def)
  finally show ?thesis using h by simp
qed

lemma families_retained: "length h \<le> 9 \<Longrightarrow> families (retained h)"
  using retained_filter marked_sub(2) retained_sub marked_sub(1) unfolding families_def
  by (metis distinct_filter subset_trans)

lemma retained_of: "ds = take (length ds) fixed_import_order \<Longrightarrow>
  retained (map (\<lambda>d. d \<notin> set ts) ds) = filter (\<lambda>d. d \<in> set ts) ds"
proof -
  assume ds: "ds = take (length ds) fixed_import_order"
  have "zip xs (map f xs) = map (\<lambda>x. (x, f x)) xs" for f :: "string \<Rightarrow> bool" and xs by (induction xs) auto
  moreover have "marked (map (\<lambda>d. d \<notin> set ts) ds) = ds" using ds by (simp add: marked_def)
  ultimately show ?thesis by (simp add: retained_def zip_marked filter_map comp_def)
qed

lemma check_history_exact:
  assumes "families ts" "families ds" "cs = fold remember ds ts"
  shows "check_history (state_of ts cs ds) = Inr st \<longleftrightarrow>
    (\<exists>h. length h \<le> 9 \<and> ts = retained h \<and> ds = marked h \<and> st = history_state h cs)" (is "?l \<longleftrightarrow> ?r")
proof -
  have imported: "map im_token (rb_imports (state_of ts cs ds)) = ts" by (simp add: state_of_def comp_def)
  have keys: "set (map key_of ts) \<subseteq> set (map key_of ds) \<longleftrightarrow> set ts \<subseteq> set ds"
  proof -
    have "key_of t \<in> key_of ` set ds \<longleftrightarrow> t \<in> set ds" if "t \<in> set ts" for t
      using image_family_eq(1) [of t ds] assms(1,2) that by (simp add: families_def subset_iff)
    then show ?thesis by (simp add: image_subset_iff) blast
  qed
  have fields: "rb_tokens (state_of ts cs ds) = ds" "dict_keys (rb_last (state_of ts cs ds)) = map key_of ts"
    "dict_keys (rb_high (state_of ts cs ds)) = map key_of ds"
    by (simp_all add: state_of_def)
  have "?l \<longleftrightarrow> ds = take (length ds) fixed_import_order \<and> set ts \<subseteq> set ds \<and>
      ts = filter (\<lambda>t. t \<in> set ts) ds \<and> st = (state_of ts cs ds)\<lparr>rb_order := map key_of ds\<rparr>"
    unfolding check_history_def Let_def refuse_Inr imported fields keys sum.inject by blast
  also have "\<dots> \<longleftrightarrow> ?r"
  proof
    assume l: "ds = take (length ds) fixed_import_order \<and> set ts \<subseteq> set ds \<and>
      ts = filter (\<lambda>t. t \<in> set ts) ds \<and> st = (state_of ts cs ds)\<lparr>rb_order := map key_of ds\<rparr>"
    let ?h = "map (\<lambda>d. d \<notin> set ts) ds"
    have "length ds \<le> 9" using l by (metis length_order length_take min.cobounded1)
    moreover have "retained ?h = ts" using retained_of [of ds ts] l by argo
    ultimately show ?r using l by (intro exI [of _ ?h]) (simp add: history_state_def marked_def)
  next
    assume ?r
    then show "ds = take (length ds) fixed_import_order \<and> set ts \<subseteq> set ds \<and>
      ts = filter (\<lambda>t. t \<in> set ts) ds \<and> st = (state_of ts cs ds)\<lparr>rb_order := map key_of ds\<rparr>"
      using retained_sub retained_filter by (auto simp: history_state_def marked_def)
  qed
  finally show ?thesis .
qed

section \<open>Steps on histories\<close>

text \<open>The next family in the sealed order is imported while none is withdrawn; an imported family is
  withdrawn, of a complete history only the last.\<close>

definition extend :: "import_item option \<Rightarrow> bool list \<Rightarrow> bool list option" where
  "extend c h = (case c of None \<Rightarrow> Some h
    | Some i \<Rightarrow> (if length h < 9 \<and> list_all Not h \<and> i = item_of (fixed_import_order ! length h)
        then Some (h @ [False]) else None))"

definition withdrawal_of :: "string \<Rightarrow> withdrawal" where
  "withdrawal_of t = \<lparr>wi_owner = dspx_owner, wi_family = im_family (item_of t), wi_epoch = 1,
     wi_publication = publication_of t, wi_ref = withdrawal_ref_of (im_family (item_of t)) 1\<rparr>"

definition retire :: "withdrawal option \<Rightarrow> bool list \<Rightarrow> bool list option" where
  "retire x h = (case x of None \<Rightarrow> Some h
    | Some w \<Rightarrow> (case filter (\<lambda>k. \<not> h ! k \<and> w = withdrawal_of (fixed_import_order ! k)) [0..<length h] of
        [] \<Rightarrow> None | k # _ \<Rightarrow> (if length h = 9 \<and> k \<noteq> 8 then None else Some (h[k := True]))))"

lemma predecessors_nth: "k < 9 \<Longrightarrow> predecessors (fixed_import_order ! k) = take k fixed_import_order"
proof -
  have "list_all (\<lambda>k. predecessors (fixed_import_order ! k) = take k fixed_import_order) [0..<9]" by code_simp
  then show "k < 9 \<Longrightarrow> ?thesis" by (simp add: list_all_iff)
qed

lemma retained_all:
  assumes "length h \<le> 9"
  shows "retained h = marked h \<longleftrightarrow> list_all Not h"
proof
  assume "retained h = marked h"
  then have "\<forall>k < length h. \<not> h ! k" using assms nth_retained in_marked by metis
  then show "list_all Not h" by (simp add: list_all_length)
next
  assume "list_all Not h"
  then have "set (marked h) \<subseteq> set (retained h)"
    using assms nth_retained by (auto simp: in_marked list_all_length)
  then show "retained h = marked h"
    using retained_filter [OF assms] by (auto simp: filter_id_conv subset_iff)
qed

lemma retained_snoc: "length h < 9 \<Longrightarrow> retained (h @ [False]) = retained h @ [fixed_import_order ! length h]"
  and marked_snoc: "length h < 9 \<Longrightarrow> marked (h @ [w]) = marked h @ [fixed_import_order ! length h]"
proof -
  assume h: "length h < 9"
  then show m: "marked (h @ [w]) = marked h @ [fixed_import_order ! length h]" for w
    by (simp add: marked_def take_Suc_conv_app_nth)
  then show "retained (h @ [False]) = retained h @ [fixed_import_order ! length h]"
    using h by (simp add: retained_def zip_marked)
qed

definition same_families :: "bool list \<Rightarrow> string list \<Rightarrow> bool" where
  "same_families h cs = (set cs = set (marked h))"

lemma add_current_exact:
  assumes h: "length h \<le> 9" and cs: "same_families h cs" and u: "u \<in> set fixed_import_order"
  shows "add_current (item_of u) (history_state h cs) = Inr st \<longleftrightarrow>
    extend (Some (item_of u)) h = Some (h @ [False]) \<and>
    st = (history_state (h @ [False]) (cs @ [u]))\<lparr>rb_tokens := marked h\<rparr>"
proof -
  obtain k where k: "k < 9" "u = fixed_import_order ! k" using u by (metis in_set_conv_nth length_order)
  have "take (length h) fixed_import_order = take k fixed_import_order \<longleftrightarrow> k = length h"
    using k(1) h by (auto dest: arg_cong [where f = length])
  then have fits: "marked h = predecessors u \<and> retained h = predecessors u \<longleftrightarrow> k = length h \<and> list_all Not h"
    using k retained_all [OF h] by (auto simp: predecessors_nth marked_def)
  have imported: "map im_token (rb_imports (history_state h cs)) = retained h" "rb_tokens (history_state h cs) = marked h"
    by (simp_all add: history_state_def state_of_def comp_def)
  have same: "item_of u = item_of (fixed_import_order ! length h) \<longleftrightarrow> k = length h" if "length h < 9"
    using that k(1) u order_inj [of k "length h"] unfolding k(2) by (metis im_token_item)
  show ?thesis
  proof (cases "k = length h \<and> list_all Not h")
    case True
    have rm: "retained h = marked h" using True retained_all [OF h] by blast
    have new: "u \<notin> set (marked h)" using k True h by (auto simp: in_marked order_inj)
    then have "u \<notin> set cs" using cs by (simp add: same_families_def)
    have cs': "set cs \<subseteq> set fixed_import_order" using cs by (simp add: same_families_def)
    have snoc: "retained (h @ [False]) = marked h @ [u]" "marked (h @ [False]) = marked h @ [u]"
      using True k rm by (simp_all add: retained_snoc marked_snoc)
    let ?S = "(state_of (marked h) cs (marked h))\<lparr>rb_order := map key_of (marked h)\<rparr>"
    let ?T = "(state_of (marked h) cs (marked h))\<lparr>rb_imports := map item_of (marked h @ [u]),
      rb_coordinates := map (\<lambda>t. (dspx_owner, im_family (item_of t), 1)) (marked h @ [u]),
      rb_publications := map publication_of (marked h @ [u]), rb_last := by_family (\<lambda>_. 1) (marked h @ [u]),
      rb_contracts := by_family (contract_of \<circ> item_of) (cs @ [u]), rb_order := map key_of (marked h @ [u])\<rparr>"
    have "append_import True (import_value (item_of u)) ''current_import'' ?S = Inr ?T"
      using append_item [where ts = "marked h" and ds = "marked h" and os = "marked h" and current = True and st = ?T,
          OF u _ cs' _ _ canonical_item [OF u]]
        new \<open>u \<notin> set cs\<close> by simp
    moreover have "map_of (rb_used ?T) (key_of u) = None"
      using new by (simp add: state_of_def map_of_by_family [OF u marked_sub(1)])
    moreover have "map im_token (rb_imports ?S) = predecessors u" "rb_tokens ?S = predecessors u"
      using fits True imported by (simp_all add: history_state_def rm)
    ultimately have "add_current (item_of u) ?S = Inr (?T\<lparr>rb_high := dict_set (key_of u) 1 (rb_high ?T),
        rb_used := dict_set (key_of u) [publication_of u] (rb_used ?T),
        rb_withdrawn := dict_set (key_of u) [] (rb_withdrawn ?T), rb_durable := rb_durable ?T @ [publication_of u]\<rparr>)"
      using u by (simp add: add_current_def key_of_def [symmetric] publication_of_def [symmetric])
    moreover have "?T\<lparr>rb_high := dict_set (key_of u) 1 (rb_high ?T),
        rb_used := dict_set (key_of u) [publication_of u] (rb_used ?T),
        rb_withdrawn := dict_set (key_of u) [] (rb_withdrawn ?T), rb_durable := rb_durable ?T @ [publication_of u]\<rparr> =
      (history_state (h @ [False]) (cs @ [u]))\<lparr>rb_tokens := marked h\<rparr>"
      unfolding history_state_def snoc
      by (simp add: state_of_def dict_set_new_family [OF u marked_sub(1) new]) (simp add: by_family_def)
    ultimately have "add_current (item_of u) ?S =
        Inr ((history_state (h @ [False]) (cs @ [u]))\<lparr>rb_tokens := marked h\<rparr>)" by simp
    moreover have "extend (Some (item_of u)) h = Some (h @ [False])"
      using True same k by (simp add: extend_def)
    ultimately show ?thesis by (auto simp: history_state_def rm)
  next
    case False
    then show ?thesis using fits same by (auto simp: add_current_def imported extend_def split: if_splits)
  qed
qed

lemma canonical_withdrawal_b6:
  "canonical_withdrawal b v = Inr w \<longleftrightarrow> canonical_withdrawal False v = Inr w \<and> (b \<longrightarrow> wi_family w = b6_family)"
  by (auto simp: canonical_withdrawal_def bindE_Inr_iff)

lemma canonical_withdrawal_ref:
  "canonical_withdrawal b v = Inr w \<Longrightarrow> wi_ref w = withdrawal_ref_of (wi_family w) (wi_epoch w)"
  by (auto simp: canonical_withdrawal_def bindE_Inr_iff)

lemma retained_update:
  assumes h: "length h \<le> 9" and k: "k < length h"
  shows "retained (h[k := True]) = filter (\<lambda>t. t \<noteq> fixed_import_order ! k) (retained h)"
proof -
  have "t \<in> set (retained (h[k := True])) \<longleftrightarrow> t \<in> set (retained h) \<and> t \<noteq> fixed_import_order ! k" for t
    using h k by (auto simp: in_retained nth_list_update order_inj)
  moreover have "marked (h[k := True]) = marked h" by (simp add: marked_def)
  ultimately have "retained (h[k := True]) =
      filter (\<lambda>t. t \<in> set (retained h) \<and> t \<noteq> fixed_import_order ! k) (marked h)"
    using retained_filter [of "h[k := True]"] h by simp
  also have "\<dots> = filter (\<lambda>t. t \<noteq> fixed_import_order ! k) (filter (\<lambda>t. t \<in> set (retained h)) (marked h))"
    by (simp add: conj_commute)
  also have "\<dots> = filter (\<lambda>t. t \<noteq> fixed_import_order ! k) (retained h)"
    using retained_filter [OF h] by simp
  finally show ?thesis .
qed

lemma marks_of_history:
  assumes h: "length h \<le> 9" and cs: "same_families h cs"
    and st: "rb_high st = by_family (\<lambda>_. 1) (marked h)" "rb_order st = map key_of (marked h)"
      "rb_contracts st = by_family (contract_of \<circ> item_of) cs" "rb_used st = by_family (\<lambda>t. [publication_of t]) (marked h)"
      "rb_withdrawn st = by_family (\<lambda>t. if t \<in> set (retained h) then [] else [publication_of t]) (marked h)"
  shows "marks_of st = map mark_of (zip fixed_import_order h)"
proof -
  have sub: "set cs \<subseteq> set fixed_import_order" using cs by (simp add: same_families_def)
  have mark: "\<lparr>em_owner = fst (key_of t), em_family = snd (key_of t), em_epoch = the (map_of (rb_high st) (key_of t)),
      em_digest = snd (the (map_of (rb_contracts st) (key_of t))), em_token = fst (the (map_of (rb_contracts st) (key_of t))),
      em_used = the (map_of (rb_used st) (key_of t)), em_withdrawn = the (map_of (rb_withdrawn st) (key_of t))\<rparr> =
    mark_of (t, t \<notin> set (retained h))" if t: "t \<in> set (marked h)" for t
  proof -
    have o: "t \<in> set fixed_import_order" using t by (auto simp: marked_def dest: in_set_takeD)
    moreover have "t \<in> set cs" using t cs by (simp add: same_families_def)
    ultimately show ?thesis
      unfolding st map_of_by_family [OF o sub] map_of_by_family [OF o marked_sub(1)]
      using t by (simp add: mark_of_def Let_def key_of_def family_key_def contract_of_def publication_of_def)
  qed
  have "map mark_of (zip fixed_import_order h) = map (\<lambda>t. mark_of (t, t \<notin> set (retained h))) (map fst (zip (marked h) h))"
    unfolding zip_marked map_map comp_def
    by (rule map_cong) (use h in \<open>auto simp: in_set_zip marked_def nth_retained\<close>)
  also have "\<dots> = map (\<lambda>t. mark_of (t, t \<notin> set (retained h))) (marked h)" using h by simp
  also have "\<dots> = marks_of st"
    unfolding marks_of_def st(2) map_map comp_def by (rule map_cong) (simp_all add: mark)
  finally show ?thesis by simp
qed

text \<open>The state after the current import: that of a history, but for the tokens read.\<close>

definition after_current :: "bool list \<Rightarrow> rebuild \<Rightarrow> bool" where
  "after_current h st = (\<exists>cs ms. same_families h cs \<and> st = (history_state h cs)\<lparr>rb_tokens := ms\<rparr>)"

lemma filter_one: "distinct xs \<Longrightarrow> x \<in> set xs \<Longrightarrow> filter (\<lambda>y. y = x) xs = [x]"
  by (induction xs) (auto simp: filter_empty_conv)

lemma dict_set_replace:
  assumes "families ds" "u \<in> set ds" "\<And>t. t \<in> set ds \<Longrightarrow> t \<noteq> u \<Longrightarrow> f t = g t"
  shows "dict_set (key_of u) (g u) (by_family f ds) = by_family g ds"
  using assms by (induction ds) (auto simp: by_family_def families_def)

lemma withdraw_exact:
  assumes h: "length h \<le> 9" and st: "after_current h st" and ref: "wi_ref w = withdrawal_ref_of (wi_family w) (wi_epoch w)"
  shows "withdraw w st = Inr st' \<Longrightarrow> \<exists>k < length h. \<not> h ! k \<and> w = withdrawal_of (fixed_import_order ! k)"
    "k < length h \<Longrightarrow> \<not> h ! k \<Longrightarrow> w = withdrawal_of (fixed_import_order ! k) \<Longrightarrow>
      \<exists>st'. withdraw w st = Inr st' \<and> rb_imports st' = map item_of (retained (h[k := True])) \<and>
        marks_of st' = map mark_of (zip fixed_import_order (h[k := True]))"
proof -
  from st obtain cs ms where cs: "same_families h cs" and S: "st = (history_state h cs)\<lparr>rb_tokens := ms\<rparr>"
    by (auto simp: after_current_def)
  let ?hit = "\<lambda>i. im_owner i = wi_owner w \<and> im_family i = wi_family w \<and> im_epoch i = wi_epoch w"
  have kept_imports: "rb_imports st = map item_of (retained h)" by (simp add: S history_state_def state_of_def)
  have in_order: "t \<in> set fixed_import_order" if "t \<in> set (retained h)" for t
    using families_retained [OF h] that by (auto simp: families_def)
  show "\<exists>k < length h. \<not> h ! k \<and> w = withdrawal_of (fixed_import_order ! k)" if r: "withdraw w st = Inr st'"
  proof -
    let ?m = "filter ?hit (rb_imports st)"
    from r have "length ?m = 1" by (simp add: withdraw_def Let_def)
    then obtain i where m: "?m = [i]" by (auto simp: length_Suc_conv)
    with r have pub: "im_publication i = wi_publication w" by (simp add: withdraw_def Let_def)
    from m have "i \<in> set ?m" by simp
    then obtain t where t: "t \<in> set (retained h)" "i = item_of t" "?hit (item_of t)"
      unfolding kept_imports by auto
    then have "w = withdrawal_of t"
      using pub ref in_order [OF t(1)] by (simp add: withdrawal_of_def publication_of_def)
    with t(1) h show ?thesis by (auto simp: in_retained)
  qed
  assume k: "k < length h" "\<not> h ! k" and w: "w = withdrawal_of (fixed_import_order ! k)"
  let ?u = "fixed_import_order ! k"
  have u: "?u \<in> set fixed_import_order" using k h by simp
  have hit: "?hit (item_of t) \<longleftrightarrow> t = ?u" if "t \<in> set (retained h)" for t
    using in_order [OF that] u item_inj(1) [OF in_order [OF that] u] by (auto simp: w withdrawal_of_def)
  have kept: "filter (\<lambda>i. \<not> ?hit i) (rb_imports st) = map item_of (retained (h[k := True]))"
    unfolding kept_imports retained_update [OF h k(1)] filter_map
    by (intro arg_cong [where f = "map item_of"] filter_cong refl) (use hit in auto)
  have "filter ?hit (rb_imports st) = map item_of (filter (\<lambda>t. t = ?u) (retained h))"
    unfolding kept_imports filter_map
    by (intro arg_cong [where f = "map item_of"] filter_cong refl) (use hit in auto)
  moreover have "filter (\<lambda>t. t = ?u) (retained h) = [?u]"
    using families_retained [OF h] k nth_retained [OF h k(1)]
    by (intro filter_one) (simp_all add: families_def)
  ultimately have matches: "filter ?hit (rb_imports st) = [item_of ?u]" by simp
  let ?T = "st\<lparr>rb_imports := map item_of (retained (h[k := True])),
    rb_withdrawn := dict_set (key_of ?u) [publication_of ?u] (rb_withdrawn st)\<rparr>"
  have "(wi_owner w, wi_family w) = key_of ?u" "wi_publication w = publication_of ?u"
    by (simp_all add: w withdrawal_of_def key_of_def family_key_def)
  then have "withdraw w st = Inr ?T"
    using matches kept by (simp add: withdraw_def Let_def publication_of_def)
  moreover have "dict_set (key_of ?u) [publication_of ?u] (rb_withdrawn st) =
      by_family (\<lambda>t. if t \<in> set (retained (h[k := True])) then [] else [publication_of t]) (marked h)"
  proof -
    have "?u \<in> set (marked h)" using h k by (auto simp: in_marked)
    then show ?thesis
      using dict_set_replace [of "marked h" ?u "\<lambda>t. if t \<in> set (retained h) then [] else [publication_of t]"
          "\<lambda>t. if t \<in> set (retained (h[k := True])) then [] else [publication_of t]"]
      by (simp add: S history_state_def state_of_def retained_update [OF h k(1)])
  qed
  moreover have "marked (h[k := True]) = marked h" by (simp add: marked_def)
  ultimately have "marks_of ?T = map mark_of (zip fixed_import_order (h[k := True]))"
    using h cs by (intro marks_of_history [where cs = cs])
      (simp_all add: same_families_def S history_state_def state_of_def)
  with \<open>withdraw w st = Inr ?T\<close> show "\<exists>st'. withdraw w st = Inr st' \<and>
      rb_imports st' = map item_of (retained (h[k := True])) \<and>
      marks_of st' = map mark_of (zip fixed_import_order (h[k := True]))" by auto
qed

section \<open>Reconstruction as steps on histories\<close>

definition history_result :: "bool list \<Rightarrow> withdrawal option \<Rightarrow> (string \<times> pv) list" where
  "history_result h x =
     [(''schema_version'', PStr ''layer12-fixed-family-reconstruction-v1''),
      (''mode'', PStr ''cumulative_owner_local_family_epochs''),
      (''imports'', PList (map (import_value \<circ> item_of) (retained h))),
      (''family_epoch_high_watermarks'', PList (map (mark_value \<circ> mark_of) (zip fixed_import_order h))),
      (''withdrawal_applied'', PBool (x \<noteq> None)), (''withdrawn_identity'', withdrawal_value x),
      (''preserve_unrelated_imports'', PBool True), (''authority_granted'', PBool False)]"

text \<open>The given imports and marks are those of a history.\<close>

definition reads_history :: "pv list \<Rightarrow> pv list \<Rightarrow> bool list \<Rightarrow> bool" where
  "reads_history prior marks h =
     (length h \<le> 9 \<and>
      list_all2 (\<lambda>(label, v) t. canonical_import v label = Inr (item_of t)) (labelled ''prior_imports'' prior) (retained h) \<and>
      list_all2 (\<lambda>(label, v) m. canonical_mark v label = Inr (mark_of m))
        (labelled ''prior_epoch_high_watermarks'' marks) (zip fixed_import_order h))"

definition read_current :: "pv \<Rightarrow> import_item option published" where
  "read_current v = (if v = PNone then Inr None
     else bindE (canonical_import v ''current_import'') (\<lambda>i. Inr (Some i)))"

definition read_withdrawal :: "pv \<Rightarrow> withdrawal option published" where
  "read_withdrawal v = (if v = PNone then Inr None
     else bindE (canonical_withdrawal False v) (\<lambda>w. Inr (Some w)))"

lemma history_marks:
  assumes h: "length h \<le> 9"
  shows "list_all2 (\<lambda>(label, v) u. canonical_mark v label = Inr (mark_of (u, u \<notin> set (retained h)))) xs (marked h) \<longleftrightarrow>
    list_all2 (\<lambda>(label, v) m. canonical_mark v label = Inr (mark_of m)) xs (zip fixed_import_order h)"
proof -
  have "zip fixed_import_order h = map (\<lambda>u. (u, u \<notin> set (retained h))) (marked h)"
    unfolding zip_marked using h nth_retained [OF h]
    by (intro nth_equalityI) (auto simp: marked_def)
  then show ?thesis by (simp add: list_all2_map2 split_def)
qed

lemma read_history_exact:
  "(\<exists>st0. read_history prior marks = Inr st0 \<and> check_history st0 = Inr st) \<longleftrightarrow>
    (\<exists>h. reads_history prior marks h \<and> st = history_state h (fold remember (marked h) (retained h)))"
proof -
  have read: "read_history prior marks = Inr st0 \<longleftrightarrow> (\<exists>ts ds.
      list_all2 (\<lambda>(label, v) t. canonical_import v label = Inr (item_of t)) (labelled ''prior_imports'' prior) ts \<and>
      families ts \<and>
      list_all2 (\<lambda>(label, v) u. canonical_mark v label = Inr (mark_of (u, u \<notin> set ts)))
        (labelled ''prior_epoch_high_watermarks'' marks) ds \<and>
      families ds \<and> st0 = state_of ts (fold remember ds ts) ds)" for st0
  proof -
    have "families ts \<Longrightarrow> foldE (\<lambda>(label, v). record_mark v label) xs (state_of ts ts []) = Inr st0 \<longleftrightarrow>
        (\<exists>us. list_all2 (\<lambda>(label, v) u. canonical_mark v label = Inr (mark_of (u, u \<notin> set ts))) xs us \<and>
          families us \<and> st0 = state_of ts (fold remember us ts) us)" for ts xs
      using mark_loop [of ts xs st0] by (simp only: families_def)
    then show ?thesis unfolding read_history_def bindE_Inr_iff import_loop by blast
  qed
  show ?thesis
  proof
    assume "\<exists>st0. read_history prior marks = Inr st0 \<and> check_history st0 = Inr st"
    then obtain ts ds where
      l: "list_all2 (\<lambda>(label, v) t. canonical_import v label = Inr (item_of t)) (labelled ''prior_imports'' prior) ts"
        "families ts" "families ds"
        "list_all2 (\<lambda>(label, v) u. canonical_mark v label = Inr (mark_of (u, u \<notin> set ts)))
          (labelled ''prior_epoch_high_watermarks'' marks) ds"
      and c: "check_history (state_of ts (fold remember ds ts) ds) = Inr st" unfolding read by blast
    from c check_history_exact [OF l(2,3) refl] obtain h where
      h: "length h \<le> 9" "ts = retained h" "ds = marked h" "st = history_state h (fold remember ds ts)" by blast
    with l history_marks [OF h(1)] show "\<exists>h. reads_history prior marks h \<and>
        st = history_state h (fold remember (marked h) (retained h))"
      by (intro exI [of _ h]) (simp add: reads_history_def)
  next
    assume "\<exists>h. reads_history prior marks h \<and> st = history_state h (fold remember (marked h) (retained h))"
    then obtain h where h: "length h \<le> 9" and r: "reads_history prior marks h"
      and st: "st = history_state h (fold remember (marked h) (retained h))" by (auto simp: reads_history_def)
    let ?st0 = "state_of (retained h) (fold remember (marked h) (retained h)) (marked h)"
    have "read_history prior marks = Inr ?st0"
      unfolding read using r history_marks [OF h] families_retained [OF h] marked_sub(3)
      by (intro exI [of _ "retained h"] exI [of _ "marked h"]) (simp add: reads_history_def)
    moreover have "check_history ?st0 = Inr st"
      unfolding check_history_exact [OF families_retained [OF h] marked_sub(3) refl] using h st by blast
    ultimately show "\<exists>st0. read_history prior marks = Inr st0 \<and> check_history st0 = Inr st" by blast
  qed
qed

lemma same_families_fold: "length h \<le> 9 \<Longrightarrow> same_families h (fold remember (marked h) (retained h))"
  using retained_sub by (auto simp: same_families_def)

lemma b6_order: "fixed_import_order ! 8 = b6_token" "im_family (item_of b6_token) = b6_family"
  "b6_token \<in> set fixed_import_order"
  by code_simp+

lemma b6_marked: "length h \<le> 9 \<Longrightarrow> b6_token \<in> set (marked h) \<longleftrightarrow> length h = 9"
  unfolding b6_order(1) [symmetric] by (auto simp: in_marked order_inj intro: exI [of _ 8])

lemma read_current_item: "read_current v = Inr (Some i) \<Longrightarrow> \<exists>t \<in> set fixed_import_order. i = item_of t"
  by (auto simp: read_current_def bindE_Inr_iff dest: canonical_import_item split: if_splits)

text \<open>The current import.\<close>

lemma current_exact:
  assumes h: "length h \<le> 9" and cs: "same_families h cs" and c: "read_current current = Inr c"
  shows "(case c of None \<Rightarrow> Inr (history_state h cs) | Some i \<Rightarrow> add_current i (history_state h cs)) = Inr st \<longleftrightarrow>
    (\<exists>h' cs'. extend c h = Some h' \<and> same_families h' cs' \<and> length h' \<le> 9 \<and>
      st = (history_state h' cs')\<lparr>rb_tokens := marked h\<rparr> \<and> cs' = cs @ drop (length h) (marked h'))" (is "?l \<longleftrightarrow> ?r")
proof (cases c)
  case None
  have "(history_state h cs)\<lparr>rb_tokens := marked h\<rparr> = history_state h cs"
    by (simp add: history_state_def state_of_def)
  with None h cs show ?thesis by (auto simp: extend_def)
next
  case (Some i)
  with c obtain u where u: "u \<in> set fixed_import_order" "i = item_of u" using read_current_item by blast
  have new: "length h < 9 \<and> list_all Not h \<and> u = fixed_import_order ! length h"
    if "extend (Some (item_of u)) h = Some h'" for h'
    using that by (simp add: extend_def split: if_splits) (metis im_token_item)
  show ?thesis
  proof
    assume ?l
    then have e: "extend (Some i) h = Some (h @ [False])"
      and st: "st = (history_state (h @ [False]) (cs @ [u]))\<lparr>rb_tokens := marked h\<rparr>"
      using add_current_exact [OF h cs u(1)] u Some by auto
    with new u show ?r using Some cs
      by (auto simp: same_families_def marked_snoc intro!: exI [of _ "h @ [False]"])
  next
    assume ?r
    then obtain h' where e: "extend c h = Some h'" and
      st: "st = (history_state h' (cs @ drop (length h) (marked h')))\<lparr>rb_tokens := marked h\<rparr>" by blast
    from e new u Some have n: "length h < 9" "u = fixed_import_order ! length h" by auto
    moreover from e have "h' = h @ [False]" using Some by (simp add: extend_def split: if_splits)
    ultimately show ?l using st e add_current_exact [OF h cs u(1), of st] u Some h
      by (simp add: marked_snoc)
  qed
qed

text \<open>The withdrawal.\<close>

lemma retire_Some:
  assumes "length h \<le> 9"
  shows "retire (Some w) h = Some h' \<longleftrightarrow> (\<exists>k < length h. \<not> h ! k \<and> w = withdrawal_of (fixed_import_order ! k) \<and>
    (length h = 9 \<longrightarrow> k = 8) \<and> h' = h[k := True])"
proof -
  have same: "j = k" if "j < length h" "k < length h"
      "withdrawal_of (fixed_import_order ! j) = withdrawal_of (fixed_import_order ! k)" for j k
    using that assms item_inj(1) [of "fixed_import_order ! j" "fixed_import_order ! k"] order_inj [of j k]
    by (simp add: withdrawal_of_def)
  let ?ks = "filter (\<lambda>k. \<not> h ! k \<and> w = withdrawal_of (fixed_import_order ! k)) [0..<length h]"
  show ?thesis
  proof (cases ?ks)
    case Nil
    then show ?thesis by (auto simp: retire_def filter_empty_conv)
  next
    case (Cons k ks)
    then have k: "k < length h" "\<not> h ! k" "w = withdrawal_of (fixed_import_order ! k)"
      by (metis (mono_tags, lifting) filter_eq_ConsD set_upt atLeastLessThan_iff in_set_conv_decomp)+
    then show ?thesis using Cons same by (auto simp: retire_def)
  qed
qed

lemma result_of_history:
  "rb_imports st = map item_of (retained h) \<Longrightarrow> marks_of st = map mark_of (zip fixed_import_order h) \<Longrightarrow>
    rebuild_result x st = history_result h x"
  by (simp add: rebuild_result_def history_result_def)

lemma after_current_marks:
  assumes "length h \<le> 9" "same_families h cs" "st = (history_state h cs)\<lparr>rb_tokens := ms\<rparr>"
  shows "rb_imports st = map item_of (retained h)" "marks_of st = map mark_of (zip fixed_import_order h)"
  using assms(3) marks_of_history [OF assms(1,2), of st] by (simp_all add: history_state_def state_of_def)

lemma withdrawal_exact:
  assumes h: "length h \<le> 9" and cs: "same_families h cs" and st: "st = (history_state h cs)\<lparr>rb_tokens := ms\<rparr>"
    and b: "b \<longleftrightarrow> length h = 9"
  shows "(if v = PNone then Inr (rebuild_result None st)
      else bindE (canonical_withdrawal b v) (\<lambda>w. bindE (withdraw w st) (\<lambda>su. Inr (rebuild_result (Some w) su)))) = Inr r \<longleftrightarrow>
    (\<exists>x h'. read_withdrawal v = Inr x \<and> retire x h = Some h' \<and> r = history_result h' x)" (is "?l \<longleftrightarrow> ?r")
proof (cases "v = PNone")
  case True
  then show ?thesis
    using result_of_history [OF after_current_marks [OF h cs st]] by (auto simp: read_withdrawal_def retire_def)
next
  case False
  have after: "after_current h st" using cs st by (auto simp: after_current_def)
  have step: "(\<exists>su. canonical_withdrawal b v = Inr w \<and> withdraw w st = Inr su \<and> r = rebuild_result (Some w) su) \<longleftrightarrow>
      (\<exists>h'. canonical_withdrawal False v = Inr w \<and> retire (Some w) h = Some h' \<and> r = history_result h' (Some w))"
    (is "?a \<longleftrightarrow> ?b") for w
  proof
    assume ?a
    then obtain su where w: "canonical_withdrawal False v = Inr w" "b \<longrightarrow> wi_family w = b6_family"
      and su: "withdraw w st = Inr su" "r = rebuild_result (Some w) su"
      using canonical_withdrawal_b6 by blast
    note ref = canonical_withdrawal_ref [OF w(1)]
    from withdraw_exact(1) [OF h after ref su(1)] obtain k where
      k: "k < length h" "\<not> h ! k" "w = withdrawal_of (fixed_import_order ! k)" by blast
    have "length h = 9 \<longrightarrow> k = 8"
      using b w(2) k(1,3) b6_order item_inj(1) [of "fixed_import_order ! k" b6_token] order_inj [of k 8]
      by (auto simp: withdrawal_of_def)
    then have "retire (Some w) h = Some (h[k := True])" using retire_Some [OF h] k by blast
    moreover from withdraw_exact(2) [OF h after ref k] su have "r = history_result (h[k := True]) (Some w)"
      using result_of_history [of su "h[k := True]"] by auto
    ultimately show ?b using w(1) by blast
  next
    assume ?b
    then obtain h' where w: "canonical_withdrawal False v = Inr w" and
      r: "retire (Some w) h = Some h'" "r = history_result h' (Some w)" by blast
    from r(1) retire_Some [OF h] obtain k where k: "k < length h" "\<not> h ! k"
        "w = withdrawal_of (fixed_import_order ! k)" "length h = 9 \<longrightarrow> k = 8" "h' = h[k := True]" by blast
    then have "b \<longrightarrow> wi_family w = b6_family" using b b6_order by (auto simp: withdrawal_of_def)
    then have "canonical_withdrawal b v = Inr w" using canonical_withdrawal_b6 w by blast
    moreover from withdraw_exact(2) [OF h after canonical_withdrawal_ref [OF w] k(1-3)] obtain su where
      "withdraw w st = Inr su" "rebuild_result (Some w) su = history_result h' (Some w)"
      using result_of_history k(5) by blast
    ultimately show ?a using r(2) by metis
  qed
  have "?l \<longleftrightarrow> (\<exists>w su. canonical_withdrawal b v = Inr w \<and> withdraw w st = Inr su \<and> r = rebuild_result (Some w) su)"
    using False by (auto simp: bindE_Inr_iff)
  also have "\<dots> \<longleftrightarrow> (\<exists>w h'. canonical_withdrawal False v = Inr w \<and> retire (Some w) h = Some h' \<and>
      r = history_result h' (Some w))" using step by blast
  also have "\<dots> \<longleftrightarrow> ?r" using False by (auto simp: read_withdrawal_def bindE_Inr_iff)
  finally show ?thesis .
qed

lemma extend_same:
  assumes h: "length h \<le> 9" and cs: "same_families h cs" and e: "extend c h = Some h'"
  shows "same_families h' (cs @ drop (length h) (marked h')) \<and> length h' \<le> 9"
proof (cases c)
  case None
  with e have "h' = h" by (simp add: extend_def)
  then show ?thesis using h cs by simp
next
  case (Some i)
  with e have "length h < 9" "h' = h @ [False]" by (auto simp: extend_def split: if_splits)
  then show ?thesis using cs by (simp add: same_families_def marked_snoc)
qed

lemma b6_present:
  assumes h: "length h \<le> 9" and c: "read_current current = Inr c" "extend c h = Some h'"
  shows "b6_token \<in> set (marked h) \<or> known c (\<lambda>i. im_token i = b6_token) \<longleftrightarrow> length h' = 9"
proof (cases c)
  case None
  with c(2) b6_marked [OF h] show ?thesis by (simp add: extend_def)
next
  case (Some i)
  with c(2) have i: "length h < 9" "i = item_of (fixed_import_order ! length h)" "h' = h @ [False]"
    by (auto simp: extend_def split: if_splits)
  then have "im_token i = b6_token \<longleftrightarrow> length h = 8"
    using order_inj [of "length h" 8] b6_order(1) by simp
  with Some i b6_marked [OF h] show ?thesis by simp
qed

text \<open>C6: a reconstruction succeeds exactly when the given imports and marks are those of a history, the
  current import is the next family of the sealed order while no family is withdrawn, and the withdrawal is
  of a retained family (the last one when the history is complete); the result is that of the history after
  these steps.\<close>

theorem reconstruction_refines:
  "reconstruct_imports prior marks current withdrawn = Inr r \<longleftrightarrow>
    (\<exists>h c x h' h''. reads_history prior marks h \<and> read_current current = Inr c \<and> read_withdrawal withdrawn = Inr x \<and>
      extend c h = Some h' \<and> retire x h' = Some h'' \<and> r = history_result h'' x)" (is "?l \<longleftrightarrow> ?r")
proof -
  let ?cur = "\<lambda>c st. case c of None \<Rightarrow> Inr st | Some i \<Rightarrow> add_current i st"
  let ?fin = "\<lambda>b st'. if withdrawn = PNone then Inr (rebuild_result None st')
     else bindE (canonical_withdrawal b withdrawn) (\<lambda>w. bindE (withdraw w st') (\<lambda>su. Inr (rebuild_result (Some w) su)))"
  let ?b6 = "\<lambda>c st. b6_token \<in> set (rb_tokens st) \<or> known c (\<lambda>i. im_token i = b6_token)"
  have "?l \<longleftrightarrow> (\<exists>c st st'. (\<exists>st0. read_history prior marks = Inr st0 \<and> check_history st0 = Inr st) \<and>
      read_current current = Inr c \<and> ?cur c st = Inr st' \<and> ?fin (?b6 c st) st' = Inr r)"
    unfolding reconstruct_imports_def read_current_def [symmetric] bindE_Inr_iff by blast
  also have "\<dots> \<longleftrightarrow> (\<exists>c h st'. reads_history prior marks h \<and> read_current current = Inr c \<and>
      ?cur c (history_state h (fold remember (marked h) (retained h))) = Inr st' \<and>
      ?fin (?b6 c (history_state h (fold remember (marked h) (retained h)))) st' = Inr r)"
    unfolding read_history_exact by blast
  also have "\<dots> \<longleftrightarrow> ?r"
  proof -
    have "(\<exists>st'. ?cur c (history_state h (fold remember (marked h) (retained h))) = Inr st' \<and>
        ?fin (?b6 c (history_state h (fold remember (marked h) (retained h)))) st' = Inr r) \<longleftrightarrow>
      (\<exists>h' x h''. read_withdrawal withdrawn = Inr x \<and> extend c h = Some h' \<and> retire x h' = Some h'' \<and>
        r = history_result h'' x)" (is "?a \<longleftrightarrow> ?b")
      if reads: "reads_history prior marks h" and c: "read_current current = Inr c" for c h
    proof -
      from reads have h: "length h \<le> 9" by (simp add: reads_history_def)
      note cs = same_families_fold [OF h]
      have tokens: "rb_tokens (history_state h cs) = marked h" for cs by (simp add: history_state_def state_of_def)
      show ?thesis
      proof
        assume ?a
        then obtain st' where st': "?cur c (history_state h (fold remember (marked h) (retained h))) = Inr st'"
          "?fin (?b6 c (history_state h (fold remember (marked h) (retained h)))) st' = Inr r" by blast
        from st'(1) current_exact [OF h cs c] obtain h' cs' where h': "extend c h = Some h'" "same_families h' cs'"
          "length h' \<le> 9" "st' = (history_state h' cs')\<lparr>rb_tokens := marked h\<rparr>" by blast
        from st'(2) withdrawal_exact [OF h'(3,2,4) b6_present [OF h c h'(1)], of withdrawn r] h'(1)
        show ?b unfolding tokens by blast
      next
        assume ?b
        then obtain h' x h'' where e: "read_withdrawal withdrawn = Inr x" "extend c h = Some h'"
          "retire x h' = Some h''" "r = history_result h'' x" by blast
        let ?cs = "fold remember (marked h) (retained h) @ drop (length h) (marked h')"
        let ?st = "(history_state h' ?cs)\<lparr>rb_tokens := marked h\<rparr>"
        have same: "same_families h' ?cs" "length h' \<le> 9"
          using extend_same [OF h cs e(2)] by blast+
        then have cur: "?cur c (history_state h (fold remember (marked h) (retained h))) = Inr ?st"
          using current_exact [OF h cs c, of ?st] e(2) by (metis (no_types, lifting))
        have "?fin (?b6 c (history_state h (fold remember (marked h) (retained h)))) ?st = Inr r"
          unfolding tokens withdrawal_exact [OF same(2,1) refl b6_present [OF h c e(2)]]
          using e by (metis (no_types, lifting))
        with cur show ?a by (rule_tac exI [of _ ?st]) (rule conjI)
      qed
    qed
    then show ?thesis by blast
  qed
  finally show ?thesis .
qed

section \<open>Chains of reconstructions\<close>

definition imports_of :: "(string \<times> pv) list \<Rightarrow> pv list" where
  "imports_of r = list_of (dget ''imports'' r)"

definition epoch_marks_of :: "(string \<times> pv) list \<Rightarrow> pv list" where
  "epoch_marks_of r = list_of (dget ''family_epoch_high_watermarks'' r)"

lemma history_result_parts:
  "imports_of (history_result h x) = map (import_value \<circ> item_of) (retained h)"
  "epoch_marks_of (history_result h x) = map (mark_value \<circ> mark_of) (zip fixed_import_order h)"
  by (simp_all add: imports_of_def epoch_marks_of_def history_result_def)

lemma list_all2_labelled:
  "list_all2 (\<lambda>(label, v) t. P v label t) (labelled name (map f ts)) us \<longleftrightarrow>
    length us = length ts \<and> (\<forall>k < length ts. P (f (ts ! k)) (fst (labelled name ts ! k)) (us ! k))"
  by (auto simp: labelled_def list_all2_conv_all_nth)

lemma reads_own_history:
  assumes h: "length h \<le> 9"
  shows "reads_history (imports_of (history_result h x)) (epoch_marks_of (history_result h x)) h"
proof -
  have t: "retained h ! k \<in> set fixed_import_order" if "k < length (retained h)" for k
    using families_retained [OF h] that by (auto simp: families_def)
  have m: "canonical_mark (mark_value (mark_of m)) label = Inr (mark_of m)" if "m \<in> set (zip fixed_import_order h)" for m label
    using that canonical_mark_value [of "fst m" "snd m"] set_zip_leftD [of "fst m" "snd m"] by simp
  show ?thesis
    unfolding reads_history_def history_result_parts list_all2_labelled comp_def
    using h t m nth_mem by (intro conjI) auto
qed

lemma reads_unique:
  assumes "reads_history (imports_of (history_result g x)) (epoch_marks_of (history_result g x)) h" and g: "length g \<le> 9"
  shows "h = g"
proof -
  from assms have h: "length h \<le> 9" and len: "length (zip fixed_import_order h) = length (zip fixed_import_order g)"
    and m: "\<forall>k < length (zip fixed_import_order g). \<forall>label.
        canonical_mark (mark_value (mark_of (zip fixed_import_order g ! k)))
          (fst (labelled ''prior_epoch_high_watermarks'' (zip fixed_import_order g) ! k)) =
        Inr (mark_of (zip fixed_import_order h ! k))"
    unfolding reads_history_def history_result_parts list_all2_labelled comp_def by auto
  from len h g have same: "length h = length g" by simp
  have "h ! k = g ! k" if k: "k < length g" for k
  proof -
    have "canonical_mark (mark_value (mark_of (fixed_import_order ! k, g ! k))) l = Inr (mark_of (fixed_import_order ! k, h ! k))"
      for l using m k g h same canonical_mark_value [of "fixed_import_order ! k" "g ! k"] by auto
    then have "mark_of (fixed_import_order ! k, g ! k) = mark_of (fixed_import_order ! k, h ! k)"
      using k g by simp
    then have "em_withdrawn (mark_of (fixed_import_order ! k, g ! k)) = em_withdrawn (mark_of (fixed_import_order ! k, h ! k))"
      by simp
    then show ?thesis by (simp add: mark_of_def Let_def split: if_splits)
  qed
  then show ?thesis using same by (simp add: list_eq_iff_nth_eq)
qed

text \<open>Histories only grow: families are added, and a withdrawn one stays withdrawn.\<close>

definition grows :: "bool list \<Rightarrow> bool list \<Rightarrow> bool" where
  "grows h g = (length h \<le> length g \<and> (\<forall>k < length h. h ! k \<longrightarrow> g ! k))"

lemma grows_trans: "grows h g \<Longrightarrow> grows g f \<Longrightarrow> grows h f"
  by (auto simp: grows_def)

lemma extend_grows: "length h \<le> 9 \<Longrightarrow> extend c h = Some g \<Longrightarrow> grows h g \<and> length g \<le> 9"
  by (auto simp: extend_def grows_def nth_append split: option.splits if_splits)

lemma retire_grows: "length h \<le> 9 \<Longrightarrow> retire x h = Some g \<Longrightarrow> grows h g \<and> length g = length h"
  by (cases x) (auto simp: retire_Some grows_def nth_list_update, auto simp: retire_def grows_def)

lemma reconstruction_of_result:
  assumes g: "length g \<le> 9"
    and r: "reconstruct_imports (imports_of (history_result g x)) (epoch_marks_of (history_result g x)) current withdrawn = Inr s"
  shows "\<exists>f y. s = history_result f y \<and> grows g f \<and> length f \<le> 9"
proof -
  from r [unfolded reconstruction_refines] obtain h c y h' h'' where
    reads: "reads_history (imports_of (history_result g x)) (epoch_marks_of (history_result g x)) h"
    and s: "extend c h = Some h'" "retire y h' = Some h''" "s = history_result h'' y" by blast
  from reads_unique [OF reads g] s extend_grows [of h c h'] retire_grows [of h' y h''] g show ?thesis
    by (metis grows_trans)
qed

text \<open>Reconstructions, each of which is given the imports and marks of the one before.\<close>

inductive chained :: "(string \<times> pv) list \<Rightarrow> (string \<times> pv) list \<Rightarrow> bool" where
  chained_start: "chained r r"
| chained_next: "chained r s \<Longrightarrow>
    reconstruct_imports (imports_of s) (epoch_marks_of s) current withdrawn = Inr t \<Longrightarrow> chained r t"

lemma chained_history:
  assumes "chained r s" "r = history_result h x" "length h \<le> 9"
  shows "\<exists>g y. s = history_result g y \<and> grows h g \<and> length g \<le> 9"
  using assms
proof (induction rule: chained.induct)
  case (chained_start r)
  then show ?case by (auto simp: grows_def)
next
  case (chained_next r s current withdrawn t)
  from chained_next.IH [OF chained_next.prems] obtain g y where
    g: "s = history_result g y" "grows h g" "length g \<le> 9" by blast
  with reconstruction_of_result [OF g(3)] chained_next.hyps(2) show ?case by (metis grows_trans)
qed

lemma reconstructed_history:
  assumes "reconstruct_imports prior marks current withdrawn = Inr r"
  shows "\<exists>h x. r = history_result h x \<and> length h \<le> 9 \<and>
    (\<forall>w. x = Some w \<longrightarrow> (\<exists>k < length h. h ! k \<and> w = withdrawal_of (fixed_import_order ! k)))"
proof -
  from assms [unfolded reconstruction_refines] obtain h c x h' h'' where
    h: "length h \<le> 9" and s: "extend c h = Some h'" "retire x h' = Some h''" "r = history_result h'' x"
    by (auto simp: reads_history_def)
  from extend_grows [OF h s(1)] have h': "length h' \<le> 9" by blast
  have "\<exists>k < length h''. h'' ! k \<and> w = withdrawal_of (fixed_import_order ! k)" if "x = Some w" for w
    using s(2) that by (auto simp: retire_Some [OF h'])
  moreover have "length h'' \<le> 9" using retire_grows [OF h' s(2)] h' by simp
  ultimately show ?thesis using s(3) by blast
qed

lemma reconstruct_again:
  assumes "length h \<le> 9"
  shows "reconstruct_imports (imports_of (history_result h x)) (epoch_marks_of (history_result h x)) PNone PNone =
    Inr (history_result h None)"
  unfolding reconstruction_refines using reads_own_history [OF assms, of x]
  by (intro exI [of _ h] exI [of _ None] conjI) (simp_all add: read_current_def read_withdrawal_def extend_def retire_def)

text \<open>C38: what a reconstruction returns is accepted as the prior history of the next one: without a new import
  or withdrawal the next one returns the same imports and marks.\<close>

theorem reconstruction_roundtrip:
  assumes "reconstruct_imports prior marks current withdrawn = Inr r"
  shows "reconstruct_imports (list_of (dget ''imports'' r)) (list_of (dget ''family_epoch_high_watermarks'' r)) PNone PNone =
    Inr (dict_set ''withdrawn_identity'' PNone (dict_set ''withdrawal_applied'' (PBool False) r))"
proof -
  from reconstructed_history [OF assms] obtain h x where h: "r = history_result h x" "length h \<le> 9" by blast
  have "reconstruct_imports (imports_of r) (epoch_marks_of r) PNone PNone = Inr (history_result h None)"
    unfolding h(1) by (rule reconstruct_again [OF h(2)])
  moreover have "history_result h None = dict_set ''withdrawn_identity'' PNone (dict_set ''withdrawal_applied'' (PBool False) r)"
    by (simp add: h(1) history_result_def withdrawal_value_def)
  ultimately show ?thesis by (simp add: imports_of_def epoch_marks_of_def)
qed

text \<open>C18: a publication that a reconstruction withdrew is among the imports of no later one, whatever imports
  and withdrawals follow.\<close>

theorem withdrawn_stays_out:
  assumes r: "reconstruct_imports prior marks current withdrawn = Inr r"
    and w: "dget ''withdrawn_identity'' r = PDict identity" and s: "chained r s"
  shows "list_all (\<lambda>i. dget ''publication_id'' (dict_of i) \<noteq> dget ''publication_id'' identity)
    (list_of (dget ''imports'' s))"
proof -
  from reconstructed_history [OF r] obtain h x where h: "r = history_result h x" "length h \<le> 9" and
    x: "\<forall>w. x = Some w \<longrightarrow> (\<exists>k < length h. h ! k \<and> w = withdrawal_of (fixed_import_order ! k))" by blast
  from w h(1) obtain wd where wd: "x = Some wd" "PDict identity = withdrawal_value (Some wd)"
    by (cases x) (auto simp: history_result_def withdrawal_value_def)
  with x obtain k where k: "k < length h" "h ! k" "wd = withdrawal_of (fixed_import_order ! k)" by blast
  from wd(2) k(3) have pub: "dget ''publication_id'' identity = PStr (publication_of (fixed_import_order ! k))"
    by (simp add: withdrawal_value_def withdrawal_of_def)
  from chained_history [OF s h] obtain g y where g: "s = history_result g y" "grows h g" "length g \<le> 9" by blast
  have "publication_of t \<noteq> publication_of (fixed_import_order ! k)" if t: "t \<in> set (retained g)" for t
  proof -
    from t in_retained [OF g(3)] obtain j where j: "j < length g" "t = fixed_import_order ! j" "\<not> g ! j" by blast
    moreover have "g ! k" "k < length g" using g(2) k by (auto simp: grows_def)
    ultimately have "t \<noteq> fixed_import_order ! k" using order_inj [of j k] g(3) by auto
    then show ?thesis using j k g h by simp
  qed
  then show ?thesis
    using history_result_parts(1) [of g y] g(1)
    by (simp add: imports_of_def list_all_iff pub import_value_def publication_of_def)
qed

section \<open>A sample history\<close>

definition sample_import :: pv where
  "sample_import = import_value (item_of ''continue_current_execution_task'')"

definition sample_withdrawal :: pv where
  "sample_withdrawal = PDict
     [(''schema_version'', PStr ''layer12-fixed-family-withdrawal-v1''), (''owner'', PStr dspx_owner),
      (''family_id'', PStr ''dspx.layer12.continue-current-execution-task.v1''),
      (''publication_id'', PStr ''dspx-iw14b-continue-current-execution-task-owner-local-v1''), (''epoch'', PInt 1),
      (''withdrawal_ref'', PStr ''withdrawal:softwareco/owned/dspx:dspx.layer12.continue-current-execution-task.v1:1''),
      (''owner_local_only'', PBool True), (''authority_granted'', PBool False)]"

lemma sample_reconstruction:
  "case reconstruct_imports [] [] sample_import sample_withdrawal of Inl _ \<Rightarrow> False
   | Inr r \<Rightarrow> is_mapping (dget ''withdrawn_identity'' r) \<and> imports_of r = [] \<and> length (epoch_marks_of r) = 1"
  by code_simp

lemma sample_result:
  "\<exists>r identity. reconstruct_imports [] [] sample_import sample_withdrawal = Inr r \<and>
    dget ''withdrawn_identity'' r = PDict identity"
proof -
  from sample_reconstruction obtain r where r: "reconstruct_imports [] [] sample_import sample_withdrawal = Inr r"
    "is_mapping (dget ''withdrawn_identity'' r)" by (auto split: sum.splits)
  then show ?thesis by (cases "dget ''withdrawn_identity'' r") auto
qed

theorem reconstruction_roundtrip_witness:
  "\<exists>r. reconstruct_imports [] [] sample_import sample_withdrawal = Inr r \<and>
    reconstruct_imports (list_of (dget ''imports'' r)) (list_of (dget ''family_epoch_high_watermarks'' r)) PNone PNone =
      Inr (dict_set ''withdrawn_identity'' PNone (dict_set ''withdrawal_applied'' (PBool False) r))"
  using sample_result reconstruction_roundtrip by blast

theorem withdrawn_stays_out_witness:
  "\<exists>r identity s. reconstruct_imports [] [] sample_import sample_withdrawal = Inr r \<and>
    dget ''withdrawn_identity'' r = PDict identity \<and>
    reconstruct_imports (imports_of r) (epoch_marks_of r) PNone PNone = Inr s \<and>
    list_all (\<lambda>i. dget ''publication_id'' (dict_of i) \<noteq> dget ''publication_id'' identity) (list_of (dget ''imports'' s))"
proof -
  from sample_result obtain r identity where r: "reconstruct_imports [] [] sample_import sample_withdrawal = Inr r"
    "dget ''withdrawn_identity'' r = PDict identity" by blast
  from reconstructed_history [OF r(1)] obtain h x where h: "r = history_result h x" "length h \<le> 9" by blast
  have "reconstruct_imports (imports_of r) (epoch_marks_of r) PNone PNone = Inr (history_result h None)"
    unfolding h(1) by (rule reconstruct_again [OF h(2)])
  from withdrawn_stays_out [OF r chained_next [OF chained_start this]] this r show ?thesis by blast
qed

end
