(* ===== verification/Py_Decimal.thy ===== *)
theory Py_Decimal
  imports Complex_Main Py_Value
begin

text \<open>
  Python's \<open>Decimal\<close> in the default context: 28 digits, rounding half to even.  A decimal is its
  coefficient and its exponent; exponents never reach the limits of the context here.  Negative zero does not
  occur.
\<close>

section \<open>Operations\<close>

type_synonym decimal = "int \<times> int"

function num_digits :: "int \<Rightarrow> nat" where
  "num_digits n = (if n < 10 then 1 else Suc (num_digits (n div 10)))"
  by pat_completeness auto
termination by (relation "measure nat") auto

declare num_digits.simps [simp del]

text \<open>\<open>drop_digits k n\<close> drops \<open>k\<close> digits, \<open>dec_fix\<close> rounds to the precision.\<close>

definition drop_digits :: "nat \<Rightarrow> int \<Rightarrow> int" where
  "drop_digits k n =
     (let q = n div 10 ^ k; r = 2 * (n mod 10 ^ k) in
      if 10 ^ k < r \<or> (r = 10 ^ k \<and> odd q) then q + 1 else q)"

definition precision :: nat where "precision = 28"

definition dec_fix :: "decimal \<Rightarrow> decimal" where
  "dec_fix p =
     (let c = fst p; e = snd p; n = \<bar>c\<bar>; k = num_digits n - precision; q = drop_digits k n in
      if num_digits n \<le> precision then p
      else if num_digits q \<le> precision then (sgn c * q, e + int k)
      else (sgn c * (q div 10), e + int k + 1))"

definition dec_mul :: "decimal \<Rightarrow> decimal \<Rightarrow> decimal" where
  "dec_mul p q = dec_fix (fst p * fst q, snd p + snd q)"

definition dec_add :: "decimal \<Rightarrow> decimal \<Rightarrow> decimal" where
  "dec_add p q = (let e = min (snd p) (snd q) in
     dec_fix (fst p * 10 ^ nat (snd p - e) + fst q * 10 ^ nat (snd q - e), e))"

text \<open>Trailing zeros are removed while the exponent is below the ideal one.\<close>

fun trim_zeros :: "nat \<Rightarrow> int \<Rightarrow> int \<Rightarrow> decimal" where
  "trim_zeros 0 c e = (c, e)"
| "trim_zeros (Suc n) c e = (if c mod 10 = 0 then trim_zeros n (c div 10) (e + 1) else (c, e))"

text \<open>The quotient by a nonzero decimal: its digits to one place past the precision, and a last digit that
  tells whether there is a remainder.\<close>

definition dec_div :: "decimal \<Rightarrow> decimal \<Rightarrow> decimal" where
  "dec_div p q =
     (let ideal = snd p - snd q in
      if fst p = 0 then dec_fix (0, ideal)
      else
        let shift = int (num_digits \<bar>fst q\<bar>) - int (num_digits \<bar>fst p\<bar>) + int precision + 1;
            e = ideal - shift; num = \<bar>fst p\<bar> * 10 ^ nat shift; den = \<bar>fst q\<bar> * 10 ^ nat (- shift);
            c = num div den; s = sgn (fst p) * sgn (fst q) in
        if num mod den \<noteq> 0 then dec_fix (s * (if c mod 5 = 0 then c + 1 else c), e)
        else dec_fix (case trim_zeros (nat (ideal - e)) c e of (c', e') \<Rightarrow> (s * c', e')))"

definition dec_less :: "decimal \<Rightarrow> decimal \<Rightarrow> bool" where
  "dec_less p q = (let m = min (snd p) (snd q) in
     fst p * 10 ^ nat (snd p - m) < fst q * 10 ^ nat (snd q - m))"

text \<open>\<open>Decimal(str(x))\<close> of an int or a finite float: the text of an integral float below \<open>10 ^ 16\<close> ends with
  \<open>.0\<close>.  Infinities and NaN make no finite decimal.\<close>

fun decimal_of :: "pv \<Rightarrow> decimal option" where
  "decimal_of (PInt i) = Some (i, 0)"
| "decimal_of (PFloat (Dec c e)) =
     Some (if c = 0 then (0, -1)
       else if 0 \<le> e \<and> int (num_digits \<bar>c\<bar>) + e - 1 < 16 then (c * 10 ^ nat (e + 1), -1) else (c, e))"
| "decimal_of _ = None"

text \<open>\<open>format(d, 'f')\<close> of a decimal that is not negative.\<close>

definition dec_format :: "decimal \<Rightarrow> string" where
  "dec_format d =
     (let p = (if fst d = 0 \<and> 0 < snd d then (0, 0) else d);
          ds = nat_text (nat \<bar>fst p\<bar>); point = snd p + int (length ds) in
      if point < 0 then ''0.'' @ replicate (nat (- point)) CHR ''0'' @ ds
      else if int (length ds) < point then ds @ replicate (nat (point - int (length ds))) CHR ''0''
      else (if point = 0 then ''0'' else take (nat point) ds) @
        (if drop (nat point) ds = [] then [] else CHR ''.'' # drop (nat point) ds))"

text \<open>The int of an integral float is the double nearest to its decimal: 53 bits, halves to even.\<close>

function num_bits :: "int \<Rightarrow> nat" where
  "num_bits n = (if n < 2 then 1 else Suc (num_bits (n div 2)))"
  by pat_completeness auto
termination by (relation "measure nat") auto

declare num_bits.simps [simp del]

definition double_int :: "int \<Rightarrow> int" where
  "double_int n =
     (let k = num_bits n - 53; q = n div 2 ^ k; r = 2 * (n mod 2 ^ k) in
      (if 2 ^ k < r \<or> (r = 2 ^ k \<and> odd q) then q + 1 else q) * 2 ^ k)"

section \<open>The value of a decimal\<close>

definition dec_val :: "decimal \<Rightarrow> rat" where
  "dec_val p = of_int (fst p) * 10 powi snd p"

lemma num_digits_pos [simp]: "0 < num_digits n"
  by (subst num_digits.simps) simp

lemma num_digits_bounds: "0 < n \<Longrightarrow> 10 ^ (num_digits n - 1) \<le> n \<and> n < 10 ^ num_digits n"
proof (induction n rule: num_digits.induct)
  case (1 n)
  show ?case
  proof (cases "n < 10")
    case True
    then show ?thesis using 1 by (simp add: num_digits.simps [of n])
  next
    case False
    then have IH: "10 ^ (num_digits (n div 10) - 1) \<le> n div 10" "n div 10 < 10 ^ num_digits (n div 10)"
      using 1 by auto
    have d: "num_digits n = Suc (num_digits (n div 10))" using False by (simp add: num_digits.simps [of n])
    have "10 ^ num_digits (n div 10) = (10 :: int) * 10 ^ (num_digits (n div 10) - 1)"
      by (metis num_digits_pos power_Suc Suc_pred')
    then show ?thesis unfolding d using IH by (simp del: num_digits_pos) (intro conjI; linarith)
  qed
qed

lemma num_digits_le: "0 \<le> n \<Longrightarrow> 0 < k \<Longrightarrow> num_digits n \<le> k \<longleftrightarrow> n < 10 ^ k"
proof -
  assume n: "0 \<le> n" and k: "0 < k"
  show ?thesis
  proof (cases "n = 0")
    case True
    then show ?thesis using k by (simp add: num_digits.simps [of 0])
  next
    case False
    then have b: "10 ^ (num_digits n - 1) \<le> n" "n < 10 ^ num_digits n" using n num_digits_bounds [of n] by auto
    have "n < 10 ^ k" if "num_digits n \<le> k"
      using b(2) power_increasing [OF that, of "10 :: int"] by linarith
    moreover have "10 ^ k \<le> n" if "\<not> num_digits n \<le> k"
    proof -
      from that have "k \<le> num_digits n - 1" by simp
      from power_increasing [OF this, of "10 :: int"] b(1) show ?thesis by linarith
    qed
    ultimately show ?thesis by (meson not_le)
  qed
qed

lemma num_digits_mono: "0 \<le> m \<Longrightarrow> m \<le> n \<Longrightarrow> num_digits m \<le> num_digits n"
  using num_digits_le [of m "num_digits n"] num_digits_le [of n "num_digits n"] by auto

lemma num_digits_shift: "0 < n \<Longrightarrow> num_digits (n * 10 ^ j) = num_digits n + j"
proof -
  assume n: "0 < n"
  note b = num_digits_bounds [OF n]
  have "n * 10 ^ j < 10 ^ (num_digits n + j)" using b by (simp add: power_add)
  then have "num_digits (n * 10 ^ j) \<le> num_digits n + j" using n by (simp add: num_digits_le)
  moreover have "\<not> num_digits (n * 10 ^ j) \<le> num_digits n + j - 1" if "num_digits n + j - 1 > 0"
  proof -
    have "10 ^ (num_digits n - 1) * 10 ^ j \<le> n * 10 ^ j" using b by simp
    moreover have "10 ^ (num_digits n - 1) * (10 :: int) ^ j = 10 ^ (num_digits n + j - 1)"
      by (simp flip: power_add) (metis num_digits_pos Nat.add_diff_assoc2 One_nat_def Suc_leI)
    ultimately have "10 ^ (num_digits n + j - 1) \<le> n * 10 ^ j" by linarith
    then show ?thesis using n that num_digits_le [of "n * 10 ^ j" "num_digits n + j - 1"] by simp
  qed
  ultimately show ?thesis
    by (cases "num_digits n + j - 1 = 0") (use num_digits_pos [of n] num_digits_pos [of "n * 10 ^ j"] in linarith)+
qed

text \<open>Rounding an integer: to a multiple of \<open>10 ^ k\<close>, and to the precision.\<close>

lemma drop_digits_exact [simp]: "drop_digits k (a * 10 ^ k) = a"
  by (simp add: drop_digits_def)

lemma drop_digits_0 [simp]: "drop_digits 0 n = n"
  by (simp add: drop_digits_def)

lemma drop_digits_mono: "m \<le> n \<Longrightarrow> drop_digits k m \<le> drop_digits k n"
proof -
  assume mn: "m \<le> n"
  let ?p = "10 ^ k :: int"
  have q: "m div ?p \<le> n div ?p" using mn by (simp add: zdiv_mono1)
  show ?thesis
  proof (cases "m div ?p = n div ?p")
    case True
    have "m mod ?p \<le> n mod ?p"
      unfolding minus_div_mult_eq_mod [symmetric] True using mn by simp
    then show ?thesis using True by (auto simp: drop_digits_def Let_def)
  next
    case False
    then show ?thesis using q by (auto simp: drop_digits_def Let_def)
  qed
qed

lemma drop_digits_scale: "drop_digits (k + j) (n * 10 ^ j) = drop_digits k n"
proof -
  have "n * 10 ^ j div 10 ^ (k + j) = n div 10 ^ k" "n * 10 ^ j mod 10 ^ (k + j) = n mod 10 ^ k * 10 ^ j"
    by (simp_all add: power_add)
  moreover have "10 ^ (k + j) < 2 * (x * 10 ^ j) \<longleftrightarrow> 10 ^ k < 2 * x" "2 * (x * 10 ^ j) = 10 ^ (k + j) \<longleftrightarrow> 2 * x = 10 ^ k"
    for x :: int by (simp_all add: power_add flip: mult.assoc)
  ultimately show ?thesis by (simp add: drop_digits_def Let_def)
qed

definition rounded :: "int \<Rightarrow> int" where
  "rounded n = (let k = num_digits n - precision in drop_digits k n * 10 ^ k)"

lemma rounded_short: "num_digits n \<le> precision \<Longrightarrow> rounded n = n"
  by (simp add: rounded_def)

lemma rounded_0 [simp]: "rounded 0 = 0"
  by (simp add: rounded_def Let_def drop_digits_def)

lemma rounded_between:
  assumes "0 < n"
  shows "10 ^ (num_digits n - 1) \<le> rounded n" "rounded n \<le> 10 ^ num_digits n"
proof -
  let ?d = "num_digits n" let ?k = "?d - precision"
  have k: "?k \<le> ?d - 1" "?k \<le> ?d" by (simp_all add: precision_def)
  note b = num_digits_bounds [OF assms]
  have p: "(10 :: int) ^ j = 10 ^ (j - ?k) * 10 ^ ?k" if "?k \<le> j" for j
    using that by (simp flip: power_add)
  have "drop_digits ?k (10 ^ (?d - 1)) \<le> drop_digits ?k n" "drop_digits ?k n \<le> drop_digits ?k (10 ^ ?d)"
    using b by (auto intro: drop_digits_mono)
  then have "10 ^ (?d - 1 - ?k) \<le> drop_digits ?k n" "drop_digits ?k n \<le> 10 ^ (?d - ?k)"
    using p [OF k(1)] p [OF k(2)] by simp_all
  then show "10 ^ (?d - 1) \<le> rounded n" "rounded n \<le> 10 ^ ?d"
    unfolding rounded_def Let_def p [OF k(1)] p [OF k(2)] by simp_all
qed

lemma rounded_mono:
  assumes "0 \<le> m" "m \<le> n"
  shows "rounded m \<le> rounded n"
proof (cases "m = 0")
  case True
  moreover have "0 \<le> rounded n" if "0 < n"
    using rounded_between(1) [OF that] zero_le_power [of "10 :: int" "num_digits n - 1"] by linarith
  ultimately show ?thesis using assms by (cases "n = 0") auto
next
  case False
  then have pos: "0 < m" "0 < n" using assms by auto
  consider "num_digits m = num_digits n" | "num_digits m \<le> num_digits n - 1"
    using num_digits_mono [OF assms] by linarith
  then show ?thesis
  proof cases
    case 1
    then show ?thesis using drop_digits_mono [OF assms(2)] by (simp add: rounded_def Let_def)
  next
    case 2
    then show ?thesis
      using rounded_between(2) [OF pos(1)] rounded_between(1) [OF pos(2)] power_increasing [OF 2, of "10 :: int"]
      by linarith
  qed
qed

lemma rounded_scale:
  assumes "0 \<le> n"
  shows "rounded (n * 10 ^ j) = rounded n * 10 ^ j"
proof (cases "n = 0")
  case False
  then have n: "0 < n" using assms by simp
  let ?d = "num_digits n"
  show ?thesis
  proof (cases "?d \<le> precision")
    case True
    let ?k = "?d + j - precision"
    have "?k \<le> j" using True by simp
    then have "n * 10 ^ j = n * 10 ^ (j - ?k) * 10 ^ ?k" by (simp flip: power_add)
    then have "drop_digits ?k (n * 10 ^ j) * 10 ^ ?k = n * 10 ^ j" by (metis drop_digits_exact)
    then show ?thesis using True by (simp add: rounded_def Let_def num_digits_shift [OF n])
  next
    case False
    then have "?d + j - precision = ?d - precision + j" by simp
    then show ?thesis by (simp add: rounded_def Let_def num_digits_shift [OF n] drop_digits_scale power_add)
  qed
qed simp

text \<open>The value of a rounded decimal.\<close>

lemma dec_fix_value:
  assumes "0 \<le> c"
  shows "dec_val (dec_fix (c, e)) = of_int (rounded c) * 10 powi e"
proof (cases "num_digits c \<le> precision")
  case True
  then show ?thesis using assms by (simp add: dec_fix_def Let_def rounded_short dec_val_def)
next
  case False
  then have c: "0 < c" using assms by (cases "c = 0") (auto simp: num_digits.simps [of 0] precision_def)
  let ?k = "num_digits c - precision" let ?q = "drop_digits ?k c"
  have r: "rounded c = ?q * 10 ^ ?k" by (simp add: rounded_def Let_def)
  show ?thesis
  proof (cases "num_digits ?q \<le> precision")
    case True
    then show ?thesis using False c by (simp add: dec_fix_def Let_def r dec_val_def power_int_add del: of_nat_diff)
  next
    case overflow: False
    have "(10 :: int) ^ num_digits c = 10 ^ precision * 10 ^ ?k"
      using False by (simp flip: power_add)
    then have "?q \<le> 10 ^ precision" using rounded_between(2) [OF c] unfolding r by simp
    moreover have "0 \<le> ?q" using drop_digits_mono [of 0 c ?k] c by (simp add: drop_digits_def)
    then have "10 ^ precision \<le> ?q" using overflow num_digits_le [of ?q precision] by (simp add: precision_def)
    ultimately have "?q = 10 ^ precision" by simp
    then show ?thesis
      using False c overflow by (simp add: dec_fix_def Let_def r dec_val_def power_int_add precision_def del: of_nat_diff)
  qed
qed

lemma dec_fix_nonneg [simp]: "0 \<le> fst p \<Longrightarrow> 0 \<le> fst (dec_fix p)"
proof -
  assume p: "0 \<le> fst p"
  have "0 \<le> drop_digits k (fst p)" for k using drop_digits_mono [of 0 "fst p" k] p by (simp add: drop_digits_def)
  then show ?thesis using p by (auto simp: dec_fix_def Let_def sgn_if pos_imp_zdiv_nonneg_iff)
qed

lemma dec_val_align: "m \<le> snd p \<Longrightarrow> dec_val p = of_int (fst p * 10 ^ nat (snd p - m)) * 10 powi m"
proof -
  assume "m \<le> snd p"
  then have "snd p = int (nat (snd p - m)) + m" by simp
  then have "10 powi snd p = (10 :: rat) ^ nat (snd p - m) * 10 powi m"
    by (metis power_int_add power_int_of_nat zero_neq_numeral)
  then show ?thesis by (simp add: dec_val_def)
qed

lemma powi_pos [simp]: "0 < (10 :: rat) powi e"
  by simp

lemma dec_val_le:
  "m \<le> snd p \<Longrightarrow> m \<le> snd q \<Longrightarrow>
    dec_val p \<le> dec_val q \<longleftrightarrow> fst p * 10 ^ nat (snd p - m) \<le> fst q * 10 ^ nat (snd q - m)"
  by (simp add: dec_val_align del: of_int_mult of_int_power)

lemma dec_less_value: "dec_less p q \<longleftrightarrow> dec_val p < dec_val q"
  using dec_val_le [of "min (snd p) (snd q)" q p] by (simp add: dec_less_def Let_def) linarith

lemma dec_eq_value: "dec_eq p q \<longleftrightarrow> dec_val p = dec_val q"
  using dec_val_le [of "min (snd p) (snd q)" p q] dec_val_le [of "min (snd p) (snd q)" q p]
  by (simp add: dec_eq_def Let_def) linarith

lemma dec_fix_mono:
  assumes "0 \<le> fst p" "0 \<le> fst q" "dec_val p \<le> dec_val q"
  shows "dec_val (dec_fix p) \<le> dec_val (dec_fix q)"
proof -
  let ?m = "min (snd p) (snd q)"
  have aligned: "dec_val (dec_fix x) = of_int (rounded (fst x * 10 ^ nat (snd x - ?m))) * 10 powi ?m"
    if "0 \<le> fst x" "?m \<le> snd x" for x
    using dec_val_align [of ?m "(rounded (fst x), snd x)"] dec_fix_value [OF that(1), of "snd x"] that
    by (simp add: rounded_scale dec_val_def)
  have "fst p * 10 ^ nat (snd p - ?m) \<le> fst q * 10 ^ nat (snd q - ?m)"
    using assms(3) dec_val_le [of ?m p q] by simp
  from rounded_mono [OF _ this] show ?thesis
    using assms(1,2) by (simp add: aligned)
qed

definition short :: "decimal \<Rightarrow> bool" where
  "short p = (0 \<le> fst p \<and> num_digits (fst p) \<le> precision)"

lemma dec_fix_short: "short p \<Longrightarrow> dec_fix p = p"
  by (simp add: short_def dec_fix_def Let_def)

lemma short_1 [simp]: "short (1, 0)"
  by (simp add: short_def num_digits.simps [of 1] precision_def)

lemma dec_val_1 [simp]: "dec_val (1, 0) = 1" and dec_val_0 [simp]: "dec_val (0, e) = 0"
  by (simp_all add: dec_val_def)

lemma dec_val_nonneg [simp]: "0 \<le> dec_val p \<longleftrightarrow> 0 \<le> fst p"
  by (simp add: dec_val_def zero_le_mult_iff) (metis powi_pos not_le)

text \<open>Rounding never crosses a decimal of the precision.\<close>

lemma dec_fix_le_short: "0 \<le> fst p \<Longrightarrow> short r \<Longrightarrow> dec_val p \<le> dec_val r \<Longrightarrow> dec_val (dec_fix p) \<le> dec_val r"
  using dec_fix_mono [of p r] by (simp add: dec_fix_short) (simp add: short_def)

lemma dec_mul_value: "dec_val (fst p * fst q, snd p + snd q) = dec_val p * dec_val q"
  by (simp add: dec_val_def power_int_add)

lemma dec_add_value:
  "dec_val (fst p * 10 ^ nat (snd p - min (snd p) (snd q)) + fst q * 10 ^ nat (snd q - min (snd p) (snd q)),
     min (snd p) (snd q)) = dec_val p + dec_val q"
  unfolding dec_val_align [of "min (snd p) (snd q)" p, OF min.cobounded1]
    dec_val_align [of "min (snd p) (snd q)" q, OF min.cobounded2]
  by (simp add: dec_val_def distrib_right)

lemma dec_mul_nonneg [simp]: "0 \<le> fst p \<Longrightarrow> 0 \<le> fst q \<Longrightarrow> 0 \<le> fst (dec_mul p q)"
  by (simp add: dec_mul_def)

lemma dec_add_nonneg [simp]: "0 \<le> fst p \<Longrightarrow> 0 \<le> fst q \<Longrightarrow> 0 \<le> fst (dec_add p q)"
  by (simp add: dec_add_def Let_def)

lemma dec_add_mono:
  assumes "0 \<le> fst p" "0 \<le> fst q" "0 \<le> fst p'" "0 \<le> fst q'" "dec_val p \<le> dec_val p'" "dec_val q \<le> dec_val q'"
  shows "dec_val (dec_add p q) \<le> dec_val (dec_add p' q')"
  unfolding dec_add_def Let_def by (rule dec_fix_mono) (use assms in \<open>simp_all add: dec_add_value\<close>)

text \<open>A product with a factor of at most one is at most the other factor, if that has the precision.\<close>

lemma dec_mul_le:
  assumes "0 \<le> fst p" "dec_val p \<le> 1" "short q"
  shows "dec_val (dec_mul p q) \<le> dec_val q"
proof -
  have "0 \<le> fst q" using assms(3) by (simp add: short_def)
  moreover have "dec_val p * dec_val q \<le> dec_val q"
    using assms(2) \<open>0 \<le> fst q\<close> mult_right_mono [of "dec_val p" 1 "dec_val q"] by simp
  ultimately show ?thesis
    unfolding dec_mul_def using assms by (intro dec_fix_le_short) (simp_all add: dec_mul_value)
qed

lemma trim_zeros_value: "0 \<le> c \<Longrightarrow> trim_zeros n c e = (c', e') \<Longrightarrow> 0 \<le> c' \<and> dec_val (c', e') = dec_val (c, e)"
proof (induction n arbitrary: c e)
  case (Suc n)
  have "dec_val (c div 10, e + 1) = dec_val (c, e)" if "c mod 10 = 0"
  proof -
    from that obtain d where "c = d * 10" by (metis mod_0_imp_dvd dvd_def mult.commute)
    then show ?thesis by (simp add: dec_val_def power_int_add)
  qed
  with Suc show ?case by (auto split: if_splits)
qed simp

text \<open>A quotient is at most one when the dividend is at most the divisor.\<close>

lemma dec_div_le_one:
  assumes "0 \<le> fst p" "0 < fst q" "dec_val p \<le> dec_val q"
  shows "0 \<le> fst (dec_div p q)" "dec_val (dec_div p q) \<le> 1"
proof -
  have "0 \<le> fst (dec_div p q) \<and> dec_val (dec_div p q) \<le> 1"
  proof (cases "fst p = 0")
    case True
    then show ?thesis by (simp add: dec_div_def Let_def dec_fix_def num_digits.simps [of 0] precision_def)
  next
    case False
    then have p: "0 < fst p" using assms(1) by simp
    define shift where "shift = int (num_digits (fst q)) - int (num_digits (fst p)) + int precision + 1"
    define e where "e = snd p - snd q - shift"
    define num where "num = fst p * 10 ^ nat shift"
    define den where "den = fst q * 10 ^ nat (- shift)"
    define c where "c = num div den"
    have den: "0 < den" and num: "0 < num" using p assms(2) by (simp_all add: den_def num_def)
    have c: "0 \<le> c" using den num by (simp add: c_def pos_imp_zdiv_nonneg_iff)
    have v: "of_int (fst p) * 10 powi snd p \<le> of_int (fst q) * (10 :: rat) powi snd q"
      using assms(3) by (simp add: dec_val_def)
    have "(10 :: rat) powi (int (num_digits (fst p) - 1) + snd p) \<le> of_int (fst p) * 10 powi snd p"
      using num_digits_bounds [OF p] of_int_le_iff [of "10 ^ (num_digits (fst p) - 1)" "fst p", where 'a = rat]
      by (simp add: power_int_add)
    also note v
    also have "of_int (fst q) * 10 powi snd q < (10 :: rat) powi (int (num_digits (fst q)) + snd q)"
      using num_digits_bounds [OF assms(2)] of_int_less_iff [of "fst q" "10 ^ num_digits (fst q)", where 'a = rat]
      by (simp add: power_int_add)
    finally have "int (num_digits (fst p) - 1) + snd p < int (num_digits (fst q)) + snd q"
      by (metis leD le_less_linear one_le_numeral power_int_increasing)
    then have "e \<le> 0" by (simp add: e_def shift_def precision_def)
    define N where "N = (10 :: int) ^ nat (- e)"
    have N: "of_int N = (10 :: rat) powi (- e)"
      using \<open>e \<le> 0\<close> by (simp add: N_def flip: power_int_of_nat)
    have le: "num \<le> N * den"
    proof -
      have "of_int (fst p) * 10 powi shift \<le> of_int (fst q) * (10 :: rat) powi (shift + snd q - snd p)"
        using mult_right_mono [OF v, of "10 powi (shift - snd p)"]
        by (simp add: power_int_add power_int_diff field_simps)
      also have "of_int (fst q) * (10 :: rat) powi (shift + snd q - snd p) = of_int N * of_int (fst q)"
        by (simp add: N e_def algebra_simps)
      finally have "of_int (fst p) * 10 powi shift \<le> (of_int N * of_int (fst q) :: rat)" .
      moreover have "(10 :: rat) powi shift * 10 ^ nat (- shift) = 10 ^ nat shift"
        by (cases "0 \<le> shift") (simp_all add: power_int_def flip: power_mult_distrib)
      ultimately have "of_int (fst p) * 10 ^ nat shift \<le> (of_int N * of_int (fst q) * 10 ^ nat (- shift) :: rat)"
        by (metis mult.assoc mult_right_mono zero_le_power zero_le_numeral)
      then have "of_int num \<le> (of_int (N * den) :: rat)" by (simp add: num_def den_def mult.assoc)
      then show ?thesis by (simp only: of_int_le_iff)
    qed
    have le_one: "dec_val (x, e) \<le> 1" if "x \<le> N" for x
    proof -
      have "dec_val (x, e) \<le> of_int N * 10 powi e" using that by (simp add: dec_val_def)
      also have "\<dots> = 1" by (simp add: N power_int_minus)
      finally show ?thesis .
    qed
    have small: "x \<le> N \<Longrightarrow> 0 \<le> x \<Longrightarrow> dec_val (dec_fix (x, e)) \<le> 1" for x
      using dec_fix_le_short [of "(x, e)" "(1, 0)"] le_one by simp
    show ?thesis
    proof (cases "num mod den = 0")
      case True
      have "num = c * den" using True by (auto simp: c_def)
      then have "c \<le> N" using le den by simp
      obtain c' e' where t: "trim_zeros (nat (snd p - snd q - e)) c e = (c', e')" by force
      have "dec_div p q = dec_fix (c', e')"
        using True False p assms(2) t
        by (simp add: dec_div_def Let_def shift_def e_def num_def den_def c_def)
      moreover have "dec_val (c, e) \<le> 1"
        using le_one [OF \<open>c \<le> N\<close>] .
      ultimately show ?thesis
        using trim_zeros_value [OF c t] dec_fix_le_short [of "(c', e')" "(1, 0)"] by simp
    next
      case rest: False
      have "c * den + num mod den = num" by (simp add: c_def)
      moreover have "0 < num mod den" using rest den pos_mod_sign [of den num] by linarith
      ultimately have "c * den < N * den" using le by linarith
      then have "c < N" using den by simp
      moreover have "dec_div p q = dec_fix (if c mod 5 = 0 then c + 1 else c, e)"
        using rest False p assms(2)
        by (simp add: dec_div_def Let_def shift_def e_def num_def den_def c_def)
      ultimately show ?thesis using small [of "if c mod 5 = 0 then c + 1 else c"] c by simp
    qed
  qed
  then show "0 \<le> fst (dec_div p q)" "dec_val (dec_div p q) \<le> 1" by blast+
qed

lemma dec_fix_pos: "0 < fst p \<Longrightarrow> 0 < fst (dec_fix p)"
proof -
  assume p: "0 < fst p"
  have "0 < rounded (fst p)" using rounded_between(1) [OF p] by (meson less_le_trans zero_less_numeral zero_less_power)
  then have "0 < dec_val (dec_fix p)" using dec_fix_value [of "fst p" "snd p"] p by simp
  then have "dec_val (dec_fix p) \<noteq> 0" "0 \<le> fst (dec_fix p)" using p by simp_all
  then show ?thesis by (cases "fst (dec_fix p) = 0") (simp_all add: dec_val_def)
qed

lemma dec_add_pos: "0 \<le> fst p \<Longrightarrow> 0 < fst q \<Longrightarrow> 0 < fst (dec_add p q)"
  unfolding dec_add_def Let_def by (rule dec_fix_pos) (simp add: add_nonneg_pos)

lemma decimal_of_value: "decimal_of (PFloat (Dec c e)) = Some d \<Longrightarrow> dec_val d = dec_val (c, e)"
  by (auto simp: dec_val_def power_int_add power_int_def nat_add_distrib power_add split: if_splits)

end
