(* ===== verification/Layer12_Policy.thy ===== *)
theory Layer12_Policy
  imports Layer12_Import Py_Decimal
begin

text \<open>
  Advisory policy checks of the layer-12 boundary (\<open>services/program_layer12_policy.py\<close>): the closed
  contracts of compatibility, cohort, metric receipts and comparison, the weighted aggregate in decimal
  arithmetic, the shadow evidence and its signed receipt.  Base64 decoding and the Ed25519 verification, which
  belong to a library, are an argument.
\<close>

section \<open>Errors\<close>

text \<open>\<open>Policy_error\<close> is \<open>Layer12PolicyError\<close>, \<open>Json_error\<close> the \<open>ValueError\<close> of \<open>json.dumps\<close>, \<open>Overflow\<close>
  the \<open>OverflowError\<close> of \<open>math.isfinite\<close> or of \<open>astimezone\<close>; no caller expects the last.\<close>

datatype policy_error = Policy_error string | Json_error | Overflow

type_synonym 'a judged = "policy_error + 'a"

definition deny :: "bool \<Rightarrow> string \<Rightarrow> 'a judged \<Rightarrow> 'a judged" where
  "deny b message m = guardE b (Policy_error message) m"

definition denied :: "string \<Rightarrow> 'a judged" where
  "denied message = Inl (Policy_error message)"

definition as_judged :: "'a published \<Rightarrow> 'a judged" where
  "as_judged m = (case m of Inl (Publication_error e) \<Rightarrow> Inl (Policy_error e) | Inr a \<Rightarrow> Inr a)"

section \<open>Reading a value\<close>

definition digest :: "pv \<Rightarrow> string judged" where
  "digest v = (case json_dumps v of None \<Rightarrow> Inl Json_error | Some s \<Rightarrow> Inr (sha256 s))"

definition object_at :: "pv \<Rightarrow> string \<Rightarrow> (string \<times> pv) list judged" where
  "object_at v label = as_judged (the_object v label)"

definition closed_at :: "(string \<times> pv) list \<Rightarrow> string list \<Rightarrow> string \<Rightarrow> unit judged" where
  "closed_at item required label = as_judged (closed_item item required label)"

definition text_at :: "pv \<Rightarrow> string \<Rightarrow> string judged" where
  "text_at v label =
     (case v of PStr s \<Rightarrow> (if strip s = [] then denied (label @ '' must be non-empty text'') else Inr s)
      | _ \<Rightarrow> denied (label @ '' must be non-empty text''))"

definition number_at :: "pv \<Rightarrow> string \<Rightarrow> decimal judged" where
  "number_at v label =
     (case v of
        PInt i \<Rightarrow> (if int_printable i then Inr (the (decimal_of v)) else denied (label @ '' must be a finite number''))
      | PFloat (Dec _ _) \<Rightarrow> Inr (the (decimal_of v))
      | PFloat _ \<Rightarrow> denied (label @ '' must be finite'')
      | _ \<Rightarrow> denied (label @ '' must be a finite number''))"

text \<open>\<open>math.isfinite\<close> of an int converts it to a double.\<close>

definition double_limit :: int where "double_limit = 2 ^ 1024 - 2 ^ 970"

definition integer_at :: "int \<Rightarrow> string \<Rightarrow> pv \<Rightarrow> string \<Rightarrow> int judged" where
  "integer_at least kind v label =
     (let bad = denied (label @ '' must be a '' @ kind @ '' integer'') in
      case v of
        PInt i \<Rightarrow> (if double_limit \<le> \<bar>i\<bar> then Inl Overflow else if i < least then bad else Inr i)
      | PFloat (Dec c e) \<Rightarrow>
          (if e < 0 \<and> c mod 10 ^ nat (- e) \<noteq> 0 then bad
           else let i = double_int (if 0 \<le> e then c * 10 ^ nat e else c div 10 ^ nat (- e)) in
             if i < least then bad else Inr i)
      | _ \<Rightarrow> bad)"

definition positive_at :: "pv \<Rightarrow> string \<Rightarrow> int judged" where
  "positive_at = integer_at 1 ''positive''"

definition nonnegative_at :: "pv \<Rightarrow> string \<Rightarrow> int judged" where
  "nonnegative_at = integer_at 0 ''nonnegative''"

section \<open>Times\<close>

text \<open>
  The pattern \<open>YYYY-MM-DDThh:mm:ss[.f..](Z|+hh:mm|-hh:mm)\<close>.  A time is its microseconds since the start of
  year 1 in UTC; \<open>fromisoformat\<close> takes six digits of a fraction.
\<close>

fun read_digits :: "nat \<Rightarrow> int \<Rightarrow> string \<Rightarrow> (int \<times> string) option" where
  "read_digits 0 n s = Some (n, s)"
| "read_digits (Suc k) n [] = None"
| "read_digits (Suc k) n (c # s) = (if is_digit c then read_digits k (10 * n + of_char c - 48) s else None)"

definition skip_char :: "char \<Rightarrow> string \<Rightarrow> string option" where
  "skip_char c s = (if s \<noteq> [] \<and> hd s = c then Some (tl s) else None)"

fun take_fields :: "(nat \<times> char) list \<Rightarrow> string \<Rightarrow> (int list \<times> string) option" where
  "take_fields [] s = Some ([], s)"
| "take_fields ((k, c) # fs) s =
     Option.bind (read_digits k 0 s) (\<lambda>(n, t).
     Option.bind (skip_char c t) (\<lambda>u. Option.bind (take_fields fs u) (\<lambda>(ns, w). Some (n # ns, w))))"

definition take_fraction :: "string \<Rightarrow> (int \<times> string) option" where
  "take_fraction s =
     (if s = [] \<or> hd s \<noteq> CHR ''.'' then Some (0, s)
      else let ds = takeWhile is_digit (tl s) in
        if ds = [] then None
        else Option.bind (read_digits 6 0 (take 6 (ds @ ''00000''))) (\<lambda>(n, _). Some (n, dropWhile is_digit (tl s))))"

definition take_offset :: "string \<Rightarrow> int option" where
  "take_offset s =
     (if s = ''Z'' then Some 0
      else if s \<noteq> [] \<and> hd s \<in> set ''+-'' then
        (case take_fields [(2, CHR '':'')] (tl s) of
           Some ([h], t) \<Rightarrow> (case read_digits 2 0 t of
             Some (m, []) \<Rightarrow> Some ((if hd s = CHR ''-'' then -1 else 1) * (3600 * h + 60 * m)) | _ \<Rightarrow> None)
         | _ \<Rightarrow> None)
      else None)"

definition leap :: "int \<Rightarrow> bool" where
  "leap y = (y mod 4 = 0 \<and> (y mod 100 \<noteq> 0 \<or> y mod 400 = 0))"

definition month_days :: "int \<Rightarrow> int list" where
  "month_days y = [31, if leap y then 29 else 28, 31, 30, 31, 30, 31, 31, 30, 31, 30, 31]"

definition date_days :: "int \<Rightarrow> int \<Rightarrow> int \<Rightarrow> int option" where
  "date_days y m d =
     (if 1 \<le> y \<and> 1 \<le> m \<and> m \<le> 12 \<and> 1 \<le> d \<and> d \<le> month_days y ! nat (m - 1)
      then Some (365 * (y - 1) + (y - 1) div 4 - (y - 1) div 100 + (y - 1) div 400 +
        sum_list (take (nat (m - 1)) (month_days y)) + d - 1)
      else None)"

definition max_time :: int where "max_time = 3652059 * 86400 * 1000000"

definition read_time :: "string \<Rightarrow> (int list \<times> int \<times> int) option" where
  "read_time s =
     Option.bind (take_fields [(4, CHR ''-''), (2, CHR ''-''), (2, CHR ''T''), (2, CHR '':''), (2, CHR '':'')] s) (\<lambda>(ns, t).
     Option.bind (read_digits 2 0 t) (\<lambda>(sec, u).
     Option.bind (take_fraction u) (\<lambda>(us, w).
     Option.bind (take_offset w) (\<lambda>offset. Some (ns @ [sec], us, offset)))))"

definition time_at :: "pv \<Rightarrow> string \<Rightarrow> int judged" where
  "time_at v label =
     bindE (text_at v label) (\<lambda>s.
     case read_time s of
       Some ([y, m, d, h, mi, sec], us, offset) \<Rightarrow>
         (case date_days y m d of
            Some days \<Rightarrow>
              (if 24 \<le> h \<or> 60 \<le> mi \<or> 60 \<le> sec \<or> 86400 \<le> \<bar>offset\<bar> then denied (label @ '' must be RFC3339'')
               else let t = (86400 * days + 3600 * h + 60 * mi + sec - offset) * 1000000 + us in
                 if t < 0 \<or> max_time \<le> t then Inl Overflow else Inr t)
          | None \<Rightarrow> denied (label @ '' must be RFC3339''))
     | _ \<Rightarrow> denied (label @ '' must be RFC3339''))"

section \<open>Identity and compatibility\<close>

definition identity_fields :: "string list" where
  "identity_fields = [''protocol_version'', ''transition_token'', ''family_id'', ''spec_digest'', ''candidate_id'',
     ''ak_eval_receipt_id'']"

type_synonym ident = "(string \<times> string) list"

definition identity_at :: "pv \<Rightarrow> string \<Rightarrow> ident judged" where
  "identity_at v label =
     bindE (object_at v label) (\<lambda>item.
     bindE (closed_at item identity_fields label) (\<lambda>_.
     bindE (mapE (\<lambda>f. bindE (text_at (dget f item) (label @ ''.'' @ f)) (\<lambda>s. Inr (f, s))) identity_fields) (\<lambda>result.
     deny (map_of result ''protocol_version'' \<noteq> Some ''layer12-v1'') ''mixed or unsupported protocol_version''
       (Inr result))))"

definition same_identity :: "ident \<Rightarrow> ident \<Rightarrow> string \<Rightarrow> unit judged" where
  "same_identity a b label = deny (a \<noteq> b) (label @ '' identity mismatch'') (Inr ())"

definition texts_value :: "ident \<Rightarrow> pv" where
  "texts_value i = PDict (map (\<lambda>(k, s). (k, PStr s)) i)"

definition texts_all :: "(string \<times> pv) list \<Rightarrow> string list \<Rightarrow> unit judged" where
  "texts_all item names = bindE (mapE (\<lambda>f. text_at (dget f item) f) names) (\<lambda>_. Inr ())"

record compat =
  ct_identity :: ident
  ct_digest :: string
  ct_observed :: int
  ct_expires :: int

definition compat_fields :: "string list" where
  "compat_fields = [''schema_version'', ''identity'', ''runtime_digest'', ''dataset_digest'', ''metric_set_digest'',
     ''observed_at'', ''expires_at'', ''live_evaluation_replayable'']"

definition check_compat :: "pv \<Rightarrow> string \<Rightarrow> compat judged" where
  "check_compat contract now =
     bindE (object_at contract ''compatibility'') (\<lambda>item.
     bindE (closed_at item compat_fields ''compatibility'') (\<lambda>_.
     deny (dget ''schema_version'' item \<noteq> PStr ''layer12-execution-compatibility-v1'') ''unsupported compatibility schema''
     (bindE (identity_at (dget ''identity'' item) ''identity'') (\<lambda>identity.
     bindE (texts_all item [''runtime_digest'', ''dataset_digest'', ''metric_set_digest'']) (\<lambda>_.
     bindE (time_at (dget ''observed_at'' item) ''observed_at'') (\<lambda>observed.
     bindE (time_at (dget ''expires_at'' item) ''expires_at'') (\<lambda>expires.
     bindE (time_at (PStr now) ''now'') (\<lambda>current.
     deny (current < observed \<or> expires \<le> observed \<or> expires \<le> current)
       ''compatibility observation is future, invalid, or stale''
     (deny (dget ''live_evaluation_replayable'' item \<noteq> PBool False)
       ''live evaluation must remain permanently non-replayable''
     (bindE (digest contract) (\<lambda>d.
       Inr \<lparr>ct_identity = identity, ct_digest = d, ct_observed = observed, ct_expires = expires\<rparr>)))))))))))"

definition check_execution_compatibility :: "pv \<Rightarrow> string \<Rightarrow> (string \<times> pv) list judged" where
  "check_execution_compatibility contract now =
     bindE (check_compat contract now) (\<lambda>c.
     Inr [(''compatible'', PBool True), (''identity'', texts_value (ct_identity c)),
       (''compatibility_digest'', PStr (ct_digest c))])"

section \<open>The advisory aggregate\<close>

text \<open>The arguments of \<open>check_advisory_aggregate\<close>.\<close>

record aggregate_args =
  ag_policy :: pv
  ag_compatibility :: pv
  ag_cohort :: pv
  ag_receipts :: "pv list"
  ag_comparison :: pv
  ag_identity :: pv
  ag_policy_digest :: string
  ag_compatibility_digest :: string
  ag_cohort_digest :: string
  ag_receipt_digests :: "string list"
  ag_comparison_digest :: string
  ag_now :: string

record aggregate_policy =
  ap_id :: string
  ap_digest :: string
  ap_minimum :: int
  ap_weights :: "(string \<times> decimal) list"

definition policy_fields :: "string list" where
  "policy_fields = [''schema_version'', ''policy_id'', ''metric_weights'', ''minimum_receipts'', ''aggregation'',
     ''non_authority'']"

definition check_policy :: "pv \<Rightarrow> string \<Rightarrow> aggregate_policy judged" where
  "check_policy policy expected =
     bindE (object_at policy ''policy'') (\<lambda>item.
     bindE (closed_at item policy_fields ''policy'') (\<lambda>_.
     deny (dget ''schema_version'' item \<noteq> PStr ''layer12-advisory-aggregate-policy-v1'' \<or>
         dget ''aggregation'' item \<noteq> PStr ''weighted_mean'') ''unsupported aggregate policy''
     (deny (dget ''non_authority'' item \<noteq> PBool True) ''aggregate policy must be explicitly non-authoritative''
     (bindE (text_at (dget ''policy_id'' item) ''policy_id'') (\<lambda>policy_id.
     bindE (text_at (PStr expected) ''expected_policy_digest'') (\<lambda>bound.
     bindE (digest policy) (\<lambda>d.
     deny (d \<noteq> bound) ''policy digest does not match external binding''
     (bindE (positive_at (dget ''minimum_receipts'' item) ''minimum_receipts'') (\<lambda>minimum.
     bindE (object_at (dget ''metric_weights'' item) ''metric_weights'') (\<lambda>weights.
     deny (weights = []) ''metric_weights cannot be empty''
     (bindE (mapE (\<lambda>(k, v). bindE (number_at v (''weight.'' @ k)) (\<lambda>w. Inr (k, w))) weights) (\<lambda>weights.
     deny (list_ex (\<lambda>(k, w). fst w \<le> 0) weights) ''weights must be positive''
       (Inr \<lparr>ap_id = policy_id, ap_digest = bound, ap_minimum = minimum, ap_weights = weights\<rparr>)))))))))))))"

definition cohort_fields :: "string list" where
  "cohort_fields = [''schema_version'', ''identity'', ''cohort_id'', ''candidate_ids'', ''compatibility_digest'']"

text \<open>The cohort gives its id and its digest.\<close>

definition check_cohort :: "compat \<Rightarrow> pv \<Rightarrow> string \<Rightarrow> (string \<times> string) judged" where
  "check_cohort c cohort expected =
     bindE (object_at cohort ''cohort'') (\<lambda>item.
     bindE (closed_at item cohort_fields ''cohort'') (\<lambda>_.
     deny (dget ''schema_version'' item \<noteq> PStr ''layer12-comparison-cohort-v1'') ''unsupported cohort schema''
     (bindE (text_at (dget ''cohort_id'' item) ''cohort_id'') (\<lambda>cohort_id.
     bindE (digest cohort) (\<lambda>d.
     bindE (text_at (PStr expected) ''expected_cohort_digest'') (\<lambda>bound.
     deny (d \<noteq> bound) ''cohort does not match external binding''
     (bindE (identity_at (dget ''identity'' item) ''cohort.identity'') (\<lambda>identity.
     bindE (same_identity (ct_identity c) identity ''cohort'') (\<lambda>_.
     deny (dget ''compatibility_digest'' item \<noteq> PStr (ct_digest c)) ''cohort compatibility digest mismatch''
     (deny (list_of (dget ''candidate_ids'' item) = []) ''candidate_ids must be a non-empty unique list''
     (bindE (mapE (\<lambda>v. text_at v ''candidate_id'') (list_of (dget ''candidate_ids'' item))) (\<lambda>ids.
     deny (\<not> distinct ids) ''candidate_ids must be a non-empty unique list''
     (deny (case map_of (ct_identity c) ''candidate_id'' of None \<Rightarrow> True | Some s \<Rightarrow> s \<notin> set ids)
       ''evaluated candidate is outside cohort''
       (Inr (cohort_id, d)))))))))))))))"

text \<open>The loop over the metric receipts.\<close>

record tally =
  ta_seen :: "string list"
  ta_sum :: decimal
  ta_weight :: decimal
  ta_digests :: "string list"

definition receipt_fields :: "string list" where
  "receipt_fields = [''schema_version'', ''identity'', ''metric_id'', ''score_vector'', ''compatibility_digest'',
     ''measured_at'', ''authoritative'']"

definition receipt_step ::
    "aggregate_policy \<Rightarrow> compat \<Rightarrow> int \<Rightarrow> nat \<times> pv \<Rightarrow> tally \<Rightarrow> tally judged" where
  "receipt_step p c current iv t =
     bindE (object_at (snd iv) (''metric_receipts['' @ nat_text (fst iv) @ '']'')) (\<lambda>receipt.
     bindE (closed_at receipt receipt_fields ''metric receipt'') (\<lambda>_.
     deny (dget ''schema_version'' receipt \<noteq> PStr ''layer12-dspx-metric-receipt-v1'' \<or>
         dget ''authoritative'' receipt \<noteq> PBool False) ''metric receipt schema/authority mismatch''
     (bindE (identity_at (dget ''identity'' receipt) ''metric.identity'') (\<lambda>identity.
     bindE (same_identity (ct_identity c) identity ''metric'') (\<lambda>_.
     deny (dget ''compatibility_digest'' receipt \<noteq> PStr (ct_digest c)) ''metric compatibility digest mismatch''
     (bindE (text_at (dget ''metric_id'' receipt) ''metric_id'') (\<lambda>metric.
     deny (metric \<in> set (ta_seen t) \<or> map_of (ap_weights p) metric = None) ''duplicate or unregistered metric''
     (bindE (object_at (dget ''score_vector'' receipt) ''score_vector'') (\<lambda>vector.
     bindE (closed_at vector [''schema_version'', ''raw_score'', ''sample_count''] ''score_vector'') (\<lambda>_.
     deny (dget ''schema_version'' vector \<noteq> PStr ''layer12-advisory-score-vector-v1'') ''unsupported score vector''
     (bindE (number_at (dget ''raw_score'' vector) ''raw_score'') (\<lambda>score.
     deny (fst score < 0 \<or> dec_less (1, 0) score) ''raw_score must be within [0,1]''
     (bindE (positive_at (dget ''sample_count'' vector) ''sample_count'') (\<lambda>_.
     bindE (time_at (dget ''measured_at'' receipt) ''measured_at'') (\<lambda>measured.
     deny (measured < ct_observed c \<or> current < measured \<or> ct_expires c \<le> measured)
       ''metric receipt is future, stale, or outside compatibility''
     (bindE (digest (snd iv)) (\<lambda>d.
      let w = the (map_of (ap_weights p) metric) in
       Inr \<lparr>ta_seen = ta_seen t @ [metric], ta_sum = dec_add (ta_sum t) (dec_mul score w),
         ta_weight = dec_add (ta_weight t) w, ta_digests = ta_digests t @ [d]\<rparr>)))))))))))))))))"

definition tally_start :: tally where
  "tally_start = \<lparr>ta_seen = [], ta_sum = (0, 0), ta_weight = (0, 0), ta_digests = []\<rparr>"

definition comparison_fields :: "string list" where
  "comparison_fields = [''schema_version'', ''identity'', ''cohort_id'', ''cohort_digest'',
     ''metric_receipt_digests'', ''winner_selected'', ''authoritative'']"

definition check_comparison ::
    "compat \<Rightarrow> string \<times> string \<Rightarrow> string list \<Rightarrow> pv \<Rightarrow> string \<Rightarrow> string judged" where
  "check_comparison c cohort digests comparison expected =
     bindE (object_at comparison ''comparison_receipt'') (\<lambda>item.
     bindE (closed_at item comparison_fields ''comparison_receipt'') (\<lambda>_.
     bindE (digest comparison) (\<lambda>d.
     bindE (text_at (PStr expected) ''expected_comparison_receipt_digest'') (\<lambda>bound.
     deny (d \<noteq> bound) ''comparison does not match external binding''
     (bindE (text_at (dget ''cohort_id'' item) ''comparison.cohort_id'') (\<lambda>cohort_id.
     deny (dget ''schema_version'' item \<noteq> PStr ''layer12-comparison-receipt-v1'' \<or>
         dget ''authoritative'' item \<noteq> PBool False \<or> dget ''winner_selected'' item \<noteq> PBool False)
       ''comparison must remain advisory without winner selection''
     (bindE (identity_at (dget ''identity'' item) ''comparison.identity'') (\<lambda>identity.
     bindE (same_identity (ct_identity c) identity ''comparison'') (\<lambda>_.
     deny (cohort_id \<noteq> fst cohort \<or> dget ''cohort_digest'' item \<noteq> PStr (snd cohort))
       ''comparison cohort binding mismatch''
     (deny (dget ''metric_receipt_digests'' item \<noteq> names_value (sort digests))
       ''comparison metric receipt binding mismatch'' (Inr d)))))))))))"

definition check_advisory_aggregate :: "aggregate_args \<Rightarrow> (string \<times> pv) list judged" where
  "check_advisory_aggregate a =
     bindE (check_policy (ag_policy a) (ag_policy_digest a)) (\<lambda>p.
     bindE (check_compat (ag_compatibility a) (ag_now a)) (\<lambda>c.
     bindE (text_at (PStr (ag_compatibility_digest a)) ''expected_compatibility_digest'') (\<lambda>bound.
     deny (ct_digest c \<noteq> bound) ''compatibility does not match external binding''
     (bindE (identity_at (ag_identity a) ''expected_identity'') (\<lambda>identity.
     bindE (same_identity identity (ct_identity c) ''external binding'') (\<lambda>_.
     bindE (time_at (PStr (ag_now a)) ''now'') (\<lambda>current.
     bindE (check_cohort c (ag_cohort a) (ag_cohort_digest a)) (\<lambda>cohort.
     deny (int (length (ag_receipts a)) < ap_minimum p) ''insufficient metric receipts''
     (bindE (foldE (receipt_step p c current) (zip [0..<length (ag_receipts a)] (ag_receipts a)) tally_start) (\<lambda>t.
     deny (set (ta_seen t) \<noteq> set (dict_keys (ap_weights p))) ''metric set is incomplete''
     (bindE (mapE (\<lambda>s. text_at (PStr s) ''expected_metric_receipt_digest'') (ag_receipt_digests a)) (\<lambda>expected.
     deny (sort (ta_digests t) \<noteq> sort expected) ''metric receipts do not match external binding''
     (bindE (check_comparison c cohort (ta_digests t) (ag_comparison a) (ag_comparison_digest a)) (\<lambda>d.
       Inr [(''schema_version'', PStr ''layer12-advisory-aggregate-result-v1''), (''status'', PStr ''advisory_available''),
         (''identity'', texts_value identity), (''policy_id'', PStr (ap_id p)), (''policy_digest'', PStr (ap_digest p)),
         (''aggregate'', PStr (dec_format (dec_div (ta_sum t) (ta_weight t)))),
         (''metric_receipt_digests'', names_value (sort (ta_digests t))), (''comparison_receipt_digest'', PStr d),
         (''ak_legality'', PBool False), (''policy_selected'', PBool False),
         (''recommendation_available'', PBool False)]))))))))))))))"

section \<open>Shadow evidence\<close>

definition shadow_schema :: string where "shadow_schema = ''layer12-dspx-policy-shadow-evidence-v1''"

definition prereg_fields :: "string list" where
  "prereg_fields = [''schema_version'', ''evidence_id'', ''policy_digest'', ''cohort_digest'', ''metric_set_digest'',
     ''passing_threshold'', ''minimum_observations'', ''registered_at'', ''expires_at'', ''shadow_only'']"

definition bound_fields :: "string list" where
  "bound_fields = [''evidence_id'', ''policy_digest'', ''cohort_digest'', ''metric_set_digest'']"

record preregistration =
  pr_item :: "(string \<times> pv) list"
  pr_digest :: string
  pr_threshold :: decimal
  pr_minimum :: int
  pr_registered :: int
  pr_expires :: int

definition check_preregistration :: "pv \<Rightarrow> string \<Rightarrow> int judged \<Rightarrow> preregistration judged" where
  "check_preregistration prereg expected now =
     bindE (object_at prereg ''preregistration'') (\<lambda>item.
     bindE (closed_at item prereg_fields ''preregistration'') (\<lambda>_.
     bindE (text_at (PStr expected) ''expected_preregistration_digest'') (\<lambda>bound.
     bindE (digest prereg) (\<lambda>d.
     deny (d \<noteq> bound) ''preregistration does not match external binding''
     (deny (dget ''schema_version'' item \<noteq> PStr shadow_schema \<or> dget ''shadow_only'' item \<noteq> PBool True)
       ''invalid shadow preregistration''
     (bindE (texts_all item bound_fields) (\<lambda>_.
     bindE (number_at (dget ''passing_threshold'' item) ''passing_threshold'') (\<lambda>threshold.
     bindE (positive_at (dget ''minimum_observations'' item) ''minimum_observations'') (\<lambda>minimum.
     deny (fst threshold < 0 \<or> dec_less (1, 0) threshold) ''invalid preregistered predicate''
     (bindE (time_at (dget ''registered_at'' item) ''registered_at'') (\<lambda>registered.
     bindE (time_at (dget ''expires_at'' item) ''expires_at'') (\<lambda>expires.
     bindE now (\<lambda>current.
     deny (current < registered \<or> expires \<le> registered \<or> expires \<le> current)
       ''preregistration is future, invalid, or stale''
       (Inr \<lparr>pr_item = item, pr_digest = d, pr_threshold = threshold, pr_minimum = minimum,
         pr_registered = registered, pr_expires = expires\<rparr>))))))))))))))"

definition result_fields :: "string list" where
  "result_fields = [''schema_version'', ''evidence_id'', ''preregistration_digest'', ''policy_digest'',
     ''cohort_digest'', ''metric_set_digest'', ''observed_aggregate'', ''observation_count'', ''observed_at'',
     ''predicate_passed'', ''policy_selected'', ''selection_authorization_ref'']"

text \<open>\<open>score >= threshold and count >= minimum\<close>.\<close>

definition predicate_passed :: "preregistration \<Rightarrow> decimal \<Rightarrow> int \<Rightarrow> bool" where
  "predicate_passed p aggregate count = (\<not> dec_less aggregate (pr_threshold p) \<and> pr_minimum p \<le> count)"

definition check_shadow_evidence :: "pv \<Rightarrow> pv \<Rightarrow> string \<Rightarrow> string \<Rightarrow> string \<Rightarrow> (string \<times> pv) list judged" where
  "check_shadow_evidence prereg shadow expected_prereg expected_result now =
     bindE (check_preregistration prereg expected_prereg (time_at (PStr now) ''now'')) (\<lambda>p.
     bindE (time_at (PStr now) ''now'') (\<lambda>current.
     bindE (object_at shadow ''result'') (\<lambda>observed.
     bindE (digest shadow) (\<lambda>d.
     bindE (text_at (PStr expected_result) ''expected_result_digest'') (\<lambda>bound.
     deny (d \<noteq> bound) ''shadow result does not match external binding''
     (bindE (closed_at observed result_fields ''result'') (\<lambda>_.
     deny (dget ''schema_version'' observed \<noteq> PStr shadow_schema) ''invalid shadow result schema''
     (deny (dget ''preregistration_digest'' observed \<noteq> PStr (pr_digest p)) ''shadow result does not bind preregistration''
     (bindE (mapE (\<lambda>f. deny (dget f observed \<noteq> dget f (pr_item p)) (''shadow result '' @ f @ '' mismatch'') (Inr ()))
         bound_fields) (\<lambda>_.
     bindE (number_at (dget ''observed_aggregate'' observed) ''observed_aggregate'') (\<lambda>aggregate.
     bindE (nonnegative_at (dget ''observation_count'' observed) ''observation_count'') (\<lambda>count.
     deny (fst aggregate < 0 \<or> dec_less (1, 0) aggregate) ''invalid observed predicate inputs''
     (bindE (time_at (dget ''observed_at'' observed) ''observed_at'') (\<lambda>seen.
     deny (seen < pr_registered p \<or> current < seen \<or> pr_expires p \<le> seen) ''shadow result observation is out of bounds''
     (let passed = predicate_passed p aggregate count in
      deny (dget ''predicate_passed'' observed \<noteq> PBool passed) ''predicate_passed does not match preregistered predicate''
     (deny (dget ''policy_selected'' observed \<noteq> PBool False \<or> dget ''selection_authorization_ref'' observed \<noteq> PNone)
       ''shadow evidence cannot select policy or carry selection authority''
       (Inr [(''status'', PStr (if passed then ''passing_unselected'' else ''failing_unselected'')),
         (''evidence_digest'', PStr d), (''predicate_passed'', PBool passed), (''policy_selected'', PBool False),
         (''recommendation_available'', PBool False),
         (''requires_separate_owner_selection_authorization'', PBool True)])))))))))))))))))"


section \<open>The signed receipt\<close>

text \<open>\<open>b64decode(s, validate=True)\<close>: groups of four characters, padding only at the end.\<close>

definition base64_alphabet :: string where
  "base64_alphabet = ''ABCDEFGHIJKLMNOPQRSTUVWXYZabcdefghijklmnopqrstuvwxyz0123456789+/''"

definition base64_digit :: "char \<Rightarrow> nat option" where
  "base64_digit c = (let n = length (takeWhile (\<lambda>d. d \<noteq> c) base64_alphabet) in if n < 64 then Some n else None)"

definition base64_digits :: "string \<Rightarrow> nat list option" where
  "base64_digits s = those (map base64_digit s)"

definition base64_bytes :: "nat list \<Rightarrow> nat list" where
  "base64_bytes ns =
     (case ns of
        [a, b] \<Rightarrow> [4 * a + b div 16]
      | [a, b, c] \<Rightarrow> [4 * a + b div 16, 16 * (b mod 16) + c div 4]
      | [a, b, c, d] \<Rightarrow> [4 * a + b div 16, 16 * (b mod 16) + c div 4, 64 * (c mod 4) + d]
      | _ \<Rightarrow> [])"

fun base64_decode :: "string \<Rightarrow> nat list option" where
  "base64_decode (a # b # c # d # s) =
     (let group = (if s \<noteq> [] \<or> d \<noteq> CHR ''='' then [a, b, c, d] else if c = CHR ''='' then [a, b] else [a, b, c]) in
      Option.bind (base64_digits group) (\<lambda>ns. Option.bind (base64_decode s) (\<lambda>rest. Some (base64_bytes ns @ rest))))"
| "base64_decode [] = Some []"
| "base64_decode _ = None"

text \<open>The verification of Ed25519: key, signature and message; a key of the wrong length verifies nothing.\<close>

type_synonym verifier = "nat list \<Rightarrow> nat list \<Rightarrow> string \<Rightarrow> bool"

definition signature_holds :: "verifier \<Rightarrow> string \<Rightarrow> string \<Rightarrow> pv \<Rightarrow> bool" where
  "signature_holds verifies key sig payload =
     (case (base64_decode key, base64_decode sig, json_dumps payload) of
        (Some k, Some g, Some m) \<Rightarrow> verifies k g m
      | _ \<Rightarrow> False)"

record receipt_args =
  rc_envelope :: pv
  rc_owner :: string
  rc_key_id :: string
  rc_public_key :: string
  rc_payload_digest :: string
  rc_commit :: string
  rc_refs :: pv
  rc_policy_digest :: string
  rc_cohort_digest :: string
  rc_metric_digest :: string
  rc_now :: string

definition hex_of_length :: "nat \<Rightarrow> string \<Rightarrow> bool" where
  "hex_of_length n s = (length s = n \<and> list_all (\<lambda>c. c \<in> set ''0123456789abcdef'') s)"

definition addressed :: "string \<Rightarrow> string \<Rightarrow> bool" where
  "addressed prefix s = (take (length prefix) s = prefix \<and> hex_of_length 64 (drop (length prefix) s))"

definition envelope_fields :: "string list" where
  "envelope_fields = [''schema_version'', ''owner_repository'', ''key_id'', ''public_key_b64'', ''payload_digest'',
     ''signature_b64'', ''payload'']"

definition denied_claims :: "string list" where
  "denied_claims = [''policy_selected'', ''ak_legality'', ''generated_program_applied'', ''promotion_authorized'',
     ''publication_authorized'', ''dogfood_authorized'', ''rollout_authorized'']"

definition payload_fields :: "string list" where
  "payload_fields = [''schema_version'', ''wave_id'', ''owner_repository'', ''contract_commit'', ''preregistration'',
     ''result'', ''evaluations''] @ denied_claims"

definition evaluation_fields :: "string list" where
  "evaluation_fields = identity_fields @ [''observed_score'', ''observation_count'', ''authoritative'',
     ''live_evaluation_replayable'']"

text \<open>The expected references: transition tokens and content addresses.\<close>

definition check_expected_refs :: "pv \<Rightarrow> (string \<times> string) list judged" where
  "check_expected_refs v =
     bindE (object_at v ''expected_transition_eval_refs'') (\<lambda>item.
     deny (item = []) ''expected transition evaluation refs cannot be empty''
     (bindE (mapE (\<lambda>(token, ref).
         bindE (text_at (PStr token) ''expected transition token'') (\<lambda>t.
         bindE (text_at ref ''expected eval ref'') (\<lambda>r. Inr (t, r)))) item) (\<lambda>refs.
     deny (list_ex (\<lambda>(t, r). \<not> addressed ''ak-eval:sha256:'' r) refs) ''expected eval refs must be full content addresses''
       (Inr refs))))"

text \<open>The envelope up to the signature: the refs, the payload and its digest.\<close>

definition check_envelope :: "verifier \<Rightarrow> receipt_args \<Rightarrow> ((string \<times> string) list \<times> pv \<times> string) judged" where
  "check_envelope verifies a =
     bindE (object_at (rc_envelope a) ''envelope'') (\<lambda>item.
     bindE (closed_at item envelope_fields ''envelope'') (\<lambda>_.
     deny (dget ''schema_version'' item \<noteq> PStr ''iw14a-dspx-shadow-receipt-envelope-v1'') ''unsupported signed shadow envelope''
     (bindE (text_at (PStr (rc_owner a)) ''expected_owner_repository'') (\<lambda>owner.
     bindE (text_at (PStr (rc_key_id a)) ''expected_key_id'') (\<lambda>key_id.
     bindE (text_at (PStr (rc_public_key a)) ''expected_public_key_b64'') (\<lambda>public_key.
     bindE (text_at (PStr (rc_payload_digest a)) ''expected_payload_digest'') (\<lambda>payload_digest.
     bindE (text_at (PStr (rc_commit a)) ''expected_contract_commit'') (\<lambda>commit.
     deny (\<not> hex_of_length 40 commit) ''expected contract commit must be a full git object id''
     (bindE (check_expected_refs (rc_refs a)) (\<lambda>refs.
     bindE (text_at (PStr (rc_policy_digest a)) ''expected_policy_digest'') (\<lambda>_.
     bindE (text_at (PStr (rc_cohort_digest a)) ''expected_cohort_digest'') (\<lambda>_.
     bindE (text_at (PStr (rc_metric_digest a)) ''expected_metric_set_digest'') (\<lambda>_.
     deny (dget ''owner_repository'' item \<noteq> PStr owner \<or> owner \<noteq> ''softwareco/owned/dspx'')
       ''owner repository does not match external binding''
     (deny (dget ''key_id'' item \<noteq> PStr key_id \<or> dget ''public_key_b64'' item \<noteq> PStr public_key)
       ''signer does not match external trust root''
     (bindE (object_at (dget ''payload'' item) ''payload'') (\<lambda>_.
     bindE (digest (dget ''payload'' item)) (\<lambda>d.
     deny (dget ''payload_digest'' item \<noteq> PStr d \<or> d \<noteq> payload_digest)
       ''payload digest does not match external binding''
     (bindE (case text_at (dget ''signature_b64'' item) ''signature_b64'' of
         Inl _ \<Rightarrow> denied ''invalid DSPx owner signature'' | Inr s \<Rightarrow> Inr s) (\<lambda>sig.
     deny (\<not> signature_holds verifies public_key sig (dget ''payload'' item)) ''invalid DSPx owner signature''
       (Inr (refs, dget ''payload'' item, d)))))))))))))))))))))"

definition check_payload_bindings :: "receipt_args \<Rightarrow> (string \<times> pv) list \<Rightarrow> unit judged" where
  "check_payload_bindings a payload =
     bindE (closed_at payload payload_fields ''payload'') (\<lambda>_.
     deny (dget ''schema_version'' payload \<noteq> PStr ''iw14a-dspx-shadow-evidence-payload-v1'' \<or>
         dget ''wave_id'' payload \<noteq> PStr ''IW14-A'' \<or> dget ''owner_repository'' payload \<noteq> PStr (rc_owner a) \<or>
         dget ''contract_commit'' payload \<noteq> PStr (rc_commit a)) ''signed shadow payload authority binding mismatch''
     (bindE (mapE (\<lambda>f. deny (dget f payload \<noteq> PBool False) (''shadow payload cannot assert '' @ f) (Inr ()))
         denied_claims) (\<lambda>_. Inr ())))"

text \<open>The loop over the evaluations.\<close>

record mean =
  mn_tokens :: "string list"
  mn_score :: decimal
  mn_count :: int

definition mean_start :: mean where
  "mean_start = \<lparr>mn_tokens = [], mn_score = (0, 0), mn_count = 0\<rparr>"

definition evaluation_step :: "(string \<times> string) list \<Rightarrow> nat \<times> pv \<Rightarrow> mean \<Rightarrow> mean judged" where
  "evaluation_step refs iv m =
     bindE (object_at (snd iv) (''evaluations['' @ nat_text (fst iv) @ '']'')) (\<lambda>evaluation.
     bindE (closed_at evaluation evaluation_fields ''evaluation'') (\<lambda>_.
     bindE (identity_at (PDict (map (\<lambda>f. (f, dget f evaluation)) identity_fields)) ''identity'') (\<lambda>identity.
      let field = (\<lambda>f. the (map_of identity f)); token = field ''transition_token'' in
     deny (token \<in> set (mn_tokens m)) ''representative transition tokens must be unique''
     (deny (map_of refs token \<noteq> Some (field ''ak_eval_receipt_id'')) ''evaluation token/ref is outside external binding''
     (deny (\<not> addressed ''sha256:'' (field ''spec_digest'')) ''evaluation spec digest must be content addressed''
     (deny (dget ''authoritative'' evaluation \<noteq> PBool False \<or> dget ''live_evaluation_replayable'' evaluation \<noteq> PBool False)
       ''evaluations must remain advisory and non-replayable''
     (bindE (number_at (dget ''observed_score'' evaluation) ''observed_score'') (\<lambda>score.
     bindE (positive_at (dget ''observation_count'' evaluation) ''observation_count'') (\<lambda>count.
     deny (fst score < 0 \<or> dec_less (1, 0) score) ''observed_score must be within [0,1]''
       (Inr \<lparr>mn_tokens = mn_tokens m @ [token], mn_score = dec_add (mn_score m) (dec_mul score (count, 0)),
         mn_count = mn_count m + count\<rparr>))))))))))"

definition check_evaluations :: "(string \<times> string) list \<Rightarrow> pv \<Rightarrow> mean judged" where
  "check_evaluations refs v =
     deny (list_of v = []) ''evaluations must be a non-empty list''
     (bindE (foldE (evaluation_step refs) (zip [0..<length (list_of v)] (list_of v)) mean_start) (\<lambda>m.
     deny (set (mn_tokens m) \<noteq> set (map fst refs)) ''signed evaluations do not cover exact expected token set''
       (Inr m)))"

definition check_context :: "receipt_args \<Rightarrow> (string \<times> pv) list \<Rightarrow> pv \<Rightarrow> unit judged" where
  "check_context a prereg evaluations =
     bindE (digest evaluations) (\<lambda>d.
     deny (dget ''policy_digest'' prereg \<noteq> PStr (rc_policy_digest a) \<or>
         dget ''cohort_digest'' prereg \<noteq> PStr (rc_cohort_digest a) \<or>
         dget ''metric_set_digest'' prereg \<noteq> PStr (rc_metric_digest a) \<or> rc_cohort_digest a \<noteq> ''sha256:'' @ d)
       ''shadow preregistration context mismatch'' (Inr ()))"

definition check_observation :: "mean \<Rightarrow> (string \<times> pv) list \<Rightarrow> unit judged" where
  "check_observation m observed =
     bindE (number_at (dget ''observed_aggregate'' observed) ''observed_aggregate'') (\<lambda>aggregate.
     deny (\<not> dec_eq aggregate (dec_div (mn_score m) (mn_count m, 0)))
       ''result aggregate does not match signed evaluations''
     (bindE (nonnegative_at (dget ''observation_count'' observed) ''observation_count'') (\<lambda>count.
     deny (count \<noteq> mn_count m) ''result count does not match signed evaluations'' (Inr ()))))"

definition check_signed_receipt :: "verifier \<Rightarrow> receipt_args \<Rightarrow> (string \<times> pv) list judged" where
  "check_signed_receipt verifies a =
     bindE (check_envelope verifies a) (\<lambda>(refs, payload, d).
     bindE (object_at payload ''payload'') (\<lambda>item.
     bindE (check_payload_bindings a item) (\<lambda>_.
     bindE (check_evaluations refs (dget ''evaluations'' item)) (\<lambda>m.
     bindE (object_at (dget ''preregistration'' item) ''preregistration'') (\<lambda>prereg.
     bindE (check_context a prereg (dget ''evaluations'' item)) (\<lambda>_.
     bindE (object_at (dget ''result'' item) ''result'') (\<lambda>observed.
     bindE (check_observation m observed) (\<lambda>_.
     bindE (digest (dget ''preregistration'' item)) (\<lambda>prereg_digest.
     bindE (digest (dget ''result'' item)) (\<lambda>result_digest.
     bindE (check_shadow_evidence (dget ''preregistration'' item) (dget ''result'' item) prereg_digest result_digest
         (rc_now a)) (\<lambda>checked.
       Inr (checked @ [(''owner_repository'', PStr (rc_owner a)), (''key_id'', PStr (rc_key_id a)),
         (''payload_digest'', PStr d), (''signature_verified'', PBool True),
         (''representative_transition_tokens'', names_value (sort (mn_tokens m))), (''ak_legality'', PBool False),
         (''generated_program_applied'', PBool False)]))))))))))))"

section \<open>Successful checks\<close>

lemma deny_Inr [simp]: "deny b e m = Inr r \<longleftrightarrow> \<not> b \<and> m = Inr r"
  by (simp add: deny_def guardE_Inr_iff)

lemma denied_Inr [simp]: "denied e \<noteq> Inr r"
  by (simp add: denied_def)

lemma deny_False [simp]: "deny False e m = m"
  by (simp add: deny_def)

lemma as_judged_Inr [simp]: "as_judged m = Inr r \<longleftrightarrow> m = Inr r"
  by (cases m) (auto simp: as_judged_def split: publication_error.splits)

lemma object_at_Inr [simp]: "object_at v label = Inr kvs \<longleftrightarrow> v = PDict kvs"
  by (cases v) (simp_all add: object_at_def the_object_def)

lemma text_at_Inr [simp]: "text_at v label = Inr s \<longleftrightarrow> v = PStr s \<and> strip s \<noteq> []"
  by (cases v) (auto simp: text_at_def)

lemma digest_Inr: "digest v = Inr s \<longleftrightarrow> (\<exists>m. json_dumps v = Some m \<and> s = sha256 m)"
  by (auto simp: digest_def split: option.splits)

lemma number_at_Inr: "number_at v label = Inr d \<Longrightarrow> decimal_of v = Some d"
  by (cases v rule: decimal_of.cases) (auto simp: number_at_def split: if_splits)

end
