(* ===== verification/Policy_Evidence.thy ===== *)
theory Policy_Evidence
  imports Layer12_Policy
begin

text \<open>
  Correctness of the layer-12 advisory policy checks: the bounds of the aggregate, the decision on shadow evidence,
  what a signed receipt attests, and the means that no receipt can attest.  The samples are inputs the checks accept;
  their digests stay symbolic.
\<close>

section \<open>The aggregate\<close>

definition tally_ok :: "tally \<Rightarrow> bool" where
  "tally_ok t \<longleftrightarrow> 0 \<le> fst (ta_sum t) \<and> 0 \<le> fst (ta_weight t) \<and> dec_val (ta_sum t) \<le> dec_val (ta_weight t) \<and>
     (ta_seen t \<noteq> [] \<longrightarrow> 0 < fst (ta_weight t))"

definition weights_ok :: "aggregate_policy \<Rightarrow> bool" where
  "weights_ok p \<longleftrightarrow> (\<forall>(k, w) \<in> set (ap_weights p). 0 < fst w \<and> short w)"

lemma receipt_step_Inr:
  "receipt_step p c current iv t = Inr u \<Longrightarrow>
    \<exists>metric score d. 0 \<le> fst score \<and> \<not> dec_less (1, 0) score \<and> map_of (ap_weights p) metric \<noteq> None \<and>
     u = \<lparr>ta_seen = ta_seen t @ [metric], ta_sum = dec_add (ta_sum t) (dec_mul score (the (map_of (ap_weights p) metric))),
         ta_weight = dec_add (ta_weight t) (the (map_of (ap_weights p) metric)), ta_digests = ta_digests t @ [d]\<rparr>"
  unfolding receipt_step_def bindE_Inr_iff Let_def deny_Inr not_less de_Morgan_disj
  apply (elim exE conjE)
  subgoal for receipt _ identity _ metric vector _ score count measured d
    by (rule exI [of _ metric], rule exI [of _ score], rule exI [of _ d]) simp
  done

lemma tally_step:
  assumes "weights_ok p" "tally_ok t" "receipt_step p c current iv t = Inr u"
  shows "tally_ok u"
proof -
  from assms(3) obtain metric score d where s: "0 \<le> fst score" "\<not> dec_less (1, 0) score"
    "map_of (ap_weights p) metric \<noteq> None"
    "u = \<lparr>ta_seen = ta_seen t @ [metric], ta_sum = dec_add (ta_sum t) (dec_mul score (the (map_of (ap_weights p) metric))),
         ta_weight = dec_add (ta_weight t) (the (map_of (ap_weights p) metric)), ta_digests = ta_digests t @ [d]\<rparr>"
    using receipt_step_Inr [OF assms(3)] by blast
  from s(3) obtain w where w: "map_of (ap_weights p) metric = Some w" by blast
  from map_of_SomeD [OF w] assms(1) have q: "0 < fst w" "short w" by (auto simp: weights_ok_def)
  have m: "0 \<le> fst (dec_mul score w)" "dec_val (dec_mul score w) \<le> dec_val w"
    using s(1,2) q by (simp_all add: dec_less_value dec_mul_le)
  show ?thesis
    using assms(2) m q dec_add_mono [of "ta_sum t" "dec_mul score w" "ta_weight t" w] dec_add_pos [of "ta_weight t" w]
    by (simp add: tally_ok_def s(4) w)
qed

lemma check_policy_weights:
  "check_policy v d = Inr p \<Longrightarrow> ap_weights p \<noteq> [] \<and> (\<forall>(k, w) \<in> set (ap_weights p). 0 < fst w)"
  by (simp add: check_policy_def bindE_Inr_iff mapE_Inr_iff list_ex_iff) (elim exE conjE, force)


section \<open>Shadow evidence\<close>

lemma integer_at_least: "integer_at least kind v label = Inr i \<Longrightarrow> least \<le> i"
  by (auto simp: integer_at_def Let_def split: pv.splits pyfloat.splits if_splits)

lemma check_preregistration_Inr:
  "check_preregistration v bound now = Inr p \<Longrightarrow>
    v = PDict (pr_item p) \<and> pr_digest p = bound \<and> digest v = Inr bound \<and>
    decimal_of (dget ''passing_threshold'' (pr_item p)) = Some (pr_threshold p) \<and>
    0 \<le> dec_val (pr_threshold p) \<and> dec_val (pr_threshold p) \<le> 1 \<and>
    positive_at (dget ''minimum_observations'' (pr_item p)) ''minimum_observations'' = Inr (pr_minimum p) \<and>
    (\<exists>current. now = Inr current \<and> pr_registered p \<le> current \<and> current < pr_expires p)"
  unfolding check_preregistration_def bindE_Inr_iff deny_Inr
  by (elim exE conjE) (auto simp: number_at_Inr dec_less_value not_less)

text \<open>C19: an accepted shadow result binds the preregistration by digest, and it passes exactly when the value of
  the observed aggregate is at least the value of the threshold and there are the minimum observations; it never
  selects a policy.\<close>

theorem shadow_decision_exact:
  assumes "check_shadow_evidence prereg shadow bound_prereg bound_result now = Inr r"
  shows "\<exists>pi oi threshold minimum aggregate count.
    prereg = PDict pi \<and> shadow = PDict oi \<and> digest prereg = Inr bound_prereg \<and> digest shadow = Inr bound_result \<and>
    dget ''preregistration_digest'' oi = PStr bound_prereg \<and>
    decimal_of (dget ''passing_threshold'' pi) = Some threshold \<and> 0 \<le> dec_val threshold \<and> dec_val threshold \<le> 1 \<and>
    positive_at (dget ''minimum_observations'' pi) ''minimum_observations'' = Inr minimum \<and> 1 \<le> minimum \<and>
    decimal_of (dget ''observed_aggregate'' oi) = Some aggregate \<and> 0 \<le> dec_val aggregate \<and> dec_val aggregate \<le> 1 \<and>
    nonnegative_at (dget ''observation_count'' oi) ''observation_count'' = Inr count \<and>
    dget ''status'' r = PStr (if dec_val threshold \<le> dec_val aggregate \<and> minimum \<le> count
      then ''passing_unselected'' else ''failing_unselected'') \<and>
    dget ''predicate_passed'' r = PBool (dec_val threshold \<le> dec_val aggregate \<and> minimum \<le> count) \<and>
    dget ''predicate_passed'' oi = dget ''predicate_passed'' r \<and>
    dget ''policy_selected'' r = PBool False \<and> dget ''recommendation_available'' r = PBool False"
proof -
  from assms obtain p oi aggregate count where
    p: "check_preregistration prereg bound_prereg (time_at (PStr now) ''now'') = Inr p"
    and o: "shadow = PDict oi" "digest shadow = Inr bound_result" "dget ''preregistration_digest'' oi = PStr (pr_digest p)"
    and n: "number_at (dget ''observed_aggregate'' oi) ''observed_aggregate'' = Inr aggregate"
      "nonnegative_at (dget ''observation_count'' oi) ''observation_count'' = Inr count"
      "\<not> (fst aggregate < 0 \<or> dec_less (1, 0) aggregate)"
    and d: "dget ''predicate_passed'' oi = PBool (predicate_passed p aggregate count)"
      "r = [(''status'', PStr (if predicate_passed p aggregate count then ''passing_unselected'' else ''failing_unselected'')),
         (''evidence_digest'', PStr bound_result), (''predicate_passed'', PBool (predicate_passed p aggregate count)),
         (''policy_selected'', PBool False), (''recommendation_available'', PBool False),
         (''requires_separate_owner_selection_authorization'', PBool True)]"
    unfolding check_shadow_evidence_def bindE_Inr_iff deny_Inr Let_def by auto
  have passed: "predicate_passed p aggregate count \<longleftrightarrow>
      dec_val (pr_threshold p) \<le> dec_val aggregate \<and> pr_minimum p \<le> count"
    by (auto simp: predicate_passed_def dec_less_value)
  from check_preregistration_Inr [OF p] have q: "prereg = PDict (pr_item p)" "pr_digest p = bound_prereg"
    "digest prereg = Inr bound_prereg" "decimal_of (dget ''passing_threshold'' (pr_item p)) = Some (pr_threshold p)"
    "0 \<le> dec_val (pr_threshold p)" "dec_val (pr_threshold p) \<le> 1"
    "positive_at (dget ''minimum_observations'' (pr_item p)) ''minimum_observations'' = Inr (pr_minimum p)" by auto
  have least: "1 \<le> pr_minimum p" using q integer_at_least by (auto simp: positive_at_def)
  have unit: "0 \<le> dec_val aggregate \<and> dec_val aggregate \<le> 1" using n(3) by (simp add: dec_less_value not_less)
  show ?thesis
    by (rule exI [of _ "pr_item p"], rule exI [of _ oi], rule exI [of _ "pr_threshold p"], rule exI [of _ "pr_minimum p"],
        rule exI [of _ aggregate], rule exI [of _ count])
      (use q o n(1,2) d passed number_at_Inr least unit in \<open>intro conjI; simp\<close>)
qed

section \<open>Signed receipts\<close>

lemma check_envelope_Inr:
  "check_envelope verifies a = Inr (refs, payload, d) \<Longrightarrow>
    check_expected_refs (rc_refs a) = Inr refs \<and> d = rc_payload_digest a \<and> digest payload = Inr d \<and>
    rc_owner a = ''softwareco/owned/dspx'' \<and>
    (\<exists>item sig. rc_envelope a = PDict item \<and> dget ''payload'' item = payload \<and>
      dget ''signature_b64'' item = PStr sig \<and> signature_holds verifies (rc_public_key a) sig payload)"
  unfolding check_envelope_def bindE_Inr_iff deny_Inr
  by (elim exE conjE) (auto split: sum.splits)

lemma signature_holds_iff:
  "signature_holds verifies key sig payload \<longleftrightarrow>
    (\<exists>k g m. base64_decode key = Some k \<and> base64_decode sig = Some g \<and> json_dumps payload = Some m \<and> verifies k g m)"
  by (auto simp: signature_holds_def split: option.splits)

text \<open>What an evaluation contributes.\<close>

definition evaluation_score :: "pv \<Rightarrow> decimal" where
  "evaluation_score v = the (decimal_of (dget ''observed_score'' (dict_of v)))"

definition evaluation_count :: "pv \<Rightarrow> int" where
  "evaluation_count v = projr (positive_at (dget ''observation_count'' (dict_of v)) ''observation_count'')"

definition evaluation_token :: "pv \<Rightarrow> string" where
  "evaluation_token v = str_of (dget ''transition_token'' (dict_of v))"

definition evaluation_ref :: "pv \<Rightarrow> string" where
  "evaluation_ref v = str_of (dget ''ak_eval_receipt_id'' (dict_of v))"

text \<open>The mean of the source: the scores weighted by the counts, in decimal arithmetic.\<close>

definition weighted_mean :: "pv list \<Rightarrow> decimal" where
  "weighted_mean vs = dec_div (foldl (\<lambda>s v. dec_add s (dec_mul (evaluation_score v) (evaluation_count v, 0))) (0, 0) vs)
     (sum_list (map evaluation_count vs), 0)"

lemma identity_at_fields:
  assumes "identity_at v label = Inr i" "f \<in> set identity_fields"
  shows "map_of i f = Some (str_of (dget f (dict_of v)))"
proof -
  from assms(1) have m: "mapE (\<lambda>f. bindE (text_at (dget f (dict_of v)) (label @ ''.'' @ f)) (\<lambda>s. Inr (f, s))) identity_fields = Inr i"
    unfolding identity_at_def bindE_Inr_iff deny_Inr object_at_Inr by auto
  then have "i = map (\<lambda>f. (f, str_of (dget f (dict_of v)))) identity_fields"
    by (auto simp: mapE_Inr_iff bindE_Inr_iff list_all2_conv_all_nth intro!: nth_equalityI)
  then show ?thesis using assms(2) by (simp add: map_of_map_restrict)
qed

lemma dict_of_selected: "f \<in> set fs \<Longrightarrow> dget f (map (\<lambda>f. (f, dget f item)) fs) = dget f item"
  by (induction fs) auto

lemma evaluation_step_Inr:
  assumes "evaluation_step refs iv m = Inr u"
  shows "u = \<lparr>mn_tokens = mn_tokens m @ [evaluation_token (snd iv)],
      mn_score = dec_add (mn_score m) (dec_mul (evaluation_score (snd iv)) (evaluation_count (snd iv), 0)),
      mn_count = mn_count m + evaluation_count (snd iv)\<rparr>"
    and "evaluation_token (snd iv) \<notin> set (mn_tokens m)" "map_of refs (evaluation_token (snd iv)) = Some (evaluation_ref (snd iv))"
    and "0 \<le> fst (evaluation_score (snd iv))" "dec_val (evaluation_score (snd iv)) \<le> 1" "1 \<le> evaluation_count (snd iv)"
proof -
  from assms obtain item i score count where e: "snd iv = PDict item"
    "identity_at (PDict (map (\<lambda>f. (f, dget f item)) identity_fields)) ''identity'' = Inr i"
    "number_at (dget ''observed_score'' item) ''observed_score'' = Inr score"
    "positive_at (dget ''observation_count'' item) ''observation_count'' = Inr count"
    "\<not> (fst score < 0 \<or> dec_less (1, 0) score)"
    "the (map_of i ''transition_token'') \<notin> set (mn_tokens m)"
    "map_of refs (the (map_of i ''transition_token'')) = Some (the (map_of i ''ak_eval_receipt_id''))"
    "u = \<lparr>mn_tokens = mn_tokens m @ [the (map_of i ''transition_token'')],
      mn_score = dec_add (mn_score m) (dec_mul score (count, 0)), mn_count = mn_count m + count\<rparr>"
    unfolding evaluation_step_def bindE_Inr_iff deny_Inr Let_def object_at_Inr by auto
  have f: "map_of i f = Some (str_of (dget f item))" if "f \<in> set identity_fields" for f
    using identity_at_fields [OF e(2) that] that by (simp add: dict_of_selected)
  have t: "the (map_of i ''transition_token'') = evaluation_token (snd iv)" "the (map_of i ''ak_eval_receipt_id'') = evaluation_ref (snd iv)"
    by (simp_all add: f e(1) evaluation_token_def evaluation_ref_def identity_fields_def)
  have s: "evaluation_score (snd iv) = score" "evaluation_count (snd iv) = count"
    using number_at_Inr [OF e(3)] e(4) by (simp_all add: evaluation_score_def evaluation_count_def e(1))
  show "u = \<lparr>mn_tokens = mn_tokens m @ [evaluation_token (snd iv)],
      mn_score = dec_add (mn_score m) (dec_mul (evaluation_score (snd iv)) (evaluation_count (snd iv), 0)),
      mn_count = mn_count m + evaluation_count (snd iv)\<rparr>" using e(8) by (simp add: t s)
  show "evaluation_token (snd iv) \<notin> set (mn_tokens m)" "map_of refs (evaluation_token (snd iv)) = Some (evaluation_ref (snd iv))"
    using e(6,7) by (simp_all add: t)
  show "0 \<le> fst (evaluation_score (snd iv))" "dec_val (evaluation_score (snd iv)) \<le> 1"
    using e(5) by (simp_all add: s dec_less_value not_less)
  show "1 \<le> evaluation_count (snd iv)" using e(4) integer_at_least by (simp add: s positive_at_def)
qed

lemma evaluations_loop:
  "foldE (evaluation_step refs) ivs m = Inr u \<Longrightarrow> distinct (mn_tokens m) \<Longrightarrow>
    mn_tokens u = mn_tokens m @ map (evaluation_token \<circ> snd) ivs \<and> distinct (mn_tokens u) \<and>
    map (\<lambda>iv. map_of refs (evaluation_token (snd iv))) ivs = map (\<lambda>iv. Some (evaluation_ref (snd iv))) ivs \<and>
    mn_score u = foldl (\<lambda>s iv. dec_add s (dec_mul (evaluation_score (snd iv)) (evaluation_count (snd iv), 0))) (mn_score m) ivs \<and>
    mn_count u = mn_count m + sum_list (map (evaluation_count \<circ> snd) ivs)"
proof (induction ivs arbitrary: m)
  case (Cons iv ivs)
  from Cons.prems(1) obtain w where w: "evaluation_step refs iv m = Inr w" "foldE (evaluation_step refs) ivs w = Inr u"
    by (auto simp: bindE_Inr_iff)
  note e = evaluation_step_Inr [OF w(1)]
  have "distinct (mn_tokens w)" using e(1,2) Cons.prems(2) by simp
  from Cons.IH [OF w(2) this] show ?case using e(1,3) by (elim conjE) (simp del: map_eq_conv)
qed simp

lemma snds: "map (\<lambda>iv. f (snd iv)) (zip [0..<length vs] vs) = map f vs"
  using map_map [of f snd "zip [0..<length vs] vs"] by (simp add: comp_def)

lemma check_evaluations_Inr:
  assumes "check_evaluations refs v = Inr m"
  shows "\<exists>vs. v = PList vs \<and> distinct (map evaluation_token vs) \<and> set (map evaluation_token vs) = set (map fst refs) \<and>
    mn_tokens m = map evaluation_token vs \<and> map (\<lambda>v. map_of refs (evaluation_token v)) vs = map (\<lambda>v. Some (evaluation_ref v)) vs \<and>
    dec_div (mn_score m) (mn_count m, 0) = weighted_mean vs \<and> mn_count m = sum_list (map evaluation_count vs)"
proof -
  let ?vs = "list_of v" let ?ivs = "zip [0..<length ?vs] ?vs"
  from assms have l: "?vs \<noteq> []" "foldE (evaluation_step refs) ?ivs mean_start = Inr m" "set (mn_tokens m) = set (map fst refs)"
    by (auto simp: check_evaluations_def bindE_Inr_iff)
  have folds: "foldl (\<lambda>s iv. g s (snd iv)) s ?ivs = foldl g s ?vs" for g and s :: decimal
    using foldl_map [of g s snd ?ivs] by simp
  note loop = evaluations_loop [OF l(2)]
  have start: "distinct (mn_tokens mean_start)" by (simp add: mean_start_def)
  have distinct: "distinct (mn_tokens m)" using loop [OF start] by blast
  have tokens: "mn_tokens m = map evaluation_token ?vs"
    using loop [OF start] snds [of evaluation_token ?vs] by (simp add: mean_start_def comp_def)
  have refs: "map (\<lambda>v. map_of refs (evaluation_token v)) ?vs = map (\<lambda>v. Some (evaluation_ref v)) ?vs"
    by (rule trans [OF snds [of "\<lambda>v. map_of refs (evaluation_token v)", symmetric]
        trans [OF conjunct1 [OF conjunct2 [OF conjunct2 [OF loop [OF start]]]] snds [of "\<lambda>v. Some (evaluation_ref v)"]]])
  have count: "mn_count m = sum_list (map evaluation_count ?vs)"
    using loop [OF start] snds [of evaluation_count ?vs] by (simp add: mean_start_def comp_def)
  have "mn_score m = foldl (\<lambda>s v. dec_add s (dec_mul (evaluation_score v) (evaluation_count v, 0))) (0, 0) ?vs"
    using loop [OF start] folds [of "\<lambda>s v. dec_add s (dec_mul (evaluation_score v) (evaluation_count v, 0))" "(0, 0)"]
    by (simp add: mean_start_def)
  then have mean: "dec_div (mn_score m) (mn_count m, 0) = weighted_mean ?vs" by (simp add: weighted_mean_def count)
  have "v = PList ?vs" using l(1) by (cases v) auto
  then show ?thesis using distinct tokens refs count mean l(3) by (intro exI [of _ ?vs]) (simp del: map_eq_conv)
qed

text \<open>C5: an accepted signed receipt verifies over the bytes its digest binds, has one evaluation for each expected
  token with the expected reference, and reports the weighted mean and the count of exactly those evaluations; it
  asserts no legality and no selection.\<close>

theorem receipt_attested:
  assumes "check_signed_receipt verifies a = Inr r"
  shows "\<exists>payload refs vs oi key sig text aggregate.
    json_dumps (PDict payload) = Some text \<and> rc_payload_digest a = sha256 text \<and>
    base64_decode (rc_public_key a) = Some key \<and> verifies key sig text \<and>
    check_expected_refs (rc_refs a) = Inr refs \<and> dget ''evaluations'' payload = PList vs \<and>
    distinct (map evaluation_token vs) \<and> set (map evaluation_token vs) = set (map fst refs) \<and>
    map (\<lambda>v. map_of refs (evaluation_token v)) vs = map (\<lambda>v. Some (evaluation_ref v)) vs \<and>
    dget ''result'' payload = PDict oi \<and> decimal_of (dget ''observed_aggregate'' oi) = Some aggregate \<and>
    dec_val aggregate = dec_val (weighted_mean vs) \<and>
    nonnegative_at (dget ''observation_count'' oi) ''observation_count'' = Inr (sum_list (map evaluation_count vs)) \<and>
    dget ''policy_selected'' r = PBool False \<and> dget ''recommendation_available'' r = PBool False \<and>
    dget ''ak_legality'' r = PBool False \<and> dget ''generated_program_applied'' r = PBool False"
proof -
  from assms obtain refs payload d item m oi prereg_digest result_digest checked where
    e: "check_envelope verifies a = Inr (refs, payload, d)" "payload = PDict item"
    and m: "check_evaluations refs (dget ''evaluations'' item) = Inr m"
    and o: "dget ''result'' item = PDict oi" "check_observation m oi = Inr ()"
    and c: "check_shadow_evidence (dget ''preregistration'' item) (dget ''result'' item) prereg_digest result_digest
      (rc_now a) = Inr checked"
    and r: "r = checked @ [(''owner_repository'', PStr (rc_owner a)), (''key_id'', PStr (rc_key_id a)),
         (''payload_digest'', PStr d), (''signature_verified'', PBool True),
         (''representative_transition_tokens'', names_value (sort (mn_tokens m))), (''ak_legality'', PBool False),
         (''generated_program_applied'', PBool False)]"
    unfolding check_signed_receipt_def bindE_Inr_iff by (auto simp: bindE_Inr_iff)
  from check_evaluations_Inr [OF m] obtain vs where vs: "dget ''evaluations'' item = PList vs" "distinct (map evaluation_token vs)"
    "set (map evaluation_token vs) = set (map fst refs)" "map (\<lambda>v. map_of refs (evaluation_token v)) vs = map (\<lambda>v. Some (evaluation_ref v)) vs"
    "dec_div (mn_score m) (mn_count m, 0) = weighted_mean vs" "mn_count m = sum_list (map evaluation_count vs)" by blast
  note q = check_envelope_Inr [OF e(1)]
  from q e(2) obtain sig where sig: "signature_holds verifies (rc_public_key a) sig (PDict item)" by auto
  then obtain k g t where t: "base64_decode (rc_public_key a) = Some k" "json_dumps (PDict item) = Some t" "verifies k g t"
    by (auto simp: signature_holds_iff)
  from o(2) obtain x where x: "decimal_of (dget ''observed_aggregate'' oi) = Some x" "dec_val x = dec_val (weighted_mean vs)"
    "nonnegative_at (dget ''observation_count'' oi) ''observation_count'' = Inr (sum_list (map evaluation_count vs))"
    unfolding check_observation_def bindE_Inr_iff deny_Inr dec_eq_value vs(6) vs(5) [unfolded vs(6)] using number_at_Inr by auto
  have f: "dget ''policy_selected'' r = PBool False" "dget ''recommendation_available'' r = PBool False"
    "dget ''ak_legality'' r = PBool False" "dget ''generated_program_applied'' r = PBool False"
    using c unfolding check_shadow_evidence_def bindE_Inr_iff deny_Inr Let_def by (auto simp: r)
  have digest_text: "rc_payload_digest a = sha256 t" using q e(2) t(2) by (auto simp: digest_Inr)
  show ?thesis
    by (rule exI [of _ item], rule exI [of _ refs], rule exI [of _ vs], rule exI [of _ oi], rule exI [of _ k],
        rule exI [of _ g], rule exI [of _ t], rule exI [of _ x])
      (use q t vs x f o(1) digest_text in simp)
qed

section \<open>Means a double cannot carry\<close>

lemma sum_zero: "dec_add (dec_add (dec_add (0, 0) (dec_mul (0, 0) (1, 0))) (dec_mul (0, 0) (1, 0))) (dec_mul (1, 0) (1, 0)) = (1, 0)"
  by code_simp

lemma third: "dec_div (1, 0) (3, 0) = (3333333333333333333333333333, -28)"
  by code_simp

lemma thirds_not_short: "\<bar>c\<bar> < 10 ^ 17 \<Longrightarrow> \<not> dec_eq (c, e) (3333333333333333333333333333, -28)"
proof
  let ?t = "3333333333333333333333333333 :: int"
  assume c: "\<bar>c\<bar> < 10 ^ 17" and eq: "dec_eq (c, e) (?t, -28)"
  show False
  proof (cases "-28 \<le> e")
    case True
    then have m: "c * 10 ^ nat (e + 28) = ?t" using eq by (simp add: dec_eq_def Let_def min_absorb2)
    show False
    proof (cases "nat (e + 28)")
      case 0
      then show False using m c by simp
    next
      case (Suc k)
      then have "10 dvd ?t" using m by (metis dvd_triv_right dvd_mult power_Suc dvd_triv_left)
      then show False by simp
    qed
  next
    case False
    then have m: "c = ?t * 10 ^ nat (- 28 - e)" using eq by (simp add: dec_eq_def Let_def min_absorb1)
    have "(1 :: int) \<le> 10 ^ nat (- 28 - e)" by simp
    then have "?t \<le> c" unfolding m by (simp del: one_le_power)
    then show False using c by simp
  qed
qed


section \<open>Samples\<close>

text \<open>The digest of a value the encoder accepts.\<close>

definition address :: "pv \<Rightarrow> string" where
  "address v = sha256 (json_text (sort_keys v))"

lemma digest_ok [simp]: "json_ok v \<Longrightarrow> digest v = Inr (address v)"
  by (simp add: digest_def json_dumps_def address_def)

lemma strip_address [simp]: "strip (address v) \<noteq> []"
proof -
  have "hd (address v) \<in> set (address v)" by (simp add: address_def)
  then have "hd (address v) \<in> set ''0123456789abcdef''" unfolding address_def by (rule sha256_hex)
  then have "\<not> is_space (hd (address v))" by (auto simp: is_space_def)
  then show ?thesis using \<open>hd (address v) \<in> set (address v)\<close> by (auto simp: strip_Nil_iff)
qed

lemma surrogate_address [simp]: "\<not> has_surrogate (address v)"
proof -
  have "has_surrogate s \<Longrightarrow> \<exists>c \<in> set s. of_char c = (237 :: nat)" for s
    by (induction s rule: has_surrogate.induct) auto
  moreover have "of_char c \<noteq> (237 :: nat)" if "c \<in> set (address v)" for c
    using sha256_hex that unfolding address_def by force
  ultimately show ?thesis by blast
qed

lemma text_at_address [simp]: "text_at (PStr (address v)) label = Inr (address v)"
  by simp

lemma object_at_PDict [simp]: "object_at (PDict kvs) label = Inr kvs"
  by simp

lemma closed_at_ok: "set (dict_keys item) = set required \<Longrightarrow> closed_at item required label = Inr ()"
  by (simp add: closed_at_def closed_item_ok)


definition sample_ref :: string where "sample_ref = ''ak-eval:sha256:'' @ replicate 64 CHR ''a''"

definition half_evaluation :: "string \<Rightarrow> int \<Rightarrow> pv" where
  "half_evaluation t score = PDict [(''protocol_version'', PStr ''layer12-v1''), (''transition_token'', PStr t),
     (''family_id'', PStr ''family''), (''spec_digest'', PStr (''sha256:'' @ replicate 64 CHR ''0'')),
     (''candidate_id'', PStr ''candidate''), (''ak_eval_receipt_id'', PStr sample_ref),
     (''observed_score'', PInt score), (''observation_count'', PInt 1), (''authoritative'', PBool False),
     (''live_evaluation_replayable'', PBool False)]"

definition half_evaluations :: pv where
  "half_evaluations = PList [half_evaluation ''t1'' 0, half_evaluation ''t2'' 1]"

definition half_refs :: "(string \<times> string) list" where
  "half_refs = [(''t1'', sample_ref), (''t2'', sample_ref)]"

definition cohort_address :: string where "cohort_address = ''sha256:'' @ address half_evaluations"

definition sample_prereg :: pv where
  "sample_prereg = PDict [(''schema_version'', PStr shadow_schema), (''evidence_id'', PStr ''evidence''),
     (''policy_digest'', PStr ''policy''), (''cohort_digest'', PStr cohort_address), (''metric_set_digest'', PStr ''metrics''),
     (''passing_threshold'', PFloat (Dec 5 (-1))), (''minimum_observations'', PInt 2),
     (''registered_at'', PStr ''2026-07-01T00:00:00Z''), (''expires_at'', PStr ''2026-08-01T00:00:00Z''),
     (''shadow_only'', PBool True)]"

definition sample_shadow :: pv where
  "sample_shadow = PDict [(''schema_version'', PStr shadow_schema), (''evidence_id'', PStr ''evidence''),
     (''preregistration_digest'', PStr (address sample_prereg)), (''policy_digest'', PStr ''policy''),
     (''cohort_digest'', PStr cohort_address), (''metric_set_digest'', PStr ''metrics''),
     (''observed_aggregate'', PFloat (Dec 5 (-1))), (''observation_count'', PInt 2),
     (''observed_at'', PStr ''2026-07-10T00:00:00Z''), (''predicate_passed'', PBool True),
     (''policy_selected'', PBool False), (''selection_authorization_ref'', PNone)]"

lemma has_surrogate_prefix: "\<not> has_surrogate (CHR '':'' # s) \<longleftrightarrow> \<not> has_surrogate s"
  by (cases s) auto

lemma surrogate_cohort [simp]: "\<not> has_surrogate cohort_address"
  by (simp add: cohort_address_def) (cases "address half_evaluations"; use surrogate_address [of half_evaluations] in simp)

lemma strip_cohort [simp]: "strip cohort_address \<noteq> []"
  by (auto simp: strip_Nil_iff cohort_address_def is_space_def)

lemma text_at_cohort [simp]: "text_at (PStr cohort_address) label = Inr cohort_address"
  by simp

lemma printable_small [simp]: "int_printable 0" "int_printable 1" "int_printable 2"
  by code_simp+

lemma json_prereg [simp]: "json_ok sample_prereg"
  by (simp add: sample_prereg_def shadow_schema_def)

lemma json_shadow [simp]: "json_ok sample_shadow"
  by (simp add: sample_shadow_def shadow_schema_def)

lemma sample_times [simp]:
  "time_at (PStr ''2026-07-01T00:00:00Z'') l = Inr 63918460800000000"
  "time_at (PStr ''2026-07-10T00:00:00Z'') l = Inr 63919238400000000"
  "time_at (PStr ''2026-07-11T00:00:00Z'') l = Inr 63919324800000000"
  "time_at (PStr ''2026-08-01T00:00:00Z'') l = Inr 63921139200000000"
  by code_simp+

lemma half_number [simp]: "number_at (PFloat (Dec 5 (-1))) l = Inr (5, -1)"
  by (simp add: number_at_def)

lemma half_bounds [simp]: "\<not> dec_less (1, 0) (5, -1)" "\<not> dec_less (5, -1) (5, -1)"
  by code_simp+

lemma two_at [simp]: "positive_at (PInt 2) l = Inr 2" "nonnegative_at (PInt 2) l = Inr 2"
  by (simp_all add: positive_at_def nonnegative_at_def integer_at_def double_limit_def)

lemma text_at_word: "\<not> is_space c \<Longrightarrow> text_at (PStr (c # s)) label = Inr (c # s)"
  by (simp add: strip_Nil_iff)

lemma sample_preregistration:
  "check_preregistration sample_prereg (address sample_prereg) (Inr 63919324800000000) =
    Inr \<lparr>pr_item = dict_of sample_prereg, pr_digest = address sample_prereg, pr_threshold = (5, -1), pr_minimum = 2,
      pr_registered = 63918460800000000, pr_expires = 63921139200000000\<rparr>"
proof -
  have f: "object_at sample_prereg l = Inr (dict_of sample_prereg)"
    "closed_at (dict_of sample_prereg) prereg_fields l = Inr ()"
    "texts_all (dict_of sample_prereg) bound_fields = Inr ()" for l
    by (simp_all add: sample_prereg_def closed_at_ok prereg_fields_def texts_all_def bound_fields_def text_at_word is_space_def)
  have d: "dget ''schema_version'' (dict_of sample_prereg) = PStr shadow_schema"
    "dget ''shadow_only'' (dict_of sample_prereg) = PBool True"
    "dget ''passing_threshold'' (dict_of sample_prereg) = PFloat (Dec 5 (-1))"
    "dget ''minimum_observations'' (dict_of sample_prereg) = PInt 2"
    "dget ''registered_at'' (dict_of sample_prereg) = PStr ''2026-07-01T00:00:00Z''"
    "dget ''expires_at'' (dict_of sample_prereg) = PStr ''2026-08-01T00:00:00Z''"
    by (simp_all add: sample_prereg_def)
  show ?thesis by (simp add: check_preregistration_def f d)
qed


lemma sample_shadow_checked:
  "check_shadow_evidence sample_prereg sample_shadow (address sample_prereg) (address sample_shadow)
      ''2026-07-11T00:00:00Z'' =
    Inr [(''status'', PStr ''passing_unselected''), (''evidence_digest'', PStr (address sample_shadow)),
      (''predicate_passed'', PBool True), (''policy_selected'', PBool False), (''recommendation_available'', PBool False),
      (''requires_separate_owner_selection_authorization'', PBool True)]"
proof -
  have f: "object_at sample_shadow l = Inr (dict_of sample_shadow)"
    "closed_at (dict_of sample_shadow) result_fields l = Inr ()" for l
    by (simp_all add: sample_shadow_def closed_at_ok result_fields_def)
  have b: "mapE (\<lambda>f. deny (dget f (dict_of sample_shadow) \<noteq> dget f (dict_of sample_prereg))
      (''shadow result '' @ f @ '' mismatch'') (Inr ())) bound_fields = Inr [(), (), (), ()]"
    by (simp add: bound_fields_def sample_shadow_def sample_prereg_def)
  note b = b [simplified]
  have d: "dget ''schema_version'' (dict_of sample_shadow) = PStr shadow_schema"
    "dget ''preregistration_digest'' (dict_of sample_shadow) = PStr (address sample_prereg)"
    "dget ''observed_aggregate'' (dict_of sample_shadow) = PFloat (Dec 5 (-1))"
    "dget ''observation_count'' (dict_of sample_shadow) = PInt 2"
    "dget ''observed_at'' (dict_of sample_shadow) = PStr ''2026-07-10T00:00:00Z''"
    "dget ''predicate_passed'' (dict_of sample_shadow) = PBool True"
    "dget ''policy_selected'' (dict_of sample_shadow) = PBool False"
    "dget ''selection_authorization_ref'' (dict_of sample_shadow) = PNone"
    by (simp_all add: sample_shadow_def)
  show ?thesis
    by (simp add: check_shadow_evidence_def sample_preregistration f d b predicate_passed_def)
qed

theorem shadow_decision_exact_witness:
  "\<exists>r. check_shadow_evidence sample_prereg sample_shadow (address sample_prereg) (address sample_shadow)
      ''2026-07-11T00:00:00Z'' = Inr r \<and> dget ''predicate_passed'' r = PBool True \<and>
    (\<exists>threshold aggregate. decimal_of (dget ''passing_threshold'' (dict_of sample_prereg)) = Some threshold \<and>
      decimal_of (dget ''observed_aggregate'' (dict_of sample_shadow)) = Some aggregate \<and>
      dec_val threshold \<le> dec_val aggregate)"
proof -
  note c = sample_shadow_checked
  from shadow_decision_exact [OF c] obtain pi oi threshold minimum aggregate count where
    e: "sample_prereg = PDict pi" "sample_shadow = PDict oi" "decimal_of (dget ''passing_threshold'' pi) = Some threshold"
      "decimal_of (dget ''observed_aggregate'' oi) = Some aggregate"
      "dec_val threshold \<le> dec_val aggregate \<and> minimum \<le> (count :: int)"
    by (elim exE conjE) simp
  show ?thesis
    by (rule exI, intro conjI, rule c, simp, rule exI [of _ threshold], rule exI [of _ aggregate]) (simp add: e)
qed

definition sample_commit_id :: string where "sample_commit_id = replicate 40 CHR ''c''"

definition sample_payload :: pv where
  "sample_payload = PDict ([(''schema_version'', PStr ''iw14a-dspx-shadow-evidence-payload-v1''),
     (''wave_id'', PStr ''IW14-A''), (''owner_repository'', PStr ''softwareco/owned/dspx''),
     (''contract_commit'', PStr sample_commit_id), (''preregistration'', sample_prereg), (''result'', sample_shadow),
     (''evaluations'', half_evaluations)] @ map (\<lambda>f. (f, PBool False)) denied_claims)"

definition sample_args :: receipt_args where
  "sample_args = \<lparr>
     rc_envelope = PDict [(''schema_version'', PStr ''iw14a-dspx-shadow-receipt-envelope-v1''),
       (''owner_repository'', PStr ''softwareco/owned/dspx''), (''key_id'', PStr ''key-1''),
       (''public_key_b64'', PStr ''AQID''), (''payload_digest'', PStr (address sample_payload)),
       (''signature_b64'', PStr ''BAUG''), (''payload'', sample_payload)],
     rc_owner = ''softwareco/owned/dspx'', rc_key_id = ''key-1'', rc_public_key = ''AQID'',
     rc_payload_digest = address sample_payload, rc_commit = sample_commit_id,
     rc_refs = PDict (map (\<lambda>(t, r). (t, PStr r)) half_refs), rc_policy_digest = ''policy'',
     rc_cohort_digest = cohort_address, rc_metric_digest = ''metrics'', rc_now = ''2026-07-11T00:00:00Z''\<rparr>"

definition sample_verifier :: verifier where
  "sample_verifier key sig message = (key = [1, 2, 3] \<and> sig = [4, 5, 6])"

lemma json_half [simp]: "json_ok half_evaluations"
  by code_simp

lemma sample_commit: "hex_of_length 40 sample_commit_id" "strip sample_commit_id \<noteq> []"
  "\<not> has_surrogate sample_commit_id"
  by code_simp+

lemma json_payload [simp]: "json_ok sample_payload"
  by (simp add: sample_payload_def denied_claims_def sample_commit(3))

lemma half_refs_checked: "check_expected_refs (PDict (map (\<lambda>(t, r). (t, PStr r)) half_refs)) = Inr half_refs"
  by code_simp

lemma half_checked: "check_evaluations half_refs half_evaluations =
    Inr \<lparr>mn_tokens = [''t1'', ''t2''], mn_score = (1, 0), mn_count = 2\<rparr>"
  by code_simp

lemma sample_keys: "base64_decode ''AQID'' = Some [1, 2, 3]" "base64_decode ''BAUG'' = Some [4, 5, 6]"
  by code_simp+

lemma accepted_envelope: "check_envelope sample_verifier sample_args = Inr (half_refs, sample_payload, address sample_payload)"
proof -
  have c: "text_at (PStr sample_commit_id) l = Inr sample_commit_id" for l
    using sample_commit(2) by simp
  have p: "object_at sample_payload l = Inr (dict_of sample_payload)" for l by (simp add: sample_payload_def)
  have s: "signature_holds sample_verifier ''AQID'' ''BAUG'' sample_payload"
    by (simp add: signature_holds_def sample_keys json_dumps_def sample_verifier_def del: base64_decode.simps)
  show ?thesis
    by (simp add: check_envelope_def sample_args_def closed_at_ok envelope_fields_def text_at_word is_space_def c p s
        sample_commit(1) half_refs_checked)
qed

lemma sample_observation: "check_observation \<lparr>mn_tokens = [''t1'', ''t2''], mn_score = (1, 0), mn_count = 2\<rparr>
    (dict_of sample_shadow) = Inr ()"
proof -
  have "dec_eq (5, -1) (dec_div (1, 0) (2, 0))" by code_simp
  then show ?thesis by (simp add: check_observation_def sample_shadow_def)
qed

lemma sample_receipt: "\<exists>r. check_signed_receipt sample_verifier sample_args = Inr r"
proof -
  let ?item = "dict_of sample_payload"
  have o: "object_at sample_payload l = Inr ?item" "object_at sample_prereg l = Inr (dict_of sample_prereg)"
    "object_at sample_shadow l = Inr (dict_of sample_shadow)" for l
    by (simp_all add: sample_payload_def sample_prereg_def sample_shadow_def)
  have d: "dget ''evaluations'' ?item = half_evaluations" "dget ''preregistration'' ?item = sample_prereg"
    "dget ''result'' ?item = sample_shadow" by (simp_all add: sample_payload_def)
  have b: "check_payload_bindings sample_args ?item = Inr ()"
    by (simp add: check_payload_bindings_def sample_payload_def closed_at_ok payload_fields_def denied_claims_def
        sample_args_def)
  have c: "check_context sample_args (dict_of sample_prereg) half_evaluations = Inr ()"
    by (simp add: check_context_def sample_args_def sample_prereg_def cohort_address_def)
  have n: "rc_now sample_args = ''2026-07-11T00:00:00Z''" by (simp add: sample_args_def)
  show ?thesis
    by (simp add: check_signed_receipt_def accepted_envelope o d b c n half_checked sample_observation sample_shadow_checked)
qed


theorem receipt_attested_witness:
  "\<exists>r vs text. check_signed_receipt sample_verifier sample_args = Inr r \<and>
    json_dumps sample_payload = Some text \<and> rc_payload_digest sample_args = sha256 text \<and>
    map evaluation_token vs \<in> {[''t1'', ''t2''], [''t2'', ''t1'']} \<and> dget ''ak_legality'' r = PBool False"
proof -
  from sample_receipt obtain r where r: "check_signed_receipt sample_verifier sample_args = Inr r" by blast
  have refs: "check_expected_refs (rc_refs sample_args) = Inr half_refs" by (simp add: sample_args_def half_refs_checked)
  from receipt_attested [OF r] obtain vs where v: "distinct (map evaluation_token vs)"
    "set (map evaluation_token vs) = set (map fst half_refs)"
    "dget ''ak_legality'' r = PBool False"
    unfolding refs by auto
  from v(2) have two: "set (map evaluation_token vs) = {''t1'', ''t2''}" by (simp add: half_refs_def)
  then have "length vs = 2" using distinct_card [OF v(1)] by simp
  then obtain x y where "map evaluation_token vs = [x, y]" by (auto simp: length_Suc_conv numeral_2_eq_2)
  then have "map evaluation_token vs \<in> {[''t1'', ''t2''], [''t2'', ''t1'']}" using two v(1) by (auto simp: doubleton_eq_iff)
  moreover have "json_dumps sample_payload = Some (json_text (sort_keys sample_payload))" by (simp add: json_dumps_def)
  moreover have "rc_payload_digest sample_args = sha256 (json_text (sort_keys sample_payload))"
    by (simp add: sample_args_def address_def)
  ultimately have "check_signed_receipt sample_verifier sample_args = Inr r \<and>
      json_dumps sample_payload = Some (json_text (sort_keys sample_payload)) \<and>
      rc_payload_digest sample_args = sha256 (json_text (sort_keys sample_payload)) \<and>
      map evaluation_token vs \<in> {[''t1'', ''t2''], [''t2'', ''t1'']} \<and> dget ''ak_legality'' r = PBool False"
    using r v(3) by (intro conjI)
  then show ?thesis by (intro exI)
qed


definition metric_identity :: pv where
  "metric_identity = PDict [(''protocol_version'', PStr ''layer12-v1''), (''transition_token'', PStr ''t1''),
     (''family_id'', PStr ''family''), (''spec_digest'', PStr ''spec''), (''candidate_id'', PStr ''candidate''),
     (''ak_eval_receipt_id'', PStr ''eval'')]"

definition metric_ident :: ident where
  "metric_ident = [(''protocol_version'', ''layer12-v1''), (''transition_token'', ''t1''),
     (''family_id'', ''family''), (''spec_digest'', ''spec''), (''candidate_id'', ''candidate''),
     (''ak_eval_receipt_id'', ''eval'')]"

definition metric_policy :: pv where
  "metric_policy = PDict [(''schema_version'', PStr ''layer12-advisory-aggregate-policy-v1''),
     (''policy_id'', PStr ''policy''), (''metric_weights'', PDict [(''accuracy'', PInt 2)]),
     (''minimum_receipts'', PInt 1), (''aggregation'', PStr ''weighted_mean''), (''non_authority'', PBool True)]"

definition metric_compat :: pv where
  "metric_compat = PDict [(''schema_version'', PStr ''layer12-execution-compatibility-v1''),
     (''identity'', metric_identity), (''runtime_digest'', PStr ''runtime''), (''dataset_digest'', PStr ''dataset''),
     (''metric_set_digest'', PStr ''metrics''), (''observed_at'', PStr ''2026-07-01T00:00:00Z''),
     (''expires_at'', PStr ''2026-08-01T00:00:00Z''), (''live_evaluation_replayable'', PBool False)]"

definition metric_cohort :: pv where
  "metric_cohort = PDict [(''schema_version'', PStr ''layer12-comparison-cohort-v1''), (''identity'', metric_identity),
     (''cohort_id'', PStr ''cohort''), (''candidate_ids'', PList [PStr ''candidate'']),
     (''compatibility_digest'', PStr (address metric_compat))]"

definition metric_receipt :: pv where
  "metric_receipt = PDict [(''schema_version'', PStr ''layer12-dspx-metric-receipt-v1''), (''identity'', metric_identity),
     (''metric_id'', PStr ''accuracy''),
     (''score_vector'', PDict [(''schema_version'', PStr ''layer12-advisory-score-vector-v1''),
        (''raw_score'', PFloat (Dec 5 (-1))), (''sample_count'', PInt 2)]),
     (''compatibility_digest'', PStr (address metric_compat)), (''measured_at'', PStr ''2026-07-10T00:00:00Z''),
     (''authoritative'', PBool False)]"

definition metric_comparison :: pv where
  "metric_comparison = PDict [(''schema_version'', PStr ''layer12-comparison-receipt-v1''), (''identity'', metric_identity),
     (''cohort_id'', PStr ''cohort''), (''cohort_digest'', PStr (address metric_cohort)),
     (''metric_receipt_digests'', names_value [address metric_receipt]), (''winner_selected'', PBool False),
     (''authoritative'', PBool False)]"

definition metric_args :: aggregate_args where
  "metric_args = \<lparr>ag_policy = metric_policy, ag_compatibility = metric_compat, ag_cohort = metric_cohort,
     ag_receipts = [metric_receipt], ag_comparison = metric_comparison, ag_identity = metric_identity,
     ag_policy_digest = address metric_policy, ag_compatibility_digest = address metric_compat,
     ag_cohort_digest = address metric_cohort, ag_receipt_digests = [address metric_receipt],
     ag_comparison_digest = address metric_comparison, ag_now = ''2026-07-11T00:00:00Z''\<rparr>"

lemma metric_json [simp]: "json_ok metric_identity" "json_ok metric_policy" "json_ok metric_compat" "json_ok metric_cohort"
  "json_ok metric_receipt" "json_ok metric_comparison"
proof -
  show i: "json_ok metric_identity" by (simp add: metric_identity_def)
  then show "json_ok metric_policy" "json_ok metric_compat" "json_ok metric_cohort" "json_ok metric_receipt"
    "json_ok metric_comparison"
    by (simp_all add: metric_policy_def metric_compat_def metric_cohort_def metric_receipt_def metric_comparison_def
        names_value_def)
qed

lemma metric_identity_at [simp]: "identity_at metric_identity label = Inr metric_ident"
  by (simp add: identity_at_def metric_identity_def closed_at_ok identity_fields_def text_at_word is_space_def
      metric_ident_def)

definition metric_policy_checked :: aggregate_policy where
  "metric_policy_checked =
     \<lparr>ap_id = ''policy'', ap_digest = address metric_policy, ap_minimum = 1, ap_weights = [(''accuracy'', (2, 0))]\<rparr>"

lemma one_at [simp]: "positive_at (PInt 1) l = Inr 1"
  by (simp add: positive_at_def integer_at_def double_limit_def)

lemma two_number [simp]: "number_at (PInt 2) l = Inr (2, 0)"
  by (simp add: number_at_def)

lemma metric_policy_ok: "check_policy metric_policy (address metric_policy) = Inr metric_policy_checked"
proof -
  have p: "object_at metric_policy l = Inr (dict_of metric_policy)"
    "closed_at (dict_of metric_policy) policy_fields l = Inr ()" for l
    by (simp_all add: metric_policy_def closed_at_ok policy_fields_def)
  have d: "dget ''schema_version'' (dict_of metric_policy) = PStr ''layer12-advisory-aggregate-policy-v1''"
    "dget ''aggregation'' (dict_of metric_policy) = PStr ''weighted_mean''"
    "dget ''non_authority'' (dict_of metric_policy) = PBool True"
    "dget ''policy_id'' (dict_of metric_policy) = PStr ''policy''"
    "dget ''minimum_receipts'' (dict_of metric_policy) = PInt 1"
    "dget ''metric_weights'' (dict_of metric_policy) = PDict [(''accuracy'', PInt 2)]"
    by (simp_all add: metric_policy_def)
  show ?thesis by (simp add: check_policy_def p d text_at_word is_space_def metric_policy_checked_def)
qed

definition metric_compat_checked :: compat where
  "metric_compat_checked = \<lparr>ct_identity = metric_ident, ct_digest = address metric_compat,
     ct_observed = 63918460800000000, ct_expires = 63921139200000000\<rparr>"

lemma metric_compat_ok: "check_compat metric_compat ''2026-07-11T00:00:00Z'' = Inr metric_compat_checked"
proof -
  have p: "object_at metric_compat l = Inr (dict_of metric_compat)"
    "closed_at (dict_of metric_compat) compat_fields l = Inr ()"
    "texts_all (dict_of metric_compat) [''runtime_digest'', ''dataset_digest'', ''metric_set_digest''] = Inr ()" for l
    by (simp_all add: metric_compat_def closed_at_ok compat_fields_def texts_all_def text_at_word is_space_def)
  have d: "dget ''schema_version'' (dict_of metric_compat) = PStr ''layer12-execution-compatibility-v1''"
    "dget ''identity'' (dict_of metric_compat) = metric_identity"
    "dget ''observed_at'' (dict_of metric_compat) = PStr ''2026-07-01T00:00:00Z''"
    "dget ''expires_at'' (dict_of metric_compat) = PStr ''2026-08-01T00:00:00Z''"
    "dget ''live_evaluation_replayable'' (dict_of metric_compat) = PBool False"
    by (simp_all add: metric_compat_def)
  show ?thesis by (simp add: check_compat_def p d metric_compat_checked_def)
qed

lemma metric_cohort_ok:
  "check_cohort metric_compat_checked metric_cohort (address metric_cohort) = Inr (''cohort'', address metric_cohort)"
proof -
  have p: "object_at metric_cohort l = Inr (dict_of metric_cohort)"
    "closed_at (dict_of metric_cohort) cohort_fields l = Inr ()" for l
    by (simp_all add: metric_cohort_def closed_at_ok cohort_fields_def)
  have d: "dget ''schema_version'' (dict_of metric_cohort) = PStr ''layer12-comparison-cohort-v1''"
    "dget ''cohort_id'' (dict_of metric_cohort) = PStr ''cohort''"
    "dget ''identity'' (dict_of metric_cohort) = metric_identity"
    "dget ''compatibility_digest'' (dict_of metric_cohort) = PStr (address metric_compat)"
    "dget ''candidate_ids'' (dict_of metric_cohort) = PList [PStr ''candidate'']"
    by (simp_all add: metric_cohort_def)
  show ?thesis
    by (simp add: check_cohort_def p d text_at_word is_space_def same_identity_def metric_compat_checked_def)
      (simp add: metric_ident_def)
qed

lemma metric_step: "receipt_step metric_policy_checked metric_compat_checked 63919324800000000 (0, metric_receipt) tally_start =
    Inr \<lparr>ta_seen = [''accuracy''], ta_sum = dec_add (0, 0) (dec_mul (5, -1) (2, 0)),
      ta_weight = dec_add (0, 0) (2, 0), ta_digests = [address metric_receipt]\<rparr>"
proof -
  have p: "object_at metric_receipt l = Inr (dict_of metric_receipt)"
    "closed_at (dict_of metric_receipt) receipt_fields l = Inr ()" for l
    by (simp_all add: metric_receipt_def closed_at_ok receipt_fields_def)
  have d: "dget ''schema_version'' (dict_of metric_receipt) = PStr ''layer12-dspx-metric-receipt-v1''"
    "dget ''identity'' (dict_of metric_receipt) = metric_identity"
    "dget ''metric_id'' (dict_of metric_receipt) = PStr ''accuracy''"
    "dget ''score_vector'' (dict_of metric_receipt) = PDict [(''schema_version'', PStr ''layer12-advisory-score-vector-v1''),
        (''raw_score'', PFloat (Dec 5 (-1))), (''sample_count'', PInt 2)]"
    "dget ''compatibility_digest'' (dict_of metric_receipt) = PStr (address metric_compat)"
    "dget ''measured_at'' (dict_of metric_receipt) = PStr ''2026-07-10T00:00:00Z''"
    "dget ''authoritative'' (dict_of metric_receipt) = PBool False"
    by (simp_all add: metric_receipt_def)
  show ?thesis
    by (simp add: receipt_step_def p d text_at_word is_space_def same_identity_def metric_compat_checked_def
        metric_policy_checked_def tally_start_def closed_at_ok Let_def)
qed

lemma metric_comparison_ok:
  "check_comparison metric_compat_checked (''cohort'', address metric_cohort) [address metric_receipt] metric_comparison
    (address metric_comparison) = Inr (address metric_comparison)"
proof -
  have p: "object_at metric_comparison l = Inr (dict_of metric_comparison)"
    "closed_at (dict_of metric_comparison) comparison_fields l = Inr ()" for l
    by (simp_all add: metric_comparison_def closed_at_ok comparison_fields_def)
  have d: "dget ''schema_version'' (dict_of metric_comparison) = PStr ''layer12-comparison-receipt-v1''"
    "dget ''identity'' (dict_of metric_comparison) = metric_identity"
    "dget ''cohort_id'' (dict_of metric_comparison) = PStr ''cohort''"
    "dget ''cohort_digest'' (dict_of metric_comparison) = PStr (address metric_cohort)"
    "dget ''metric_receipt_digests'' (dict_of metric_comparison) = names_value [address metric_receipt]"
    "dget ''winner_selected'' (dict_of metric_comparison) = PBool False"
    "dget ''authoritative'' (dict_of metric_comparison) = PBool False"
    by (simp_all add: metric_comparison_def)
  show ?thesis
    by (simp add: check_comparison_def p d text_at_word is_space_def same_identity_def metric_compat_checked_def)
qed

lemma metric_accepted: "\<exists>r. check_advisory_aggregate metric_args = Inr r"
proof -
  have c: "ct_digest metric_compat_checked = address metric_compat" "ct_identity metric_compat_checked = metric_ident"
    "ap_minimum metric_policy_checked = 1" "ap_weights metric_policy_checked = [(''accuracy'', (2, 0))]"
    by (simp_all add: metric_compat_checked_def metric_policy_checked_def)
  show ?thesis
    by (simp add: check_advisory_aggregate_def metric_args_def metric_policy_ok metric_compat_ok metric_cohort_ok c
        metric_step metric_comparison_ok same_identity_def)
qed


end
